(* ===== verification/OAuth_Prelude.thy ===== *)
theory OAuth_Prelude
  imports Main "HOL-Library.Finite_Map" "HOL-Library.Word" "HOL-Library.List_Lexorder"
    "HOL-Library.Char_ord" "HOL-Library.Code_Target_Nat"
begin

text \<open>
  The shared prelude of the development.

  \<^item> results: Rust's \<^verbatim>\<open>Result<T, E>\<close> is the sum \<open>'e + 'a\<close>, with \<open>Ok\<close> and \<open>Err\<close> as names of the
    injections and \<open>rbind\<close> for the \<^verbatim>\<open>?\<close> operator of a function without effects;
  \<^item> time: a \<^verbatim>\<open>SystemTime\<close> is an integer number of nanoseconds relative to the Unix epoch and a
    \<^verbatim>\<open>Duration\<close> a natural number of nanoseconds, each with the bounds of the 64-bit seconds field
    the standard library keeps, written out where \<^verbatim>\<open>checked_add\<close> depends on them;
  \<^item> strings: a Rust \<^verbatim>\<open>String\<close> is the list of its UTF-8 bytes, each a \<open>char\<close>;
  \<^item> tables: a \<^verbatim>\<open>HashMap\<close> is a finite map; \<open>retain\<close> is its \<^verbatim>\<open>retain\<close>.
\<close>

named_theorems step_simps \<open>symbolic execution of handler programs\<close>
named_theorems op_defs \<open>definitions of the store operations\<close>
named_theorems keeps_intros \<open>rules for invariants kept by every step of a program\<close>
named_theorems always_intros \<open>rules for what every result of a program satisfies\<close>


section \<open>Results\<close>

abbreviation Ok :: "'a \<Rightarrow> 'e + 'a" where "Ok \<equiv> Inr"

abbreviation Err :: "'e \<Rightarrow> 'e + 'a" where "Err \<equiv> Inl"

definition rbind :: "'e + 'a \<Rightarrow> ('a \<Rightarrow> 'e + 'b) \<Rightarrow> 'e + 'b" where
  "rbind r f = (case r of Inl e \<Rightarrow> Inl e | Inr x \<Rightarrow> f x)"

lemma rbind_simps [simp]:
  "rbind (Inl e) f = Inl e"
  "rbind (Inr x) f = f x"
  by (simp_all add: rbind_def)

lemma rbind_eq_Inr [simp]: "rbind r f = Inr y \<longleftrightarrow> (\<exists>x. r = Inr x \<and> f x = Inr y)"
  by (cases r) simp_all

lemma rbind_eq_Inl: "rbind r f = Inl e \<longleftrightarrow> r = Inl e \<or> (\<exists>x. r = Inr x \<and> f x = Inl e)"
  by (cases r) simp_all

definition ensure :: "bool \<Rightarrow> 'e \<Rightarrow> 'e + unit" where
  "ensure b e = (if b then Inr () else Inl e)"

lemma ensure_eq [simp]:
  "ensure b e = Inr u \<longleftrightarrow> b"
  "ensure b e = Inl e' \<longleftrightarrow> \<not> b \<and> e = e'"
  by (auto simp: ensure_def)

primrec rmap_list :: "('a \<Rightarrow> 'e + 'b) \<Rightarrow> 'a list \<Rightarrow> 'e + 'b list" where
  "rmap_list f [] = Inr []"
| "rmap_list f (x # xs) = rbind (f x) (\<lambda>y. rbind (rmap_list f xs) (\<lambda>ys. Inr (y # ys)))"

lemma rmap_list_eq_Inr:
  "rmap_list f xs = Inr ys \<longleftrightarrow> list_all2 (\<lambda>x y. f x = Inr y) xs ys"
  by (induction xs arbitrary: ys) (auto simp: list_all2_Cons1)

lemma rmap_list_Inr_of_all:
  assumes "\<And>x. x \<in> set xs \<Longrightarrow> f x = Inr (g x)"
  shows "rmap_list f xs = Inr (map g xs)"
  using assms by (induction xs) simp_all

lemma rmap_list_eq_InlD:
  "rmap_list f xs = Inl e \<Longrightarrow> \<exists>x \<in> set xs. f x = Inl e"
  by (induction xs) (auto simp: rbind_eq_Inl)

lemma rmap_list_fails_iff:
  "(\<exists>e. rmap_list f xs = Inl e) \<longleftrightarrow> (\<exists>x \<in> set xs. \<exists>e. f x = Inl e)"
proof (induction xs)
  case (Cons x xs)
  then show ?case by (cases "f x") (simp_all add: rbind_eq_Inl)
qed simp


section \<open>Time\<close>

type_synonym system_time = int
type_synonym duration = nat

definition nanos_per_sec :: nat where "nanos_per_sec = 1000000000"

definition from_secs :: "nat \<Rightarrow> duration" where "from_secs s = s * nanos_per_sec"

definition max_system_time :: system_time where
  "max_system_time = 2 ^ 63 * 1000000000 - 1"

definition duration_max :: duration where
  "duration_max = 2 ^ 64 * nanos_per_sec - 1"

definition time_checked_add :: "system_time \<Rightarrow> duration \<Rightarrow> system_time option" where
  "time_checked_add t d = (if t + int d \<le> max_system_time then Some (t + int d) else None)"

lemma time_checked_add_Some [simp]:
  "time_checked_add t d = Some u \<longleftrightarrow> u = t + int d \<and> t + int d \<le> max_system_time"
  by (auto simp: time_checked_add_def)

lemma time_checked_add_None [simp]:
  "time_checked_add t d = None \<longleftrightarrow> max_system_time < t + int d"
  by (auto simp: time_checked_add_def)

definition unix_epoch :: system_time where "unix_epoch = 0"


section \<open>Tables\<close>

type_synonym ('k, 'v) table = "('k, 'v) fmap"

definition retain :: "('k \<Rightarrow> 'v \<Rightarrow> bool) \<Rightarrow> ('k, 'v) table \<Rightarrow> ('k, 'v) table" where
  "retain P m = fmfilter (\<lambda>k. case fmlookup m k of None \<Rightarrow> False | Some v \<Rightarrow> P k v) m"

lemma fmlookup_retain [simp]:
  "fmlookup (retain P m) k =
     (case fmlookup m k of None \<Rightarrow> None | Some v \<Rightarrow> if P k v then Some v else None)"
  by (simp add: retain_def split: option.splits)

lemma retain_empty [simp]: "retain P fmempty = fmempty"
  by (simp add: retain_def)

lemma retain_fmupd:
  "retain P (fmupd k v m) = (if P k v then fmupd k v (retain P m) else fmdrop k (retain P m))"
  by (rule fmap_ext) (auto split: option.splits)

lemma retain_id: "(\<And>k v. fmlookup m k = Some v \<Longrightarrow> P k v) \<Longrightarrow> retain P m = m"
  by (rule fmap_ext) (auto split: option.splits)

lemma retain_idem [simp]: "retain P (retain P m) = retain P m"
  by (rule fmap_ext) (auto split: option.splits)

definition table_len :: "('k, 'v) table \<Rightarrow> nat" where
  "table_len m = fcard (fmdom m)"

lemma fmdom_retain_subset: "fmdom (retain P m) |\<subseteq>| fmdom m"
  by (auto simp: retain_def)

lemma table_len_retain_le [simp]: "table_len (retain P m) \<le> table_len m"
  unfolding table_len_def by (rule fcard_mono) (rule fmdom_retain_subset)

lemma table_len_retain_less:
  assumes "fmlookup m k = Some v" and "\<not> P k v"
  shows "table_len (retain P m) < table_len m"
proof -
  have "k |\<in>| fmdom m" "k |\<notin>| fmdom (retain P m)"
    using assms by (auto simp: fmlookup_dom_iff)
  then have "fmdom (retain P m) |\<subset>| fmdom m"
    using fmdom_retain_subset [of P m] by auto
  then show ?thesis unfolding table_len_def by (rule pfsubset_fcard_mono)
qed

lemma table_len_retain_eq_iff:
  "table_len (retain P m) = table_len m \<longleftrightarrow> (\<forall>k v. fmlookup m k = Some v \<longrightarrow> P k v)"
  by (metis nat_neq_iff retain_id table_len_retain_less)


section \<open>Strings\<close>

definition of_ascii :: "char \<Rightarrow> nat" where "of_ascii c = of_char c"

definition is_ascii_digit :: "char \<Rightarrow> bool" where
  "is_ascii_digit c \<longleftrightarrow> 48 \<le> of_ascii c \<and> of_ascii c \<le> 57"

definition is_ascii_uppercase :: "char \<Rightarrow> bool" where
  "is_ascii_uppercase c \<longleftrightarrow> 65 \<le> of_ascii c \<and> of_ascii c \<le> 90"

definition is_ascii_lowercase :: "char \<Rightarrow> bool" where
  "is_ascii_lowercase c \<longleftrightarrow> 97 \<le> of_ascii c \<and> of_ascii c \<le> 122"

definition is_ascii_alphanumeric :: "char \<Rightarrow> bool" where
  "is_ascii_alphanumeric c \<longleftrightarrow> is_ascii_digit c \<or> is_ascii_uppercase c \<or> is_ascii_lowercase c"

definition to_ascii_uppercase :: "char \<Rightarrow> char" where
  "to_ascii_uppercase c = (if is_ascii_lowercase c then char_of (of_ascii c - 32) else c)"

definition to_ascii_lowercase :: "char \<Rightarrow> char" where
  "to_ascii_lowercase c = (if is_ascii_uppercase c then char_of (of_ascii c + 32) else c)"

definition eq_ignore_ascii_case :: "string \<Rightarrow> string \<Rightarrow> bool" where
  "eq_ignore_ascii_case a b \<longleftrightarrow> map to_ascii_lowercase a = map to_ascii_lowercase b"

text \<open>
  \<^verbatim>\<open>str::chars\<close>: the UTF-8 bytes of each character, a lead byte with the continuation bytes after
  it.
\<close>

definition is_continuation :: "char \<Rightarrow> bool" where
  "is_continuation c \<longleftrightarrow> 128 \<le> of_ascii c \<and> of_ascii c < 192"

function utf8_chars :: "string \<Rightarrow> string list" where
  "utf8_chars [] = []"
| "utf8_chars (c # cs) =
     (c # takeWhile is_continuation cs) # utf8_chars (dropWhile is_continuation cs)"
  by pat_completeness auto

termination utf8_chars
  by (relation "measure length") (auto simp: length_dropWhile_le less_Suc_eq_le)

text \<open>The one property of UTF-8 the models rely on: a string starts with a lead byte.\<close>

definition starts_char :: "string \<Rightarrow> bool" where
  "starts_char s \<longleftrightarrow> s = [] \<or> \<not> is_continuation (hd s)"

definition char_chunk :: "string \<Rightarrow> bool" where
  "char_chunk w \<longleftrightarrow> w \<noteq> [] \<and> \<not> is_continuation (hd w) \<and> list_all is_continuation (tl w)"

lemma starts_char_dropWhile: "starts_char (dropWhile is_continuation cs)"
  unfolding starts_char_def by (metis hd_dropWhile)

lemma concat_utf8_chars [simp]: "concat (utf8_chars s) = s"
  by (induction s rule: utf8_chars.induct) simp_all

lemma utf8_chars_chunks: "starts_char s \<Longrightarrow> w \<in> set (utf8_chars s) \<Longrightarrow> char_chunk w"
proof (induction s rule: utf8_chars.induct)
  case (2 c cs)
  have "char_chunk (c # takeWhile is_continuation cs)"
    using "2.prems"(1) by (auto simp: starts_char_def char_chunk_def list_all_iff dest: set_takeWhileD)
  moreover have "w \<in> set (utf8_chars (dropWhile is_continuation cs)) \<Longrightarrow> char_chunk w"
    using starts_char_dropWhile by (rule "2.IH")
  ultimately show ?case using "2.prems"(2) by auto
qed simp

lemma starts_char_concat:
  "(\<And>w. w \<in> set ws \<Longrightarrow> char_chunk w) \<Longrightarrow> starts_char (concat ws)"
  by (cases ws) (auto simp: starts_char_def char_chunk_def)

lemma takeWhile_chunk:
  assumes "list_all is_continuation w" and "starts_char s"
  shows "takeWhile is_continuation (w @ s) = w" and "dropWhile is_continuation (w @ s) = s"
  using assms by (cases s; auto simp: starts_char_def list_all_iff)+

lemma utf8_chars_concat:
  assumes "\<And>w. w \<in> set ws \<Longrightarrow> char_chunk w"
  shows "utf8_chars (concat ws) = ws"
  using assms
proof (induction ws)
  case (Cons w ws)
  obtain c cs where w: "w = c # cs" and cs: "list_all is_continuation cs"
    using Cons.prems [of w] by (cases w) (auto simp: char_chunk_def)
  have "starts_char (concat ws)" by (rule starts_char_concat) (simp add: Cons.prems)
  then show ?case using Cons w cs by (simp add: takeWhile_chunk)
qed simp

text \<open>\<^verbatim>\<open>str::split(c)\<close> for one character: always at least one piece, and empty pieces are kept.\<close>

fun split_on :: "'a \<Rightarrow> 'a list \<Rightarrow> 'a list list" where
  "split_on c [] = [[]]"
| "split_on c (x # xs) =
     (if x = c then [] # split_on c xs
      else case split_on c xs of [] \<Rightarrow> [[x]] | w # ws \<Rightarrow> (x # w) # ws)"

fun join_with :: "'a list \<Rightarrow> 'a list list \<Rightarrow> 'a list" where
  "join_with sep [] = []"
| "join_with sep [x] = x"
| "join_with sep (x # y # xs) = x @ sep @ join_with sep (y # xs)"

lemma split_on_not_Nil [simp]: "split_on c xs \<noteq> []"
  by (cases xs) (auto split: list.splits)

lemma split_on_pieces: "w \<in> set (split_on c xs) \<Longrightarrow> c \<notin> set w"
proof (induction xs arbitrary: w)
  case (Cons x xs)
  then show ?case by (cases "split_on c xs") (auto split: if_splits)
qed simp

lemma split_on_no_sep: "c \<notin> set w \<Longrightarrow> split_on c w = [w]"
  by (induction w) auto

lemma split_on_append_sep: "c \<notin> set w \<Longrightarrow> split_on c (w @ c # xs) = w # split_on c xs"
  by (induction w) auto

lemma split_on_join:
  assumes "\<forall>w \<in> set ws. c \<notin> set w" and "ws \<noteq> []"
  shows "split_on c (join_with [c] ws) = ws"
  using assms by (induction "[c]" ws rule: join_with.induct)
    (auto simp: split_on_no_sep split_on_append_sep)

lemma join_split_on: "join_with [c] (split_on c xs) = xs"
proof (induction xs)
  case (Cons x xs)
  obtain w ws where ws: "split_on c xs = w # ws" by (cases "split_on c xs") auto
  show ?case
    using Cons ws by (cases ws) auto
qed simp

text \<open>\<^verbatim>\<open>str::split_once(c)\<close>: the text before and after the first occurrence.\<close>

fun split_once :: "'a \<Rightarrow> 'a list \<Rightarrow> ('a list \<times> 'a list) option" where
  "split_once c [] = None"
| "split_once c (x # xs) =
     (if x = c then Some ([], xs)
      else map_option (\<lambda>(a, b). (x # a, b)) (split_once c xs))"

lemma split_once_eq_Some:
  "split_once c xs = Some (a, b) \<longleftrightarrow> xs = a @ c # b \<and> c \<notin> set a"
proof (induction xs arbitrary: a)
  case (Cons x xs)
  then show ?case by (cases a; cases "x = c"; cases "split_once c xs") auto
qed simp

lemma split_once_eq_None: "split_once c xs = None \<longleftrightarrow> c \<notin> set xs"
  by (induction xs) auto

definition starts_with :: "'a list \<Rightarrow> 'a list \<Rightarrow> bool" where
  "starts_with p xs \<longleftrightarrow> take (length p) xs = p"

definition strip_prefix :: "'a list \<Rightarrow> 'a list \<Rightarrow> 'a list option" where
  "strip_prefix p xs = (if starts_with p xs then Some (drop (length p) xs) else None)"

lemma starts_with_iff: "starts_with p xs \<longleftrightarrow> (\<exists>ys. xs = p @ ys)"
  unfolding starts_with_def by (metis append_eq_conv_conj append_take_drop_id)

lemma strip_prefix_eq_Some: "strip_prefix p xs = Some ys \<longleftrightarrow> xs = p @ ys"
  by (auto simp: strip_prefix_def starts_with_iff)


section \<open>Sorting and deduplication\<close>

text \<open>\<^verbatim>\<open>Vec::dedup\<close>: consecutive equal elements are collapsed to the first.\<close>

fun dedup :: "'a list \<Rightarrow> 'a list" where
  "dedup [] = []"
| "dedup [x] = [x]"
| "dedup (x # y # xs) = (if x = y then dedup (x # xs) else x # dedup (y # xs))"

lemma set_dedup [simp]: "set (dedup xs) = set xs"
  by (induction xs rule: dedup.induct) auto

lemma dedup_Nil_iff [simp]: "dedup xs = [] \<longleftrightarrow> xs = []"
  by (induction xs rule: dedup.induct) auto

lemma sorted_strict_dedup: "sorted xs \<Longrightarrow> sorted_wrt (<) (dedup xs)"
  by (induction xs rule: dedup.induct) (auto simp: order_less_le)

lemma dedup_id: "sorted_wrt (<) (xs :: 'a :: linorder list) \<Longrightarrow> dedup xs = xs"
  by (induction xs rule: dedup.induct) auto

lemma sort_id_strict: "sorted_wrt (<) (xs :: 'a :: linorder list) \<Longrightarrow> sort xs = xs"
  by (simp add: sorted_sort_id strict_sorted_imp_sorted)


section \<open>Options\<close>

definition ok_or :: "'e \<Rightarrow> 'a option \<Rightarrow> 'e + 'a" where
  "ok_or e x = (case x of None \<Rightarrow> Inl e | Some v \<Rightarrow> Inr v)"

lemma ok_or_eq [simp]:
  "ok_or e x = Inr v \<longleftrightarrow> x = Some v"
  "ok_or e x = Inl e' \<longleftrightarrow> x = None \<and> e' = e"
  by (auto simp: ok_or_def split: option.splits)

end
