(* ===== verification/Scope.thy ===== *)
theory Scope
  imports OAuth_Prelude
begin

text \<open>
  The scope component (\<^verbatim>\<open>src/crates/oauth-as/src/scope.rs\<close>): scope tokens validated against the
  RFC 6749 section 3.3 character set, and scope sets kept as sorted duplicate-free vectors. The
  lemmas show that every constructor establishes the vector invariant, that the wire form round
  trips, and that the allocation-free merge walk of \<open>is_subset\<close> is set inclusion.
\<close>

section \<open>Tokens\<close>

datatype scope = Scope (as_str: string)

instantiation scope :: linorder
begin

definition less_eq_scope :: "scope \<Rightarrow> scope \<Rightarrow> bool" where
  "less_eq_scope a b \<longleftrightarrow> as_str a \<le> as_str b"

definition less_scope :: "scope \<Rightarrow> scope \<Rightarrow> bool" where
  "less_scope a b \<longleftrightarrow> as_str a < as_str b"

instance
  by standard (auto simp: less_eq_scope_def less_scope_def scope.expand)

end

datatype invalid_scope_token = InvalidScopeToken string

definition scope_char_ok :: "char \<Rightarrow> bool" where
  "scope_char_ok b \<longleftrightarrow>
     of_ascii b = 0x21 \<or> (0x23 \<le> of_ascii b \<and> of_ascii b \<le> 0x5B) \<or>
     (0x5D \<le> of_ascii b \<and> of_ascii b \<le> 0x7E)"

definition scope_new :: "string \<Rightarrow> invalid_scope_token + scope" where
  "scope_new token =
     (if token = [] \<or> \<not> list_all scope_char_ok token then Err (InvalidScopeToken token)
      else Ok (Scope token))"

definition scope_wf :: "scope \<Rightarrow> bool" where
  "scope_wf t \<longleftrightarrow> as_str t \<noteq> [] \<and> list_all scope_char_ok (as_str t)"

lemma scope_new_Ok [simp]: "scope_new w = Inr t \<longleftrightarrow> t = Scope w \<and> scope_wf (Scope w)"
  by (auto simp: scope_new_def scope_wf_def)

lemma scope_new_Err [simp]:
  "scope_new w = Inl e \<longleftrightarrow> e = InvalidScopeToken w \<and> \<not> scope_wf (Scope w)"
  by (auto simp: scope_new_def scope_wf_def)

lemma space_not_scope_char [simp]: "\<not> scope_char_ok CHR '' ''"
  by (simp add: scope_char_ok_def of_ascii_def)

lemma scope_wf_no_space: "scope_wf t \<Longrightarrow> CHR '' '' \<notin> set (as_str t)"
  by (auto simp: scope_wf_def list_all_iff)


section \<open>Scope sets\<close>

datatype scope_set = ScopeSet (tokens: "scope list")

definition scope_empty :: scope_set where
  "scope_empty = ScopeSet []"

definition scope_sorted :: "scope list \<Rightarrow> scope_set" where
  "scope_sorted ts = ScopeSet (dedup (sort ts))"

definition scope_parse :: "string \<Rightarrow> invalid_scope_token + scope_set" where
  "scope_parse s =
     rbind (rmap_list scope_new (filter (\<lambda>t. t \<noteq> []) (split_on CHR '' '' s)))
       (\<lambda>ts. Ok (scope_sorted ts))"

definition scope_from_tokens :: "string list \<Rightarrow> invalid_scope_token + scope_set" where
  "scope_from_tokens ws = rbind (rmap_list scope_new ws) (\<lambda>ts. Ok (scope_sorted ts))"

fun is_subset_walk :: "scope list \<Rightarrow> scope list \<Rightarrow> bool" where
  "is_subset_walk [] theirs = True"
| "is_subset_walk (mine # ms) [] = False"
| "is_subset_walk (mine # ms) (other # theirs) =
     (if other < mine then is_subset_walk (mine # ms) theirs
      else if other = mine then is_subset_walk ms theirs
      else False)"

definition is_subset :: "scope_set \<Rightarrow> scope_set \<Rightarrow> bool" where
  "is_subset self other = is_subset_walk (tokens self) (tokens other)"

definition scope_is_empty :: "scope_set \<Rightarrow> bool" where
  "scope_is_empty s \<longleftrightarrow> tokens s = []"

definition scope_len :: "scope_set \<Rightarrow> nat" where
  "scope_len s = length (tokens s)"

definition scope_contains :: "scope_set \<Rightarrow> string \<Rightarrow> bool" where
  "scope_contains s token \<longleftrightarrow> list_ex (\<lambda>t. as_str t = token) (tokens s)"

fun scope_display_loop :: "bool \<Rightarrow> scope list \<Rightarrow> string" where
  "scope_display_loop first [] = []"
| "scope_display_loop first (s # ss) =
     (if first then [] else '' '') @ as_str s @ scope_display_loop False ss"

definition scope_display :: "scope_set \<Rightarrow> string" where
  "scope_display s = scope_display_loop True (tokens s)"

text \<open>The \<^verbatim>\<open>Serialize\<close> and \<^verbatim>\<open>Deserialize\<close> implementations go through the wire string.\<close>

definition scope_serialize :: "scope_set \<Rightarrow> string" where
  "scope_serialize s = scope_display s"

definition scope_deserialize :: "string \<Rightarrow> invalid_scope_token + scope_set" where
  "scope_deserialize s = scope_parse s"

text \<open>The invariant of the type: strictly increasing, every token well formed.\<close>

definition scope_set_wf :: "scope_set \<Rightarrow> bool" where
  "scope_set_wf s \<longleftrightarrow> sorted_wrt (<) (tokens s) \<and> list_all scope_wf (tokens s)"

definition scope_toks :: "scope_set \<Rightarrow> string set" where
  "scope_toks s = as_str ` set (tokens s)"

subsection \<open>The invariant\<close>

lemma set_scope_sorted [simp]: "set (tokens (scope_sorted ts)) = set ts"
  by (simp add: scope_sorted_def)

lemma sorted_scope_sorted [simp]: "sorted_wrt (<) (tokens (scope_sorted ts))"
  by (simp add: scope_sorted_def sorted_strict_dedup)

lemma scope_sorted_id: "scope_set_wf s \<Longrightarrow> scope_sorted (tokens s) = s"
  by (simp add: scope_sorted_def scope_set_wf_def sort_id_strict dedup_id)

lemma scope_set_wf_empty [simp]: "scope_set_wf scope_empty"
  by (simp add: scope_set_wf_def scope_empty_def)

lemma rmap_scope_new_Ok:
  "rmap_list scope_new ws = Inr ts \<longleftrightarrow> ts = map Scope ws \<and> list_all (\<lambda>w. scope_wf (Scope w)) ws"
  by (induction ws arbitrary: ts) auto

lemma scope_from_tokens_Ok:
  "scope_from_tokens ws = Inr s \<longleftrightarrow>
     s = scope_sorted (map Scope ws) \<and> list_all (\<lambda>w. scope_wf (Scope w)) ws"
  by (auto simp: scope_from_tokens_def rmap_scope_new_Ok)

lemma scope_parse_eq_from_tokens:
  "scope_parse s = scope_from_tokens (filter (\<lambda>t. t \<noteq> []) (split_on CHR '' '' s))"
  by (simp add: scope_parse_def scope_from_tokens_def)

lemma scope_from_tokens_wf: "scope_from_tokens ws = Inr s \<Longrightarrow> scope_set_wf s"
  by (auto simp: scope_from_tokens_Ok scope_set_wf_def list_all_iff)

lemma scope_toks_from_tokens: "scope_from_tokens ws = Inr s \<Longrightarrow> scope_toks s = set ws"
  by (auto simp: scope_from_tokens_Ok scope_toks_def image_image)

text \<open>
  C29. Parsing establishes the invariant of the type: a successful \<open>scope_parse\<close> yields a strictly
  increasing, duplicate-free vector of well-formed tokens holding exactly the non-empty
  space-separated words of the input, and it fails exactly when one of those words has a byte
  outside the RFC 6749 section 3.3 set, naming such a word.
\<close>
theorem scope_parse_correct:
  "case scope_parse s of
     Inr ss \<Rightarrow> scope_set_wf ss \<and> scope_toks ss = set (split_on CHR '' '' s) - {[]}
   | Inl (InvalidScopeToken w) \<Rightarrow>
       w \<in> set (split_on CHR '' '' s) \<and> w \<noteq> [] \<and> (\<exists>b \<in> set w. \<not> scope_char_ok b)"
proof (cases "scope_parse s")
  case (Inr ss)
  then show ?thesis
    by (auto simp: scope_parse_eq_from_tokens dest: scope_from_tokens_wf scope_toks_from_tokens)
next
  case (Inl e)
  then obtain w where "w \<in> set (split_on CHR '' '' s)" "w \<noteq> []" "scope_new w = Inl e"
    by (auto simp: scope_parse_def rbind_eq_Inl dest!: rmap_list_eq_InlD)
  with Inl show ?thesis by (auto simp: scope_wf_def list_all_iff)
qed

subsection \<open>The wire form\<close>

lemma scope_display_loop_False:
  "ss \<noteq> [] \<Longrightarrow> scope_display_loop False ss = '' '' @ scope_display_loop True ss"
  by (cases ss) auto

lemma scope_display_join: "scope_display s = join_with '' '' (map as_str (tokens s))"
proof -
  have "scope_display_loop True ts = join_with '' '' (map as_str ts)" for ts
  proof (induction ts)
    case (Cons t ts)
    then show ?case by (cases ts) (simp_all add: scope_display_loop_False)
  qed simp
  then show ?thesis by (simp add: scope_display_def)
qed

lemma filter_split_display:
  assumes "list_all scope_wf ts"
  shows "filter (\<lambda>t. t \<noteq> []) (split_on CHR '' '' (join_with '' '' (map as_str ts))) = map as_str ts"
proof (cases "ts = []")
  case False
  have "split_on CHR '' '' (join_with '' '' (map as_str ts)) = map as_str ts"
    using assms False by (intro split_on_join) (auto simp: list_all_iff dest: scope_wf_no_space)
  then show ?thesis
    using assms by (auto simp: filter_id_conv list_all_iff scope_wf_def)
qed simp

text \<open>
  The wire form round trips: serialising a well-formed scope set and parsing the string back
  gives the same set, so every persisted record reads back the scope it was written with.
\<close>
theorem scope_wire_roundtrip:
  assumes "scope_set_wf s"
  shows "scope_deserialize (scope_serialize s) = Ok s"
proof -
  have "list_all scope_wf (tokens s)" using assms by (simp add: scope_set_wf_def)
  then have "scope_parse (scope_display s) = scope_from_tokens (map as_str (tokens s))"
    by (simp add: scope_parse_eq_from_tokens scope_display_join filter_split_display)
  also have "\<dots> = Ok s"
    using assms scope_sorted_id [OF assms] by (simp add: scope_from_tokens_Ok comp_def scope_set_wf_def list_all_length)
  finally show ?thesis by (simp add: scope_serialize_def scope_deserialize_def)
qed

theorem scope_wire_roundtrip_witness:
  "scope_deserialize (scope_serialize (ScopeSet [Scope ''read'', Scope ''write'']))
     = Ok (ScopeSet [Scope ''read'', Scope ''write''])"
  by (rule scope_wire_roundtrip) code_simp

subsection \<open>Inclusion\<close>

lemma is_subset_walk_iff:
  assumes "sorted_wrt (<) ms" and "sorted_wrt (<) ts"
  shows "is_subset_walk ms ts \<longleftrightarrow> set ms \<subseteq> set ts"
  using assms
proof (induction ms ts rule: is_subset_walk.induct)
  case (3 mine ms other theirs)
  consider "other < mine" | "other = mine" | "mine < other" by (rule linorder_cases)
  then show ?case
  proof cases
    case 1
    then have "other \<notin> set (mine # ms)" using 3(3) by auto
    then show ?thesis using 1 3 by (auto simp: subset_insert)
  next
    case 2
    then have "mine \<notin> set ms" using 3(3) by auto
    then show ?thesis using 2 3 by (simp add: subset_insert)
  next
    case 3
    then have "mine \<notin> set (other # theirs)" using \<open>sorted_wrt (<) (other # theirs)\<close> by auto
    then show ?thesis using 3 by auto
  qed
qed simp_all

text \<open>
  The merge walk of \<open>is_subset\<close> decides inclusion: on scope sets that satisfy the invariant it
  answers true exactly when every token of the first is a token of the second.
\<close>
theorem is_subset_iff:
  assumes "scope_set_wf s" and "scope_set_wf t"
  shows "is_subset s t \<longleftrightarrow> scope_toks s \<subseteq> scope_toks t"
proof -
  have "inj as_str" by (rule injI) (simp add: scope.expand)
  then show ?thesis
    using assms by (simp add: is_subset_def scope_set_wf_def is_subset_walk_iff scope_toks_def
        inj_image_subset_iff)
qed

theorem is_subset_iff_witness:
  "is_subset (ScopeSet [Scope ''b'']) (ScopeSet [Scope ''a'', Scope ''b'']) \<longleftrightarrow>
     scope_toks (ScopeSet [Scope ''b'']) \<subseteq> scope_toks (ScopeSet [Scope ''a'', Scope ''b''])"
  by (rule is_subset_iff) code_simp+

lemma is_subset_iff_tokens:
  "scope_set_wf s \<Longrightarrow> scope_set_wf t \<Longrightarrow> is_subset s t \<longleftrightarrow> set (tokens s) \<subseteq> set (tokens t)"
  by (simp add: is_subset_def scope_set_wf_def is_subset_walk_iff)

lemma is_subset_refl: "scope_set_wf s \<Longrightarrow> is_subset s s"
  by (simp add: is_subset_iff_tokens)

lemma is_subset_trans:
  "\<lbrakk>scope_set_wf r; scope_set_wf s; scope_set_wf t; is_subset r s; is_subset s t\<rbrakk> \<Longrightarrow> is_subset r t"
  by (simp add: is_subset_iff_tokens)

lemma scope_toks_subset_iff: "scope_toks s \<subseteq> scope_toks t \<longleftrightarrow> set (tokens s) \<subseteq> set (tokens t)"
proof -
  have "inj as_str" by (rule injI) (simp add: scope.expand)
  then show ?thesis by (simp add: scope_toks_def inj_image_subset_iff)
qed

lemma scope_contains_iff: "scope_contains s w \<longleftrightarrow> w \<in> scope_toks s"
  by (auto simp: scope_contains_def scope_toks_def list_ex_iff)

end
