(* ===== verification/Errors.thy ===== *)
theory Errors
  imports OAuth_Prelude
begin

text \<open>
  The wire error model (\<^verbatim>\<open>error.rs\<close>) and the grant types (\<^verbatim>\<open>grant.rs\<close>). The error code names and
  the grant type names are protocol constants: the lemmas show that both spellings are injective and
  that grant type parsing is the exact inverse of printing.
\<close>

section \<open>Grant types\<close>

definition DEVICE_CODE_GRANT_URN :: string where
  "DEVICE_CODE_GRANT_URN = ''urn:ietf:params:oauth:grant-type:device_code''"

definition TOKEN_EXCHANGE_GRANT_URN :: string where
  "TOKEN_EXCHANGE_GRANT_URN = ''urn:ietf:params:oauth:grant-type:token-exchange''"

datatype grant_type = AuthorizationCode | RefreshToken | ClientCredentials | DeviceCode | TokenExchange

definition grant_parse :: "string \<Rightarrow> grant_type option" where
  "grant_parse s =
     (if s = ''authorization_code'' then Some AuthorizationCode
      else if s = ''refresh_token'' then Some RefreshToken
      else if s = ''client_credentials'' then Some ClientCredentials
      else if s = DEVICE_CODE_GRANT_URN then Some DeviceCode
      else if s = TOKEN_EXCHANGE_GRANT_URN then Some TokenExchange
      else None)"

fun grant_as_str :: "grant_type \<Rightarrow> string" where
  "grant_as_str AuthorizationCode = ''authorization_code''"
| "grant_as_str RefreshToken = ''refresh_token''"
| "grant_as_str ClientCredentials = ''client_credentials''"
| "grant_as_str DeviceCode = DEVICE_CODE_GRANT_URN"
| "grant_as_str TokenExchange = TOKEN_EXCHANGE_GRANT_URN"

datatype unknown_grant_type = UnknownGrantType string

definition grant_from_str :: "string \<Rightarrow> unknown_grant_type + grant_type" where
  "grant_from_str s = ok_or (UnknownGrantType s) (grant_parse s)"

lemmas grant_urn_defs = DEVICE_CODE_GRANT_URN_def TOKEN_EXCHANGE_GRANT_URN_def

lemma grant_parse_as_str [simp]: "grant_parse (grant_as_str g) = Some g"
  by (cases g) (simp_all add: grant_parse_def grant_urn_defs)

lemma grant_parse_Some: "grant_parse s = Some g \<longleftrightarrow> s = grant_as_str g"
proof
  show "grant_parse s = Some g \<Longrightarrow> s = grant_as_str g"
    unfolding grant_parse_def by (auto split: if_splits)
qed simp

text \<open>
  Grant type names: parsing accepts exactly the five registered names and is the inverse of
  printing; any other string is refused with that string in the error.
\<close>
theorem grant_from_str_correct:
  "(grant_from_str s = Ok g \<longleftrightarrow> s = grant_as_str g) \<and>
   (grant_from_str s = Err e \<longleftrightarrow> e = UnknownGrantType s \<and> s \<notin> range grant_as_str)"
proof -
  have "grant_parse s = None \<longleftrightarrow> s \<notin> range grant_as_str"
    by (metis grant_parse_Some not_Some_eq rangeE rangeI)
  then show ?thesis by (auto simp: grant_from_str_def grant_parse_Some)
qed


section \<open>Error codes\<close>

datatype error_code =
    InvalidRequest
  | InvalidClient
  | InvalidGrant
  | UnauthorizedClient
  | UnsupportedGrantType
  | InvalidScope
  | AccessDenied
  | UnsupportedResponseType
  | ServerError
  | TemporarilyUnavailable
  | AuthorizationPending
  | SlowDown
  | ExpiredToken
  | InvalidAuthorizationDetails
  | InvalidTarget
  | InsufficientUserAuthentication
  | InvalidDpopProof
  | InvalidRequestUri
  | InvalidRequestObject
  | RequestNotSupported

fun error_as_str :: "error_code \<Rightarrow> string" where
  "error_as_str InvalidRequest = ''invalid_request''"
| "error_as_str InvalidClient = ''invalid_client''"
| "error_as_str InvalidGrant = ''invalid_grant''"
| "error_as_str UnauthorizedClient = ''unauthorized_client''"
| "error_as_str UnsupportedGrantType = ''unsupported_grant_type''"
| "error_as_str InvalidScope = ''invalid_scope''"
| "error_as_str AccessDenied = ''access_denied''"
| "error_as_str UnsupportedResponseType = ''unsupported_response_type''"
| "error_as_str ServerError = ''server_error''"
| "error_as_str TemporarilyUnavailable = ''temporarily_unavailable''"
| "error_as_str AuthorizationPending = ''authorization_pending''"
| "error_as_str SlowDown = ''slow_down''"
| "error_as_str ExpiredToken = ''expired_token''"
| "error_as_str InvalidAuthorizationDetails = ''invalid_authorization_details''"
| "error_as_str InvalidTarget = ''invalid_target''"
| "error_as_str InsufficientUserAuthentication = ''insufficient_user_authentication''"
| "error_as_str InvalidDpopProof = ''invalid_dpop_proof''"
| "error_as_str InvalidRequestUri = ''invalid_request_uri''"
| "error_as_str InvalidRequestObject = ''invalid_request_object''"
| "error_as_str RequestNotSupported = ''request_not_supported''"

fun code_http_status :: "error_code \<Rightarrow> nat" where
  "code_http_status InvalidRequest = 400"
| "code_http_status InvalidClient = 401"
| "code_http_status InvalidGrant = 400"
| "code_http_status UnauthorizedClient = 400"
| "code_http_status UnsupportedGrantType = 400"
| "code_http_status InvalidScope = 400"
| "code_http_status AccessDenied = 400"
| "code_http_status UnsupportedResponseType = 400"
| "code_http_status ServerError = 500"
| "code_http_status TemporarilyUnavailable = 503"
| "code_http_status AuthorizationPending = 400"
| "code_http_status SlowDown = 400"
| "code_http_status ExpiredToken = 400"
| "code_http_status InvalidAuthorizationDetails = 400"
| "code_http_status InvalidTarget = 400"
| "code_http_status InsufficientUserAuthentication = 400"
| "code_http_status InvalidDpopProof = 400"
| "code_http_status InvalidRequestUri = 400"
| "code_http_status InvalidRequestObject = 400"
| "code_http_status RequestNotSupported = 400"

text \<open>The inverse reading of the serde names, used to state that no two codes share a spelling.\<close>

definition error_codes :: "error_code list" where
  "error_codes = [InvalidRequest, InvalidClient, InvalidGrant, UnauthorizedClient, UnsupportedGrantType, InvalidScope, AccessDenied, UnsupportedResponseType, ServerError, TemporarilyUnavailable,
     AuthorizationPending, SlowDown, ExpiredToken, InvalidAuthorizationDetails, InvalidTarget, InsufficientUserAuthentication, InvalidDpopProof, InvalidRequestUri, InvalidRequestObject, RequestNotSupported]"

definition error_of_str :: "string \<Rightarrow> error_code option" where
  "error_of_str s = List.find (\<lambda>c. error_as_str c = s) error_codes"

lemma error_as_str_roundtrip: "error_of_str (error_as_str c) = Some c"
  by (cases c) (simp_all add: error_of_str_def error_codes_def)

lemma error_as_str_inject [simp]: "error_as_str c = error_as_str d \<longleftrightarrow> c = d"
  by (metis error_as_str_roundtrip option.inject)


section \<open>Error responses\<close>

record error_response =
  error :: error_code
  error_description :: "string option"
  error_uri :: "string option"

definition error_new :: "error_code \<Rightarrow> error_response" where
  "error_new c = \<lparr>error = c, error_description = None, error_uri = None\<rparr>"

definition with_description :: "error_response \<Rightarrow> string \<Rightarrow> error_response" where
  "with_description e d = e\<lparr>error_description := Some d\<rparr>"

definition with_uri :: "error_response \<Rightarrow> string \<Rightarrow> error_response" where
  "with_uri e u = e\<lparr>error_uri := Some u\<rparr>"

definition http_status :: "error_response \<Rightarrow> nat" where
  "http_status e = code_http_status (error e)"

definition error_display :: "error_response \<Rightarrow> string" where
  "error_display e =
     (case error_description e of
        Some d \<Rightarrow> error_as_str (error e) @ '': '' @ d
      | None \<Rightarrow> error_as_str (error e))"

abbreviation fail_with :: "error_code \<Rightarrow> string \<Rightarrow> error_response" where
  "fail_with c d \<equiv> with_description (error_new c) d"

lemma error_simps [simp]:
  "error (error_new c) = c"
  "error (with_description e d) = error e"
  "error (with_uri e u) = error e"
  "error_description (with_description e d) = Some d"
  by (simp_all add: error_new_def with_description_def with_uri_def)

end
