(* ===== verification/Encoding.thy ===== *)
theory Encoding
  imports OAuth_Prelude
begin

text \<open>
  Hex encoding (\<^verbatim>\<open>hex.rs\<close>), PKCE (\<^verbatim>\<open>pkce.rs\<close>) and the clock-skew constant (\<^verbatim>\<open>skew.rs\<close>).
  SHA-256, base64, JSON and the P-256 primitive come from third-party crates; they are the fields
  of the record \<open>crates\<close>, a parameter of every definition that calls them. \<open>json\<close> mirrors
  \<^verbatim>\<open>serde_json::Value\<close>; an object keeps its members as the sorted, duplicate-free list that
  \<^verbatim>\<open>serde_json::Map\<close> iterates.
\<close>

unbundle bit_operations_syntax

type_synonym byte = "8 word"

definition byte_of_char :: "char \<Rightarrow> byte" where "byte_of_char c = of_nat (of_char c)"

definition as_bytes :: "string \<Rightarrow> byte list" where "as_bytes s = map byte_of_char s"

lemma byte_of_char_inject [simp]: "byte_of_char c = byte_of_char d \<longleftrightarrow> c = d"
proof
  assume "byte_of_char c = byte_of_char d"
  then have "unat (byte_of_char c) = unat (byte_of_char d)" by simp
  moreover have "unat (byte_of_char e) = of_char e" for e
    using nat_of_char_less_256 [of e] unfolding byte_of_char_def
    by (simp add: unat_of_nat take_bit_eq_mod)
  ultimately show "c = d" by simp
qed simp

lemma length_as_bytes [simp]: "length (as_bytes s) = length s"
  by (simp add: as_bytes_def)

lemma as_bytes_inject [simp]: "as_bytes s = as_bytes t \<longleftrightarrow> s = t"
  by (auto simp: as_bytes_def dest!: map_injective intro: injI)

section \<open>JSON values and third-party primitives\<close>

datatype json_number = PosInt "64 word" | NegInt int | Float string

datatype json =
    JNull
  | JBool bool
  | JNumber json_number
  | JString string
  | JArray "json list"
  | JObject "(string \<times> json) list"

fun json_as_str :: "json \<Rightarrow> string option" where
  "json_as_str (JString s) = Some s"
| "json_as_str _ = None"

fun json_as_u64 :: "json \<Rightarrow> nat option" where
  "json_as_u64 (JNumber (PosInt n)) = Some (unat n)"
| "json_as_u64 _ = None"

fun json_as_array :: "json \<Rightarrow> json list option" where
  "json_as_array (JArray xs) = Some xs"
| "json_as_array _ = None"

fun json_as_object :: "json \<Rightarrow> (string \<times> json) list option" where
  "json_as_object (JObject ms) = Some ms"
| "json_as_object _ = None"

fun json_get :: "string \<Rightarrow> json \<Rightarrow> json option" where
  "json_get name (JObject ms) = map_of ms name"
| "json_get name _ = None"

record crates =
  sha256 :: "byte list \<Rightarrow> byte list"
  b64url_encode :: "byte list \<Rightarrow> string"
  b64url_decode :: "string \<Rightarrow> byte list option"
  b64std_decode :: "string \<Rightarrow> byte list option"
  json_from_slice :: "byte list \<Rightarrow> json option"
  json_to_vec :: "json \<Rightarrow> byte list"
  p256_verify :: "byte list \<Rightarrow> byte list \<Rightarrow> byte list \<Rightarrow> bool"

text \<open>The documented output length of SHA-256.\<close>

definition sha256_sized :: "'z crates_scheme \<Rightarrow> bool" where
  "sha256_sized lib \<longleftrightarrow> (\<forall>x. length (sha256 lib x) = 32)"

section \<open>Hex\<close>

definition HEX_DIGITS :: string where
  "HEX_DIGITS = ''0123456789abcdef''"

fun hex_encode :: "byte list \<Rightarrow> string" where
  "hex_encode [] = []"
| "hex_encode (b # bs) =
     HEX_DIGITS ! unat (drop_bit 4 b) # HEX_DIGITS ! unat (b AND 0x0F) # hex_encode bs"

lemma length_hex_encode [simp]: "length (hex_encode bs) = 2 * length bs"
  by (induction bs) simp_all

lemma unat_high_nibble: "unat (drop_bit 4 (b :: byte)) = unat b div 16"
  using unsigned_less [of b, where 'a = nat]
  by (simp only: unsigned_drop_bit_eq) (simp add: drop_bit_eq_div take_bit_eq_mod)

lemma high_nibble_bound: "unat (drop_bit 4 (b :: byte)) < 16"
  using unsigned_less [of b, where 'a = nat] by (simp only: unat_high_nibble) simp

lemma low_nibble: "(b :: byte) AND 0x0F = take_bit 4 b"
  by (simp add: take_bit_eq_mask mask_numeral)

lemma low_nibble_bound: "unat ((b :: byte) AND 0x0F) < 16"
  unfolding low_nibble using take_bit_nat_less_exp [of 4 "unat b"] by (simp add: unsigned_take_bit_eq)

lemma set_hex_encode: "set (hex_encode bs) \<subseteq> set HEX_DIGITS"
proof (induction bs)
  case (Cons b bs)
  have "length HEX_DIGITS = 16" by (simp add: HEX_DIGITS_def)
  then show ?case using Cons high_nibble_bound [of b] low_nibble_bound [of b] by simp
qed simp

text \<open>The reading direction, which the code base never needs: the reference for the round trip.\<close>

definition hex_value :: "char \<Rightarrow> nat option" where
  "hex_value c = List.find (\<lambda>i. HEX_DIGITS ! i = c) [0..<16]"

fun hex_decode :: "string \<Rightarrow> byte list option" where
  "hex_decode [] = Some []"
| "hex_decode [c] = None"
| "hex_decode (c # d # s) =
     (case (hex_value c, hex_value d) of
        (Some i, Some j) \<Rightarrow> map_option (\<lambda>bs. of_nat (16 * i + j) # bs) (hex_decode s)
      | _ \<Rightarrow> None)"

lemma hex_value_digit: "k < 16 \<Longrightarrow> hex_value (HEX_DIGITS ! k) = Some k"
proof -
  have "\<forall>k \<in> {0..<16}. hex_value (HEX_DIGITS ! k) = Some k" by code_simp
  then show "k < 16 \<Longrightarrow> hex_value (HEX_DIGITS ! k) = Some k" by simp
qed

lemma nibbles_value: "of_nat (16 * unat (drop_bit 4 b) + unat (b AND 0x0F)) = (b :: byte)"
proof -
  have "unat (b AND 0x0F) = unat b mod 16"
    by (simp only: low_nibble unsigned_take_bit_eq) (simp add: take_bit_eq_mod)
  then have "16 * unat (drop_bit 4 b) + unat (b AND 0x0F) = unat b"
    by (simp only: unat_high_nibble) simp
  then show ?thesis by (simp only:) simp
qed

lemma hex_decode_encode: "hex_decode (hex_encode bs) = Some bs"
  by (induction bs)
    (simp_all add: hex_value_digit high_nibble_bound low_nibble_bound nibbles_value
      del: of_nat_add of_nat_mult)

text \<open>
  Hex encoding is exactly two characters of the lower-case table per byte and loses nothing:
  reading the text back gives the bytes, so 32 drawn bytes keep their entropy in an opaque token.
\<close>
theorem hex_encode_correct:
  "length (hex_encode bs) = 2 * length bs \<and> set (hex_encode bs) \<subseteq> set HEX_DIGITS \<and>
   hex_decode (hex_encode bs) = Some bs"
  by (simp add: set_hex_encode hex_decode_encode)

lemma hex_encode_inject: "hex_encode bs = hex_encode cs \<longleftrightarrow> bs = cs"
  by (metis hex_decode_encode option.inject)

text \<open>One instance of the third-party functions, for concrete runs of the model.\<close>

definition sample_documents :: "(byte list \<times> json) list" where
  "sample_documents = [
     ([1], JObject [(''alg'', JString ''ES256'')]),
     ([2], JObject []),
     ([3], JObject [(''alg'', JString ''HS256'')]),
     ([4], JObject [(''aud'', JString ''https://as''), (''exp'', JNumber (PosInt 100)),
        (''iss'', JString ''c''), (''jti'', JString ''j1''), (''sub'', JString ''c'')]),
     ([5], JObject [(''alg'', JString ''ES256''),
        (''jwk'', JObject [(''crv'', JString ''P-256''), (''kty'', JString ''EC''),
           (''x'', JString (replicate 64 CHR ''0'')), (''y'', JString (replicate 64 CHR ''0''))]),
        (''typ'', JString ''dpop+jwt'')]),
     ([6], JObject [(''htm'', JString ''POST''), (''htu'', JString ''https://AS/token?x''),
        (''iat'', JNumber (PosInt 100)), (''jti'', JString ''j2'')])]"

definition sample_crates :: crates where
  "sample_crates = \<lparr>
     sha256 = (\<lambda>x. take 32 (x @ replicate 32 0)),
     b64url_encode = hex_encode,
     b64url_decode = hex_decode,
     b64std_decode = hex_decode,
     json_from_slice = map_of sample_documents,
     json_to_vec = (\<lambda>_. [2]),
     p256_verify = (\<lambda>_ _ _. False)\<rparr>"

lemma sha256_sized_sample [simp]: "sha256_sized sample_crates"
  by (auto simp: sha256_sized_def sample_crates_def min_def)

section \<open>PKCE\<close>

definition code_challenge_s256 :: "'z crates_scheme \<Rightarrow> string \<Rightarrow> string" where
  "code_challenge_s256 lib verifier = b64url_encode lib (sha256 lib (as_bytes verifier))"

fun xor_acc :: "byte \<Rightarrow> byte list \<Rightarrow> byte list \<Rightarrow> byte" where
  "xor_acc acc (x # xs) (y # ys) = xor_acc (acc OR (x XOR y)) xs ys"
| "xor_acc acc _ _ = acc"

definition verify_s256 :: "'z crates_scheme \<Rightarrow> string \<Rightarrow> string \<Rightarrow> bool" where
  "verify_s256 lib verifier challenge =
     (let a = as_bytes (code_challenge_s256 lib verifier); b = as_bytes challenge in
      if length a \<noteq> length b then False else xor_acc 0 a b = 0)"

definition verifier_is_valid :: "string \<Rightarrow> bool" where
  "verifier_is_valid verifier \<longleftrightarrow>
     43 \<le> length verifier \<and> length verifier \<le> 128 \<and>
     list_all (\<lambda>b. is_ascii_alphanumeric b \<or> b \<in> set ''-._~'') verifier"

lemma or_xor_zero: "(acc OR (x XOR y)) = 0 \<longleftrightarrow> acc = 0 \<and> x = (y :: byte)"
  by (auto simp: bit_eq_iff bit_simps)

lemma xor_acc_zero:
  "length a = length b \<Longrightarrow> xor_acc acc a b = 0 \<longleftrightarrow> acc = 0 \<and> a = b"
proof (induction a arbitrary: acc b)
  case (Cons x a)
  then show ?case by (cases b) (auto simp: or_xor_zero)
qed simp

text \<open>
  PKCE verification: the constant-time comparison accepts a verifier exactly when its S256
  challenge equals the stored challenge.
\<close>
theorem verify_s256_iff: "verify_s256 lib v ch \<longleftrightarrow> code_challenge_s256 lib v = ch"
  by (auto simp: verify_s256_def Let_def xor_acc_zero)


section \<open>Clock skew\<close>

definition CLOCK_SKEW_LEEWAY :: duration where
  "CLOCK_SKEW_LEEWAY = from_secs 60"

end
