(* ===== verification/Mtls.thy ===== *)
theory Mtls
  imports Encoding
begin

text \<open>
  Mutual-TLS client registration and certificate matching (\<^verbatim>\<open>mtls.rs\<close>). A certificate thumbprint is
  the 32-byte SHA-256 of the DER encoding; a registration either names one expected subject or pins
  a non-empty list of thumbprints.
\<close>

datatype mtls_registration_error =
    NoSubjectValue | MoreThanOneSubjectValue | EmptySubjectValue | MalformedJwks
  | NoCertificateInJwks | NoCertificates | MalformedCertificate | MalformedThumbprint

datatype certificate_thumbprint = CertificateThumbprint (thumb_bytes: "byte list")

definition thumbprint_from_der :: "'z crates_scheme \<Rightarrow> byte list \<Rightarrow> certificate_thumbprint" where
  "thumbprint_from_der lib der = CertificateThumbprint (sha256 lib der)"

definition to_base64url :: "'z crates_scheme \<Rightarrow> certificate_thumbprint \<Rightarrow> string" where
  "to_base64url lib t = b64url_encode lib (thumb_bytes t)"

definition from_base64url ::
  "'z crates_scheme \<Rightarrow> string \<Rightarrow> mtls_registration_error + certificate_thumbprint" where
  "from_base64url lib txt =
     rbind (ok_or MalformedThumbprint (b64url_decode lib txt)) (\<lambda>bytes.
     if length bytes = 32 then Ok (CertificateThumbprint bytes) else Err MalformedThumbprint)"

text \<open>\<^verbatim>\<open>str::find\<close> of a pattern, as the text after its first occurrence and the text before it.\<close>

fun find_sub :: "string \<Rightarrow> string \<Rightarrow> (string \<times> string) option" where
  "find_sub pat s =
     (if starts_with pat s then Some ([], drop (length pat) s)
      else case s of [] \<Rightarrow> None | c # cs \<Rightarrow> map_option (\<lambda>(a, b). (c # a, b)) (find_sub pat cs))"

declare find_sub.simps [simp del]

definition is_ascii_whitespace :: "char \<Rightarrow> bool" where
  "is_ascii_whitespace c \<longleftrightarrow> of_ascii c \<in> {9, 10, 12, 13, 32}"

definition from_pem ::
  "'z crates_scheme \<Rightarrow> string \<Rightarrow> mtls_registration_error + certificate_thumbprint" where
  "from_pem lib pem =
     (case find_sub ''-----BEGIN CERTIFICATE-----'' pem of
        None \<Rightarrow> Err MalformedCertificate
      | Some (_, rest) \<Rightarrow>
          (case find_sub ''-----END CERTIFICATE-----'' rest of
             None \<Rightarrow> Err MalformedCertificate
           | Some (body, _) \<Rightarrow>
               rbind (ok_or MalformedCertificate
                  (b64std_decode lib (filter (\<lambda>c. \<not> is_ascii_whitespace c) body)))
                 (\<lambda>der. Ok (thumbprint_from_der lib der))))"

record client_certificate =
  cert_thumbprint :: certificate_thumbprint
  cert_subject_dn :: "string option"
  cert_san_dns :: "string list"
  cert_san_uri :: "string list"
  cert_san_ip :: "string list"
  cert_san_email :: "string list"

definition cert_from_thumbprint :: "certificate_thumbprint \<Rightarrow> client_certificate" where
  "cert_from_thumbprint t = \<lparr>cert_thumbprint = t, cert_subject_dn = None, cert_san_dns = [],
     cert_san_uri = [], cert_san_ip = [], cert_san_email = []\<rparr>"

definition cert_from_der :: "'z crates_scheme \<Rightarrow> byte list \<Rightarrow> client_certificate" where
  "cert_from_der lib der = cert_from_thumbprint (thumbprint_from_der lib der)"

datatype expected_subject =
    SubjectDn string | SanDns string | SanUri string | SanIp string | SanEmail string

fun satisfies :: "client_certificate \<Rightarrow> expected_subject \<Rightarrow> bool" where
  "satisfies c (SubjectDn dn) = (cert_subject_dn c = Some dn)"
| "satisfies c (SanDns v) = (v \<in> set (cert_san_dns c))"
| "satisfies c (SanUri v) = (v \<in> set (cert_san_uri c))"
| "satisfies c (SanIp v) = (v \<in> set (cert_san_ip c))"
| "satisfies c (SanEmail v) = (v \<in> set (cert_san_email c))"

definition TLS_CLIENT_AUTH_SUBJECT_DN :: string where
  "TLS_CLIENT_AUTH_SUBJECT_DN = ''tls_client_auth_subject_dn''"
definition TLS_CLIENT_AUTH_SAN_DNS :: string where
  "TLS_CLIENT_AUTH_SAN_DNS = ''tls_client_auth_san_dns''"
definition TLS_CLIENT_AUTH_SAN_URI :: string where
  "TLS_CLIENT_AUTH_SAN_URI = ''tls_client_auth_san_uri''"
definition TLS_CLIENT_AUTH_SAN_IP :: string where
  "TLS_CLIENT_AUTH_SAN_IP = ''tls_client_auth_san_ip''"
definition TLS_CLIENT_AUTH_SAN_EMAIL :: string where
  "TLS_CLIENT_AUTH_SAN_EMAIL = ''tls_client_auth_san_email''"

lemmas mtls_parameter_defs =
  TLS_CLIENT_AUTH_SUBJECT_DN_def TLS_CLIENT_AUTH_SAN_DNS_def TLS_CLIENT_AUTH_SAN_URI_def
  TLS_CLIENT_AUTH_SAN_IP_def TLS_CLIENT_AUTH_SAN_EMAIL_def

definition subject_candidate :: "string \<Rightarrow> string \<Rightarrow> expected_subject option" where
  "subject_candidate name value =
     (if name = TLS_CLIENT_AUTH_SUBJECT_DN then Some (SubjectDn value)
      else if name = TLS_CLIENT_AUTH_SAN_DNS then Some (SanDns value)
      else if name = TLS_CLIENT_AUTH_SAN_URI then Some (SanUri value)
      else if name = TLS_CLIENT_AUTH_SAN_IP then Some (SanIp value)
      else if name = TLS_CLIENT_AUTH_SAN_EMAIL then Some (SanEmail value)
      else None)"

fun registration_parameters_loop ::
  "expected_subject option \<Rightarrow> (string \<times> string) list \<Rightarrow> mtls_registration_error + expected_subject" where
  "registration_parameters_loop found [] = ok_or NoSubjectValue found"
| "registration_parameters_loop found ((name, value) # ps) =
     (case subject_candidate name value of
        None \<Rightarrow> registration_parameters_loop found ps
      | Some candidate \<Rightarrow>
          if value = [] then Err EmptySubjectValue
          else if found \<noteq> None then Err MoreThanOneSubjectValue
          else registration_parameters_loop (Some candidate) ps)"

definition from_registration_parameters ::
  "(string \<times> string) list \<Rightarrow> mtls_registration_error + expected_subject" where
  "from_registration_parameters ps = registration_parameters_loop None ps"

fun parameter_name :: "expected_subject \<Rightarrow> string" where
  "parameter_name (SubjectDn _) = TLS_CLIENT_AUTH_SUBJECT_DN"
| "parameter_name (SanDns _) = TLS_CLIENT_AUTH_SAN_DNS"
| "parameter_name (SanUri _) = TLS_CLIENT_AUTH_SAN_URI"
| "parameter_name (SanIp _) = TLS_CLIENT_AUTH_SAN_IP"
| "parameter_name (SanEmail _) = TLS_CLIENT_AUTH_SAN_EMAIL"

fun subject_value :: "expected_subject \<Rightarrow> string" where
  "subject_value (SubjectDn v) = v"
| "subject_value (SanDns v) = v"
| "subject_value (SanUri v) = v"
| "subject_value (SanIp v) = v"
| "subject_value (SanEmail v) = v"

datatype registered_certificates = RegisteredCertificates (thumbprints: "certificate_thumbprint list")

definition from_thumbprints ::
  "certificate_thumbprint list \<Rightarrow> mtls_registration_error + registered_certificates" where
  "from_thumbprints ts = (if ts = [] then Err NoCertificates else Ok (RegisteredCertificates ts))"

definition from_der_certificates ::
  "'z crates_scheme \<Rightarrow> byte list list \<Rightarrow> mtls_registration_error + registered_certificates" where
  "from_der_certificates lib ders = from_thumbprints (map (thumbprint_from_der lib) ders)"

fun jwks_thumbprints ::
  "'z crates_scheme \<Rightarrow> json list \<Rightarrow> mtls_registration_error + certificate_thumbprint list" where
  "jwks_thumbprints lib [] = Ok []"
| "jwks_thumbprints lib (key # keys) =
     (case Option.bind (json_get ''x5c'' key) json_as_array of
        None \<Rightarrow> jwks_thumbprints lib keys
      | Some chain \<Rightarrow>
          rbind (ok_or MalformedJwks
             (case chain of [] \<Rightarrow> None | c # _ \<Rightarrow> json_as_str c)) (\<lambda>leaf.
          rbind (ok_or MalformedCertificate (b64std_decode lib leaf)) (\<lambda>der.
          rbind (jwks_thumbprints lib keys) (\<lambda>ts.
          Ok (thumbprint_from_der lib der # ts)))))"

definition from_jwks ::
  "'z crates_scheme \<Rightarrow> string \<Rightarrow> mtls_registration_error + registered_certificates" where
  "from_jwks lib jwks =
     rbind (ok_or MalformedJwks (json_from_slice lib (as_bytes jwks))) (\<lambda>document.
     rbind (ok_or MalformedJwks (Option.bind (json_get ''keys'' document) json_as_array)) (\<lambda>keys.
     rbind (jwks_thumbprints lib keys) (\<lambda>ts.
     if ts = [] then Err NoCertificateInJwks else Ok (RegisteredCertificates ts))))"

definition certs_contains :: "registered_certificates \<Rightarrow> certificate_thumbprint \<Rightarrow> bool" where
  "certs_contains r t \<longleftrightarrow> t \<in> set (thumbprints r)"

datatype mtls_client_registration =
    TlsClientAuth expected_subject
  | SelfSignedTlsClientAuth registered_certificates

fun mtls_method_name :: "mtls_client_registration \<Rightarrow> string" where
  "mtls_method_name (TlsClientAuth _) = ''tls_client_auth''"
| "mtls_method_name (SelfSignedTlsClientAuth _) = ''self_signed_tls_client_auth''"

fun mtls_accepts :: "mtls_client_registration \<Rightarrow> client_certificate \<Rightarrow> bool" where
  "mtls_accepts (TlsClientAuth expected) c = satisfies c expected"
| "mtls_accepts (SelfSignedTlsClientAuth registered) c = certs_contains registered (cert_thumbprint c)"

section \<open>Registration is exact\<close>

definition subject_parameters :: "(string \<times> string) list \<Rightarrow> (string \<times> string) list" where
  "subject_parameters ps = filter (\<lambda>(n, v). subject_candidate n v \<noteq> None) ps"

lemma subject_candidate_Some:
  "subject_candidate n v = Some s \<longleftrightarrow> n = parameter_name s \<and> v = subject_value s"
  by (cases s) (auto simp: subject_candidate_def mtls_parameter_defs)

lemma subject_parameters_simps [simp]:
  "subject_parameters [] = []"
  "subject_candidate n v = None \<Longrightarrow> subject_parameters ((n, v) # ps) = subject_parameters ps"
  "subject_candidate n v = Some s \<Longrightarrow> subject_parameters ((n, v) # ps) = (n, v) # subject_parameters ps"
  by (simp_all add: subject_parameters_def)

lemma registration_loop_found:
  "registration_parameters_loop (Some s) ps = Inr r \<longleftrightarrow> subject_parameters ps = [] \<and> r = s"
proof (induction ps)
  case (Cons p ps)
  obtain n v where p: "p = (n, v)" by (cases p)
  show ?case using Cons by (cases "subject_candidate n v") (auto simp: p)
qed auto

lemma registration_loop_none:
  "registration_parameters_loop None ps = Inr s \<longleftrightarrow>
     subject_parameters ps = [(parameter_name s, subject_value s)] \<and> subject_value s \<noteq> []"
proof (induction ps)
  case (Cons p ps)
  obtain n v where p: "p = (n, v)" by (cases p)
  show ?case
  proof (cases "subject_candidate n v")
    case None
    then show ?thesis using Cons by (simp add: p)
  next
    case (Some c)
    then have c: "n = parameter_name c" "v = subject_value c" by (simp_all add: subject_candidate_Some)
    have "parameter_name s = parameter_name c \<and> subject_value s = subject_value c \<longleftrightarrow> s = c"
      using subject_candidate_Some [of n v s] Some c by auto
    then show ?thesis using Some c by (auto simp: p registration_loop_found)
  qed
qed (simp add: ok_or_def)

text \<open>
  A \<^verbatim>\<open>tls_client_auth\<close> registration is accepted exactly when its metadata names one and only
  one subject parameter with a non-empty value, and the subject it yields carries that parameter
  (RFC 8705 section 2.1.2); metadata with other names is ignored.
\<close>
theorem from_registration_parameters_iff:
  "from_registration_parameters ps = Ok s \<longleftrightarrow>
     subject_parameters ps = [(parameter_name s, subject_value s)] \<and> subject_value s \<noteq> []"
  by (simp add: from_registration_parameters_def registration_loop_none)

lemma thumbprint_roundtrip:
  assumes "\<And>bs. b64url_decode lib (b64url_encode lib bs) = Some bs" and "length (thumb_bytes t) = 32"
  shows "from_base64url lib (to_base64url lib t) = Ok t"
  using assms by (simp add: from_base64url_def to_base64url_def ok_or_def)

end
