(* ===== verification/Jose.thy ===== *)
theory Jose
  imports Encoding
begin

text \<open>
  The JOSE component (\<^verbatim>\<open>jwt.rs\<close>): signature algorithms and their slots, the verifier table and the
  allow list, JWKs read from JSON, compact JWS parsing, HMAC-SHA256 verification, and the key set of
  a signing configuration under rotation. Signature primitives and the signer are host or
  third-party code and stay parameters.
\<close>

section \<open>Algorithms and key kinds\<close>

datatype ec_curve = P256

fun ec_jose_name :: "ec_curve \<Rightarrow> string" where
  "ec_jose_name P256 = ''P-256''"

datatype okp_curve = Ed25519

fun okp_jose_name :: "okp_curve \<Rightarrow> string" where
  "okp_jose_name Ed25519 = ''Ed25519''"

datatype key_kind = KEc ec_curve | KRsa | KOkp okp_curve

datatype jws_alg = Es256 | Rs256 | EdDsa | Ps256

definition ALL_ALGS :: "jws_alg list" where
  "ALL_ALGS = [Es256, Rs256, EdDsa, Ps256]"

fun jose_name :: "jws_alg \<Rightarrow> string" where
  "jose_name Es256 = ''ES256''"
| "jose_name Rs256 = ''RS256''"
| "jose_name EdDsa = ''EdDSA''"
| "jose_name Ps256 = ''PS256''"

fun alg_key_kind :: "jws_alg \<Rightarrow> key_kind" where
  "alg_key_kind Es256 = KEc P256"
| "alg_key_kind Rs256 = KRsa"
| "alg_key_kind Ps256 = KRsa"
| "alg_key_kind EdDsa = KOkp Ed25519"

fun slot :: "jws_alg \<Rightarrow> nat" where
  "slot Es256 = 0"
| "slot Rs256 = 1"
| "slot EdDsa = 2"
| "slot Ps256 = 3"

definition classify_alg :: "string \<Rightarrow> jws_alg option" where
  "classify_alg name =
     (if name = ''ES256'' then Some Es256
      else if name = ''RS256'' then Some Rs256
      else if name = ''EdDSA'' then Some EdDsa
      else if name = ''PS256'' then Some Ps256
      else None)"

lemma slot_inject [simp]: "slot a = slot b \<longleftrightarrow> a = b"
  by (cases a; cases b) simp_all

lemma slot_bound [simp]: "slot a < length ALL_ALGS"
  by (cases a) (simp_all add: ALL_ALGS_def)

lemma in_ALL_ALGS [simp]: "a \<in> set ALL_ALGS"
  by (cases a) (simp_all add: ALL_ALGS_def)

lemma classify_alg_jose_name: "classify_alg n = Some a \<longleftrightarrow> n = jose_name a"
proof
  show "classify_alg n = Some a \<Longrightarrow> n = jose_name a"
    unfolding classify_alg_def by (auto split: if_splits)
qed (cases a, simp_all add: classify_alg_def)

datatype alg_policy = Registered jws_alg | AnyInstalled

datatype alg_refusal = AlgMissing | AlgUnclassified | AlgMismatch | AlgNotInstalled


section \<open>JSON Web Keys\<close>

datatype jwk =
    JwkEc ec_curve string string "string option"
  | JwkRsa string string "string option"
  | JwkOkp okp_curve string "string option"

datatype verify_error = VerifyError string

definition PRIVATE_JWK_MEMBERS :: "string list" where
  "PRIVATE_JWK_MEMBERS = [''d'', ''p'', ''q'', ''dp'', ''dq'', ''qi'', ''oth'', ''k'']"

definition check_coordinate :: "'z crates_scheme \<Rightarrow> string \<Rightarrow> verify_error + unit" where
  "check_coordinate lib b64 =
     (case b64url_decode lib b64 of
        Some bytes \<Rightarrow>
          ensure (length bytes = 32)
            (VerifyError ''a P-256 coordinate is exactly 32 base64url-encoded bytes'')
      | None \<Rightarrow> Err (VerifyError ''a P-256 coordinate is exactly 32 base64url-encoded bytes''))"

definition jwk_string :: "(string \<times> json) list \<Rightarrow> string \<Rightarrow> verify_error + string" where
  "jwk_string object name =
     ok_or (VerifyError ''the JWK is missing a required member'')
       (Option.bind (map_of object name) json_as_str)"

definition jwk_kid_of :: "(string \<times> json) list \<Rightarrow> string option" where
  "jwk_kid_of object = Option.bind (map_of object ''kid'') json_as_str"

definition jwk_ec_from :: "'z crates_scheme \<Rightarrow> (string \<times> json) list \<Rightarrow> verify_error + jwk" where
  "jwk_ec_from lib object =
     rbind (jwk_string object ''crv'') (\<lambda>crv.
     rbind (ensure (crv = ''P-256'') (VerifyError ''only the P-256 curve is supported'')) (\<lambda>_.
     rbind (jwk_string object ''x'') (\<lambda>x.
     rbind (jwk_string object ''y'') (\<lambda>y.
     rbind (check_coordinate lib x) (\<lambda>_.
     rbind (check_coordinate lib y) (\<lambda>_.
     Ok (JwkEc P256 x y (jwk_kid_of object))))))))"

definition jwk_rsa_from :: "'z crates_scheme \<Rightarrow> (string \<times> json) list \<Rightarrow> verify_error + jwk" where
  "jwk_rsa_from lib object =
     rbind (jwk_string object ''n'') (\<lambda>n.
     rbind (jwk_string object ''e'') (\<lambda>e.
     if b64url_decode lib n = None \<or> b64url_decode lib e = None
     then Err (VerifyError ''an RSA n/e is base64urlUInt (unpadded base64url)'')
     else Ok (JwkRsa n e (jwk_kid_of object))))"

definition jwk_okp_from :: "'z crates_scheme \<Rightarrow> (string \<times> json) list \<Rightarrow> verify_error + jwk" where
  "jwk_okp_from lib object =
     rbind (jwk_string object ''crv'') (\<lambda>crv.
     rbind (ensure (crv = ''Ed25519'') (VerifyError ''only the Ed25519 curve is supported'')) (\<lambda>_.
     rbind (jwk_string object ''x'') (\<lambda>x.
     (case b64url_decode lib x of
        Some bytes \<Rightarrow>
          if length bytes = 32 then Ok (JwkOkp Ed25519 x (jwk_kid_of object))
          else Err (VerifyError ''an Ed25519 public key is exactly 32 base64url-encoded bytes'')
      | None \<Rightarrow> Err (VerifyError ''an Ed25519 public key is exactly 32 base64url-encoded bytes'')))))"

definition jwk_from_json :: "'z crates_scheme \<Rightarrow> json \<Rightarrow> verify_error + jwk" where
  "jwk_from_json lib value =
     rbind (ok_or (VerifyError ''a JWK must be a JSON object'') (json_as_object value)) (\<lambda>object.
     if list_ex (\<lambda>m. map_of object m \<noteq> None) PRIVATE_JWK_MEMBERS
     then Err (VerifyError ''the JWK carries a private or symmetric key parameter'')
     else rbind (jwk_string object ''kty'') (\<lambda>kty.
       if kty = ''EC'' then jwk_ec_from lib object
       else if kty = ''RSA'' then jwk_rsa_from lib object
       else if kty = ''OKP'' then jwk_okp_from lib object
       else Err (VerifyError ''only EC, RSA, and OKP keys are supported'')))"

definition from_coordinates :: "'z crates_scheme \<Rightarrow> string \<Rightarrow> string \<Rightarrow> verify_error + jwk" where
  "from_coordinates lib x y =
     rbind (check_coordinate lib x) (\<lambda>_.
     rbind (check_coordinate lib y) (\<lambda>_.
     Ok (JwkEc P256 x y None)))"

fun with_kid :: "jwk \<Rightarrow> string \<Rightarrow> jwk" where
  "with_kid (JwkEc crv x y _) kid = JwkEc crv x y (Some kid)"
| "with_kid (JwkRsa n e _) kid = JwkRsa n e (Some kid)"
| "with_kid (JwkOkp crv x _) kid = JwkOkp crv x (Some kid)"

fun jwk_key_kind :: "jwk \<Rightarrow> key_kind" where
  "jwk_key_kind (JwkEc crv _ _ _) = KEc crv"
| "jwk_key_kind (JwkRsa _ _ _) = KRsa"
| "jwk_key_kind (JwkOkp crv _ _) = KOkp crv"

fun jwk_kid :: "jwk \<Rightarrow> string option" where
  "jwk_kid (JwkEc _ _ _ kid) = kid"
| "jwk_kid (JwkRsa _ _ kid) = kid"
| "jwk_kid (JwkOkp _ _ kid) = kid"

fun jwk_thumbprint_input :: "jwk \<Rightarrow> string" where
  "jwk_thumbprint_input (JwkEc crv x y _) =
     ''{\"crv\":\"'' @ ec_jose_name crv @ ''\",\"kty\":\"EC\",\"x\":\"'' @ x @ ''\",\"y\":\"'' @ y @ ''\"}''"
| "jwk_thumbprint_input (JwkRsa n e _) =
     ''{\"e\":\"'' @ e @ ''\",\"kty\":\"RSA\",\"n\":\"'' @ n @ ''\"}''"
| "jwk_thumbprint_input (JwkOkp crv x _) =
     ''{\"crv\":\"'' @ okp_jose_name crv @ ''\",\"kty\":\"OKP\",\"x\":\"'' @ x @ ''\"}''"

definition jwk_thumbprint :: "'z crates_scheme \<Rightarrow> jwk \<Rightarrow> string" where
  "jwk_thumbprint lib k = b64url_encode lib (sha256 lib (as_bytes (jwk_thumbprint_input k)))"

definition alg_consistent :: "jws_alg \<Rightarrow> jwk \<Rightarrow> bool" where
  "alg_consistent alg key \<longleftrightarrow> alg_key_kind alg = jwk_key_kind key"


section \<open>Verifiers\<close>

record jws_verifier =
  ver_alg :: jws_alg
  ver_verify :: "jwk \<Rightarrow> byte list \<Rightarrow> byte list \<Rightarrow> bool"

type_synonym jws_verifiers = "jws_verifier option list"

definition verifiers_new :: jws_verifiers where
  "verifiers_new = replicate (length ALL_ALGS) None"

definition install :: "jws_verifier \<Rightarrow> jws_verifiers \<Rightarrow> jws_verifiers" where
  "install v vs = vs[slot (ver_alg v) := Some v]"

definition get_verifier :: "jws_verifiers \<Rightarrow> jws_alg \<Rightarrow> jws_verifier option" where
  "get_verifier vs alg = vs ! slot alg"

definition installed :: "jws_verifiers \<Rightarrow> jws_alg list" where
  "installed vs = filter (\<lambda>alg. vs ! slot alg \<noteq> None) ALL_ALGS"

type_synonym alg_allow_list = "bool list"

definition allow_all :: alg_allow_list where
  "allow_all = replicate (length ALL_ALGS) True"

definition allow_only :: "jws_alg list \<Rightarrow> alg_allow_list" where
  "allow_only algs = fold (\<lambda>alg allowed. allowed[slot alg := True]) algs
     (replicate (length ALL_ALGS) False)"

definition allow_fapi :: alg_allow_list where
  "allow_fapi = allow_only [Es256, Ps256]"

definition is_allowed :: "alg_allow_list \<Rightarrow> jws_alg \<Rightarrow> bool" where
  "is_allowed allow alg = allow ! slot alg"

definition restrict_to :: "alg_allow_list \<Rightarrow> jws_verifiers \<Rightarrow> jws_verifiers" where
  "restrict_to allow vs =
     fold (\<lambda>alg slots. if is_allowed allow alg then slots else slots[slot alg := None]) ALL_ALGS vs"

definition verifiers_wf :: "jws_verifiers \<Rightarrow> bool" where
  "verifiers_wf vs \<longleftrightarrow> length vs = length ALL_ALGS \<and>
     (\<forall>alg v. vs ! slot alg = Some v \<longrightarrow> ver_alg v = alg)"

lemma verifiers_wf_new [simp]: "verifiers_wf verifiers_new"
  by (simp add: verifiers_wf_def verifiers_new_def)

lemma verifiers_wf_install [simp]: "verifiers_wf vs \<Longrightarrow> verifiers_wf (install v vs)"
  by (auto simp: verifiers_wf_def install_def nth_list_update)

lemma get_install:
  "verifiers_wf vs \<Longrightarrow>
     get_verifier (install v vs) alg = (if alg = ver_alg v then Some v else get_verifier vs alg)"
  by (auto simp: get_verifier_def install_def verifiers_wf_def)

lemma is_allowed_only: "is_allowed (allow_only algs) alg \<longleftrightarrow> alg \<in> set algs"
proof -
  have "length bs = length ALL_ALGS \<Longrightarrow>
      fold (\<lambda>a allowed. allowed[slot a := True]) algs bs ! slot alg = (bs ! slot alg \<or> alg \<in> set algs)"
    for bs
    by (induction algs arbitrary: bs) (auto simp: nth_list_update)
  from this [of "replicate (length ALL_ALGS) False"] show ?thesis
    by (simp add: is_allowed_def allow_only_def)
qed

lemma restrict_to_nth:
  "length vs = length ALL_ALGS \<Longrightarrow>
     restrict_to allow vs ! slot alg = (if is_allowed allow alg then vs ! slot alg else None)"
  by (cases alg) (simp_all add: restrict_to_def ALL_ALGS_def nth_list_update)

text \<open>
  A verifier table restricted to an allow list answers for an algorithm exactly when the list
  names it and the table had a verifier for it; so a FAPI build verifies ES256 and PS256 and nothing
  else, whatever was installed.
\<close>
theorem restrict_to_only:
  assumes "verifiers_wf vs"
  shows "get_verifier (restrict_to (allow_only algs) vs) alg =
           (if alg \<in> set algs then get_verifier vs alg else None)"
  using assms by (simp add: get_verifier_def verifiers_wf_def restrict_to_nth is_allowed_only)

theorem restrict_to_only_witness:
  "get_verifier (restrict_to (allow_only [Es256, Ps256])
     (install \<lparr>ver_alg = Rs256, ver_verify = (\<lambda>_ _ _. True)\<rparr> verifiers_new)) Rs256 = None"
  by (subst restrict_to_only) simp_all


section \<open>Compact JWS\<close>

record compact_jws =
  signing_input :: string
  header :: "(string \<times> json) list"
  payload :: "(string \<times> json) list"
  signature :: "byte list"

definition jws_object :: "'z crates_scheme \<Rightarrow> string \<Rightarrow> verify_error + (string \<times> json) list" where
  "jws_object lib b64 =
     rbind (ok_or (VerifyError ''a JWS segment is not unpadded base64url'') (b64url_decode lib b64))
       (\<lambda>bytes. case json_from_slice lib bytes of
          Some (JObject m) \<Rightarrow> Ok m
        | _ \<Rightarrow> Err (VerifyError ''a JWS segment is not a JSON object''))"

definition jws_parse :: "'z crates_scheme \<Rightarrow> string \<Rightarrow> verify_error + compact_jws" where
  "jws_parse lib token =
     (case split_on CHR ''.'' token of
        [header_b64, payload_b64, signature_b64] \<Rightarrow>
          rbind (jws_object lib header_b64) (\<lambda>h.
          rbind (jws_object lib payload_b64) (\<lambda>p.
          rbind (ok_or (VerifyError ''the signature is not unpadded base64url'')
                   (b64url_decode lib signature_b64)) (\<lambda>sg.
          Ok \<lparr>signing_input = take (length header_b64 + 1 + length payload_b64) token,
              header = h, payload = p, signature = sg\<rparr>)))
      | _ \<Rightarrow> Err (VerifyError ''not a compact JWS of exactly three segments''))"

definition header_str :: "compact_jws \<Rightarrow> string \<Rightarrow> string option" where
  "header_str j name = Option.bind (map_of (header j) name) json_as_str"

definition reject_unknown_crit :: "compact_jws \<Rightarrow> verify_error + unit" where
  "reject_unknown_crit j =
     (case map_of (header j) ''crit'' of
        None \<Rightarrow> Ok ()
      | Some (JArray names) \<Rightarrow>
          if names = []
          then Err (VerifyError ''the header has an empty crit, which RFC 7515 s4.1.11 forbids'')
          else Err (VerifyError
            ''the header's crit names an extension this server does not implement'')
      | Some _ \<Rightarrow> Err (VerifyError ''the header's crit is not an array''))"

definition claim_str :: "compact_jws \<Rightarrow> string \<Rightarrow> string option" where
  "claim_str j name = Option.bind (map_of (payload j) name) json_as_str"

definition claim_time :: "compact_jws \<Rightarrow> string \<Rightarrow> nat option" where
  "claim_time j name = Option.bind (map_of (payload j) name) json_as_u64"

definition expect_alg ::
  "compact_jws \<Rightarrow> alg_policy \<Rightarrow> jws_verifiers \<Rightarrow> alg_refusal + jws_alg" where
  "expect_alg j policy vs =
     rbind (ok_or AlgMissing (header_str j ''alg'')) (\<lambda>name.
     rbind (ok_or AlgUnclassified (classify_alg name)) (\<lambda>alg.
     case policy of
       Registered expected \<Rightarrow> if alg \<noteq> expected then Err AlgMismatch else Ok alg
     | AnyInstalled \<Rightarrow> if get_verifier vs alg = None then Err AlgNotInstalled else Ok alg))"

lemma expect_alg_Ok:
  "expect_alg j policy vs = Inr alg \<longleftrightarrow>
     header_str j ''alg'' = Some (jose_name alg) \<and>
     (case policy of Registered expected \<Rightarrow> alg = expected | AnyInstalled \<Rightarrow> get_verifier vs alg \<noteq> None)"
  by (auto simp: expect_alg_def classify_alg_jose_name split: alg_policy.splits if_splits)

lemma reject_unknown_crit_Ok: "reject_unknown_crit j = Inr u \<longleftrightarrow> map_of (header j) ''crit'' = None"
  by (auto simp: reject_unknown_crit_def split: option.splits json.splits if_splits)

definition compact_jws_build ::
  "'z crates_scheme \<Rightarrow> byte list \<Rightarrow> byte list \<Rightarrow> (string \<Rightarrow> byte list) \<Rightarrow> string" where
  "compact_jws_build lib h p sign =
     (let compact = b64url_encode lib h @ ''.'' @ b64url_encode lib p
      in compact @ ''.'' @ b64url_encode lib (sign compact))"

text \<open>What base64url and JSON promise: decoding inverts encoding, the alphabet has no dot.\<close>

definition b64url_lawful :: "'z crates_scheme \<Rightarrow> bool" where
  "b64url_lawful lib \<longleftrightarrow>
     (\<forall>bs. b64url_decode lib (b64url_encode lib bs) = Some bs \<and> CHR ''.'' \<notin> set (b64url_encode lib bs))"

text \<open>
  A compact JWS built from a header and payload that are JSON objects parses back to exactly
  those objects, the signed text and the signature, for any base64url codec that decodes what it
  encodes and uses no dot.
\<close>
theorem compact_jws_roundtrip:
  assumes "b64url_lawful lib"
    and "json_from_slice lib h = Some (JObject hm)" and "json_from_slice lib p = Some (JObject pm)"
  shows "jws_parse lib (compact_jws_build lib h p sign) =
    Ok \<lparr>signing_input = b64url_encode lib h @ ''.'' @ b64url_encode lib p,
        header = hm, payload = pm,
        signature = sign (b64url_encode lib h @ ''.'' @ b64url_encode lib p)\<rparr>"
proof -
  have nodot: "CHR ''.'' \<notin> set (b64url_encode lib bs)" and
    dec: "b64url_decode lib (b64url_encode lib bs) = Some bs" for bs
    using assms(1) by (auto simp: b64url_lawful_def)
  show ?thesis
    by (simp add: jws_parse_def compact_jws_build_def split_on_append_sep nodot split_on_no_sep
        jws_object_def dec assms ok_or_def)
qed

text \<open>An instance of the third-party functions that keeps every law stated of them.\<close>

lemma sample_crates_lawful: "b64url_lawful sample_crates"
proof -
  have "CHR ''.'' \<notin> set HEX_DIGITS" by (simp add: HEX_DIGITS_def)
  then show ?thesis
    using set_hex_encode by (auto simp: b64url_lawful_def sample_crates_def hex_decode_encode)
qed

theorem compact_jws_roundtrip_witness:
  "jws_parse sample_crates (compact_jws_build sample_crates [1] [2] (\<lambda>_. [7])) =
     Ok \<lparr>signing_input = ''01.02'', header = [(''alg'', JString ''ES256'')], payload = [], signature = [7]\<rparr>"
proof -
  have "jws_parse sample_crates (compact_jws_build sample_crates [1] [2] (\<lambda>_. [7])) =
    Ok \<lparr>signing_input = b64url_encode sample_crates [1] @ ''.'' @ b64url_encode sample_crates [2],
        header = [(''alg'', JString ''ES256'')], payload = [], signature = [7]\<rparr>"
    by (rule compact_jws_roundtrip [OF sample_crates_lawful]) (simp_all add: sample_crates_def sample_documents_def)
  also have "b64url_encode sample_crates [1] @ ''.'' @ b64url_encode sample_crates [2] = ''01.02''"
    by code_simp
  finally show ?thesis .
qed


section \<open>Signature checks\<close>

definition pad64 :: "byte list \<Rightarrow> byte list" where
  "pad64 bs = bs @ replicate (64 - length bs) 0"

definition hmac_sha256 :: "'z crates_scheme \<Rightarrow> byte list \<Rightarrow> byte list \<Rightarrow> byte list" where
  "hmac_sha256 lib key message =
     (let block = pad64 (if 64 < length key then sha256 lib key else key);
          ipad = map (\<lambda>b. 0x36 XOR b) block;
          opad = map (\<lambda>b. 0x5C XOR b) block;
          inner = sha256 lib (ipad @ message)
      in sha256 lib (opad @ inner))"

definition verify_hs256 :: "'z crates_scheme \<Rightarrow> byte list \<Rightarrow> byte list \<Rightarrow> byte list \<Rightarrow> bool" where
  "verify_hs256 lib secret input sig =
     (if length sig \<noteq> 32 then False
      else xor_acc 0 (hmac_sha256 lib secret input) sig = 0)"

definition verify_es256 :: "'z crates_scheme \<Rightarrow> jwk \<Rightarrow> byte list \<Rightarrow> byte list \<Rightarrow> bool" where
  "verify_es256 lib key input sig =
     (case key of
        JwkEc P256 x y _ \<Rightarrow>
          if length sig \<noteq> 64 then False
          else (case (b64url_decode lib x, b64url_decode lib y) of
                  (Some xb, Some yb) \<Rightarrow>
                    if length xb \<noteq> 32 \<or> length yb \<noteq> 32 then False
                    else p256_verify lib (0x04 # xb @ yb) sig input
                | _ \<Rightarrow> False)
      | _ \<Rightarrow> False)"

text \<open>
  The HS256 check accepts a signature exactly when it is the HMAC of the input: the length
  test and the accumulated XOR leave no other way in.
\<close>
theorem verify_hs256_iff:
  assumes "sha256_sized lib"
  shows "verify_hs256 lib secret input sig \<longleftrightarrow> sig = hmac_sha256 lib secret input"
proof -
  have "length (hmac_sha256 lib secret input) = 32"
    using assms by (simp add: hmac_sha256_def Let_def sha256_sized_def)
  then show ?thesis by (auto simp: verify_hs256_def xor_acc_zero)
qed

theorem verify_hs256_iff_witness:
  "verify_hs256 sample_crates [1] [2] (hmac_sha256 sample_crates [1] [2]) \<and>
   \<not> verify_hs256 sample_crates [1] [2] (0 # tl (hmac_sha256 sample_crates [1] [2]))"
proof -
  have "hd (hmac_sha256 sample_crates [1] [2]) \<noteq> 0" by code_simp
  then show ?thesis
    unfolding verify_hs256_iff [OF sha256_sized_sample] by (metis list.sel(1))
qed

end
