(* ===== verification/Client_Assertion.thy ===== *)
theory Client_Assertion
  imports Jose
begin

text \<open>
  RFC 7523 client assertions (\<^verbatim>\<open>client_assertion.rs\<close>): the registered keys and the verification of
  one assertion. The accepted assertions are characterised exactly, so every refusal the function
  can make is accounted for.
\<close>

definition MIN_CLIENT_SECRET_JWT_KEY_LENGTH :: nat where
  "MIN_CLIENT_SECRET_JWT_KEY_LENGTH = 22"

datatype client_secret_key = ClientSecretKey (secret_text: string)

datatype weak_client_secret = WeakClientSecret

text \<open>
  \<^verbatim>\<open>chars().count()\<close> of a UTF-8 byte string: every byte that is not a continuation byte starts a
  character.
\<close>

definition chars_count :: "string \<Rightarrow> nat" where
  "chars_count s = length (filter (\<lambda>c. \<not> is_continuation c) s)"

definition client_secret_key_new :: "string \<Rightarrow> weak_client_secret + client_secret_key" where
  "client_secret_key_new secret =
     (if chars_count secret < MIN_CLIENT_SECRET_JWT_KEY_LENGTH then Err WeakClientSecret
      else Ok (ClientSecretKey secret))"

definition MAX_ASSERTION_LIFETIME :: duration where
  "MAX_ASSERTION_LIFETIME = from_secs 600"

definition MAX_ASSERTION_BYTES :: nat where
  "MAX_ASSERTION_BYTES = 4096"

datatype assertion_keys =
    AkClientSecret client_secret_key
  | AkPublicKeys jws_alg "jwk list"

fun assertion_auth_method :: "assertion_keys \<Rightarrow> string" where
  "assertion_auth_method (AkClientSecret _) = ''client_secret_jwt''"
| "assertion_auth_method (AkPublicKeys _ _) = ''private_key_jwt''"

fun signing_alg :: "assertion_keys \<Rightarrow> string" where
  "signing_alg (AkClientSecret _) = ''HS256''"
| "signing_alg (AkPublicKeys alg _) = jose_name alg"

fun asymmetric_alg :: "assertion_keys \<Rightarrow> jws_alg option" where
  "asymmetric_alg (AkClientSecret _) = None"
| "asymmetric_alg (AkPublicKeys alg _) = Some alg"

datatype assertion_failure =
    AfMalformed | AfAlgorithmMismatch | AfBadSignature | AfWrongPrincipal | AfWrongAudience
  | AfExpired | AfNotYetValid | AfMissingJti | AfReplayed | AfReplayCheckUnavailable

datatype audience_rule = AnyOf "string list" | Exactly string

record verified_assertion =
  va_jti :: string
  va_expires_at :: system_time

definition ACCEPTED_TYP :: "string list" where
  "ACCEPTED_TYP = [''JWT'', ''jwt'', ''client-authentication+jwt'']"

definition audience_matches :: "compact_jws \<Rightarrow> audience_rule \<Rightarrow> bool" where
  "audience_matches j rule =
     (case (rule, map_of (payload j) ''aud'') of
        (AnyOf audiences, Some (JString one)) \<Rightarrow> one \<in> set audiences
      | (AnyOf audiences, Some (JArray many)) \<Rightarrow>
          list_ex (\<lambda>v. case json_as_str v of Some one \<Rightarrow> one \<in> set audiences | None \<Rightarrow> False) many
      | (Exactly expected, Some (JString one)) \<Rightarrow> one = expected
      | _ \<Rightarrow> False)"

definition assertion_signed ::
  "'z crates_scheme \<Rightarrow> jws_verifier option \<Rightarrow> assertion_keys \<Rightarrow> compact_jws \<Rightarrow> bool" where
  "assertion_signed lib verifier keys j =
     (case keys of
        AkClientSecret secret \<Rightarrow>
          verify_hs256 lib (as_bytes (secret_text secret)) (as_bytes (signing_input j)) (signature j)
      | AkPublicKeys _ ks \<Rightarrow>
          (case verifier of
             Some v \<Rightarrow> list_ex (\<lambda>key. ver_verify v key (as_bytes (signing_input j)) (signature j)) ks
           | None \<Rightarrow> False))"

text \<open>One of the \<^verbatim>\<open>nbf\<close> / \<^verbatim>\<open>iat\<close> claims against the horizon.\<close>

definition not_before_ok :: "compact_jws \<Rightarrow> system_time \<Rightarrow> string \<Rightarrow> bool" where
  "not_before_ok j horizon claim =
     (case claim_time j claim of
        None \<Rightarrow> True
      | Some v \<Rightarrow>
          (case time_checked_add unix_epoch (from_secs v) of
             Some instant \<Rightarrow> instant \<le> horizon
           | None \<Rightarrow> False))"

definition assertion_times ::
  "compact_jws \<Rightarrow> system_time \<Rightarrow> assertion_failure + system_time" where
  "assertion_times j now =
     rbind (ok_or AfExpired (claim_time j ''exp'')) (\<lambda>exp.
     rbind (ok_or AfExpired (time_checked_add unix_epoch (from_secs exp))) (\<lambda>expires_at.
     rbind (ensure (now < expires_at) AfExpired) (\<lambda>_.
     rbind (ok_or AfExpired (time_checked_add now MAX_ASSERTION_LIFETIME)) (\<lambda>ceiling.
     rbind (ensure (expires_at \<le> ceiling) AfExpired) (\<lambda>_.
     rbind (ok_or AfNotYetValid (time_checked_add now CLOCK_SKEW_LEEWAY)) (\<lambda>horizon.
     rbind (ensure (list_all (not_before_ok j horizon) [''nbf'', ''iat'']) AfNotYetValid) (\<lambda>_.
     Ok expires_at)))))))"

definition verify_assertion ::
  "'z crates_scheme \<Rightarrow> jws_verifier option \<Rightarrow> assertion_keys \<Rightarrow> string \<Rightarrow> string \<Rightarrow> audience_rule \<Rightarrow>
     system_time \<Rightarrow> assertion_failure + verified_assertion" where
  "verify_assertion lib verifier keys assertion client_id audience now =
     (if MAX_ASSERTION_BYTES < length assertion then Err AfMalformed
      else case jws_parse lib assertion of
        Inl _ \<Rightarrow> Err AfMalformed
      | Inr j \<Rightarrow>
          rbind (ensure (case header_str j ''typ'' of None \<Rightarrow> True | Some typ \<Rightarrow> typ \<in> set ACCEPTED_TYP)
                   AfMalformed) (\<lambda>_.
          rbind (ensure (header_str j ''alg'' = Some (signing_alg keys)) AfAlgorithmMismatch) (\<lambda>_.
          rbind (case reject_unknown_crit j of Inl _ \<Rightarrow> Err AfMalformed | Inr _ \<Rightarrow> Ok ()) (\<lambda>_.
          rbind (ensure (assertion_signed lib verifier keys j) AfBadSignature) (\<lambda>_.
          rbind (ensure (claim_str j ''iss'' = Some client_id \<and> claim_str j ''sub'' = Some client_id)
                   AfWrongPrincipal) (\<lambda>_.
          rbind (ensure (audience_matches j audience) AfWrongAudience) (\<lambda>_.
          rbind (assertion_times j now) (\<lambda>expires_at.
          let jti = (case claim_str j ''jti'' of Some t \<Rightarrow> t | None \<Rightarrow> []) in
          if jti = [] then Err AfMissingJti
          else Ok \<lparr>va_jti = jti, va_expires_at = expires_at\<rparr>))))))))"

definition unverified_subject :: "'z crates_scheme \<Rightarrow> string \<Rightarrow> string option" where
  "unverified_subject lib assertion =
     (if MAX_ASSERTION_BYTES < length assertion then None
      else case jws_parse lib assertion of
        Inl _ \<Rightarrow> None
      | Inr j \<Rightarrow> claim_str j ''sub'')"

section \<open>What an accepted assertion guarantees\<close>

lemma assertion_times_Ok:
  "assertion_times j now = Inr e \<Longrightarrow>
     now < e \<and> e \<le> now + int MAX_ASSERTION_LIFETIME \<and> (\<exists>x. claim_time j ''exp'' = Some x \<and>
       e = unix_epoch + int (from_secs x)) \<and>
     (\<forall>claim \<in> {''nbf'', ''iat''}. \<forall>v. claim_time j claim = Some v \<longrightarrow>
        unix_epoch + int (from_secs v) \<le> now + int CLOCK_SKEW_LEEWAY)"
  by (auto simp: assertion_times_def not_before_ok_def split: option.splits)

text \<open>
  An accepted client assertion is signed by the registered key, is issued by and about the
  authenticating client, is addressed to this server, carries an identifier for the replay cache, is
  unexpired, and dies within ten minutes; an assertion that claims to start or to have been issued
  more than a minute in the future is never accepted.
\<close>
theorem verify_assertion_sound:
  assumes "verify_assertion lib verifier keys assertion client_id audience now = Ok va"
  shows "\<exists>j. jws_parse lib assertion = Ok j \<and>
     assertion_signed lib verifier keys j \<and> header_str j ''alg'' = Some (signing_alg keys) \<and>
     map_of (header j) ''crit'' = None \<and>
     claim_str j ''iss'' = Some client_id \<and> claim_str j ''sub'' = Some client_id \<and>
     audience_matches j audience \<and> claim_str j ''jti'' = Some (va_jti va) \<and> va_jti va \<noteq> [] \<and>
     now < va_expires_at va \<and> va_expires_at va \<le> now + int MAX_ASSERTION_LIFETIME \<and>
     (\<forall>claim \<in> {''nbf'', ''iat''}. \<forall>v. claim_time j claim = Some v \<longrightarrow>
        unix_epoch + int (from_secs v) \<le> now + int CLOCK_SKEW_LEEWAY)"
proof -
  obtain j where j: "jws_parse lib assertion = Ok j"
    using assms by (auto simp: verify_assertion_def split: if_splits sum.splits)
  with assms show ?thesis
    by (intro exI [of _ j])
      (auto simp: verify_assertion_def Let_def reject_unknown_crit_Ok
        dest: assertion_times_Ok split: if_splits sum.splits option.splits)
qed

definition sample_keys :: assertion_keys where
  "sample_keys = AkPublicKeys Es256 [JwkRsa ''n'' ''e'' None]"

definition sample_verifier :: jws_verifier where
  "sample_verifier = \<lparr>ver_alg = Es256, ver_verify = (\<lambda>_ _ sig. sig = [9])\<rparr>"

theorem verify_assertion_sound_witness:
  "\<exists>j va. verify_assertion sample_crates (Some sample_verifier) sample_keys ''01.04.09'' ''c''
       (AnyOf [''https://as'']) (int (from_secs 50)) = Ok va \<and>
     jws_parse sample_crates ''01.04.09'' = Ok j \<and>
     assertion_signed sample_crates (Some sample_verifier) sample_keys j \<and>
     claim_str j ''sub'' = Some ''c'' \<and> claim_str j ''jti'' = Some (va_jti va)"
proof -
  let ?r = "verify_assertion sample_crates (Some sample_verifier) sample_keys ''01.04.09'' ''c''
      (AnyOf [''https://as'']) (int (from_secs 50))"
  have "(case ?r of Inl _ \<Rightarrow> False | Inr _ \<Rightarrow> True)" by code_simp
  then obtain va where va: "?r = Ok va" by (auto split: sum.splits)
  from verify_assertion_sound [OF this] show ?thesis using va by blast
qed

end
