(* ===== verification/Client.thy ===== *)
theory Client
  imports Scope Errors Mtls Client_Assertion
begin

text \<open>
  Registered clients (\<^verbatim>\<open>client.rs\<close>): identifiers, stored secrets and their verification, the
  authentication a registration demands, and the client record. A host's own secret verifier is a
  trait object; it is the record \<open>secret_verifier\<close>.
\<close>

datatype client_id = ClientId (cid_str: string)

record secret_hash =
  scheme :: string
  encoded :: string

definition SHA256_HEX :: string where "SHA256_HEX = ''sha256-hex''"

definition secret_sha256 :: "'z crates_scheme \<Rightarrow> string \<Rightarrow> secret_hash" where
  "secret_sha256 lib secret =
     \<lparr>scheme = SHA256_HEX, encoded = hex_encode (sha256 lib (as_bytes secret))\<rparr>"

definition secret_custom :: "string \<Rightarrow> string \<Rightarrow> secret_hash" where
  "secret_custom s e = \<lparr>scheme = s, encoded = e\<rparr>"

definition constant_time_eq :: "'z crates_scheme \<Rightarrow> byte list \<Rightarrow> byte list \<Rightarrow> bool" where
  "constant_time_eq lib a b \<longleftrightarrow> xor_acc 0 (sha256 lib a) (sha256 lib b) = 0"

definition verify_builtin :: "'z crates_scheme \<Rightarrow> secret_hash \<Rightarrow> string \<Rightarrow> bool" where
  "verify_builtin lib self presented =
     (if scheme self \<noteq> SHA256_HEX then False
      else constant_time_eq lib (as_bytes (hex_encode (sha256 lib (as_bytes presented))))
             (as_bytes (encoded self)))"

record secret_verifier =
  sv_verify :: "secret_hash \<Rightarrow> string \<Rightarrow> bool"
  sv_dummy_hash :: "secret_hash option"

definition secret_verify ::
  "'z crates_scheme \<Rightarrow> secret_hash \<Rightarrow> string \<Rightarrow> secret_verifier option \<Rightarrow> bool" where
  "secret_verify lib self presented verifier =
     (if scheme self = SHA256_HEX then verify_builtin lib self presented
      else (case verifier of Some v \<Rightarrow> sv_verify v self presented | None \<Rightarrow> False))"

datatype client_auth =
    Public
  | ConfidentialSecret string
  | ConfidentialSecretHash secret_hash
  | ConfidentialAssertion assertion_keys
  | Mtls mtls_client_registration

definition is_confidential :: "client_auth \<Rightarrow> bool" where
  "is_confidential a \<longleftrightarrow> a \<noteq> Public"

definition verify_with ::
  "'z crates_scheme \<Rightarrow> client_auth \<Rightarrow> string option \<Rightarrow> secret_verifier option \<Rightarrow> bool" where
  "verify_with lib self presented verifier =
     (case self of
        Public \<Rightarrow> presented = None
      | ConfidentialSecret secret \<Rightarrow>
          (case presented of
             Some p \<Rightarrow> constant_time_eq lib (as_bytes secret) (as_bytes p)
           | None \<Rightarrow> False)
      | ConfidentialSecretHash h \<Rightarrow>
          (case presented of Some p \<Rightarrow> secret_verify lib h p verifier | None \<Rightarrow> False)
      | ConfidentialAssertion _ \<Rightarrow> False
      | Mtls _ \<Rightarrow> False)"

definition auth_verify :: "'z crates_scheme \<Rightarrow> client_auth \<Rightarrow> string option \<Rightarrow> bool" where
  "auth_verify lib self presented = verify_with lib self presented None"

record dynamic_registration =
  registration_access_token_hash :: secret_hash
  client_id_issued_at :: "nat option"
  client_secret_expires_at :: "nat option"
  token_endpoint_auth_method :: string

record client =
  cl_client_id :: client_id
  cl_auth :: client_auth
  cl_grant_types :: "grant_type list"
  cl_redirect_uris :: "string list"
  cl_allowed_scopes :: scope_set
  cl_default_scopes :: scope_set
  cl_name :: "string option"
  cl_registration :: "dynamic_registration option"

definition allows_grant :: "client \<Rightarrow> grant_type \<Rightarrow> bool" where
  "allows_grant c g \<longleftrightarrow> g \<in> set (cl_grant_types c)"

section \<open>Secret verification\<close>

lemma constant_time_eq_iff:
  "sha256_sized lib \<Longrightarrow> constant_time_eq lib a b \<longleftrightarrow> sha256 lib a = sha256 lib b"
  by (simp add: constant_time_eq_def xor_acc_zero sha256_sized_def)

text \<open>No two of the inputs the comparison is used on collide.\<close>

definition collision_free :: "'z crates_scheme \<Rightarrow> byte list set \<Rightarrow> bool" where
  "collision_free lib X \<longleftrightarrow> inj_on (sha256 lib) X"

text \<open>
  The secret a client presents is accepted exactly when it is the registered one: a stored
  plaintext by equality, a built-in hash by equality of the hash input, up to SHA-256 collisions on
  the strings at hand. A public client authenticates only by presenting no secret, a confidential
  client never without one, and a client registered for assertions or certificates never with one.
\<close>
theorem verify_with_correct:
  assumes "sha256_sized lib"
    and "collision_free lib {as_bytes secret, as_bytes p,
           as_bytes (hex_encode (sha256 lib (as_bytes secret))),
           as_bytes (hex_encode (sha256 lib (as_bytes p)))}"
  shows "(verify_with lib (ConfidentialSecret secret) (Some p) v \<longleftrightarrow> p = secret) \<and>
     (verify_with lib (ConfidentialSecretHash (secret_sha256 lib secret)) (Some p) v \<longleftrightarrow> p = secret) \<and>
     (verify_with lib Public presented v \<longleftrightarrow> presented = None) \<and>
     (is_confidential a \<longrightarrow> \<not> verify_with lib a None v) \<and>
     \<not> verify_with lib (ConfidentialAssertion ks) presented v \<and>
     \<not> verify_with lib (Mtls r) presented v"
proof -
  let ?h = "\<lambda>x. as_bytes (hex_encode (sha256 lib (as_bytes x)))"
  have inj: "sha256 lib x = sha256 lib y \<longleftrightarrow> x = y"
    if "x \<in> {as_bytes secret, as_bytes p, ?h secret, ?h p}"
      and "y \<in> {as_bytes secret, as_bytes p, ?h secret, ?h p}" for x y
    using assms(2) that unfolding collision_free_def by (rule inj_on_eq_iff)
  have "sha256 lib (?h p) = sha256 lib (?h secret) \<longleftrightarrow> p = secret"
    using inj [of "?h p" "?h secret"] inj [of "as_bytes p" "as_bytes secret"]
    by (simp add: hex_encode_inject)
  moreover have "sha256 lib (as_bytes secret) = sha256 lib (as_bytes p) \<longleftrightarrow> p = secret"
    using inj [of "as_bytes secret" "as_bytes p"] by auto
  ultimately show ?thesis
    using assms(1) by (simp add: verify_with_def secret_verify_def verify_builtin_def
        secret_sha256_def constant_time_eq_iff is_confidential_def split: client_auth.split)
qed

theorem verify_with_correct_witness:
  "verify_with sample_crates (ConfidentialSecret ''s3cret'') (Some ''s3cret'') None \<and>
   \<not> verify_with sample_crates (ConfidentialSecret ''s3cret'') (Some ''guess'') None"
proof -
  have inj: "collision_free sample_crates {as_bytes ''s3cret'', as_bytes p,
           as_bytes (hex_encode (sha256 sample_crates (as_bytes ''s3cret''))),
           as_bytes (hex_encode (sha256 sample_crates (as_bytes p)))}"
    if "p = ''s3cret'' \<or> p = ''guess''" for p
    using that unfolding collision_free_def inj_on_def by (elim disjE; hypsubst; code_simp)
  show ?thesis
    using verify_with_correct [OF sha256_sized_sample inj, of "''s3cret''"]
      verify_with_correct [OF sha256_sized_sample inj, of "''guess''"] by simp
qed

end
