(* ===== verification/Rar.thy ===== *)
theory Rar
  imports Encoding Errors
begin

text \<open>
  Rich authorization requests (\<^verbatim>\<open>rar.rs\<close>): the bounds on \<^verbatim>\<open>authorization_details\<close>, the supported
  type check, and the narrowing rule that a later request may only consume what was granted. The
  deserializer that serde derives for the element type is the parameter \<open>de\<close> of the parser.
\<close>

definition MAX_AUTHORIZATION_DETAILS_BYTES :: nat where
  "MAX_AUTHORIZATION_DETAILS_BYTES = 4096"
definition MAX_AUTHORIZATION_DETAILS_ELEMENTS :: nat where
  "MAX_AUTHORIZATION_DETAILS_ELEMENTS = 16"
definition MAX_DETAIL_LIST_ENTRIES :: nat where
  "MAX_DETAIL_LIST_ENTRIES = 16"
definition MAX_AUTHORIZATION_DETAILS_DEPTH :: nat where
  "MAX_AUTHORIZATION_DETAILS_DEPTH = 8"
definition MAX_MEMBER_DEPTH :: nat where
  "MAX_MEMBER_DEPTH = MAX_AUTHORIZATION_DETAILS_DEPTH - 2"

record authorization_detail =
  detail_type :: string
  ad_locations :: "string list"
  ad_actions :: "string list"
  ad_datatypes :: "string list"
  ad_identifier :: "string option"
  ad_privileges :: "string list"
  ad_other :: "(string \<times> json) list"

definition list_is_subset :: "string list \<Rightarrow> string list \<Rightarrow> bool" where
  "list_is_subset sub super = list_all (\<lambda>want. list_ex (\<lambda>g. g = want) super) sub"

definition is_narrowing_of :: "authorization_detail \<Rightarrow> authorization_detail \<Rightarrow> bool" where
  "is_narrowing_of self granted \<longleftrightarrow>
     detail_type self = detail_type granted \<and> ad_identifier self = ad_identifier granted \<and>
     list_is_subset (ad_locations self) (ad_locations granted) \<and>
     list_is_subset (ad_actions self) (ad_actions granted) \<and>
     list_is_subset (ad_datatypes self) (ad_datatypes granted) \<and>
     list_is_subset (ad_privileges self) (ad_privileges granted) \<and>
     ad_other self = ad_other granted"

type_synonym authorization_details = "authorization_detail list"

definition details_none :: authorization_details where "details_none = []"

function (sequential) json_depth :: "json \<Rightarrow> nat" where
  "json_depth (JArray items) = 1 + foldr max (map json_depth items) 0"
| "json_depth (JObject members) = 1 + foldr max (map (\<lambda>m. json_depth (snd m)) members) 0"
| "json_depth _ = 1"
  by pat_completeness auto

termination json_depth
proof (relation "measure size")
  show "(snd m, JObject members) \<in> measure size" if "m \<in> set members" for m members
    using size_list_estimation' [OF that, of "size (snd m)" "size_prod (\<lambda>_. 0) size"]
    by (cases m) auto
qed (auto simp: size_list_estimation' less_Suc_eq_le)

definition err_details :: "string \<Rightarrow> error_response" where
  "err_details d = fail_with InvalidAuthorizationDetails d"

lemma error_err_details [simp]: "error (err_details d) = InvalidAuthorizationDetails"
  by (simp add: err_details_def)

definition check_detail :: "authorization_detail \<Rightarrow> error_response + unit" where
  "check_detail detail =
     (if detail_type detail = [] then
        Err (err_details ''each authorization_details element needs a non-empty type (RFC 9396 s2)'')
      else if list_ex (\<lambda>l. MAX_DETAIL_LIST_ENTRIES < length l)
         [ad_locations detail, ad_actions detail, ad_datatypes detail, ad_privileges detail] then
        Err (err_details ''an authorization_details element lists more locations, actions, datatypes or privileges than this server accepts'')
      else if list_ex (\<lambda>m. MAX_MEMBER_DEPTH < json_depth (snd m)) (ad_other detail) then
        Err (err_details ''authorization_details is nested more deeply than this server accepts'')
      else Ok ())"

fun check_details :: "authorization_details \<Rightarrow> error_response + unit" where
  "check_details [] = Ok ()"
| "check_details (d # ds) = rbind (check_detail d) (\<lambda>_. check_details ds)"

definition details_parse ::
  "(string \<Rightarrow> authorization_detail list option) \<Rightarrow> string \<Rightarrow> error_response + authorization_details" where
  "details_parse de raw =
     (if MAX_AUTHORIZATION_DETAILS_BYTES < length raw then
        Err (err_details ''authorization_details is larger than this server accepts'')
      else rbind (ok_or (err_details ''authorization_details must be a JSON array of objects, each with a string type member (RFC 9396 s2)'') (de raw)) (\<lambda>details.
      if MAX_AUTHORIZATION_DETAILS_ELEMENTS < length details then
        Err (err_details ''authorization_details has more elements than this server accepts'')
      else rbind (check_details details) (\<lambda>_. Ok details)))"

fun require_types_loop :: "string list \<Rightarrow> authorization_details \<Rightarrow> error_response + unit" where
  "require_types_loop supported [] = Ok ()"
| "require_types_loop supported (d # ds) =
     (if \<not> list_ex (\<lambda>s. s = detail_type d) supported then
        Err (err_details ''unknown authorization_details type (RFC 9396 s5)'')
      else require_types_loop supported ds)"

definition require_supported_types ::
  "authorization_details \<Rightarrow> string list option \<Rightarrow> error_response + unit" where
  "require_supported_types ds supported =
     require_types_loop (case supported of None \<Rightarrow> [] | Some s \<Rightarrow> s) ds"

definition match_position ::
  "authorization_details \<Rightarrow> bool list \<Rightarrow> authorization_detail \<Rightarrow> nat option" where
  "match_position granted consumed want =
     List.find (\<lambda>i. \<not> consumed ! i \<and> is_narrowing_of want (granted ! i)) [0..<length granted]"

fun narrow_loop ::
  "authorization_details \<Rightarrow> bool list \<Rightarrow> authorization_details \<Rightarrow> error_response + unit" where
  "narrow_loop granted consumed [] = Ok ()"
| "narrow_loop granted consumed (want # wants) =
     (case match_position granted consumed want of
        Some i \<Rightarrow> narrow_loop granted (consumed[i := True]) wants
      | None \<Rightarrow> Err (err_details ''authorization_details was not granted by the authorization request (RFC 9396 s6)''))"

definition narrow_details ::
  "authorization_details \<Rightarrow> authorization_details \<Rightarrow> error_response + authorization_details" where
  "narrow_details self requested =
     (if requested = [] then Ok self
      else rbind (narrow_loop self (replicate (length self) False) requested) (\<lambda>_. Ok requested))"

section \<open>Bounds\<close>

definition detail_wf :: "authorization_detail \<Rightarrow> bool" where
  "detail_wf d \<longleftrightarrow> detail_type d \<noteq> [] \<and>
     (\<forall>l \<in> {ad_locations d, ad_actions d, ad_datatypes d, ad_privileges d}. length l \<le> MAX_DETAIL_LIST_ENTRIES) \<and>
     (\<forall>m \<in> set (ad_other d). json_depth (snd m) \<le> MAX_MEMBER_DEPTH)"

lemma check_detail_Ok: "check_detail d = Inr u \<longleftrightarrow> detail_wf d"
  by (force simp: check_detail_def detail_wf_def list_ex_iff not_less)

lemma check_detail_Err:
  assumes "check_detail d = Inl e"
  shows "error e = InvalidAuthorizationDetails \<and> \<not> detail_wf d"
proof -
  have "\<not> detail_wf d" using assms check_detail_Ok [of d "()"] by auto
  then show ?thesis using assms by (auto simp: check_detail_def split: if_splits)
qed

lemma check_details_Err:
  "check_details ds = Inl e \<Longrightarrow> error e = InvalidAuthorizationDetails \<and> \<not> list_all detail_wf ds"
  by (induction ds) (auto simp: rbind_eq_Inl dest: check_detail_Err)

lemma check_details_Ok: "check_details ds = Inr u \<longleftrightarrow> (\<forall>d \<in> set ds. detail_wf d)"
  by (induction ds) (simp_all add: check_detail_Ok)

text \<open>
  Parsing \<^verbatim>\<open>authorization_details\<close> accepts exactly the texts that deserialise, fit the byte and
  element limits, and whose elements all have a non-empty type, bounded lists and bounded nesting;
  every refusal is \<^verbatim>\<open>invalid_authorization_details\<close>.
\<close>
theorem details_parse_correct:
  "case details_parse de raw of
     Inr ds \<Rightarrow> length raw \<le> MAX_AUTHORIZATION_DETAILS_BYTES \<and> de raw = Some ds \<and>
       length ds \<le> MAX_AUTHORIZATION_DETAILS_ELEMENTS \<and> list_all detail_wf ds
   | Inl e \<Rightarrow> error e = InvalidAuthorizationDetails \<and>
       \<not> (\<exists>ds. length raw \<le> MAX_AUTHORIZATION_DETAILS_BYTES \<and> de raw = Some ds \<and>
          length ds \<le> MAX_AUTHORIZATION_DETAILS_ELEMENTS \<and> list_all detail_wf ds)"
proof (cases "details_parse de raw")
  case (Inl e)
  then show ?thesis
    by (cases "de raw")
      (auto simp: details_parse_def rbind_eq_Inl ok_or_def not_less dest: check_details_Err
        split: if_splits)
qed (auto simp: details_parse_def check_details_Ok list_all_iff split: if_splits)

section \<open>Narrowing never widens\<close>

lemma list_is_subset_iff [simp]: "list_is_subset xs ys \<longleftrightarrow> set xs \<subseteq> set ys"
  by (auto simp: list_is_subset_def list_all_iff list_ex_iff)

lemma is_narrowing_of_refl [simp]: "is_narrowing_of d d"
  by (simp add: is_narrowing_of_def)

lemma is_narrowing_of_trans:
  "is_narrowing_of a b \<Longrightarrow> is_narrowing_of b c \<Longrightarrow> is_narrowing_of a c"
  by (auto simp: is_narrowing_of_def)

lemma match_position_Some:
  "match_position granted consumed want = Some i \<Longrightarrow>
     i < length granted \<and> \<not> consumed ! i \<and> is_narrowing_of want (granted ! i)"
  by (auto simp: match_position_def find_Some_iff)

text \<open>An assignment of requested elements to distinct granted elements, none of them consumed.\<close>

definition consumes ::
  "authorization_details \<Rightarrow> bool list \<Rightarrow> authorization_details \<Rightarrow> nat list \<Rightarrow> bool" where
  "consumes granted consumed wants is \<longleftrightarrow>
     distinct is \<and> (\<forall>i \<in> set is. i < length granted \<and> \<not> consumed ! i) \<and>
     list_all2 (\<lambda>want i. is_narrowing_of want (granted ! i)) wants is"

lemma narrow_loop_consumes:
  "narrow_loop granted consumed wants = Inr u \<Longrightarrow> length consumed = length granted \<Longrightarrow>
     \<exists>is. consumes granted consumed wants is"
proof (induction granted consumed wants rule: narrow_loop.induct)
  case (1 granted consumed)
  then show ?case by (auto simp: consumes_def)
next
  case (2 granted consumed want wants)
  then obtain i where i: "match_position granted consumed want = Some i"
    by (auto split: option.splits)
  with 2 obtain "is" where "is": "consumes granted (consumed[i := True]) wants is" by auto
  have m: "i < length granted \<and> \<not> consumed ! i \<and> is_narrowing_of want (granted ! i)"
    using match_position_Some [OF i] .
  have "i \<notin> set is" and "\<forall>j \<in> set is. \<not> consumed ! j"
    using "is" m 2(3) by (auto simp: consumes_def nth_list_update split: if_splits)
  then have "consumes granted consumed (want # wants) (i # is)"
    using "is" m by (auto simp: consumes_def)
  then show ?case by blast
qed

text \<open>
  C24. A narrowing request never widens a grant: when it succeeds the answer is the whole grant (for
  an empty request) or the request itself, and then each requested element is a narrowing of its own
  distinct granted element, so no granted element is spent twice.
\<close>
theorem narrow_details_sound:
  assumes "narrow_details granted requested = Ok result"
  shows "(requested = [] \<and> result = granted) \<or>
     (result = requested \<and> (\<exists>is. distinct is \<and> (\<forall>i \<in> set is. i < length granted) \<and>
        list_all2 (\<lambda>want i. is_narrowing_of want (granted ! i)) requested is))"
  using assms narrow_loop_consumes [of granted "replicate (length granted) False" requested "()"]
  by (auto simp: narrow_details_def consumes_def split: if_splits)

definition sample_detail :: "string \<Rightarrow> authorization_detail" where
  "sample_detail t = \<lparr>detail_type = t, ad_locations = [''l'', ''m''], ad_actions = [], ad_datatypes = [],
     ad_identifier = None, ad_privileges = [], ad_other = []\<rparr>"

theorem narrow_details_sound_witness:
  "\<exists>is. distinct is \<and> (\<forall>i \<in> set is. i < length [sample_detail ''a'', sample_detail ''b'']) \<and>
     list_all2 (\<lambda>want i. is_narrowing_of want ([sample_detail ''a'', sample_detail ''b''] ! i))
       [(sample_detail ''b'')\<lparr>ad_locations := [''m'']\<rparr>] is"
proof -
  have "narrow_details [sample_detail ''a'', sample_detail ''b'']
        [(sample_detail ''b'')\<lparr>ad_locations := [''m'']\<rparr>] =
      Ok [(sample_detail ''b'')\<lparr>ad_locations := [''m'']\<rparr>]"
    by code_simp
  from narrow_details_sound [OF this] show ?thesis by simp
qed

lemma narrow_details_members:
  assumes "narrow_details granted requested = Inr result" and "d \<in> set result"
  shows "\<exists>g \<in> set granted. is_narrowing_of d g"
  using assms narrow_loop_consumes [of granted "replicate (length granted) False" requested "()"]
  by (auto simp: narrow_details_def consumes_def list_all2_conv_all_nth in_set_conv_nth
      split: if_splits) (metis is_narrowing_of_refl nth_mem)+

lemma require_supported_types_Ok:
  "require_supported_types ds s = Inr u \<longleftrightarrow>
     (\<forall>d \<in> set ds. detail_type d \<in> set (case s of None \<Rightarrow> [] | Some x \<Rightarrow> x))"
proof -
  have "require_types_loop xs ds = Inr u \<longleftrightarrow> (\<forall>d \<in> set ds. detail_type d \<in> set xs)" for xs
    by (induction ds) (auto simp: list_ex_iff)
  then show ?thesis by (simp add: require_supported_types_def)
qed

end
