(* ===== verification/Server_Util.thy ===== *)
theory Server_Util
  imports Errors Encoding
begin

text \<open>
  The free functions of \<^verbatim>\<open>server.rs\<close>: deadlines that saturate, the loopback redirect exception, the
  shape of a PKCE challenge, and the replay-cache key.
\<close>

section \<open>Deadlines\<close>

function deadline_loop :: "system_time \<Rightarrow> duration \<Rightarrow> system_time" where
  "deadline_loop out span =
     (if from_secs 1 < span
      then (case time_checked_add out (span div 2) of
              Some next \<Rightarrow> deadline_loop next (span div 2)
            | None \<Rightarrow> deadline_loop out (span div 2))
      else out)"
  by pat_completeness auto

termination deadline_loop
  by (relation "measure snd") auto

declare deadline_loop.simps [simp del]

definition saturating_deadline :: "system_time \<Rightarrow> duration \<Rightarrow> system_time" where
  "saturating_deadline base span =
     (case time_checked_add base span of Some exact \<Rightarrow> exact | None \<Rightarrow> deadline_loop base span)"

definition unix_seconds :: "system_time \<Rightarrow> nat option" where
  "unix_seconds t = (if unix_epoch \<le> t then Some (nat ((t - unix_epoch) div 1000000000)) else None)"

lemma deadline_loop_bounds:
  "out \<le> max_system_time \<Longrightarrow>
     out \<le> deadline_loop out span \<and> deadline_loop out span \<le> max_system_time \<and>
     deadline_loop out span \<le> out + int span"
proof (induction out span rule: deadline_loop.induct)
  case (1 out span)
  show ?case
  proof (cases "from_secs 1 < span \<and> out + int (span div 2) \<le> max_system_time")
    case True
    then have "deadline_loop out span = deadline_loop (out + int (span div 2)) (span div 2)"
      by (subst deadline_loop.simps) (simp add: time_checked_add_def)
    moreover have "2 * int (span div 2) \<le> int span" by simp
    ultimately show ?thesis using 1 True by fastforce
  next
    case False
    then have "deadline_loop out span = (if from_secs 1 < span then deadline_loop out (span div 2) else out)"
      by (subst deadline_loop.simps) (auto simp: time_checked_add_def)
    moreover have "int (span div 2) \<le> int span" by simp
    ultimately show ?thesis using 1 False by fastforce
  qed
qed

lemma deadline_loop_gap:
  "max_system_time - out < int span + int k \<Longrightarrow> span < 2 ^ n * (from_secs 1 + 1) \<Longrightarrow>
     max_system_time - deadline_loop out span < int (from_secs 1) + int k + int n"
proof (induction n arbitrary: out span k)
  case 0
  then show ?case by (subst deadline_loop.simps) auto
next
  case (Suc n)
  have half: "span div 2 < 2 ^ n * (from_secs 1 + 1)" using Suc.prems(2) by simp
  consider (stop) "\<not> from_secs 1 < span"
    | (take) "from_secs 1 < span" "out + int (span div 2) \<le> max_system_time"
    | (skip) "from_secs 1 < span" "max_system_time < out + int (span div 2)"
    by linarith
  then show ?case
  proof cases
    case stop
    then show ?thesis using Suc.prems(1) by (subst deadline_loop.simps) auto
  next
    case take
    have "int span \<le> 2 * int (span div 2) + 1" by linarith
    then have "max_system_time - (out + int (span div 2)) < int (span div 2) + int (Suc k)"
      using Suc.prems(1) by simp
    from Suc.IH [OF this half] show ?thesis
      using take by (subst deadline_loop.simps) (simp add: time_checked_add_def)
  next
    case skip
    then have "max_system_time - out < int (span div 2) + int k" by simp
    from Suc.IH [OF this half] show ?thesis
      using skip by (subst deadline_loop.simps) (simp add: time_checked_add_def)
  qed
qed

text \<open>
  A deadline never overflows, never lies before its base and never beyond the requested span; it
  is exact whenever the platform clock can represent it, and otherwise lands within one second and
  64 nanoseconds of the largest representable instant, for every span a \<^verbatim>\<open>Duration\<close> can hold.
\<close>
theorem saturating_deadline_correct:
  assumes "base \<le> max_system_time" and "span \<le> duration_max"
  shows "base \<le> saturating_deadline base span \<and>
     saturating_deadline base span \<le> base + int span \<and>
     saturating_deadline base span \<le> max_system_time \<and>
     (if base + int span \<le> max_system_time then saturating_deadline base span = base + int span
      else max_system_time - saturating_deadline base span < int (from_secs 1) + 64)"
proof (cases "base + int span \<le> max_system_time")
  case True
  then show ?thesis by (simp add: saturating_deadline_def time_checked_add_def)
next
  case False
  then have "saturating_deadline base span = deadline_loop base span"
    by (simp add: saturating_deadline_def time_checked_add_def)
  moreover have "span < 2 ^ 64 * (from_secs 1 + 1)"
    using assms(2) by (simp add: duration_max_def from_secs_def nanos_per_sec_def)
  ultimately show ?thesis
    using deadline_loop_bounds [OF assms(1), of span] deadline_loop_gap [of base span 0 64] False
    by simp
qed

theorem saturating_deadline_correct_witness:
  "saturating_deadline (max_system_time - 5) (from_secs 3) \<le> max_system_time \<and>
   max_system_time - saturating_deadline (max_system_time - 5) (from_secs 3) < int (from_secs 1) + 64"
proof -
  have "max_system_time - 5 \<le> max_system_time" "from_secs 3 \<le> duration_max"
    by (simp_all add: duration_max_def from_secs_def nanos_per_sec_def)
  from saturating_deadline_correct [OF this] show ?thesis
    by (simp add: from_secs_def nanos_per_sec_def)
qed

lemma saturating_deadline_ge: "base \<le> max_system_time \<Longrightarrow> base \<le> saturating_deadline base span"
  using deadline_loop_bounds [of base span]
  by (auto simp: saturating_deadline_def time_checked_add_def)

section \<open>Loopback redirects\<close>

definition parse_u16 :: "string \<Rightarrow> nat option" where
  "parse_u16 ds =
     (if ds = [] \<or> \<not> list_all is_ascii_digit ds then None
      else let n = foldl (\<lambda>acc d. acc * 10 + (of_ascii d - 48)) 0 ds
           in if n < 65536 then Some n else None)"

definition loopback_suffix :: "string \<Rightarrow> string \<Rightarrow> (string \<times> string) option" where
  "loopback_suffix host rest =
     (let digits = takeWhile is_ascii_digit rest;
          suffix = drop (length digits) rest
      in case parse_u16 digits of
           None \<Rightarrow> None
         | Some port \<Rightarrow>
             if port = 0 then None
             else if \<not> (suffix = [] \<or> starts_with ''/'' suffix \<or> starts_with ''?'' suffix)
                     \<or> CHR ''#'' \<in> set suffix then None
             else Some (host, suffix))"

definition loopback_parts :: "string \<Rightarrow> (string \<times> string) option" where
  "loopback_parts uri =
     (case strip_prefix ''http://127.0.0.1:'' uri of
        Some rest \<Rightarrow> loopback_suffix ''127.0.0.1'' rest
      | None \<Rightarrow>
          (case strip_prefix ''http://[::1]:'' uri of
             Some rest \<Rightarrow> loopback_suffix ''[::1]'' rest
           | None \<Rightarrow> None))"

definition loopback_redirect_matches :: "string \<Rightarrow> string \<Rightarrow> bool" where
  "loopback_redirect_matches registered requested =
     (case (loopback_parts registered, loopback_parts requested) of
        (Some a, Some b) \<Rightarrow> a = b
      | _ \<Rightarrow> False)"

lemma loopback_suffix_Some:
  "loopback_suffix host rest = Some (h, suffix) \<Longrightarrow>
     h = host \<and> CHR ''#'' \<notin> set suffix \<and>
     (\<exists>port. rest = port @ suffix \<and> port \<noteq> [] \<and> list_all is_ascii_digit port)"
proof -
  assume *: "loopback_suffix host rest = Some (h, suffix)"
  then have "h = host" "CHR ''#'' \<notin> set suffix" "suffix = dropWhile is_ascii_digit rest"
    and "parse_u16 (takeWhile is_ascii_digit rest) \<noteq> None"
    by (simp_all add: loopback_suffix_def Let_def flip: dropWhile_eq_drop split: option.splits if_splits)
  moreover have "rest = takeWhile is_ascii_digit rest @ dropWhile is_ascii_digit rest" by simp
  ultimately show ?thesis
    unfolding parse_u16_def by (metis (no_types, lifting))
qed

lemma loopback_parts_Some:
  "loopback_parts uri = Some (h, suffix) \<Longrightarrow>
     (h = ''127.0.0.1'' \<or> h = ''[::1]'') \<and> CHR ''#'' \<notin> set suffix \<and>
     (\<exists>port. uri = ''http://'' @ h @ '':'' @ port @ suffix \<and> port \<noteq> [] \<and> list_all is_ascii_digit port)"
  by (auto simp: loopback_parts_def strip_prefix_eq_Some split: option.splits
      dest!: loopback_suffix_Some)

text \<open>
  The loopback exception can only change the port: when a requested URI matches a registered one
  this way, both are plain HTTP to the same loopback IP literal, neither has a fragment, and they
  are equal but for the digits of the port.
\<close>
theorem loopback_redirect_sound:
  assumes "loopback_redirect_matches registered requested"
  shows "\<exists>h suffix p q. h \<in> {''127.0.0.1'', ''[::1]''} \<and>
     registered = ''http://'' @ h @ '':'' @ p @ suffix \<and> requested = ''http://'' @ h @ '':'' @ q @ suffix \<and>
     list_all is_ascii_digit p \<and> list_all is_ascii_digit q \<and> p \<noteq> [] \<and> q \<noteq> [] \<and> CHR ''#'' \<notin> set requested"
proof -
  obtain h suffix where "loopback_parts registered = Some (h, suffix)"
    and "loopback_parts requested = Some (h, suffix)"
    using assms by (auto simp: loopback_redirect_matches_def split: option.splits)
  from this [THEN loopback_parts_Some] obtain p q where
    hs: "h = ''127.0.0.1'' \<or> h = ''[::1]''" "CHR ''#'' \<notin> set suffix"
    and p: "registered = ''http://'' @ h @ '':'' @ p @ suffix" "p \<noteq> []" "list_all is_ascii_digit p"
    and q: "requested = ''http://'' @ h @ '':'' @ q @ suffix" "q \<noteq> []" "list_all is_ascii_digit q"
    by blast
  have "CHR ''#'' \<notin> set q"
    using q(3) by (auto simp: list_all_iff is_ascii_digit_def of_ascii_def)
  then have "CHR ''#'' \<notin> set requested" using q(1) hs by auto
  then show ?thesis using hs p q by blast
qed

theorem loopback_redirect_sound_witness:
  "\<exists>h suffix p q. h \<in> {''127.0.0.1'', ''[::1]''} \<and>
     ''http://127.0.0.1:80/cb'' = ''http://'' @ h @ '':'' @ p @ suffix \<and>
     ''http://127.0.0.1:49152/cb'' = ''http://'' @ h @ '':'' @ q @ suffix"
proof -
  have "loopback_redirect_matches ''http://127.0.0.1:80/cb'' ''http://127.0.0.1:49152/cb''" by code_simp
  from loopback_redirect_sound [OF this] show ?thesis by blast
qed

section \<open>Challenges\<close>

definition challenge_is_well_formed :: "string \<Rightarrow> bool" where
  "challenge_is_well_formed challenge \<longleftrightarrow>
     length challenge = 43 \<and> list_all (\<lambda>b. is_ascii_alphanumeric b \<or> b \<in> set ''-_'') challenge"

section \<open>Replay keys\<close>

definition digit_char :: "nat \<Rightarrow> char" where
  "digit_char d = char_of (48 + d)"

fun show_nat :: "nat \<Rightarrow> string" where
  "show_nat n = (if n < 10 then [digit_char n] else show_nat (n div 10) @ [digit_char (n mod 10)])"

declare show_nat.simps [simp del]

definition replay_key :: "string \<Rightarrow> string \<Rightarrow> string \<Rightarrow> string" where
  "replay_key kind owner jti = kind @ '':'' @ show_nat (length owner) @ '':'' @ owner @ jti"

lemma digit_char_value: "d < 10 \<Longrightarrow> of_ascii (digit_char d) = 48 + d"
  by (simp add: digit_char_def of_ascii_def)

lemma show_nat_digits: "c \<in> set (show_nat n) \<Longrightarrow> 48 \<le> of_ascii c \<and> of_ascii c \<le> 57"
proof (induction n rule: show_nat.induct)
  case (1 n)
  have "d < 10 \<Longrightarrow> 48 \<le> of_ascii (digit_char d) \<and> of_ascii (digit_char d) \<le> 57" for d
    by (simp add: digit_char_value)
  with 1 show ?case by (subst (asm) (2) show_nat.simps) (auto split: if_splits)
qed

lemma colon_not_in_show_nat [simp]: "CHR '':'' \<notin> set (show_nat n)"
  using show_nat_digits [of "CHR '':''" n] by (auto simp: of_ascii_def)

definition read_nat :: "string \<Rightarrow> nat" where
  "read_nat ds = foldl (\<lambda>acc d. acc * 10 + (of_ascii d - 48)) 0 ds"

lemma read_show_nat: "read_nat (show_nat n) = n"
proof (induction n rule: show_nat.induct)
  case (1 n)
  then show ?case by (subst show_nat.simps) (auto simp: read_nat_def digit_char_value)
qed

lemma show_nat_inject [simp]: "show_nat m = show_nat n \<longleftrightarrow> m = n"
  by (metis read_show_nat)

text \<open>
  Replay keys are injective: two clients can never spend each other's single-use slot, whatever
  characters their identifiers contain, because the owner is length-prefixed.
\<close>
theorem replay_key_inject:
  assumes "CHR '':'' \<notin> set k" and "CHR '':'' \<notin> set k'"
  shows "replay_key k owner jti = replay_key k' owner' jti' \<longleftrightarrow> k = k' \<and> owner = owner' \<and> jti = jti'"
proof
  assume eq: "replay_key k owner jti = replay_key k' owner' jti'"
  have "split_once CHR '':'' (replay_key x o1 j1) =
      Some (x, show_nat (length o1) @ '':'' @ o1 @ j1)" if "CHR '':'' \<notin> set x" for x o1 j1
    using that by (simp add: split_once_eq_Some replay_key_def)
  from this [OF assms(1), of owner jti] this [OF assms(2), of owner' jti', folded eq]
  have k: "k = k'" and r: "show_nat (length owner) @ '':'' @ owner @ jti =
      show_nat (length owner') @ '':'' @ owner' @ jti'" by simp_all
  have "split_once CHR '':'' (show_nat n @ '':'' @ z) = Some (show_nat n, z)" for n z
    by (simp add: split_once_eq_Some)
  from this [of "length owner" "owner @ jti"] this [of "length owner'" "owner' @ jti'", folded r]
  have "length owner = length owner'" "owner @ jti = owner' @ jti'" by simp_all
  then show "k = k' \<and> owner = owner' \<and> jti = jti'" using k by simp
qed simp

theorem replay_key_inject_witness:
  "replay_key ''ca'' ''urn'' ''client:foo:42'' \<noteq> replay_key ''ca'' ''urn:client:foo'' ''42''"
  by (subst replay_key_inject) simp_all

end
