(* ===== verification/Consent.thy ===== *)
theory Consent
  imports Scope Client Rar Server_Util
begin

text \<open>
  Consent records and step-up authentication (\<^verbatim>\<open>consent.rs\<close>): what a stored consent covers and how
  it widens, and when a reported user authentication meets what a request demanded.
\<close>

definition MAX_CONSENT_RESOURCES :: nat where "MAX_CONSENT_RESOURCES = 32"
definition MAX_ACR_VALUES :: nat where "MAX_ACR_VALUES = 16"

record authentication =
  auth_time :: system_time
  auth_acr :: "string option"

definition authentication_at :: "system_time \<Rightarrow> authentication" where
  "authentication_at t = \<lparr>auth_time = t, auth_acr = None\<rparr>"

definition with_acr :: "authentication \<Rightarrow> string \<Rightarrow> authentication" where
  "with_acr a acr = a\<lparr>auth_acr := Some acr\<rparr>"

definition auth_age :: "authentication \<Rightarrow> system_time \<Rightarrow> duration option" where
  "auth_age a now = (if auth_time a \<le> now then Some (nat (now - auth_time a)) else None)"

record consent_record =
  cons_consent_id :: string
  cons_client_id :: client_id
  cons_subject :: string
  cons_scope :: scope_set
  cons_resource :: "string list"
  cons_granted_at :: system_time
  cons_authentication :: "authentication option"

text \<open>\<^verbatim>\<open>RequestedDetails\<close>: present only when the request carries authorization details.\<close>

definition requested_details_of :: "authorization_details \<Rightarrow> authorization_details option" where
  "requested_details_of ds = (if ds = [] then None else Some ds)"

definition covers ::
  "consent_record \<Rightarrow> scope_set \<Rightarrow> string list \<Rightarrow> authorization_details option \<Rightarrow> bool" where
  "covers self scope resource details \<longleftrightarrow>
     is_subset scope (cons_scope self) \<and>
     list_all (\<lambda>r. r \<in> set (cons_resource self)) resource \<and> details = None"

fun extend_resources :: "string list \<Rightarrow> string list \<Rightarrow> string list" where
  "extend_resources have_now [] = have_now"
| "extend_resources have_now (r # rs) =
     (if MAX_CONSENT_RESOURCES \<le> length have_now then have_now
      else extend_resources (if r \<in> set have_now then have_now else have_now @ [r]) rs)"

definition consent_extend :: "consent_record \<Rightarrow> scope_set \<Rightarrow> string list \<Rightarrow> consent_record" where
  "consent_extend self scope resource =
     (let merged = map as_str (tokens (cons_scope self)) @ map as_str (tokens scope);
          widened =
            (if is_subset scope (cons_scope self) then self
             else case scope_from_tokens merged of
                    Inr w \<Rightarrow> self\<lparr>cons_scope := w\<rparr>
                  | Inl _ \<Rightarrow> self)
      in widened\<lparr>cons_resource := extend_resources (cons_resource self) resource\<rparr>)"

section \<open>Authentication requirements\<close>

record authentication_requirement =
  req_acr_values :: "string list"
  req_max_age :: "duration option"

definition requirement_none :: authentication_requirement where
  "requirement_none = \<lparr>req_acr_values = [], req_max_age = None\<rparr>"

text \<open>\<^verbatim>\<open>str::parse::<u64>\<close>: an optional plus sign, at least one digit, no overflow.\<close>

definition parse_u64 :: "string \<Rightarrow> nat option" where
  "parse_u64 s =
     (let ds = (case s of CHR ''+'' # rest \<Rightarrow> rest | _ \<Rightarrow> s)
      in if ds = [] \<or> \<not> list_all is_ascii_digit ds then None
         else if read_nat ds < 2 ^ 64 then Some (read_nat ds) else None)"

definition err_acr_values :: error_response where
  "err_acr_values = fail_with InvalidRequest
     ''acr_values names more authentication context classes than this server accepts''"

definition err_max_age :: error_response where
  "err_max_age = fail_with InvalidRequest ''max_age must be a non-negative number of seconds''"

definition requirement_from_raw ::
  "string option \<Rightarrow> string option \<Rightarrow> error_response + authentication_requirement" where
  "requirement_from_raw acr_values max_age =
     rbind (case acr_values of
              None \<Rightarrow> Ok []
            | Some raw \<Rightarrow>
                let values = filter (\<lambda>s. s \<noteq> []) (split_on CHR '' '' raw);
                    count = length (take (MAX_ACR_VALUES + 1) values)
                in if MAX_ACR_VALUES < count then Err err_acr_values else Ok values) (\<lambda>values.
     rbind (case max_age of
              None \<Rightarrow> Ok None
            | Some raw \<Rightarrow> rbind (ok_or err_max_age (parse_u64 raw)) (\<lambda>secs. Ok (Some (from_secs secs))))
       (\<lambda>age. Ok \<lparr>req_acr_values = values, req_max_age = age\<rparr>))"

definition requirement_from_pairs ::
  "(string \<times> string) list \<Rightarrow> error_response + authentication_requirement" where
  "requirement_from_pairs pairs =
     requirement_from_raw (map_of pairs ''acr_values'') (map_of pairs ''max_age'')"

definition requirement_is_empty :: "authentication_requirement \<Rightarrow> bool" where
  "requirement_is_empty r \<longleftrightarrow> req_acr_values r = [] \<and> req_max_age r = None"

datatype step_up_failure = NotReported | Stale | AcrNotMet

definition satisfied_by ::
  "authentication_requirement \<Rightarrow> authentication option \<Rightarrow> system_time \<Rightarrow> step_up_failure + unit" where
  "satisfied_by self auth now =
     (if requirement_is_empty self then Ok ()
      else case auth of
        None \<Rightarrow> Err NotReported
      | Some a \<Rightarrow>
          rbind (case req_max_age self of
                   None \<Rightarrow> Ok ()
                 | Some max_age \<Rightarrow>
                     ensure (\<not> max_age < (case auth_age a now of Some d \<Rightarrow> d | None \<Rightarrow> 0)) Stale) (\<lambda>_.
          if req_acr_values self \<noteq> [] then
            (case auth_acr a of
               Some acr \<Rightarrow> ensure (acr \<in> set (req_acr_values self)) AcrNotMet
             | None \<Rightarrow> Err AcrNotMet)
          else Ok ()))"

fun step_up_description :: "step_up_failure \<Rightarrow> string" where
  "step_up_description NotReported = ''no user authentication was reported for this request''"
| "step_up_description Stale = ''the user authentication is older than the requested max_age''"
| "step_up_description AcrNotMet =
     ''the user authentication does not satisfy the requested acr_values''"

definition step_up_error :: "step_up_failure \<Rightarrow> error_response" where
  "step_up_error f = fail_with InsufficientUserAuthentication (step_up_description f)"

section \<open>The step-up challenge header\<close>

definition push_quoted :: "string \<Rightarrow> string" where
  "push_quoted value =
     concat (map (\<lambda>c. if c = CHR 34 \<or> c = CHR 92 then [CHR 92, c]
                      else if of_ascii c = 9 \<or> (0x20 \<le> of_ascii c \<and> of_ascii c \<le> 0x7E) \<or> 0x80 \<le> of_ascii c
                      then [c] else []) value)"

definition is_tchar :: "char \<Rightarrow> bool" where
  "is_tchar c \<longleftrightarrow> is_ascii_alphanumeric c \<or> c \<in> set ''!#$%&'*+-.^_`|~''"

definition step_up_challenge :: "string \<Rightarrow> string list \<Rightarrow> duration option \<Rightarrow> string" where
  "step_up_challenge auth_scheme acr_values max_age =
     filter is_tchar auth_scheme @ '' error='' @ [CHR 34] @ ''insufficient_user_authentication'' @ [CHR 34] @
     '', error_description='' @ [CHR 34] @
     ''the user authentication does not meet the requirements of this resource'' @ [CHR 34] @
     (if acr_values = [] then []
      else '', acr_values='' @ [CHR 34] @ join_with '' '' (map push_quoted acr_values) @ [CHR 34]) @
     (case max_age of
        None \<Rightarrow> []
      | Some d \<Rightarrow> '', max_age='' @ [CHR 34] @ show_nat (d div nanos_per_sec) @ [CHR 34])"

section \<open>Consent only grows, and only to what was asked\<close>

definition consent_wf :: "consent_record \<Rightarrow> bool" where
  "consent_wf c \<longleftrightarrow> scope_set_wf (cons_scope c) \<and> length (cons_resource c) \<le> MAX_CONSENT_RESOURCES"

lemma extend_resources_bounds:
  "length have_now \<le> MAX_CONSENT_RESOURCES \<Longrightarrow>
     length (extend_resources have_now rs) \<le> MAX_CONSENT_RESOURCES \<and>
     set have_now \<subseteq> set (extend_resources have_now rs) \<and>
     set (extend_resources have_now rs) \<subseteq> set have_now \<union> set rs"
proof (induction have_now rs rule: extend_resources.induct)
  case (2 have_now r rs)
  then show ?case by (cases "MAX_CONSENT_RESOURCES \<le> length have_now"; cases "r \<in> set have_now") auto
qed simp

lemma extend_resources_covers:
  "length have_now + length rs \<le> MAX_CONSENT_RESOURCES \<Longrightarrow> set rs \<subseteq> set (extend_resources have_now rs)"
proof (induction have_now rs rule: extend_resources.induct)
  case (2 have_now r rs)
  have step: "set (if r \<in> set have_now then have_now else have_now @ [r]) \<subseteq>
      set (extend_resources (if r \<in> set have_now then have_now else have_now @ [r]) rs)"
    using 2 extend_resources_bounds [of "if r \<in> set have_now then have_now else have_now @ [r]" rs]
    by (auto split: if_splits)
  then show ?case using 2 by (auto split: if_splits)
qed simp

lemma merged_tokens_Ok:
  assumes "scope_set_wf a" and "scope_set_wf b"
  shows "\<exists>w. scope_from_tokens (map as_str (tokens a) @ map as_str (tokens b)) = Inr w \<and>
     scope_set_wf w \<and> scope_toks w = scope_toks a \<union> scope_toks b"
proof -
  have "list_all (\<lambda>w. scope_wf (Scope w)) (map as_str (tokens a) @ map as_str (tokens b))"
    using assms by (auto simp: scope_set_wf_def list_all_iff)
  then obtain w where w: "scope_from_tokens (map as_str (tokens a) @ map as_str (tokens b)) = Inr w"
    by (simp add: scope_from_tokens_Ok)
  then show ?thesis
    using scope_from_tokens_wf [OF w] scope_toks_from_tokens [OF w] by (auto simp: scope_toks_def)
qed

lemma consent_extend_scope:
  assumes "scope_set_wf (cons_scope c)" and "scope_set_wf scope"
  shows "scope_set_wf (cons_scope (consent_extend c scope rs)) \<and>
     scope_toks (cons_scope (consent_extend c scope rs)) = scope_toks (cons_scope c) \<union> scope_toks scope"
proof (cases "is_subset scope (cons_scope c)")
  case True
  then have "set (tokens scope) \<subseteq> set (tokens (cons_scope c))"
    using assms by (simp add: is_subset_iff_tokens)
  then show ?thesis using assms True by (auto simp: consent_extend_def Let_def scope_toks_def)
next
  case False
  obtain w where "scope_from_tokens (map as_str (tokens (cons_scope c)) @ map as_str (tokens scope)) = Inr w"
      "scope_set_wf w" "scope_toks w = scope_toks (cons_scope c) \<union> scope_toks scope"
    using merged_tokens_Ok [OF assms] by blast
  then show ?thesis using False by (simp add: consent_extend_def Let_def)
qed

text \<open>
  Extending a consent keeps the record well formed, keeps its identity, adds exactly the
  requested scope, never drops a resource and adds none that was not asked for; and unless the
  32-resource cap was hit, the extended record covers the request, so a person is not asked again.
\<close>
theorem consent_extend_correct:
  assumes "consent_wf c" and "scope_set_wf scope"
  shows "consent_wf (consent_extend c scope rs) \<and>
     cons_client_id (consent_extend c scope rs) = cons_client_id c \<and>
     cons_subject (consent_extend c scope rs) = cons_subject c \<and>
     cons_consent_id (consent_extend c scope rs) = cons_consent_id c \<and>
     scope_toks (cons_scope (consent_extend c scope rs)) = scope_toks (cons_scope c) \<union> scope_toks scope \<and>
     set (cons_resource c) \<subseteq> set (cons_resource (consent_extend c scope rs)) \<and>
     set (cons_resource (consent_extend c scope rs)) \<subseteq> set (cons_resource c) \<union> set rs \<and>
     (length (cons_resource c) + length rs \<le> MAX_CONSENT_RESOURCES \<longrightarrow>
        covers (consent_extend c scope rs) scope rs None)"
proof -
  let ?c = "consent_extend c scope rs"
  note sc = consent_extend_scope [OF _ assms(2), of c rs]
  have res: "cons_resource ?c = extend_resources (cons_resource c) rs"
    by (simp add: consent_extend_def Let_def)
  have ids: "cons_client_id ?c = cons_client_id c \<and> cons_subject ?c = cons_subject c \<and>
      cons_consent_id ?c = cons_consent_id c"
    by (simp add: consent_extend_def Let_def split: sum.split)
  have inj: "inj as_str" by (rule injI) (simp add: scope.expand)
  have "set (tokens scope) \<subseteq> set (tokens (cons_scope ?c))"
    using sc assms(1) inj_image_subset_iff [OF inj, of "set (tokens scope)" "set (tokens (cons_scope ?c))"]
    by (simp add: consent_wf_def scope_toks_def)
  then show ?thesis
    using assms ids sc extend_resources_bounds [of "cons_resource c" rs]
      extend_resources_covers [of "cons_resource c" rs]
    by (auto simp: consent_wf_def res covers_def list_all_iff is_subset_iff_tokens)
qed

definition sample_consent :: consent_record where
  "sample_consent = \<lparr>cons_consent_id = ''id'', cons_client_id = ClientId ''c'', cons_subject = ''u'',
     cons_scope = ScopeSet [Scope ''read''], cons_resource = [], cons_granted_at = 0,
     cons_authentication = None\<rparr>"

theorem consent_extend_correct_witness:
  "covers (consent_extend sample_consent (ScopeSet [Scope ''write'']) [''https://rs''])
     (ScopeSet [Scope ''write'']) [''https://rs''] None"
proof -
  have "consent_wf sample_consent" "scope_set_wf (ScopeSet [Scope ''write''])" by code_simp+
  from consent_extend_correct [OF this, of "[''https://rs'']"] show ?thesis
    by (simp add: MAX_CONSENT_RESOURCES_def sample_consent_def)
qed

text \<open>
  A step-up requirement is met exactly when it is empty, or an authentication was reported that
  is no older than the requested maximum age (one from the future counts as fresh) and whose class
  is among the requested ones.
\<close>
theorem satisfied_by_iff:
  "satisfied_by r auth now = Ok () \<longleftrightarrow>
     (req_acr_values r = [] \<and> req_max_age r = None) \<or>
     (\<exists>a. auth = Some a \<and>
        (case req_max_age r of None \<Rightarrow> True | Some m \<Rightarrow> now - auth_time a \<le> int m) \<and>
        (req_acr_values r = [] \<or> (\<exists>acr. auth_acr a = Some acr \<and> acr \<in> set (req_acr_values r))))"
  by (cases auth)
    (auto simp: satisfied_by_def requirement_is_empty_def auth_age_def not_less
      split: option.splits if_splits)

end
