(* ===== verification/Token.thy ===== *)
theory Token
  imports Consent
begin

text \<open>
  Tokens as issued and as stored (\<^verbatim>\<open>token.rs\<close>, with the actor claim of \<^verbatim>\<open>token_exchange.rs\<close>).
\<close>

datatype token_type = Bearer | Dpop

record token_response =
  resp_access_token :: string
  resp_token_type :: token_type
  resp_expires_in :: nat
  resp_refresh_token :: "string option"
  resp_scope :: "string option"
  resp_authorization_details :: authorization_details

record confirmation =
  cnf_jkt :: "string option"
  cnf_x5t_s256 :: "certificate_thumbprint option"

definition confirmation_jkt :: "string \<Rightarrow> confirmation" where
  "confirmation_jkt jkt = \<lparr>cnf_jkt = Some jkt, cnf_x5t_s256 = None\<rparr>"

definition confirmation_is_empty :: "confirmation \<Rightarrow> bool" where
  "confirmation_is_empty c = (if cnf_jkt c \<noteq> None then False else if cnf_x5t_s256 c \<noteq> None then False else True)"

definition confirmation_for_certificate :: "client_certificate \<Rightarrow> confirmation" where
  "confirmation_for_certificate cert = \<lparr>cnf_jkt = None, cnf_x5t_s256 = Some (cert_thumbprint cert)\<rparr>"

definition confirms_certificate :: "'z crates_scheme \<Rightarrow> confirmation \<Rightarrow> byte list \<Rightarrow> bool" where
  "confirms_certificate lib c der =
     (case cnf_x5t_s256 c of Some bound \<Rightarrow> bound = thumbprint_from_der lib der | None \<Rightarrow> False)"

datatype token_type_hint = HintAccessToken | HintRefreshToken

definition hint_from_str :: "string \<Rightarrow> unit + token_type_hint" where
  "hint_from_str s =
     (if s = ''access_token'' then Ok HintAccessToken
      else if s = ''refresh_token'' then Ok HintRefreshToken
      else Err ())"

datatype act_claim = ActClaim (act_sub: string) (act_client_id: "string option") (act_inner: "act_claim option")

record introspection_response =
  intro_active :: bool
  intro_scope :: "string option"
  intro_client_id :: "string option"
  intro_sub :: "string option"
  intro_token_type :: "token_type option"
  intro_exp :: "nat option"
  intro_iat :: "nat option"
  intro_iss :: "string option"
  intro_aud :: "string list option"
  intro_auth_time :: "nat option"
  intro_acr :: "string option"
  intro_authorization_details :: authorization_details
  intro_cnf :: "confirmation option"
  intro_act :: "act_claim option"

definition inactive :: introspection_response where
  "inactive = \<lparr>intro_active = False, intro_scope = None, intro_client_id = None, intro_sub = None,
     intro_token_type = None, intro_exp = None, intro_iat = None, intro_iss = None, intro_aud = None,
     intro_auth_time = None, intro_acr = None, intro_authorization_details = details_none,
     intro_cnf = None, intro_act = None\<rparr>"

record issued_token =
  tok_access_token :: string
  tok_client_id :: client_id
  tok_subject :: "string option"
  tok_scope :: scope_set
  tok_resource :: "string list"
  tok_authorization_details :: authorization_details
  tok_issued_at :: system_time
  tok_grant_established_at :: system_time
  tok_expires_at :: system_time
  tok_jkt :: "string option"
  tok_x5t_s256 :: "certificate_thumbprint option"
  tok_family_id :: "string option"
  tok_act :: "act_claim option"
  tok_authentication :: "authentication option"

definition issued_token_new ::
  "string \<Rightarrow> client_id \<Rightarrow> string option \<Rightarrow> scope_set \<Rightarrow> system_time \<Rightarrow> system_time \<Rightarrow> issued_token" where
  "issued_token_new access_token cid subject scope issued_at expires_at =
     \<lparr>tok_access_token = access_token, tok_client_id = cid, tok_subject = subject, tok_scope = scope,
      tok_resource = [], tok_authorization_details = details_none, tok_issued_at = issued_at,
      tok_grant_established_at = unix_epoch, tok_expires_at = expires_at, tok_jkt = None,
      tok_x5t_s256 = None, tok_family_id = None, tok_act = None, tok_authentication = None\<rparr>"

datatype refresh_token_state = Active | Spent

record refresh_token_retry =
  retry_response :: token_response
  retry_until :: system_time
  retry_jkt :: "string option"

record refresh_token_record =
  rt_refresh_token :: string
  rt_client_id :: client_id
  rt_subject :: "string option"
  rt_scope :: scope_set
  rt_resource :: "string list"
  rt_authorization_details :: authorization_details
  rt_grant_established_at :: system_time
  rt_expires_at :: "system_time option"
  rt_jkt :: "string option"
  rt_x5t_s256 :: "certificate_thumbprint option"
  rt_family_id :: string
  rt_state :: refresh_token_state
  rt_retry :: "refresh_token_retry option"
  rt_authentication :: "authentication option"

definition refresh_record_new ::
  "string \<Rightarrow> client_id \<Rightarrow> string option \<Rightarrow> scope_set \<Rightarrow> string \<Rightarrow> refresh_token_record" where
  "refresh_record_new refresh_token cid subject scope family_id =
     \<lparr>rt_refresh_token = refresh_token, rt_client_id = cid, rt_subject = subject, rt_scope = scope,
      rt_resource = [], rt_authorization_details = details_none,
      rt_grant_established_at = unix_epoch, rt_expires_at = None, rt_jkt = None,
      rt_x5t_s256 = None, rt_family_id = family_id, rt_state = Active, rt_retry = None,
      rt_authentication = None\<rparr>"

end
