(* ===== verification/Authorization.thy ===== *)
theory Authorization
  imports Token
begin

text \<open>
  The authorization endpoint's data (\<^verbatim>\<open>authorization.rs\<close>): requests as parsed from the query, the
  validated request, code records and their states, and the redirect URLs. The lemmas show that the
  URLs carry exactly the response parameters, percent-encoded so that no value can add one.
\<close>

datatype code_challenge_method = S256

record authorization_request =
  ar_response_type :: "string option"
  ar_client_id :: "string option"
  ar_redirect_uri :: "string option"
  ar_scope :: "string option"
  ar_state :: "string option"
  ar_code_challenge :: "string option"
  ar_code_challenge_method :: "string option"
  ar_resource :: "string list"
  ar_authorization_details :: "string option"
  ar_acr_values :: "string option"
  ar_max_age :: "string option"
  ar_dpop_jkt :: "string option"

definition request_default :: authorization_request where
  "request_default = \<lparr>ar_response_type = None, ar_client_id = None, ar_redirect_uri = None,
     ar_scope = None, ar_state = None, ar_code_challenge = None, ar_code_challenge_method = None,
     ar_resource = [], ar_authorization_details = None, ar_acr_values = None, ar_max_age = None,
     ar_dpop_jkt = None\<rparr>"

text \<open>The first value wins a single-valued parameter; \<^verbatim>\<open>resource\<close> accumulates.\<close>

definition first_wins :: "string \<Rightarrow> string option \<Rightarrow> string option" where
  "first_wins v cur = (case cur of None \<Rightarrow> Some v | Some old \<Rightarrow> Some old)"

definition request_pair :: "string \<times> string \<Rightarrow> authorization_request \<Rightarrow> authorization_request" where
  "request_pair kv req =
     (case kv of (k, v) \<Rightarrow>
        if k = ''resource'' then req\<lparr>ar_resource := ar_resource req @ [v]\<rparr>
        else if k = ''response_type'' then req\<lparr>ar_response_type := first_wins v (ar_response_type req)\<rparr>
        else if k = ''client_id'' then req\<lparr>ar_client_id := first_wins v (ar_client_id req)\<rparr>
        else if k = ''redirect_uri'' then req\<lparr>ar_redirect_uri := first_wins v (ar_redirect_uri req)\<rparr>
        else if k = ''scope'' then req\<lparr>ar_scope := first_wins v (ar_scope req)\<rparr>
        else if k = ''state'' then req\<lparr>ar_state := first_wins v (ar_state req)\<rparr>
        else if k = ''code_challenge'' then req\<lparr>ar_code_challenge := first_wins v (ar_code_challenge req)\<rparr>
        else if k = ''code_challenge_method'' then
          req\<lparr>ar_code_challenge_method := first_wins v (ar_code_challenge_method req)\<rparr>
        else if k = ''authorization_details'' then
          req\<lparr>ar_authorization_details := first_wins v (ar_authorization_details req)\<rparr>
        else if k = ''acr_values'' then req\<lparr>ar_acr_values := first_wins v (ar_acr_values req)\<rparr>
        else if k = ''max_age'' then req\<lparr>ar_max_age := first_wins v (ar_max_age req)\<rparr>
        else if k = ''dpop_jkt'' then req\<lparr>ar_dpop_jkt := first_wins v (ar_dpop_jkt req)\<rparr>
        else req)"

definition request_from_pairs :: "(string \<times> string) list \<Rightarrow> authorization_request" where
  "request_from_pairs pairs = fold request_pair pairs request_default"

definition requirement_from_request ::
  "authorization_request \<Rightarrow> error_response + authentication_requirement" where
  "requirement_from_request r = requirement_from_raw (ar_acr_values r) (ar_max_age r)"

definition is_ascii_alphabetic :: "char \<Rightarrow> bool" where
  "is_ascii_alphabetic c \<longleftrightarrow> is_ascii_uppercase c \<or> is_ascii_lowercase c"

definition is_valid_resource_indicator :: "string \<Rightarrow> bool" where
  "is_valid_resource_indicator value =
     (case split_once CHR '':'' value of
        None \<Rightarrow> False
      | Some (prefix, _) \<Rightarrow>
          prefix \<noteq> [] \<and> is_ascii_alphabetic (hd prefix) \<and>
          list_all (\<lambda>b. is_ascii_alphanumeric b \<or> b \<in> set ''+-.'') (tl prefix) \<and>
          list_all (\<lambda>b. b \<noteq> CHR ''#'' \<and> 0x21 \<le> of_ascii b \<and> of_ascii b \<le> 0x7E) value)"

record validated_request =
  val_client_id :: client_id
  val_redirect_uri :: string
  val_redirect_uri_was_explicit :: bool
  val_scope :: scope_set
  val_state :: "string option"
  val_code_challenge :: string
  val_code_challenge_method :: code_challenge_method
  val_issuer :: string
  val_resource :: "string list"
  val_authorization_details :: authorization_details
  val_requirement :: authentication_requirement
  val_dpop_jkt :: "string option"

definition validated_new ::
  "client_id \<Rightarrow> string \<Rightarrow> bool \<Rightarrow> scope_set \<Rightarrow> string option \<Rightarrow> string \<Rightarrow> code_challenge_method \<Rightarrow> string \<Rightarrow>
     string list \<Rightarrow> validated_request" where
  "validated_new cid uri explicit scope st challenge challenge_method issuer resource =
     \<lparr>val_client_id = cid, val_redirect_uri = uri, val_redirect_uri_was_explicit = explicit,
      val_scope = scope, val_state = st, val_code_challenge = challenge,
      val_code_challenge_method = challenge_method, val_issuer = issuer, val_resource = resource,
      val_authorization_details = details_none, val_requirement = requirement_none,
      val_dpop_jkt = None\<rparr>"

record error_redirect =
  er_redirect_uri :: string
  er_error :: error_response
  er_state :: "string option"
  er_iss :: string

definition denied :: "validated_request \<Rightarrow> error_redirect" where
  "denied v = \<lparr>er_redirect_uri = val_redirect_uri v, er_error = error_new AccessDenied,
     er_state = val_state v, er_iss = val_issuer v\<rparr>"

datatype authorization_error = Direct error_response | Redirect error_redirect

fun authorization_http_status :: "authorization_error \<Rightarrow> nat" where
  "authorization_http_status (Direct e) = (if error e = ServerError then 500 else 400)"
| "authorization_http_status (Redirect _) = 302"

datatype code_state =
    Issued
  | Consumed "string option" "string option"
  | Replayed "string option" "string option"

fun minted :: "code_state \<Rightarrow> (string option \<times> string option) option" where
  "minted Issued = None"
| "minted (Consumed a r) = Some (a, r)"
| "minted (Replayed a r) = Some (a, r)"

record code_record =
  code_code :: string
  code_client_id :: client_id
  code_redirect_uri :: string
  code_redirect_uri_was_explicit :: bool
  code_scope :: scope_set
  code_subject :: string
  code_code_challenge :: string
  code_code_challenge_method :: code_challenge_method
  code_resource :: "string list"
  code_authorization_details :: authorization_details
  code_issued_at :: system_time
  code_expires_at :: system_time
  code_state :: code_state
  code_authentication :: "authentication option"
  code_dpop_jkt :: "string option"

section \<open>Redirect URLs\<close>

definition query_separator :: "string \<Rightarrow> char" where
  "query_separator uri = (if CHR ''?'' \<in> set uri then CHR ''&'' else CHR ''?'')"

definition HEX_UPPER :: string where "HEX_UPPER = ''0123456789ABCDEF''"

definition unreserved :: "char \<Rightarrow> bool" where
  "unreserved b \<longleftrightarrow> is_ascii_alphanumeric b \<or> b \<in> set ''-._~''"

definition percent_byte :: "char \<Rightarrow> string" where
  "percent_byte b =
     (if unreserved b then [b]
      else [CHR ''%'', HEX_UPPER ! (of_ascii b div 16), HEX_UPPER ! (of_ascii b mod 16)])"

definition percent_encode :: "string \<Rightarrow> string" where
  "percent_encode value = concat (map percent_byte value)"

text \<open>\<^verbatim>\<open>append_param\<close> on the pair of the text so far and the next separator.\<close>

definition append_param :: "string \<Rightarrow> string \<Rightarrow> string \<times> char \<Rightarrow> string \<times> char" where
  "append_param name value os =
     (case os of (out, sep) \<Rightarrow> (out @ [sep] @ name @ ''='' @ percent_encode value, CHR ''&''))"

definition append_opt :: "string \<Rightarrow> string option \<Rightarrow> string \<times> char \<Rightarrow> string \<times> char" where
  "append_opt name value os = (case value of None \<Rightarrow> os | Some v \<Rightarrow> append_param name v os)"

record authorization_response =
  az_code :: string
  az_state :: "string option"
  az_iss :: string

definition response_location :: "authorization_response \<Rightarrow> string \<Rightarrow> string" where
  "response_location self redirect_uri =
     fst (append_param ''iss'' (az_iss self)
         (append_opt ''state'' (az_state self)
         (append_param ''code'' (az_code self) (redirect_uri, query_separator redirect_uri))))"

definition error_location :: "error_redirect \<Rightarrow> string" where
  "error_location self =
     fst (append_param ''iss'' (er_iss self)
         (append_opt ''state'' (er_state self)
         (append_opt ''error_uri'' (error_uri (er_error self))
         (append_opt ''error_description'' (error_description (er_error self))
         (append_param ''error'' (error_as_str (error (er_error self)))
           (er_redirect_uri self, query_separator (er_redirect_uri self)))))))"

section \<open>The URLs carry exactly the response\<close>

definition hex_upper_value :: "char \<Rightarrow> nat option" where
  "hex_upper_value c = List.find (\<lambda>i. HEX_UPPER ! i = c) [0..<16]"

fun percent_decode :: "string \<Rightarrow> string option" where
  "percent_decode [] = Some []"
| "percent_decode (c # s) =
     (if c = CHR ''%'' then
        (case s of
           h # l # s' \<Rightarrow>
             (case (hex_upper_value h, hex_upper_value l) of
                (Some i, Some j) \<Rightarrow> map_option (\<lambda>r. char_of (16 * i + j) # r) (percent_decode s')
              | _ \<Rightarrow> None)
         | _ \<Rightarrow> None)
      else map_option (\<lambda>r. c # r) (percent_decode s))"

lemma hex_upper_digit: "k < 16 \<Longrightarrow> hex_upper_value (HEX_UPPER ! k) = Some k"
proof -
  have "\<forall>k \<in> {0..<16}. hex_upper_value (HEX_UPPER ! k) = Some k" by code_simp
  then show "k < 16 \<Longrightarrow> hex_upper_value (HEX_UPPER ! k) = Some k" by simp
qed

lemma of_ascii_bound: "of_ascii c < 256"
  by (simp add: of_ascii_def)

lemma of_ascii_div_16: "of_ascii c div 16 < 16"
  using of_ascii_bound [of c] by simp

lemma percent_not_unreserved: "\<not> unreserved CHR ''%''"
  by code_simp

lemma percent_decode_encode: "percent_decode (percent_encode v) = Some v"
proof (induction v)
  case (Cons c v)
  have "char_of (16 * (of_ascii c div 16) + of_ascii c mod 16) = c"
    by (simp add: of_ascii_def del: of_char_mod_256)
  then show ?case
    using Cons percent_not_unreserved
    by (auto simp: percent_encode_def percent_byte_def hex_upper_digit of_ascii_div_16)
qed (simp add: percent_encode_def)

lemma percent_encode_safe: "c \<in> set (percent_encode v) \<Longrightarrow> unreserved c \<or> c = CHR ''%''"
proof -
  have "\<forall>k \<in> {0..<16}. unreserved (HEX_UPPER ! k)" by code_simp
  then have hex: "k < 16 \<Longrightarrow> unreserved (HEX_UPPER ! k)" for k by simp
  then show "c \<in> set (percent_encode v) \<Longrightarrow> unreserved c \<or> c = CHR ''%''"
    by (auto simp: percent_encode_def percent_byte_def of_ascii_div_16 split: if_splits)
qed

lemma percent_encode_no_delims:
  "CHR ''&'' \<notin> set (percent_encode v)" "CHR ''='' \<notin> set (percent_encode v)"
  "CHR ''#'' \<notin> set (percent_encode v)" "CHR ''?'' \<notin> set (percent_encode v)"
proof -
  have *: "\<not> unreserved CHR ''&''" "\<not> unreserved CHR ''=''" "\<not> unreserved CHR ''#''" "\<not> unreserved CHR ''?''"
    by code_simp+
  show "CHR ''&'' \<notin> set (percent_encode v)" "CHR ''='' \<notin> set (percent_encode v)"
    "CHR ''#'' \<notin> set (percent_encode v)" "CHR ''?'' \<notin> set (percent_encode v)"
    using percent_encode_safe [of _ v] * by blast+
qed

text \<open>How a client reads a query string: split on ampersands, then on the first equals sign.\<close>

definition read_pair :: "string \<Rightarrow> (string \<times> string) option" where
  "read_pair kv =
     (case split_once CHR ''='' kv of
        None \<Rightarrow> None
      | Some (k, v) \<Rightarrow> map_option (Pair k) (percent_decode v))"

definition read_query :: "string \<Rightarrow> (string \<times> string) option list" where
  "read_query q = map read_pair (split_on CHR ''&'' q)"

definition write_pair :: "string \<times> string \<Rightarrow> string" where
  "write_pair kv = fst kv @ ''='' @ percent_encode (snd kv)"

definition plain_name :: "string \<Rightarrow> bool" where
  "plain_name k \<longleftrightarrow> CHR ''&'' \<notin> set k \<and> CHR ''='' \<notin> set k"

lemma read_write_pair: "plain_name (fst kv) \<Longrightarrow> read_pair (write_pair kv) = Some kv"
proof -
  assume "plain_name (fst kv)"
  then have "split_once CHR ''='' (write_pair kv) = Some (fst kv, percent_encode (snd kv))"
    by (simp add: split_once_eq_Some write_pair_def plain_name_def)
  then show "read_pair (write_pair kv) = Some kv"
    by (simp add: read_pair_def percent_decode_encode)
qed

lemma read_query_written:
  assumes "kvs \<noteq> []" and "\<forall>kv \<in> set kvs. plain_name (fst kv)"
  shows "read_query (join_with ''&'' (map write_pair kvs)) = map Some kvs"
proof -
  have "\<forall>w \<in> set (map write_pair kvs). CHR ''&'' \<notin> set w"
    using assms(2) percent_encode_no_delims by (auto simp: write_pair_def plain_name_def)
  then have "split_on CHR ''&'' (join_with ''&'' (map write_pair kvs)) = map write_pair kvs"
    using assms(1) by (intro split_on_join) simp_all
  then show ?thesis using assms(2) by (simp add: read_query_def read_write_pair)
qed

text \<open>Appending parameters writes the joined pairs after one separator.\<close>

definition append_all :: "(string \<times> string) list \<Rightarrow> string \<times> char \<Rightarrow> string \<times> char" where
  "append_all kvs os = fold (\<lambda>(k, v). append_param k v) kvs os"

lemma append_all_amp:
  "append_all kvs (out, CHR ''&'') = (out @ concat (map (\<lambda>kv. ''&'' @ write_pair kv) kvs), CHR ''&'')"
  by (induction kvs arbitrary: out) (auto simp: append_all_def append_param_def write_pair_def)

lemma concat_amp_join:
  "concat (map (\<lambda>kv. ''&'' @ write_pair kv) (kv # kvs)) = ''&'' @ join_with ''&'' (map write_pair (kv # kvs))"
proof (induction kvs arbitrary: kv)
  case (Cons k kvs)
  then show ?case by (cases kvs) simp_all
qed simp

lemma append_all_join:
  assumes "kvs \<noteq> []"
  shows "fst (append_all kvs (out, sep)) = out @ [sep] @ join_with ''&'' (map write_pair kvs)"
proof -
  obtain kv rest where kvs: "kvs = kv # rest" using assms by (cases kvs) auto
  have "append_all kvs (out, sep) = append_all rest (out @ [sep] @ write_pair kv, CHR ''&'')"
    by (cases kv) (simp add: kvs append_all_def append_param_def write_pair_def)
  then have *: "fst (append_all kvs (out, sep)) =
      out @ [sep] @ write_pair kv @ concat (map (\<lambda>kv. ''&'' @ write_pair kv) rest)"
    by (simp add: append_all_amp)
  show ?thesis
  proof (cases rest)
    case (Cons k ks)
    then show ?thesis using * concat_amp_join [of k ks] by (simp add: kvs)
  qed (use * in \<open>simp add: kvs\<close>)
qed

definition response_pairs :: "authorization_response \<Rightarrow> (string \<times> string) list" where
  "response_pairs r =
     [(''code'', az_code r)] @ (case az_state r of None \<Rightarrow> [] | Some s \<Rightarrow> [(''state'', s)]) @ [(''iss'', az_iss r)]"

definition error_pairs :: "error_redirect \<Rightarrow> (string \<times> string) list" where
  "error_pairs r =
     [(''error'', error_as_str (error (er_error r)))] @
     (case error_description (er_error r) of None \<Rightarrow> [] | Some d \<Rightarrow> [(''error_description'', d)]) @
     (case error_uri (er_error r) of None \<Rightarrow> [] | Some u \<Rightarrow> [(''error_uri'', u)]) @
     (case er_state r of None \<Rightarrow> [] | Some s \<Rightarrow> [(''state'', s)]) @ [(''iss'', er_iss r)]"

lemma response_location_append:
  "response_location r uri = fst (append_all (response_pairs r) (uri, query_separator uri))"
  by (simp add: response_location_def response_pairs_def append_all_def append_opt_def split: option.split)

lemma error_location_append:
  "error_location r = fst (append_all (error_pairs r) (er_redirect_uri r, query_separator (er_redirect_uri r)))"
  by (simp add: error_location_def error_pairs_def append_all_def append_opt_def split: option.split)

lemma response_pairs_plain: "\<forall>kv \<in> set (response_pairs r). plain_name (fst kv)"
  by (auto simp: response_pairs_def plain_name_def split: option.splits)

lemma error_pairs_plain: "\<forall>kv \<in> set (error_pairs r). plain_name (fst kv)"
  by (auto simp: error_pairs_def plain_name_def split: option.splits)

text \<open>
  C28. Redirect URLs are exact: after the redirect URI and one separator, both the success and the
  error URL read back as precisely their parameters, in order and always with \<^verbatim>\<open>iss\<close> last
  (RFC 9207), so no code, state, description or issuer value can smuggle in another parameter.
\<close>
theorem locations_read_back:
  "(\<exists>q. response_location r uri = uri @ [query_separator uri] @ q \<and>
      read_query q = map Some (response_pairs r)) \<and>
   (\<exists>q. error_location e = er_redirect_uri e @ [query_separator (er_redirect_uri e)] @ q \<and>
      read_query q = map Some (error_pairs e))"
proof -
  have ne: "response_pairs r \<noteq> []" "error_pairs e \<noteq> []"
    by (simp_all add: response_pairs_def error_pairs_def)
  show ?thesis
    using ne read_query_written [OF ne(1) response_pairs_plain] read_query_written [OF ne(2) error_pairs_plain]
    by (auto simp: response_location_append error_location_append append_all_join)
qed

lemma fold_first_wins:
  assumes "\<And>k v req. get (request_pair (k, v) req) = (if k = name then first_wins v (get req) else get req)"
  shows "get (fold request_pair ps req) = (case get req of None \<Rightarrow> map_of ps name | Some v \<Rightarrow> Some v)"
proof (induction ps arbitrary: req)
  case (Cons p ps)
  then show ?case by (cases p) (auto simp: assms first_wins_def split: option.splits)
qed (simp split: option.split)

lemma request_pair_fields:
  "ar_client_id (request_pair (k, v) req) =
     (if k = ''client_id'' then first_wins v (ar_client_id req) else ar_client_id req)"
  "ar_redirect_uri (request_pair (k, v) req) =
     (if k = ''redirect_uri'' then first_wins v (ar_redirect_uri req) else ar_redirect_uri req)"
  "ar_scope (request_pair (k, v) req) =
     (if k = ''scope'' then first_wins v (ar_scope req) else ar_scope req)"
  "ar_state (request_pair (k, v) req) =
     (if k = ''state'' then first_wins v (ar_state req) else ar_state req)"
  "ar_code_challenge (request_pair (k, v) req) =
     (if k = ''code_challenge'' then first_wins v (ar_code_challenge req) else ar_code_challenge req)"
  "ar_resource (request_pair (k, v) req) =
     ar_resource req @ (if k = ''resource'' then [v] else [])"
  by (simp_all add: request_pair_def)

lemma fold_resource:
  "ar_resource (fold request_pair ps req) =
     ar_resource req @ map snd (filter (\<lambda>kv. fst kv = ''resource'') ps)"
proof (induction ps arbitrary: req)
  case (Cons p ps)
  then show ?case by (cases p) (simp add: request_pair_fields)
qed simp

text \<open>
  Duplicate query parameters cannot override: every single-valued parameter of an authorization
  request is the first occurrence in the query, and \<^verbatim>\<open>resource\<close> keeps all of its values in order.
\<close>
theorem request_from_pairs_first:
  "ar_client_id (request_from_pairs ps) = map_of ps ''client_id'' \<and>
   ar_redirect_uri (request_from_pairs ps) = map_of ps ''redirect_uri'' \<and>
   ar_scope (request_from_pairs ps) = map_of ps ''scope'' \<and>
   ar_state (request_from_pairs ps) = map_of ps ''state'' \<and>
   ar_code_challenge (request_from_pairs ps) = map_of ps ''code_challenge'' \<and>
   ar_resource (request_from_pairs ps) = map snd (filter (\<lambda>kv. fst kv = ''resource'') ps)"
  by (simp add: request_from_pairs_def request_pair_fields fold_first_wins fold_resource
      request_default_def)

end
