(* ===== verification/Jwt.thy ===== *)
theory Jwt
  imports Token Jose
begin

text \<open>
  JWT access tokens (\<^verbatim>\<open>jwt.rs\<close>): the claims and their JSON form, the signing configuration with its
  published keys, and the signing input. The private half of a signer lives with the host; a
  configuration is known by the public key it publishes.
\<close>

datatype audience = One string | Many "string list"

fun names_a_resource_server :: "audience \<Rightarrow> bool" where
  "names_a_resource_server (One a) = (a \<noteq> [])"
| "names_a_resource_server (Many as) = (as \<noteq> [] \<and> list_all (\<lambda>a. a \<noteq> []) as)"

record access_token_claims =
  cm_iss :: string
  cm_exp :: nat
  cm_aud :: audience
  cm_sub :: string
  cm_client_id :: string
  cm_iat :: nat
  cm_jti :: string
  cm_scope :: "string option"
  cm_authorization_details :: authorization_details
  cm_auth_time :: "nat option"
  cm_acr :: "string option"
  cm_cnf :: "confirmation option"
  cm_act :: "act_claim option"

section \<open>The JSON the derived serializers write\<close>

definition json_nat :: "nat \<Rightarrow> json" where
  "json_nat n = JNumber (PosInt (of_nat n))"

fun audience_json :: "audience \<Rightarrow> json" where
  "audience_json (One a) = JString a"
| "audience_json (Many as) = JArray (map JString as)"

definition opt_member :: "string \<Rightarrow> ('a \<Rightarrow> json) \<Rightarrow> 'a option \<Rightarrow> (string \<times> json) list" where
  "opt_member name f x = (case x of None \<Rightarrow> [] | Some v \<Rightarrow> [(name, f v)])"

definition list_member :: "string \<Rightarrow> string list \<Rightarrow> (string \<times> json) list" where
  "list_member name xs = (if xs = [] then [] else [(name, JArray (map JString xs))])"

definition detail_json :: "authorization_detail \<Rightarrow> json" where
  "detail_json d = JObject
     ([(''type'', JString (detail_type d))] @ list_member ''locations'' (ad_locations d) @
      list_member ''actions'' (ad_actions d) @ list_member ''datatypes'' (ad_datatypes d) @
      opt_member ''identifier'' JString (ad_identifier d) @
      list_member ''privileges'' (ad_privileges d) @ ad_other d)"

definition confirmation_json :: "'z crates_scheme \<Rightarrow> confirmation \<Rightarrow> json" where
  "confirmation_json lib c = JObject
     (opt_member ''jkt'' JString (cnf_jkt c) @
      opt_member ''x5t#S256'' (\<lambda>t. JString (to_base64url lib t)) (cnf_x5t_s256 c))"

fun act_json :: "act_claim \<Rightarrow> json" where
  "act_json (ActClaim sub cid None) =
     JObject ([(''sub'', JString sub)] @ opt_member ''client_id'' JString cid)"
| "act_json (ActClaim sub cid (Some a)) =
     JObject ([(''sub'', JString sub)] @ opt_member ''client_id'' JString cid @ [(''act'', act_json a)])"

definition claims_json :: "'z crates_scheme \<Rightarrow> access_token_claims \<Rightarrow> json" where
  "claims_json lib c = JObject
     ([(''iss'', JString (cm_iss c)), (''exp'', json_nat (cm_exp c)), (''aud'', audience_json (cm_aud c)),
       (''sub'', JString (cm_sub c)), (''client_id'', JString (cm_client_id c)),
       (''iat'', json_nat (cm_iat c)), (''jti'', JString (cm_jti c))] @
      opt_member ''scope'' JString (cm_scope c) @
      (if cm_authorization_details c = [] then []
       else [(''authorization_details'', JArray (map detail_json (cm_authorization_details c)))]) @
      opt_member ''auth_time'' json_nat (cm_auth_time c) @ opt_member ''acr'' JString (cm_acr c) @
      opt_member ''cnf'' (confirmation_json lib) (cm_cnf c) @ opt_member ''act'' act_json (cm_act c))"

section \<open>Signing configuration\<close>

record jwt_config =
  jwt_alg :: jws_alg
  jwt_active :: jwk
  jwt_retired :: "jwk list"
  jwt_audience :: audience
  jwt_jwks_uri :: "string option"
  jwt_encoded_header :: string

datatype jwt_error = JwtError string

datatype access_token_format = Opaque | FormatJwt jwt_config

definition escape_byte :: "char \<Rightarrow> string" where
  "escape_byte c =
     (if c = CHR 34 then [CHR 92, CHR 34]
      else if c = CHR 92 then [CHR 92, CHR 92]
      else if of_ascii c = 10 then [CHR 92, CHR ''n'']
      else if of_ascii c = 13 then [CHR 92, CHR ''r'']
      else if of_ascii c = 9 then [CHR 92, CHR ''t'']
      else if of_ascii c = 8 then [CHR 92, CHR ''b'']
      else if of_ascii c = 12 then [CHR 92, CHR ''f'']
      else if of_ascii c < 0x20 then
        [CHR 92, CHR ''u'', CHR ''0'', CHR ''0'', HEX_DIGITS ! (of_ascii c div 16), HEX_DIGITS ! (of_ascii c mod 16)]
      else [c])"

definition encoded_jose_header :: "'z crates_scheme \<Rightarrow> jws_alg \<Rightarrow> string \<Rightarrow> string" where
  "encoded_jose_header lib alg kid =
     b64url_encode lib (as_bytes
       (''{\"alg\":\"'' @ jose_name alg @ ''\",\"typ\":\"at+jwt\",\"kid\":\"'' @ concat (map escape_byte kid) @ ''\"}''))"

definition kid_or_default :: "jwk \<Rightarrow> string" where
  "kid_or_default k = (case jwk_kid k of Some kid \<Rightarrow> kid | None \<Rightarrow> [])"

definition jwt_config_new :: "'z crates_scheme \<Rightarrow> jws_alg \<Rightarrow> jwk \<Rightarrow> string \<Rightarrow> jwt_config" where
  "jwt_config_new lib alg active aud =
     \<lparr>jwt_alg = alg, jwt_active = active, jwt_retired = [], jwt_audience = One aud,
      jwt_jwks_uri = None, jwt_encoded_header = encoded_jose_header lib alg (kid_or_default active)\<rparr>"

definition rotate_to :: "'z crates_scheme \<Rightarrow> jwt_config \<Rightarrow> jws_alg \<Rightarrow> jwk \<Rightarrow> jwt_config" where
  "rotate_to lib self new_alg new_jwk =
     (let retiring = jwt_active self;
          active_kid = jwk_kid new_jwk;
          kept = filter (\<lambda>k. jwk_kid k \<noteq> jwk_kid retiring \<and> jwk_kid k \<noteq> active_kid) (jwt_retired self)
      in self\<lparr>jwt_alg := new_alg, jwt_active := new_jwk,
              jwt_encoded_header := encoded_jose_header lib new_alg (kid_or_default new_jwk),
              jwt_retired := (if jwk_kid retiring \<noteq> active_kid then retiring # kept else kept)\<rparr>)"

definition forget_retired_key :: "jwt_config \<Rightarrow> string \<Rightarrow> jwt_config" where
  "forget_retired_key self kid = self\<lparr>jwt_retired := filter (\<lambda>k. jwk_kid k \<noteq> Some kid) (jwt_retired self)\<rparr>"

definition err_audience :: jwt_error where
  "err_audience = JwtError ''aud must name at least one resource server, and no member may be empty''"

definition with_audiences :: "jwt_config \<Rightarrow> string list \<Rightarrow> jwt_error + jwt_config" where
  "with_audiences self auds =
     (if \<not> names_a_resource_server (Many auds) then Err err_audience
      else Ok (self\<lparr>jwt_audience := Many auds\<rparr>))"

definition jwks :: "jwt_config \<Rightarrow> jwk list" where
  "jwks self = jwt_active self # jwt_retired self"

definition jwt_signing_input ::
  "'z crates_scheme \<Rightarrow> jwt_config \<Rightarrow> access_token_claims \<Rightarrow> jwt_error + string" where
  "jwt_signing_input lib self claims =
     (if \<not> names_a_resource_server (cm_aud claims) then Err err_audience
      else Ok (jwt_encoded_header self @ ''.'' @ b64url_encode lib (json_to_vec lib (claims_json lib claims))))"

definition jwt_unix_seconds :: "system_time \<Rightarrow> jwt_error + nat" where
  "jwt_unix_seconds t = ok_or (JwtError ''clock is before the Unix epoch'') (unix_seconds t)"

section \<open>Rotation keeps every key that still verifies tokens\<close>

definition kids_distinct :: "jwt_config \<Rightarrow> bool" where
  "kids_distinct c \<longleftrightarrow> distinct (map jwk_kid (jwks c))"

text \<open>
  Key rotation: the new key becomes the active one, its kid heads the published set, every key
  published before stays published unless the new key took its kid, and no kid is ever published
  twice, so a resource server resolving a kid never picks the wrong key.
\<close>
theorem rotate_to_correct:
  assumes "kids_distinct c"
  shows "kids_distinct (rotate_to lib c alg k) \<and> hd (jwks (rotate_to lib c alg k)) = k \<and>
     jwt_encoded_header (rotate_to lib c alg k) = encoded_jose_header lib alg (kid_or_default k) \<and>
     set (jwks (rotate_to lib c alg k)) = insert k {j \<in> set (jwks c). jwk_kid j \<noteq> jwk_kid k}"
proof -
  have "distinct (map jwk_kid (filter P xs))" if "distinct (map jwk_kid xs)" for P xs
    using that by (induction xs) auto
  moreover have "distinct (map jwk_kid (jwt_retired c))"
    and "\<And>x. x \<in> set (jwt_retired c) \<Longrightarrow> jwk_kid x \<noteq> jwk_kid (jwt_active c)"
    using assms unfolding kids_distinct_def jwks_def by (simp_all, metis image_eqI)
  ultimately show ?thesis
    by (auto simp: kids_distinct_def jwks_def rotate_to_def Let_def)
qed

definition sample_jwk :: "string \<Rightarrow> jwk" where
  "sample_jwk kid = JwkRsa ''n'' ''e'' (Some kid)"

theorem rotate_to_correct_witness:
  "set (jwks (rotate_to sample_crates (jwt_config_new sample_crates Es256 (sample_jwk ''a'') ''rs'')
      Rs256 (sample_jwk ''b''))) = {sample_jwk ''b'', sample_jwk ''a''}"
proof -
  let ?c = "jwt_config_new sample_crates Es256 (sample_jwk ''a'') ''rs''"
  have js: "jwks ?c = [sample_jwk ''a'']" by (simp add: jwks_def jwt_config_new_def)
  then have "kids_distinct ?c" by (simp add: kids_distinct_def)
  note rotate_to_correct [OF this, THEN conjunct2, THEN conjunct2, THEN conjunct2, of sample_crates Rs256
      "sample_jwk ''b''"]
  also have "{j \<in> set (jwks ?c). jwk_kid j \<noteq> jwk_kid (sample_jwk ''b'')} = {sample_jwk ''a''}"
    unfolding js by (auto simp: sample_jwk_def)
  finally show ?thesis .
qed

end
