(* ===== verification/Float64.thy ===== *)
theory Float64
  imports Encoding
begin

text \<open>
  The double-precision numbers the request object checks compute with (RFC 7519 NumericDate as
  \<^verbatim>\<open>f64\<close>). A finite double is the rational it denotes; conversions and arithmetic round to 53
  significant bits, ties to even. The values met here (seconds of the clock, durations, numbers of a
  JSON text) are far from the exponent limits.
\<close>

fun bit_length :: "nat \<Rightarrow> nat" where
  "bit_length n = (if n = 0 then 0 else Suc (bit_length (n div 2)))"

declare bit_length.simps [simp del]

definition two_to :: "int \<Rightarrow> rat" where
  "two_to e = (if 0 \<le> e then 2 ^ nat e else 1 / 2 ^ nat (- e))"

text \<open>The exponent of the leading bit of a positive rational.\<close>

definition binade :: "rat \<Rightarrow> int" where
  "binade x =
     (case quotient_of x of (p, q) \<Rightarrow>
        let e = int (bit_length (nat p)) - int (bit_length (nat q))
        in if x < two_to e then e - 1 else e)"

definition round_half_even :: "rat \<Rightarrow> int" where
  "round_half_even y =
     (let f = \<lfloor>y\<rfloor>; d = y - of_int f
      in if d < 1 / 2 then f else if 1 / 2 < d then f + 1 else if even f then f else f + 1)"

definition f64_round :: "rat \<Rightarrow> rat" where
  "f64_round x =
     (if x = 0 then 0
      else let ulp = two_to (binade \<bar>x\<bar> - 52) in of_int (round_half_even (x / ulp)) * ulp)"

definition f64_of_nat :: "nat \<Rightarrow> rat" where
  "f64_of_nat n = f64_round (of_nat n)"

definition f64_add :: "rat \<Rightarrow> rat \<Rightarrow> rat" where
  "f64_add x y = f64_round (x + y)"

definition f64_sub :: "rat \<Rightarrow> rat \<Rightarrow> rat" where
  "f64_sub x y = f64_round (x - y)"

text \<open>\<^verbatim>\<open>Value::as_f64\<close>: \<open>float\<close> is the double the JSON parser read a fractional number as.\<close>

fun json_as_f64 :: "(string \<Rightarrow> rat) \<Rightarrow> json \<Rightarrow> rat option" where
  "json_as_f64 float (JNumber (PosInt n)) = Some (f64_of_nat (unat n))"
| "json_as_f64 float (JNumber (NegInt i)) = Some (f64_round (of_int i))"
| "json_as_f64 float (JNumber (Float t)) = Some (float t)"
| "json_as_f64 float _ = None"

section \<open>Exactness\<close>

text \<open>Integers below 2 to the 53 are doubles, so seconds of any plausible clock are exact.\<close>

lemma round_half_even_int [simp]: "round_half_even (of_int i) = i"
  by (simp add: round_half_even_def Let_def)

lemma bit_length_bounds: "0 < n \<Longrightarrow> 2 ^ (bit_length n - 1) \<le> n \<and> n < 2 ^ bit_length n"
proof (induction n rule: bit_length.induct)
  case (1 n)
  show ?case
  proof (cases "n div 2 = 0")
    case True
    then have "n = 1" using 1 by simp
    then show ?thesis by (simp add: bit_length.simps)
  next
    case False
    have l: "bit_length n = Suc (bit_length (n div 2))" using 1 by (simp add: bit_length.simps)
    have "bit_length (n div 2) \<noteq> 0" using False by (simp add: bit_length.simps)
    then have p: "2 ^ bit_length (n div 2) = (2::nat) * 2 ^ (bit_length (n div 2) - 1)"
      by (metis power_eq_if)
    have "2 ^ (bit_length (n div 2) - 1) \<le> n div 2" "n div 2 < 2 ^ bit_length (n div 2)"
      using 1 False by auto
    then have "2 * 2 ^ (bit_length (n div 2) - 1) \<le> n" "n < 2 * 2 ^ bit_length (n div 2)"
      by linarith+
    then show ?thesis unfolding l using p by simp
  qed
qed

lemma binade_nat:
  assumes "0 < n"
  shows "binade (of_nat n) = int (bit_length n) - 1"
proof -
  have q: "quotient_of (of_nat n) = (int n, 1)" using quotient_of_int [of "int n"] by simp
  have l: "bit_length (Suc 0) = 1" by (simp add: bit_length.simps)
  have b: "bit_length n \<noteq> 0" using assms by (simp add: bit_length.simps)
  have t: "(of_nat n :: rat) < two_to (int (bit_length n) - 1) \<longleftrightarrow> n < 2 ^ (bit_length n - 1)"
  proof -
    have "two_to (int (bit_length n) - 1) = of_nat (2 ^ (bit_length n - 1))"
      using b by (simp add: two_to_def nat_diff_distrib')
    then show ?thesis by (metis of_nat_less_iff)
  qed
  show ?thesis using bit_length_bounds [OF assms] by (simp add: binade_def q l t Let_def)
qed

lemma f64_of_nat_exact:
  assumes "n < 2 ^ 53"
  shows "f64_of_nat n = of_nat n"
proof (cases "n = 0")
  case False
  let ?b = "bit_length n"
  have n: "0 < n" using False by simp
  have "(2::nat) ^ (?b - 1) < 2 ^ 53"
    using bit_length_bounds [OF n] assms by (meson le_less_trans)
  then have b: "?b - 1 < 53" by (rule power_less_imp_less_exp [rotated]) simp
  have nz: "?b \<noteq> 0" using n by (simp add: bit_length.simps)
  let ?k = "53 - ?b"
  have ulp: "two_to (binade (of_nat n) - 52) = 1 / 2 ^ ?k"
    using b nz by (auto simp: binade_nat n two_to_def nat_diff_distrib' of_nat_diff)
  have "of_nat n / (1 / 2 ^ ?k) = (of_int (int n * 2 ^ ?k) :: rat)" by simp
  then have "round_half_even (of_nat n / (1 / 2 ^ ?k)) = int n * 2 ^ ?k"
    by (metis round_half_even_int)
  then show ?thesis using False by (simp add: f64_of_nat_def f64_round_def ulp Let_def)
qed (simp add: f64_of_nat_def f64_round_def)

end
