(* ===== verification/Request_Object.thy ===== *)
theory Request_Object
  imports Authorization Jwt Float64
begin

text \<open>
  Signed request objects (\<^verbatim>\<open>par.rs\<close>, RFC 9101): the key a client registered for them, and the checks
  on a compact JWS up to and after the reading of the clock. The double a JSON number is read as is a
  parameter, like the rest of the JSON parser.
\<close>

definition REQUEST_OBJECT_TYP :: string where
  "REQUEST_OBJECT_TYP = ''oauth-authz-req+jwt''"

definition MAX_REQUEST_OBJECT_BYTES :: nat where
  "MAX_REQUEST_OBJECT_BYTES = 64 * 1024"

section \<open>Registered keys\<close>

record request_object_key =
  rok_alg :: jws_alg
  rok_kid :: "string option"
  rok_key :: jwk

datatype request_object_key_error = RequestObjectKeyError string

definition public_jwk :: "'z crates_scheme \<Rightarrow> byte list \<Rightarrow> byte list \<Rightarrow> request_object_key_error + jwk" where
  "public_jwk lib x y =
     (if length x \<noteq> 32 \<or> length y \<noteq> 32
      then Err (RequestObjectKeyError ''a P-256 coordinate is exactly 32 bytes'')
      else case from_coordinates lib (b64url_encode lib x) (b64url_encode lib y) of
        Inl _ \<Rightarrow> Err (RequestObjectKeyError ''a P-256 coordinate is exactly 32 bytes'')
      | Inr k \<Rightarrow> Ok k)"

definition es256_from_jwk_coordinates ::
  "'z crates_scheme \<Rightarrow> string option \<Rightarrow> string \<Rightarrow> string \<Rightarrow> request_object_key_error + request_object_key" where
  "es256_from_jwk_coordinates lib kid x y =
     rbind (ok_or (RequestObjectKeyError ''x is not base64url'') (b64url_decode lib x)) (\<lambda>x.
     rbind (ok_or (RequestObjectKeyError ''y is not base64url'') (b64url_decode lib y)) (\<lambda>y.
     rbind (public_jwk lib x y) (\<lambda>key.
     Ok \<lparr>rok_alg = Es256, rok_kid = kid, rok_key = key\<rparr>)))"

definition es256_from_sec1 ::
  "'z crates_scheme \<Rightarrow> string option \<Rightarrow> byte list \<Rightarrow> request_object_key_error + request_object_key" where
  "es256_from_sec1 lib kid sec1 =
     (if length sec1 \<noteq> 65
      then Err (RequestObjectKeyError ''an uncompressed P-256 point is exactly 65 bytes'')
      else if sec1 ! 0 \<noteq> 0x04
      then Err (RequestObjectKeyError ''an uncompressed P-256 point begins with 0x04'')
      else rbind (public_jwk lib (take 32 (drop 1 sec1)) (drop 33 sec1)) (\<lambda>key.
        Ok \<lparr>rok_alg = Es256, rok_kid = kid, rok_key = key\<rparr>))"

definition rok_from_jwk :: "jws_alg \<Rightarrow> jwk \<Rightarrow> request_object_key_error + request_object_key" where
  "rok_from_jwk alg key =
     (if \<not> alg_consistent alg key
      then Err (RequestObjectKeyError ''the registered key kind does not match the registered algorithm'')
      else Ok \<lparr>rok_alg = alg, rok_kid = jwk_kid key, rok_key = key\<rparr>)"

section \<open>Claims\<close>

definition object_error :: "string \<Rightarrow> error_response" where
  "object_error why = fail_with InvalidRequestObject why"

definition decode_segment :: "'z crates_scheme \<Rightarrow> string \<Rightarrow> string \<Rightarrow> error_response + byte list" where
  "decode_segment lib segment refusal = ok_or (object_error refusal) (b64url_decode lib segment)"

definition string_claim :: "(string \<times> json) list \<Rightarrow> string \<Rightarrow> error_response + string option" where
  "string_claim claims name =
     (case map_of claims name of
        None \<Rightarrow> Ok None
      | Some (JString s) \<Rightarrow> Ok (Some s)
      | Some _ \<Rightarrow> Err (object_error (''the '' @ name @ '' claim must be a JSON string'')))"

definition crit_absent :: "json \<Rightarrow> error_response + unit" where
  "crit_absent hdr =
     (case json_get ''crit'' hdr of
        None \<Rightarrow> Ok ()
      | Some (JArray names) \<Rightarrow>
          Err (object_error (if names = []
            then ''the header has an empty crit, which RFC 7515 s4.1.11 forbids''
            else ''the header's crit names an extension this server does not implement''))
      | Some _ \<Rightarrow> Err (object_error ''the header's crit is not an array''))"

definition header_names_key :: "request_object_key \<Rightarrow> json \<Rightarrow> error_response + unit" where
  "header_names_key registered hdr =
     rbind (ok_or (object_error ''the header has no alg'')
       (Option.bind (json_get ''alg'' hdr) json_as_str)) (\<lambda>alg.
     rbind (ensure (classify_alg alg = Some (rok_alg registered))
       (object_error ''alg does not match the algorithm registered for this client'')) (\<lambda>_.
     rbind (case Option.bind (json_get ''kid'' hdr) json_as_str of
              None \<Rightarrow> Ok ()
            | Some presented \<Rightarrow>
                ensure (rok_kid registered = Some presented)
                  (object_error ''kid does not identify a key registered for this client'')) (\<lambda>_.
     case Option.bind (json_get ''typ'' hdr) json_as_str of
       None \<Rightarrow> Ok ()
     | Some typ \<Rightarrow>
         ensure (typ = REQUEST_OBJECT_TYP \<or> typ = ''JWT'' \<or> typ = ''jwt'')
           (object_error ''typ names a JWT that is not a request object''))))"

definition aud_addresses :: "string \<Rightarrow> (string \<times> json) list \<Rightarrow> bool" where
  "aud_addresses issuer claims =
     (case map_of claims ''aud'' of
        None \<Rightarrow> True
      | Some (JString one) \<Rightarrow> one = issuer
      | Some (JArray many) \<Rightarrow> list_ex (\<lambda>v. json_as_str v = Some issuer) many
      | Some _ \<Rightarrow> False)"

text \<open>
  Everything before the clock is read: the JWS is taken apart, its header checked against the
  registered key, its signature verified, and its claims checked for whom they concern.
\<close>

definition authentic_claims ::
  "'z crates_scheme \<Rightarrow> request_object_key \<Rightarrow> jws_verifier \<Rightarrow> string \<Rightarrow> string \<Rightarrow> string \<Rightarrow>
     error_response + (string \<times> json) list" where
  "authentic_claims lib registered verifier issuer client_id request_object =
     (case split_on CHR ''.'' request_object of
        [header_b64, payload_b64, signature_b64] \<Rightarrow>
          rbind (decode_segment lib header_b64 ''the header is not base64url'') (\<lambda>header_bytes.
          rbind (ok_or (object_error ''the header is not JSON'') (json_from_slice lib header_bytes)) (\<lambda>hdr.
          rbind (crit_absent hdr) (\<lambda>_.
          rbind (header_names_key registered hdr) (\<lambda>_.
          rbind (decode_segment lib signature_b64 ''the signature is not base64url'') (\<lambda>sig.
          rbind (ensure (ver_verify verifier (rok_key registered)
              (as_bytes (take (length header_b64 + 1 + length payload_b64) request_object)) sig)
            (object_error ''the signature did not verify'')) (\<lambda>_.
          rbind (decode_segment lib payload_b64 ''the payload is not base64url'') (\<lambda>payload_bytes.
          rbind (ok_or (object_error ''the payload is not JSON'') (json_from_slice lib payload_bytes)) (\<lambda>body.
          rbind (ok_or (object_error ''the payload is not a JSON object'') (json_as_object body)) (\<lambda>claims.
          rbind (ensure (\<not> list_ex (\<lambda>f. map_of claims f \<noteq> None) [''request'', ''request_uri''])
            (object_error ''a request object must not carry request or request_uri (RFC 9101 s4)'')) (\<lambda>_.
          rbind (string_claim claims ''client_id'') (\<lambda>claimed.
          rbind (ensure (claimed = Some client_id)
            (object_error ''the client_id claim does not match the request's client_id (RFC 9101 s6.3)'')) (\<lambda>_.
          rbind (ensure (aud_addresses issuer claims)
            (object_error ''aud does not name this authorization server'')) (\<lambda>_.
          Ok claims)))))))))))))
      | _ \<Rightarrow> Err (object_error ''not a three part JWS compact serialization''))"

section \<open>Times and the request\<close>

definition numeric_date ::
  "(string \<Rightarrow> rat) \<Rightarrow> (string \<times> json) list \<Rightarrow> string \<Rightarrow> error_response + rat option" where
  "numeric_date float claims name =
     (case map_of claims name of
        None \<Rightarrow> Ok None
      | Some v \<Rightarrow>
          (case json_as_f64 float v of
             Some d \<Rightarrow> Ok (Some d)
           | None \<Rightarrow> Err (object_error
               (''the request object's '' @ name @ '' is not a NumericDate (RFC 7519 s2)''))))"

definition object_times ::
  "(string \<Rightarrow> rat) \<Rightarrow> duration \<Rightarrow> system_time \<Rightarrow> (string \<times> json) list \<Rightarrow> error_response + unit" where
  "object_times float max_lifetime n claims =
     rbind (ok_or (fail_with ServerError ''the server clock is outside the representable range'')
       (unix_seconds n)) (\<lambda>secs.
     let now_secs = f64_of_nat secs in
     rbind (numeric_date float claims ''exp'') (\<lambda>exp.
     rbind (ok_or (object_error (''the request object has no exp, so it would authorize its request for as long as '' @
       ''the client's key stays registered'')) exp) (\<lambda>exp.
     rbind (ensure (\<not> exp \<le> now_secs) (object_error ''the request object has expired'')) (\<lambda>_.
     rbind (ensure (\<not> f64_of_nat (max_lifetime div nanos_per_sec) < f64_sub exp now_secs)
       (object_error ''the request object's remaining lifetime exceeds what this server accepts'')) (\<lambda>_.
     rbind (numeric_date float claims ''nbf'') (\<lambda>nbf.
     case nbf of
       None \<Rightarrow> Ok ()
     | Some nbf \<Rightarrow>
         ensure (\<not> f64_add now_secs (f64_of_nat (CLOCK_SKEW_LEEWAY div nanos_per_sec)) \<le> nbf)
           (object_error ''the request object is not yet valid'')))))))"

definition resource_claim :: "(string \<times> json) list \<Rightarrow> error_response + string list" where
  "resource_claim claims =
     (case map_of claims ''resource'' of
        None \<Rightarrow> Ok []
      | Some (JString one) \<Rightarrow> Ok [one]
      | Some (JArray many) \<Rightarrow>
          rmap_list (\<lambda>v. ok_or (object_error ''every resource claim entry must be a JSON string'') (json_as_str v)) many
      | Some _ \<Rightarrow> Err (object_error ''the resource claim must be a string or an array of strings''))"

definition details_claim :: "'z crates_scheme \<Rightarrow> (string \<times> json) list \<Rightarrow> error_response + string option" where
  "details_claim lib claims =
     (case map_of claims ''authorization_details'' of
        None \<Rightarrow> Ok None
      | Some (JArray xs) \<Rightarrow> Ok (Some (map (\<lambda>b. char_of (unat b)) (json_to_vec lib (JArray xs))))
      | Some _ \<Rightarrow> Err (object_error ''the authorization_details claim must be a JSON array''))"

definition max_age_claim :: "(string \<times> json) list \<Rightarrow> error_response + string option" where
  "max_age_claim claims =
     (case map_of claims ''max_age'' of
        None \<Rightarrow> Ok None
      | Some (JString s) \<Rightarrow> Ok (Some s)
      | Some (JNumber num) \<Rightarrow>
          (case json_as_u64 (JNumber num) of
             Some secs \<Rightarrow> Ok (Some (show_nat secs))
           | None \<Rightarrow> Err (object_error ''the max_age claim must be a non-negative number of seconds''))
      | Some _ \<Rightarrow> Err (object_error ''the max_age claim must be a JSON string or number''))"

text \<open>The claims as the authorization request they state; outer parameters play no part.\<close>

definition claims_request ::
  "'z crates_scheme \<Rightarrow> string \<Rightarrow> (string \<times> json) list \<Rightarrow> error_response + authorization_request" where
  "claims_request lib client_id claims =
     rbind (resource_claim claims) (\<lambda>resource.
     rbind (string_claim claims ''response_type'') (\<lambda>response_type.
     rbind (string_claim claims ''redirect_uri'') (\<lambda>redirect_uri.
     rbind (string_claim claims ''scope'') (\<lambda>scope.
     rbind (string_claim claims ''state'') (\<lambda>st.
     rbind (string_claim claims ''code_challenge'') (\<lambda>code_challenge.
     rbind (string_claim claims ''code_challenge_method'') (\<lambda>code_challenge_method.
     rbind (details_claim lib claims) (\<lambda>authorization_details.
     rbind (string_claim claims ''acr_values'') (\<lambda>acr_values.
     rbind (max_age_claim claims) (\<lambda>max_age.
     rbind (string_claim claims ''dpop_jkt'') (\<lambda>dpop_jkt.
     Ok \<lparr>ar_response_type = response_type, ar_client_id = Some client_id, ar_redirect_uri = redirect_uri,
         ar_scope = scope, ar_state = st, ar_code_challenge = code_challenge,
         ar_code_challenge_method = code_challenge_method, ar_resource = resource,
         ar_authorization_details = authorization_details, ar_acr_values = acr_values, ar_max_age = max_age,
         ar_dpop_jkt = dpop_jkt\<rparr>)))))))))))"

end
