(* ===== verification/Dpop.thy ===== *)
theory Dpop
  imports Jose
begin

text \<open>
  RFC 9449 DPoP proofs (\<^verbatim>\<open>dpop.rs\<close>): the URI comparison and the verification of one proof. The
  replay cache the server claims the proof's identifier in is part of the store.
\<close>

definition MAX_PROOF_AGE :: duration where "MAX_PROOF_AGE = from_secs 300"
definition MAX_PROOF_BYTES :: nat where "MAX_PROOF_BYTES = 4096"
definition MAX_JTI_BYTES :: nat where "MAX_JTI_BYTES = 128"
definition DPOP_PROOF_TYP :: string where "DPOP_PROOF_TYP = ''dpop+jwt''"

datatype dpop_failure =
    DfMalformed | DfNotAProof | DfUnsupportedAlgorithm | DfBadProofKey | DfBadSignature
  | DfWrongMethod | DfWrongUri | DfStaleProof | DfMissingJti | DfReplayed | DfNotAcceptedHere

record verified_proof =
  vp_jkt :: string
  vp_jti :: string
  vp_replay_until :: system_time

definition htu_of :: "string \<Rightarrow> string" where
  "htu_of url = takeWhile (\<lambda>c. c \<noteq> CHR ''?'' \<and> c \<noteq> CHR ''#'') url"

text \<open>The text up to and including the first \<^verbatim>\<open>://\<close>, and what follows it.\<close>

fun split_scheme :: "string \<Rightarrow> (string \<times> string) option" where
  "split_scheme [] = None"
| "split_scheme (c # cs) =
     (if starts_with ''://'' (c # cs) then Some (''://'', drop 2 cs)
      else map_option (\<lambda>(a, b). (c # a, b)) (split_scheme cs))"

definition split_origin :: "string \<Rightarrow> string \<times> string" where
  "split_origin u =
     (case split_scheme u of
        Some (scheme, rest) \<Rightarrow>
          (case split_once CHR ''/'' rest of
             Some (authority, path) \<Rightarrow> (scheme @ authority, ''/'' @ path)
           | None \<Rightarrow> (u, []))
      | None \<Rightarrow> ([], u))"

definition htu_eq :: "string \<Rightarrow> string \<Rightarrow> bool" where
  "htu_eq claimed expected =
     (case (split_origin (htu_of claimed), split_origin (htu_of expected)) of
        ((co, cp), (eo, ep)) \<Rightarrow> eq_ignore_ascii_case co eo \<and> cp = ep)"

definition proof_times :: "compact_jws \<Rightarrow> system_time \<Rightarrow> dpop_failure + system_time" where
  "proof_times j now =
     rbind (ok_or DfStaleProof (claim_time j ''iat'')) (\<lambda>iat.
     rbind (ok_or DfStaleProof (time_checked_add unix_epoch (from_secs iat))) (\<lambda>issued_at.
     rbind (ok_or DfStaleProof (time_checked_add issued_at MAX_PROOF_AGE)) (\<lambda>replay_until.
     rbind (ok_or DfStaleProof (time_checked_add now CLOCK_SKEW_LEEWAY)) (\<lambda>horizon.
     if horizon < issued_at \<or> replay_until \<le> now then Err DfStaleProof
     else Ok replay_until))))"

definition proof_key ::
  "'z crates_scheme \<Rightarrow> jws_verifiers \<Rightarrow> compact_jws \<Rightarrow> dpop_failure + jwk" where
  "proof_key lib verifiers j =
     (case expect_alg j AnyInstalled verifiers of
        Inl _ \<Rightarrow> Err DfUnsupportedAlgorithm
      | Inr alg \<Rightarrow>
          (case map_of (header j) ''jwk'' of
             None \<Rightarrow> Err DfBadProofKey
           | Some jk \<Rightarrow>
               (case jwk_from_json lib jk of
                  Inl _ \<Rightarrow> Err DfBadProofKey
                | Inr key \<Rightarrow>
                    if \<not> alg_consistent alg key then Err DfBadProofKey
                    else (case get_verifier verifiers alg of
                            None \<Rightarrow> Err DfUnsupportedAlgorithm
                          | Some v \<Rightarrow>
                              if ver_verify v key (as_bytes (signing_input j)) (signature j)
                              then Ok key else Err DfBadSignature))))"

definition verify_proof ::
  "'z crates_scheme \<Rightarrow> jws_verifiers \<Rightarrow> string \<Rightarrow> string \<Rightarrow> string \<Rightarrow> system_time \<Rightarrow>
     dpop_failure + verified_proof" where
  "verify_proof lib verifiers prf htm htu now =
     (if MAX_PROOF_BYTES < length prf then Err DfMalformed
      else case jws_parse lib prf of
        Inl _ \<Rightarrow> Err DfMalformed
      | Inr j \<Rightarrow>
          rbind (case reject_unknown_crit j of Inl _ \<Rightarrow> Err DfMalformed | Inr _ \<Rightarrow> Ok ()) (\<lambda>_.
          rbind (ensure (header_str j ''typ'' = Some DPOP_PROOF_TYP) DfNotAProof) (\<lambda>_.
          rbind (proof_key lib verifiers j) (\<lambda>key.
          rbind (ensure (claim_str j ''htm'' = Some htm) DfWrongMethod) (\<lambda>_.
          rbind (ensure (case claim_str j ''htu'' of Some claimed \<Rightarrow> htu_eq claimed htu | None \<Rightarrow> False)
                   DfWrongUri) (\<lambda>_.
          rbind (proof_times j now) (\<lambda>replay_until.
          let jti = (case claim_str j ''jti'' of Some t \<Rightarrow> t | None \<Rightarrow> []) in
          if jti = [] then Err DfMissingJti
          else if MAX_JTI_BYTES < length jti then Err DfMalformed
          else Ok \<lparr>vp_jkt = jwk_thumbprint lib key, vp_jti = jti, vp_replay_until = replay_until\<rparr>)))))))"

section \<open>What an accepted proof guarantees\<close>

lemma proof_times_Ok:
  "proof_times j now = Inr u \<Longrightarrow>
     now < u \<and> u \<le> now + int CLOCK_SKEW_LEEWAY + int MAX_PROOF_AGE \<and>
     (\<exists>iat. claim_time j ''iat'' = Some iat \<and> u = unix_epoch + int (from_secs iat) + int MAX_PROOF_AGE)"
  by (auto simp: proof_times_def split: if_splits)

lemma proof_key_Ok:
  "proof_key lib vs j = Inr key \<Longrightarrow>
     \<exists>alg v. header_str j ''alg'' = Some (jose_name alg) \<and> get_verifier vs alg = Some v \<and>
       alg_consistent alg key \<and> ver_verify v key (as_bytes (signing_input j)) (signature j)"
  by (auto simp: proof_key_def expect_alg_Ok split: sum.splits option.splits if_splits)

text \<open>
  An accepted DPoP proof is signed, under an installed algorithm that fits the key, by the very
  key whose thumbprint the token is bound to; it names this method and this URI, carries a bounded
  identifier, and its replay window is in the future but ends at most six minutes from now.
\<close>
theorem verify_proof_sound:
  assumes "verify_proof lib verifiers prf htm htu now = Ok vp"
  shows "\<exists>j key alg v.
     jws_parse lib prf = Ok j \<and> header_str j ''typ'' = Some DPOP_PROOF_TYP \<and>
     header_str j ''alg'' = Some (jose_name alg) \<and> get_verifier verifiers alg = Some v \<and>
     alg_consistent alg key \<and> ver_verify v key (as_bytes (signing_input j)) (signature j) \<and>
     vp_jkt vp = jwk_thumbprint lib key \<and>
     claim_str j ''htm'' = Some htm \<and> (\<exists>claimed. claim_str j ''htu'' = Some claimed \<and> htu_eq claimed htu) \<and>
     claim_str j ''jti'' = Some (vp_jti vp) \<and> vp_jti vp \<noteq> [] \<and> length (vp_jti vp) \<le> MAX_JTI_BYTES \<and>
     now < vp_replay_until vp \<and> vp_replay_until vp \<le> now + int (from_secs 360)"
proof -
  obtain j where j: "jws_parse lib prf = Ok j"
    using assms by (auto simp: verify_proof_def split: if_splits sum.splits)
  with assms obtain key u where key: "proof_key lib verifiers j = Ok key"
    and u: "proof_times j now = Ok u"
    and rest: "header_str j ''typ'' = Some DPOP_PROOF_TYP" "claim_str j ''htm'' = Some htm"
      "\<exists>claimed. claim_str j ''htu'' = Some claimed \<and> htu_eq claimed htu"
      "claim_str j ''jti'' = Some (vp_jti vp)" "vp_jti vp \<noteq> []" "length (vp_jti vp) \<le> MAX_JTI_BYTES"
      "vp_jkt vp = jwk_thumbprint lib key" "vp_replay_until vp = u"
    by (auto simp: verify_proof_def Let_def split: if_splits sum.splits option.splits)
  show ?thesis
    using j rest proof_key_Ok [OF key] proof_times_Ok [OF u]
    by (auto simp: CLOCK_SKEW_LEEWAY_def MAX_PROOF_AGE_def from_secs_def nanos_per_sec_def)
qed

theorem verify_proof_sound_witness:
  "\<exists>j vp. verify_proof sample_crates
       (install \<lparr>ver_alg = Es256, ver_verify = (\<lambda>_ _ sig. sig = [9])\<rparr> verifiers_new)
       ''05.06.09'' ''POST'' ''https://as/token'' (int (from_secs 150)) = Ok vp \<and>
     jws_parse sample_crates ''05.06.09'' = Ok j \<and> claim_str j ''htm'' = Some ''POST'' \<and>
     vp_replay_until vp \<le> int (from_secs 510)"
proof -
  let ?r = "verify_proof sample_crates
       (install \<lparr>ver_alg = Es256, ver_verify = (\<lambda>_ _ sig. sig = [9])\<rparr> verifiers_new)
       ''05.06.09'' ''POST'' ''https://as/token'' (int (from_secs 150))"
  have "(case ?r of Inl _ \<Rightarrow> False | Inr _ \<Rightarrow> True)" by code_simp
  then obtain vp where vp: "?r = Ok vp" by (auto split: sum.splits)
  from verify_proof_sound [OF this] show ?thesis
    using vp by (auto simp: from_secs_def nanos_per_sec_def)
qed

end
