(* ===== verification/Par_Record.thy ===== *)
theory Par_Record
  imports Authorization
begin

text \<open>The stored form of a pushed authorization request (\<^verbatim>\<open>par.rs\<close>).\<close>

record pushed_request =
  par_request_uri :: string
  par_client_id :: client_id
  par_response_type :: "string option"
  par_redirect_uri :: "string option"
  par_scope :: "string option"
  par_state :: "string option"
  par_code_challenge :: "string option"
  par_code_challenge_method :: "string option"
  par_resource :: "string list"
  par_authorization_details :: "string option"
  par_acr_values :: "string option"
  par_max_age :: "string option"
  par_dpop_jkt :: "string option"
  par_pushed_at :: system_time
  par_expires_at :: system_time

definition pushed_request_new :: "string \<Rightarrow> client_id \<Rightarrow> system_time \<Rightarrow> pushed_request" where
  "pushed_request_new request_uri cid expires_at =
     \<lparr>par_request_uri = request_uri, par_client_id = cid, par_response_type = None,
      par_redirect_uri = None, par_scope = None, par_state = None, par_code_challenge = None,
      par_code_challenge_method = None, par_resource = [], par_authorization_details = None,
      par_acr_values = None, par_max_age = None, par_dpop_jkt = None,
      par_pushed_at = unix_epoch, par_expires_at = expires_at\<rparr>"

definition as_request :: "pushed_request \<Rightarrow> authorization_request" where
  "as_request p =
     \<lparr>ar_response_type = par_response_type p, ar_client_id = Some (cid_str (par_client_id p)),
      ar_redirect_uri = par_redirect_uri p, ar_scope = par_scope p, ar_state = par_state p,
      ar_code_challenge = par_code_challenge p,
      ar_code_challenge_method = par_code_challenge_method p, ar_resource = par_resource p,
      ar_authorization_details = par_authorization_details p, ar_acr_values = par_acr_values p,
      ar_max_age = par_max_age p, ar_dpop_jkt = par_dpop_jkt p\<rparr>"

end
