(* ===== verification/Device.thy ===== *)
theory Device
  imports Scope Client
begin

text \<open>
  The device authorization grant's data (\<^verbatim>\<open>device.rs\<close>) and its user codes: normalisation of what a
  person types, the rejection-sampled alphabet and the hyphenated display form (\<^verbatim>\<open>server.rs\<close>).
\<close>

record device_authorization_response =
  dar_device_code :: string
  dar_user_code :: string
  dar_verification_uri :: string
  dar_verification_uri_complete :: "string option"
  dar_expires_in :: nat
  dar_interval :: nat

datatype device_grant_state = Pending | Approved string | Denied

record device_grant =
  dg_device_code :: string
  dg_user_code :: string
  dg_client_id :: client_id
  dg_scope :: scope_set
  dg_state :: device_grant_state
  dg_created_at :: system_time
  dg_expires_at :: system_time
  dg_interval :: duration
  dg_last_poll_at :: "system_time option"

section \<open>Normalising a typed code\<close>

text \<open>The UTF-8 encodings of the Unicode \<^verbatim>\<open>White_Space\<close> characters.\<close>

definition whitespace_chars :: "string list" where
  "whitespace_chars =
     map (\<lambda>n. [char_of (n :: nat)]) [9, 10, 11, 12, 13, 32] @
     map (map (char_of :: nat \<Rightarrow> char))
      ([[0xC2, 0x85], [0xC2, 0xA0], [0xE1, 0x9A, 0x80]] @
       map (\<lambda>n. [0xE2, 0x80, 0x80 + n]) [0..<11] @
       [[0xE2, 0x80, 0xA8], [0xE2, 0x80, 0xA9], [0xE2, 0x80, 0xAF], [0xE2, 0x81, 0x9F],
        [0xE3, 0x80, 0x80]])"

definition is_whitespace :: "string \<Rightarrow> bool" where
  "is_whitespace c \<longleftrightarrow> c \<in> set whitespace_chars"

definition keep_char :: "string \<Rightarrow> bool" where
  "keep_char c \<longleftrightarrow> \<not> is_whitespace c \<and> c \<noteq> ''-''"

definition normalize_user_code :: "string \<Rightarrow> string" where
  "normalize_user_code entered =
     concat (map (map to_ascii_uppercase) (filter keep_char (utf8_chars entered)))"

section \<open>Generating and displaying codes\<close>

definition USER_CODE_ALPHABET :: string where
  "USER_CODE_ALPHABET = ''BCDFGHJKLMNPQRSTVWXZ''"

definition USER_CODE_REJECT_AT :: byte where
  "USER_CODE_REJECT_AT = 240"

definition user_code_symbol :: "byte \<Rightarrow> char option" where
  "user_code_symbol b =
     (if b < USER_CODE_REJECT_AT then Some (USER_CODE_ALPHABET ! unat (b mod 20)) else None)"

text \<open>The inner loop of \<^verbatim>\<open>random_user_code\<close> over one drawn buffer.\<close>

fun user_code_fill :: "nat \<Rightarrow> string \<Rightarrow> byte list \<Rightarrow> string" where
  "user_code_fill len out [] = out"
| "user_code_fill len out (b # bs) =
     (if length out = len then out
      else case user_code_symbol b of
        Some symbol \<Rightarrow> user_code_fill len (out @ [symbol]) bs
      | None \<Rightarrow> user_code_fill len out bs)"

definition display_user_code :: "string \<Rightarrow> string" where
  "display_user_code raw =
     (if 4 \<le> length raw \<and> length raw mod 2 = 0
      then let mid = length raw div 2 in take mid raw @ ''-'' @ drop mid raw
      else raw)"

section \<open>Lemmas\<close>

lemma alphabet_length: "length USER_CODE_ALPHABET = 20"
  by (simp add: USER_CODE_ALPHABET_def)

lemma byte_mod_20: "unat ((b :: byte) mod 20) < 20"
  by (simp add: unat_mod_distrib)

lemma user_code_symbol_alphabet: "user_code_symbol b = Some c \<Longrightarrow> c \<in> set USER_CODE_ALPHABET"
  using byte_mod_20 [of b]
  by (auto simp: user_code_symbol_def alphabet_length split: if_splits)

lemma user_code_fill_alphabet:
  "set out \<subseteq> set USER_CODE_ALPHABET \<Longrightarrow> set (user_code_fill len out bs) \<subseteq> set USER_CODE_ALPHABET"
  by (induction len out bs rule: user_code_fill.induct)
    (auto split: option.splits dest: user_code_symbol_alphabet)

lemma user_code_fill_length:
  "length out \<le> len \<Longrightarrow>
     length out \<le> length (user_code_fill len out bs) \<and> length (user_code_fill len out bs) \<le> len"
  by (induction len out bs rule: user_code_fill.induct) (auto split: option.splits)

lemma user_code_fill_progress:
  "length (user_code_fill len out bs) =
     min (max len (length out)) (length out + length (filter (\<lambda>b. b < USER_CODE_REJECT_AT) bs))"
  if "length out \<le> len"
  using that
  by (induction len out bs rule: user_code_fill.induct)
    (auto simp: user_code_symbol_def min_def max_def split: if_splits)

text \<open>
  User codes are unbiased: of the 256 byte values each of the twenty symbols has exactly twelve,
  and the remaining sixteen are redrawn.
\<close>
theorem user_code_symbol_uniform:
  "list_all (\<lambda>c. card {b :: byte. user_code_symbol b = Some c} = 12) USER_CODE_ALPHABET \<and>
   card {b :: byte. user_code_symbol b = None} = 16"
proof -
  let ?bytes = "map (of_nat :: nat \<Rightarrow> byte) [0..<256]"
  have UN: "set ?bytes = UNIV"
  proof -
    have "b \<in> set ?bytes" for b :: byte
      using unsigned_less [of b, where 'a = nat] by (auto intro!: image_eqI [of _ _ "unat b"])
    then show ?thesis by auto
  qed
  have "distinct ?bytes"
    by (auto simp: distinct_map inj_on_def unat_of_nat take_bit_eq_mod
        dest!: arg_cong [of "of_nat _ :: byte" _ unat])
  then have card: "card {b :: byte. P b} = length (filter P ?bytes)" for P
    using distinct_card [of "filter P ?bytes"] UN by (simp only: set_filter distinct_filter) auto
  have syms: "map user_code_symbol ?bytes =
      concat (replicate 12 (map Some USER_CODE_ALPHABET)) @ replicate 16 None"
    by code_simp
  have count: "length (filter (\<lambda>b. user_code_symbol b = r) ?bytes) =
      length (filter (\<lambda>x. x = r) (map user_code_symbol ?bytes))" for r
    by (simp add: filter_map comp_def del: map_map)
  have "\<forall>c \<in> set USER_CODE_ALPHABET. length (filter (\<lambda>x. x = Some c) (map Some USER_CODE_ALPHABET)) = 1"
    by code_simp
  then show ?thesis
    unfolding card count syms by (simp add: numeral_eq_Suc filter_empty_conv list_all_iff)
qed

lemma ascii_not_continuation: "of_ascii c < 128 \<Longrightarrow> \<not> is_continuation c"
  by (simp add: is_continuation_def)

lemma utf8_chars_ascii: "list_all (\<lambda>c. of_ascii c < 128) s \<Longrightarrow> utf8_chars s = map (\<lambda>c. [c]) s"
proof (induction s)
  case (Cons c cs)
  have "takeWhile is_continuation cs = [] \<and> dropWhile is_continuation cs = cs"
    using Cons.prems by (cases cs) (auto simp: is_continuation_def)
  then show ?case using Cons by simp
qed simp

lemma to_ascii_uppercase_alphabet: "c \<in> set USER_CODE_ALPHABET \<Longrightarrow> to_ascii_uppercase c = c"
proof -
  have "\<forall>c \<in> set USER_CODE_ALPHABET. to_ascii_uppercase c = c" by code_simp
  then show "c \<in> set USER_CODE_ALPHABET \<Longrightarrow> to_ascii_uppercase c = c" by blast
qed

lemma alphabet_kept: "c \<in> set USER_CODE_ALPHABET \<Longrightarrow> keep_char [c] \<and> of_ascii c < 128"
proof -
  have "\<forall>c \<in> set USER_CODE_ALPHABET. keep_char [c] \<and> of_ascii c < 128" by code_simp
  then show "c \<in> set USER_CODE_ALPHABET \<Longrightarrow> keep_char [c] \<and> of_ascii c < 128" by blast
qed

lemma normalize_hyphenated:
  assumes "set a \<subseteq> set USER_CODE_ALPHABET" and "set b \<subseteq> set USER_CODE_ALPHABET"
  shows "normalize_user_code (a @ b) = a @ b" and "normalize_user_code (a @ ''-'' @ b) = a @ b"
proof -
  have filt: "filter keep_char (map (\<lambda>c. [c]) x) = map (\<lambda>c. [c]) x"
    and up: "map to_ascii_uppercase x = x" if "set x \<subseteq> set USER_CODE_ALPHABET" for x
    using that alphabet_kept to_ascii_uppercase_alphabet
    by (auto simp: filter_id_conv intro!: map_idI)
  have "list_all (\<lambda>c. of_ascii c < 128) (a @ b)"
    and "list_all (\<lambda>c. of_ascii c < 128) (a @ ''-'' @ b)"
    using assms alphabet_kept by (auto simp: list_all_iff of_ascii_def)
  moreover have "\<not> keep_char ''-''" by (simp add: keep_char_def)
  ultimately show "normalize_user_code (a @ b) = a @ b" and "normalize_user_code (a @ ''-'' @ b) = a @ b"
    using assms by (simp_all add: normalize_user_code_def utf8_chars_ascii filt up comp_def)
qed

lemma normalize_display:
  assumes "set raw \<subseteq> set USER_CODE_ALPHABET"
  shows "normalize_user_code (display_user_code raw) = raw"
proof -
  let ?mid = "length raw div 2"
  have "set (take ?mid raw) \<subseteq> set USER_CODE_ALPHABET" "set (drop ?mid raw) \<subseteq> set USER_CODE_ALPHABET"
    using assms by (auto dest: in_set_takeD in_set_dropD)
  from normalize_hyphenated [OF this] show ?thesis
    using normalize_hyphenated(1) [OF assms, of "[]"] by (simp add: display_user_code_def Let_def)
qed

end
