(* ===== verification/Program.thy ===== *)
theory Program
  imports OAuth_Prelude
begin

text \<open>
  Handlers as programs over a host state.

  Every \<^verbatim>\<open>async fn\<close> of the server suspends at each call of the embedding host (a storage call, a
  clock reading, a draw of randomness), and another request may run between two such calls. A
  handler is therefore a resumption: a tree whose \<open>Step\<close> nodes are the atomic calls and whose \<open>Done\<close>
  leaves are the results. \<open>run\<close> executes a handler alone; \<open>pool_step\<close> interleaves any number of
  handlers at the granularity of their calls, with new requests arriving at any moment. \<open>safe I Q p\<close>
  says that every call of \<open>p\<close> keeps the invariant \<open>I\<close> whatever ran in between, and that every result
  satisfies \<open>Q\<close>; \<open>pool_invariant\<close> lifts it to all interleavings.
\<close>

datatype ('s, 'a) prog = Done 'a | Step "'s \<Rightarrow> ('s, 'a) prog \<times> 's"

primrec run :: "('s, 'a) prog \<Rightarrow> 's \<Rightarrow> 'a \<times> 's" where
  "run (Done a) = (\<lambda>s. (a, s))"
| "run (Step f) = (\<lambda>s. case map_prod run id (f s) of (g, s') \<Rightarrow> g s')"

primrec pbind :: "('s, 'a) prog \<Rightarrow> ('a \<Rightarrow> ('s, 'b) prog) \<Rightarrow> ('s, 'b) prog" where
  "pbind (Done a) k = k a"
| "pbind (Step f) k = Step (\<lambda>s. map_prod (\<lambda>p. pbind p k) id (f s))"

definition act :: "('s \<Rightarrow> 'a \<times> 's) \<Rightarrow> ('s, 'a) prog" where
  "act f = Step (\<lambda>s. case f s of (a, s') \<Rightarrow> (Done a, s'))"

text \<open>The \<^verbatim>\<open>?\<close> operator of a fallible handler: an \<open>Err\<close> ends it at once.\<close>

definition ptry :: "('s, 'e + 'a) prog \<Rightarrow> ('a \<Rightarrow> ('s, 'e + 'b) prog) \<Rightarrow> ('s, 'e + 'b) prog" where
  "ptry p k = pbind p (\<lambda>r. case r of Inl e \<Rightarrow> Done (Inl e) | Inr a \<Rightarrow> k a)"

text \<open>\<^verbatim>\<open>map_err(f)?\<close>.\<close>

definition ptry_map ::
  "('e \<Rightarrow> 'f) \<Rightarrow> ('s, 'e + 'a) prog \<Rightarrow> ('a \<Rightarrow> ('s, 'f + 'b) prog) \<Rightarrow> ('s, 'f + 'b) prog" where
  "ptry_map h p k = pbind p (\<lambda>r. case r of Inl e \<Rightarrow> Done (Inl (h e)) | Inr a \<Rightarrow> k a)"

text \<open>A pure fallible computation with \<^verbatim>\<open>?\<close> inside a handler.\<close>

definition pure_try :: "'e + 'a \<Rightarrow> ('a \<Rightarrow> ('s, 'e + 'b) prog) \<Rightarrow> ('s, 'e + 'b) prog" where
  "pure_try r k = (case r of Inl e \<Rightarrow> Done (Inl e) | Inr a \<Rightarrow> k a)"


section \<open>Execution alone\<close>

lemma run_Done [simp, step_simps]: "run (Done a) s = (a, s)"
  by simp

lemma run_Step [simp]: "run (Step f) s = (case f s of (p, s') \<Rightarrow> run p s')"
  by (simp add: map_prod_def split: prod.splits)

declare run.simps [simp del]

lemma run_act [simp, step_simps]: "run (act f) s = f s"
  by (simp add: act_def split: prod.splits)

lemma prog_induct [case_names Done Step, induct type: prog]:
  assumes "\<And>a. P (Done a)" and "\<And>f. (\<And>s. P (fst (f s))) \<Longrightarrow> P (Step f)"
  shows "P p"
proof (rule prog.induct [of P p])
  show "P (Step f)" if "\<And>a b. a \<in> range f \<Longrightarrow> b \<in> Basic_BNFs.fsts a \<Longrightarrow> P b" for f
    using that [OF rangeI] by (auto intro: assms(2) simp: prod_set_defs)
qed (rule assms(1))

lemma run_pbind [simp, step_simps]: "run (pbind p k) s = (case run p s of (a, s') \<Rightarrow> run (k a) s')"
proof (induction p arbitrary: s rule: prog_induct)
  case (Step f)
  show ?case using Step [of s] by (cases "f s") simp
qed simp

lemma pbind_Done_right [simp]: "pbind p Done = p"
proof (induction p rule: prog_induct)
  case (Step f)
  have "map_prod (\<lambda>p. pbind p Done) id (f s) = f s" for s
    using Step [of s] by (cases "f s") simp
  then show ?case by simp
qed simp

lemma pbind_assoc: "pbind (pbind p f) g = pbind p (\<lambda>x. pbind (f x) g)"
proof (induction p rule: prog_induct)
  case (Step h)
  have "map_prod (\<lambda>p. pbind p g) id (map_prod (\<lambda>p. pbind p f) id (h s))
      = map_prod (\<lambda>p. pbind p (\<lambda>x. pbind (f x) g)) id (h s)" for s
    using Step [of s] by (cases "h s") simp
  then show ?case by simp
qed simp

lemma run_ptry [simp, step_simps]:
  "run (ptry p k) s = (case run p s of (Inl e, s') \<Rightarrow> (Inl e, s') | (Inr a, s') \<Rightarrow> run (k a) s')"
  by (auto simp: ptry_def split: prod.splits sum.splits)

lemma run_ptry_map [simp, step_simps]:
  "run (ptry_map h p k) s =
     (case run p s of (Inl e, s') \<Rightarrow> (Inl (h e), s') | (Inr a, s') \<Rightarrow> run (k a) s')"
  by (auto simp: ptry_map_def split: prod.splits sum.splits)

lemma run_pure_try [simp, step_simps]:
  "run (pure_try r k) s = (case r of Inl e \<Rightarrow> (Inl e, s) | Inr a \<Rightarrow> run (k a) s)"
  by (auto simp: pure_try_def split: sum.splits)

lemma run_if: "run (if b then p else q) s = (if b then run p s else run q s)"
  by simp

text \<open>Inversion of successful runs: the shape in which the handlers' guards are read off.\<close>

lemma run_ptry_okE:
  assumes "run (ptry p k) s = (Inr b, s')"
  obtains a t where "run p s = (Inr a, t)" and "run (k a) t = (Inr b, s')"
  using assms by (auto split: prod.splits sum.splits)

lemma run_ptry_map_okE:
  assumes "run (ptry_map h p k) s = (Inr b, s')"
  obtains a t where "run p s = (Inr a, t)" and "run (k a) t = (Inr b, s')"
  using assms by (auto split: prod.splits sum.splits)

lemma run_pure_try_okE:
  assumes "run (pure_try r k) s = (Inr b, s')"
  obtains a where "r = Inr a" and "run (k a) s = (Inr b, s')"
  using assms by (auto split: sum.splits)

lemma run_pbindE:
  assumes "run (pbind p k) s = (b, s')"
  obtains a t where "run p s = (a, t)" and "run (k a) t = (b, s')"
  using assms by (auto split: prod.splits)

lemmas run_okEs = run_ptry_okE run_ptry_map_okE run_pure_try_okE


section \<open>Invariants kept by every call\<close>

inductive safe :: "('s \<Rightarrow> bool) \<Rightarrow> ('a \<Rightarrow> bool) \<Rightarrow> ('s, 'a) prog \<Rightarrow> bool"
  for I :: "'s \<Rightarrow> bool" and Q :: "'a \<Rightarrow> bool" where
  safe_Done: "Q a \<Longrightarrow> safe I Q (Done a)"
| safe_Step: "(\<And>s. I s \<Longrightarrow> I (snd (f s)) \<and> safe I Q (fst (f s))) \<Longrightarrow> safe I Q (Step f)"

inductive_cases safe_DoneE: "safe I Q (Done a)"
inductive_cases safe_StepE: "safe I Q (Step f)"

inductive_simps safe_Done_iff [simp]: "safe I Q (Done a)"

abbreviation keeps :: "('s \<Rightarrow> bool) \<Rightarrow> ('s, 'a) prog \<Rightarrow> bool" where
  "keeps I p \<equiv> safe I (\<lambda>_. True) p"

lemma safe_act:
  assumes "\<And>s. I s \<Longrightarrow> I (snd (f s)) \<and> Q (fst (f s))"
  shows "safe I Q (act f)"
  unfolding act_def
proof (rule safe_Step)
  show "I s \<Longrightarrow> I (snd (case f s of (a, s') \<Rightarrow> (Done a, s'))) \<and>
      safe I Q (fst (case f s of (a, s') \<Rightarrow> (Done a, s')))" for s
    using assms [of s] by (cases "f s") simp
qed

lemma safe_mono: "safe I Q p \<Longrightarrow> (\<And>a. Q a \<Longrightarrow> Q' a) \<Longrightarrow> safe I Q' p"
  by (induction rule: safe.induct) (auto intro: safe.intros)

lemma safe_keeps: "safe I Q p \<Longrightarrow> keeps I p"
  by (erule safe_mono) simp

lemma safe_pbind:
  assumes "safe I P p" and "\<And>a. P a \<Longrightarrow> safe I Q (k a)"
  shows "safe I Q (pbind p k)"
  using assms(1)
proof induction
  case (safe_Step f)
  have "I s \<Longrightarrow> I (snd (map_prod (\<lambda>p. pbind p k) id (f s))) \<and>
      safe I Q (fst (map_prod (\<lambda>p. pbind p k) id (f s)))" for s
    using safe_Step [of s] by (cases "f s") simp
  then show ?case by (simp add: safe.safe_Step)
qed (simp add: assms(2))

lemma safe_ptry:
  assumes "safe I P p" and "\<And>a. P (Inr a) \<Longrightarrow> safe I Q (k a)" and "\<And>e. P (Inl e) \<Longrightarrow> Q (Inl e)"
  shows "safe I Q (ptry p k)"
  unfolding ptry_def by (rule safe_pbind [OF assms(1)]) (auto split: sum.split intro: assms)

lemma safe_ptry_map:
  assumes "safe I P p" and "\<And>a. P (Inr a) \<Longrightarrow> safe I Q (k a)" and "\<And>e. P (Inl e) \<Longrightarrow> Q (Inl (h e))"
  shows "safe I Q (ptry_map h p k)"
  unfolding ptry_map_def by (rule safe_pbind [OF assms(1)]) (auto split: sum.split intro: assms)

lemma keeps_pbind:
  assumes "keeps I p" and "\<And>a. keeps I (k a)"
  shows "keeps I (pbind p k)"
  using assms by (rule safe_pbind)

lemma keeps_ptry:
  assumes "keeps I p" and "\<And>a. keeps I (k a)"
  shows "keeps I (ptry p k)"
  using assms(1) by (rule safe_ptry) (simp_all add: assms)

lemma keeps_ptry_map:
  assumes "keeps I p" and "\<And>a. keeps I (k a)"
  shows "keeps I (ptry_map h p k)"
  using assms(1) by (rule safe_ptry_map) (simp_all add: assms)

lemma keeps_pure_try:
  assumes "\<And>a. r = Inr a \<Longrightarrow> keeps I (k a)"
  shows "keeps I (pure_try r k)"
  using assms by (simp add: pure_try_def split: sum.split)

lemma keeps_Done: "keeps I (Done a)"
  by simp

lemma safe_run:
  assumes "safe I Q p" and "I s"
  shows "I (snd (run p s)) \<and> Q (fst (run p s))"
  using assms
proof (induction arbitrary: s)
  case (safe_Step f)
  then show ?case by (cases "f s") force
qed simp


text \<open>
  What every result of a program satisfies, whatever the host answers at each call and whatever
  runs in between.
\<close>

abbreviation always :: "('a \<Rightarrow> bool) \<Rightarrow> ('s, 'a) prog \<Rightarrow> bool" where
  "always Q p \<equiv> safe (\<lambda>_. True) Q p"

lemma keeps_trivial [simp]: "always (\<lambda>_. True) p"
  by (induction p rule: prog_induct) (auto intro: safe.intros)

lemma always_pbind [always_intros]: "(\<And>a. always Q (k a)) \<Longrightarrow> always Q (pbind p k)"
  by (rule safe_pbind [OF keeps_trivial])

lemma always_ptry [always_intros]:
  "(\<And>e. Q (Inl e)) \<Longrightarrow> (\<And>a. always Q (k a)) \<Longrightarrow> always Q (ptry p k)"
  by (rule safe_ptry [OF keeps_trivial])

lemma always_ptry_map [always_intros]:
  "(\<And>e. Q (Inl (h e))) \<Longrightarrow> (\<And>a. always Q (k a)) \<Longrightarrow> always Q (ptry_map h p k)"
  by (rule safe_ptry_map [OF keeps_trivial])

lemma safe_pure_try [always_intros]:
  "(\<And>e. r = Inl e \<Longrightarrow> Q (Inl e)) \<Longrightarrow> (\<And>a. r = Inr a \<Longrightarrow> safe I Q (k a)) \<Longrightarrow> safe I Q (pure_try r k)"
  by (simp add: pure_try_def split: sum.split)

lemma always_run: "always Q p \<Longrightarrow> Q (fst (run p s))"
  by (drule safe_run [where s = s]) simp_all


section \<open>Transitions every call makes\<close>

text \<open>
  \<open>steps T p\<close>: every call of \<open>p\<close>, in whatever state it finds the host, makes a transition in the
  relation \<open>T\<close>. A state property that every call keeps is the case \<open>T s s' = (I s \<longrightarrow> I s')\<close>.
\<close>

inductive steps :: "('s \<Rightarrow> 's \<Rightarrow> bool) \<Rightarrow> ('s, 'a) prog \<Rightarrow> bool" for T :: "'s \<Rightarrow> 's \<Rightarrow> bool" where
  steps_Done [keeps_intros]: "steps T (Done a)"
| steps_Step: "(\<And>s. T s (snd (f s)) \<and> steps T (fst (f s))) \<Longrightarrow> steps T (Step f)"

inductive_cases steps_StepE: "steps T (Step f)"

lemma steps_act [keeps_intros]:
  assumes "\<And>s. T s (snd (f s))"
  shows "steps T (act f)"
  unfolding act_def
proof (rule steps_Step)
  show "T s (snd (case f s of (a, s') \<Rightarrow> (Done a, s'))) \<and>
      steps T (fst (case f s of (a, s') \<Rightarrow> (Done a, s')))" for s
    using assms [of s] by (cases "f s") (simp add: steps_Done)
qed

lemma steps_pbind [keeps_intros]:
  assumes "steps T p" and "\<And>a. steps T (k a)"
  shows "steps T (pbind p k)"
  using assms(1)
proof induction
  case (steps_Step f)
  have "T s (snd (map_prod (\<lambda>p. pbind p k) id (f s))) \<and>
      steps T (fst (map_prod (\<lambda>p. pbind p k) id (f s)))" for s
    using steps_Step [of s] by (cases "f s") simp
  then show ?case by (simp add: steps.steps_Step)
qed (simp add: assms(2))

lemma steps_ptry [keeps_intros]:
  "steps T p \<Longrightarrow> (\<And>a. steps T (k a)) \<Longrightarrow> steps T (ptry p k)"
  unfolding ptry_def by (intro steps_pbind) (auto split: sum.split intro: steps_Done)

lemma steps_ptry_map [keeps_intros]:
  "steps T p \<Longrightarrow> (\<And>a. steps T (k a)) \<Longrightarrow> steps T (ptry_map h p k)"
  unfolding ptry_map_def by (intro steps_pbind) (auto split: sum.split intro: steps_Done)

lemma steps_pure_try [keeps_intros]:
  "(\<And>a. r = Inr a \<Longrightarrow> steps T (k a)) \<Longrightarrow> steps T (pure_try r k)"
  by (auto simp: pure_try_def split: sum.split intro: steps_Done)

lemma steps_keeps: "steps (\<lambda>s s'. I s \<longrightarrow> I s') p \<Longrightarrow> keeps I p"
  by (induction rule: steps.induct) (auto intro: safe.intros)

lemma steps_run:
  assumes "steps T p" and "\<And>s. T s s" and "\<And>s t u. T s t \<Longrightarrow> T t u \<Longrightarrow> T s u"
  shows "T s (snd (run p s))"
  using assms(1)
proof (induction arbitrary: s)
  case (steps_Step f)
  have "T s (snd (f s))" and "T (snd (f s)) (snd (run (fst (f s)) (snd (f s))))"
    using steps_Step [of s] by simp_all
  from assms(3) [OF this] show ?case by (cases "f s") simp
qed (simp add: assms(2))

lemma steps_mono: "steps T p \<Longrightarrow> (\<And>s s'. T s s' \<Longrightarrow> T' s s') \<Longrightarrow> steps T' p"
  by (induction rule: steps.induct) (auto intro: steps.intros)

section \<open>Interleaving\<close>

text \<open>
  A pool of handlers in flight over one host state. A transition runs one call of one of them, or
  admits a new request whose handler is drawn from \<open>P\<close>.
\<close>

inductive pool_step ::
  "('s, 'a) prog set \<Rightarrow> ('s, 'a) prog list \<times> 's \<Rightarrow> ('s, 'a) prog list \<times> 's \<Rightarrow> bool"
  for P :: "('s, 'a) prog set" where
  pool_call: "\<lbrakk>i < length ps; ps ! i = Step f; f s = (p', s')\<rbrakk> \<Longrightarrow> pool_step P (ps, s) (ps[i := p'], s')"
| pool_spawn: "p \<in> P \<Longrightarrow> pool_step P (ps, s) (ps @ [p], s)"

inductive_cases pool_stepE: "pool_step P (ps, s) c"

abbreviation pool_run ::
  "('s, 'a) prog set \<Rightarrow> ('s, 'a) prog list \<times> 's \<Rightarrow> ('s, 'a) prog list \<times> 's \<Rightarrow> bool" where
  "pool_run P \<equiv> (pool_step P)\<^sup>*\<^sup>*"

lemma pool_step_invariant:
  assumes "pool_step P c d" and "\<forall>p \<in> P. safe I Q p"
    and "I (snd c)" and "\<forall>p \<in> set (fst c). safe I Q p"
  shows "I (snd d) \<and> (\<forall>p \<in> set (fst d). safe I Q p)"
  using assms
proof cases
  case (pool_call i ps f s p' s')
  then have "safe I Q (Step f)" using assms(4) nth_mem by fastforce
  then have "I s' \<and> safe I Q p'"
    using assms(3) pool_call by (metis fst_conv safe_StepE snd_conv)
  then show ?thesis
    using pool_call assms(4) by (auto dest!: set_update_subset_insert [THEN subsetD])
qed (use assms in auto)

lemma pool_invariant:
  assumes "pool_run P (ps, s) (qs, t)" and "\<forall>p \<in> P. safe I Q p"
    and "I s" and "\<forall>p \<in> set ps. safe I Q p"
  shows "I t \<and> (\<forall>p \<in> set qs. safe I Q p)"
  using assms
proof (induction "(qs, t)" arbitrary: qs t rule: rtranclp_induct)
  case (step c)
  then show ?case using pool_step_invariant [of P c "(qs, t)" I Q] by (cases c) auto
qed simp

text \<open>What holds of every call of every admitted handler holds of whatever remains of them.\<close>

lemma pool_step_steps:
  assumes "pool_step P c d" and "\<forall>p \<in> P. steps T p" and "\<forall>p \<in> set (fst c). steps T p"
  shows "\<forall>p \<in> set (fst d). steps T p"
  using assms
proof cases
  case (pool_call i ps f s p' s')
  then have "steps T (Step f)" using assms(3) nth_mem by fastforce
  then have "steps T p'" using pool_call by (metis fst_conv steps_StepE)
  then show ?thesis
    using pool_call assms(3) by (auto dest!: set_update_subset_insert [THEN subsetD])
qed (use assms in auto)

lemma pool_steps:
  assumes "pool_run P c d" and "\<forall>p \<in> P. steps T p" and "\<forall>p \<in> set (fst c). steps T p"
  shows "\<forall>p \<in> set (fst d). steps T p"
  using assms by (induction rule: rtranclp_induct) (auto dest: pool_step_steps)

text \<open>One way to run a pool: each handler alone, from its arrival to its answer.\<close>

lemma pool_runs_to_end:
  "pool_run P (qs @ [p], s) (qs @ [Done (fst (run p s))], snd (run p s))"
proof (induction p arbitrary: s)
  case (Step f)
  have "pool_step P (qs @ [Step f], s) (qs @ [fst (f s)], snd (f s))"
    using pool_call [of "length qs" "qs @ [Step f]" f s "fst (f s)" "snd (f s)" P] by simp
  moreover have "pool_run P (qs @ [fst (f s)], snd (f s))
      (qs @ [Done (fst (run (fst (f s)) (snd (f s))))], snd (run (fst (f s)) (snd (f s))))"
    by (rule Step)
  ultimately show ?case by (auto simp: split_beta intro: converse_rtranclp_into_rtranclp)
qed simp

lemma pool_runs_alone:
  assumes "p \<in> P"
  shows "pool_run P (qs, s) (qs @ [Done (fst (run p s))], snd (run p s))"
  using pool_spawn [OF assms, of qs s] pool_runs_to_end by (rule converse_rtranclp_into_rtranclp)

end
