(* ===== verification/Storage.thy ===== *)
theory Storage
  imports Par_Record Device Program
begin

text \<open>
  The storage interface (\<^verbatim>\<open>store.rs\<close>, the trait and its vocabulary). A host's store is a record of
  its operations, each an atomic function of the host state that answers a result or a storage
  error. Two locales state what the rest of the development relies on: \<open>barrier_map\<close>, the revocation
  barrier a store keeps per scope, and \<open>storage_invariant\<close>, that a property of the host state is
  kept by every operation.
\<close>

datatype storage_error = StorageError string

datatype revocation_barrier =
    BClient client_id
  | BTokenFamily string
  | BConsent client_id string

definition reject_empty_scope :: "string \<Rightarrow> string \<Rightarrow> storage_error + unit" where
  "reject_empty_scope what value =
     (if value = [] then Err (StorageError (''a revocation needs a non-empty '' @ what @
        ''; the empty string does not name an identity a barrier can be recorded for''))
      else Ok ())"

record revocation_window =
  win_recorded_at :: system_time
  win_until :: system_time

datatype write_outcome = Applied | RefusedRevoked

definition is_applied :: "write_outcome \<Rightarrow> bool" where "is_applied w \<longleftrightarrow> w = Applied"

definition is_refused :: "write_outcome \<Rightarrow> bool" where "is_refused w \<longleftrightarrow> w = RefusedRevoked"

type_synonym ('s, 'r) op = "'s \<Rightarrow> (storage_error + 'r) \<times> 's"

record 's storage =
  st_get_client :: "client_id \<Rightarrow> ('s, client option) op"
  st_put_client :: "client \<Rightarrow> ('s, unit) op"
  st_cas_client :: "client \<Rightarrow> client \<Rightarrow> ('s, bool) op"
  st_delete_client :: "client_id \<Rightarrow> revocation_window \<Rightarrow> ('s, bool) op"
  st_put_device_grant :: "device_grant \<Rightarrow> ('s, unit) op"
  st_get_device_grant :: "string \<Rightarrow> ('s, device_grant option) op"
  st_find_device_grant :: "string \<Rightarrow> ('s, device_grant option) op"
  st_take_device_grant :: "string \<Rightarrow> ('s, device_grant option) op"
  st_cas_device_grant :: "device_grant_state \<Rightarrow> device_grant \<Rightarrow> ('s, bool) op"
  st_put_code :: "code_record \<Rightarrow> ('s, unit) op"
  st_cas_code :: "code_state \<Rightarrow> code_record \<Rightarrow> ('s, bool) op"
  st_take_code :: "string \<Rightarrow> ('s, code_record option) op"
  st_put_pushed :: "pushed_request \<Rightarrow> ('s, write_outcome) op"
  st_take_pushed :: "string \<Rightarrow> ('s, pushed_request option) op"
  st_put_token :: "issued_token \<Rightarrow> ('s, write_outcome) op"
  st_get_token :: "string \<Rightarrow> ('s, issued_token option) op"
  st_delete_token :: "string \<Rightarrow> ('s, unit) op"
  st_put_refresh :: "refresh_token_record \<Rightarrow> ('s, write_outcome) op"
  st_get_refresh :: "string \<Rightarrow> ('s, refresh_token_record option) op"
  st_rotate_refresh ::
    "refresh_token_record \<Rightarrow> refresh_token_record \<Rightarrow> issued_token \<Rightarrow> refresh_token_record option \<Rightarrow> ('s, bool) op"
  st_take_refresh :: "string \<Rightarrow> ('s, refresh_token_record option) op"
  st_revoke_family :: "string \<Rightarrow> revocation_window \<Rightarrow> ('s, nat) op"
  st_put_consent :: "consent_record \<Rightarrow> ('s, unit) op"
  st_cas_consent :: "consent_record option \<Rightarrow> consent_record \<Rightarrow> ('s, bool) op"
  st_get_consent :: "string \<Rightarrow> ('s, consent_record option) op"
  st_find_consent :: "client_id \<Rightarrow> string \<Rightarrow> ('s, consent_record option) op"
  st_consents_for_subject :: "string \<Rightarrow> ('s, consent_record list) op"
  st_revoke_consent :: "string \<Rightarrow> revocation_window \<Rightarrow> ('s, nat) op"
  st_claim_replay_id :: "string \<Rightarrow> system_time \<Rightarrow> ('s, bool) op"
  st_sweep_expired :: "system_time \<Rightarrow> ('s, nat) op"

text \<open>
  A rotation writes the successor records of the family it rotates. The documented shape of its
  arguments: everything written belongs to the family, client, subject and grant of the record that
  is exchanged.
\<close>

definition rotation_shape ::
  "refresh_token_record \<Rightarrow> refresh_token_record \<Rightarrow> issued_token \<Rightarrow> refresh_token_record option \<Rightarrow> bool" where
  "rotation_shape expected spent access next \<longleftrightarrow>
     rt_refresh_token spent = rt_refresh_token expected \<and> rt_family_id spent = rt_family_id expected \<and>
     rt_client_id spent = rt_client_id expected \<and> rt_subject spent = rt_subject expected \<and>
     rt_grant_established_at spent = rt_grant_established_at expected \<and>
     tok_family_id access = Some (rt_family_id expected) \<and> tok_client_id access = rt_client_id expected \<and>
     tok_subject access = rt_subject expected \<and>
     tok_grant_established_at access = rt_grant_established_at expected \<and>
     (case next of None \<Rightarrow> True | Some n \<Rightarrow>
        rt_family_id n = rt_family_id expected \<and> rt_client_id n = rt_client_id expected \<and>
        rt_subject n = rt_subject expected \<and>
        rt_grant_established_at n = rt_grant_established_at expected)"

section \<open>Sequences of operations\<close>

text \<open>Any one operation other than the sweep, with any arguments of the documented shape.\<close>

inductive store_step :: "'s storage \<Rightarrow> 's \<Rightarrow> 's \<Rightarrow> bool" for st :: "'s storage" where
  "store_step st s (snd (st_get_client st a s))"
| "store_step st s (snd (st_put_client st c s))"
| "store_step st s (snd (st_cas_client st c d s))"
| "store_step st s (snd (st_delete_client st a w s))"
| "store_step st s (snd (st_put_device_grant st g s))"
| "store_step st s (snd (st_get_device_grant st k s))"
| "store_step st s (snd (st_find_device_grant st k s))"
| "store_step st s (snd (st_take_device_grant st k s))"
| "store_step st s (snd (st_cas_device_grant st q g s))"
| "store_step st s (snd (st_put_code st r s))"
| "store_step st s (snd (st_cas_code st cs r s))"
| "store_step st s (snd (st_take_code st k s))"
| "store_step st s (snd (st_put_pushed st p s))"
| "store_step st s (snd (st_take_pushed st k s))"
| "store_step st s (snd (st_put_token st t s))"
| "store_step st s (snd (st_get_token st k s))"
| "store_step st s (snd (st_delete_token st k s))"
| "store_step st s (snd (st_put_refresh st rt s))"
| "store_step st s (snd (st_get_refresh st k s))"
| "rotation_shape e sp ac n \<Longrightarrow> store_step st s (snd (st_rotate_refresh st e sp ac n s))"
| "store_step st s (snd (st_take_refresh st k s))"
| "store_step st s (snd (st_revoke_family st k w s))"
| "store_step st s (snd (st_put_consent st cr s))"
| "store_step st s (snd (st_cas_consent st oc cr s))"
| "store_step st s (snd (st_get_consent st k s))"
| "store_step st s (snd (st_find_consent st a k s))"
| "store_step st s (snd (st_consents_for_subject st k s))"
| "store_step st s (snd (st_revoke_consent st k w s))"
| "store_step st s (snd (st_claim_replay_id st k t0 s))"

inductive_cases store_stepE: "store_step st s s'"

section \<open>Interfaces\<close>

text \<open>
  A relation every operation a request handler performs makes a transition in, with arguments of
  the documented shape. Sweeping is left out: it runs from the host's own timer, and it is what ends
  a barrier's life. What authentication uses, a client lookup and the replay cache, is the smallest
  contract. The operations that bring a code, a device grant or a pushed request into being
  are contracts of their own, so that a relation in which these only disappear still is one for the
  rest.
\<close>

locale storage_auth_steps =
  fixes st :: "'s storage" and T :: "'s \<Rightarrow> 's \<Rightarrow> bool"
  assumes get_client: "T s (snd (st_get_client st a s))"
    and claim_replay_id: "T s (snd (st_claim_replay_id st k t0 s))"

locale storage_core_steps = storage_auth_steps +
  assumes put_client: "T s (snd (st_put_client st c s))"
    and cas_client: "T s (snd (st_cas_client st c d s))"
    and delete_client: "T s (snd (st_delete_client st a w s))"
    and get_device_grant: "T s (snd (st_get_device_grant st k s))"
    and find_device_grant: "T s (snd (st_find_device_grant st k s))"
    and take_device_grant: "T s (snd (st_take_device_grant st k s))"
    and cas_device_grant: "T s (snd (st_cas_device_grant st q g s))"
    and take_code: "T s (snd (st_take_code st k s))"
    and take_pushed: "T s (snd (st_take_pushed st k s))"
    and put_token: "T s (snd (st_put_token st t s))"
    and get_token: "T s (snd (st_get_token st k s))"
    and delete_token: "T s (snd (st_delete_token st k s))"
    and put_refresh: "T s (snd (st_put_refresh st rt s))"
    and get_refresh: "T s (snd (st_get_refresh st k s))"
    and rotate_refresh:
      "rotation_shape e sp ac n \<Longrightarrow> T s (snd (st_rotate_refresh st e sp ac n s))"
    and take_refresh: "T s (snd (st_take_refresh st k s))"
    and revoke_family: "T s (snd (st_revoke_family st k w s))"
    and put_consent: "T s (snd (st_put_consent st cr s))"
    and cas_consent: "T s (snd (st_cas_consent st oc cr s))"
    and get_consent: "T s (snd (st_get_consent st k s))"
    and find_consent: "T s (snd (st_find_consent st a k s))"
    and consents_for_subject: "T s (snd (st_consents_for_subject st k s))"
    and revoke_consent: "T s (snd (st_revoke_consent st k w s))"
begin

lemmas op_steps =
  get_client put_client cas_client delete_client get_device_grant find_device_grant
  take_device_grant cas_device_grant take_code take_pushed put_token get_token delete_token
  put_refresh get_refresh take_refresh revoke_family put_consent cas_consent get_consent
  find_consent consents_for_subject revoke_consent claim_replay_id

end

locale storage_code_steps = storage_core_steps +
  assumes put_code: "T s (snd (st_put_code st r s))"
    and cas_code: "T s (snd (st_cas_code st cs r s))"

locale storage_device_steps = storage_core_steps +
  assumes put_device_grant: "T s (snd (st_put_device_grant st g s))"

locale storage_pushed_steps = storage_core_steps +
  assumes put_pushed: "T s (snd (st_put_pushed st p s))"

locale storage_steps =
  storage_code_steps st T + storage_device_steps st T + storage_pushed_steps st T
  for st :: "'s storage" and T :: "'s \<Rightarrow> 's \<Rightarrow> bool"
begin

lemmas all_op_steps = op_steps put_code cas_code put_device_grant put_pushed

lemma store_step_in: "store_step st s s' \<Longrightarrow> T s s'"
  by (induction rule: store_step.induct) (simp_all add: all_op_steps rotate_refresh)

end

text \<open>A property of the host state that none of these operations can break.\<close>

locale storage_invariant = storage_steps st "\<lambda>s s'. I s \<longrightarrow> I s'"
  for st :: "'s storage" and I :: "'s \<Rightarrow> bool"
begin

lemma store_steps_keep: "(store_step st)\<^sup>*\<^sup>* s s' \<Longrightarrow> I s \<Longrightarrow> I s'"
  by (induction rule: rtranclp_induct) (auto dest: store_step_in)

end

text \<open>
  The barrier vocabulary of a store: which scopes are barred, since when and until when. The laws
  are the trait's: recording bars exactly the named scope and merges with what is there, sweeping
  forgets exactly the barriers whose time has come.
\<close>

locale barrier_map =
  fixes barrier :: "'b \<Rightarrow> revocation_barrier \<Rightarrow> (system_time \<times> system_time) option"
    and bar :: "revocation_barrier \<Rightarrow> system_time \<Rightarrow> system_time \<Rightarrow> 'b \<Rightarrow> 'b"
    and forget :: "system_time \<Rightarrow> 'b \<Rightarrow> 'b"
  assumes barrier_bar:
      "barrier (bar r at0 til b) r' =
         (if r' = r then
            Some (case barrier b r of
                    None \<Rightarrow> (at0, til)
                  | Some (at1, til1) \<Rightarrow> (max at1 at0, max til1 til))
          else barrier b r')"
    and barrier_forget:
      "barrier (forget now b) r =
         (case barrier b r of
            None \<Rightarrow> None
          | Some (at0, til) \<Rightarrow> if til \<le> now then None else Some (at0, til))"
begin

lemma bar_covers:
  "\<exists>at1 til1. barrier (bar r at0 til b) r = Some (at1, til1) \<and> at0 \<le> at1 \<and> til \<le> til1"
  by (auto simp: barrier_bar split: option.splits)

lemma bar_keeps:
  "barrier b r = Some (at1, til1) \<Longrightarrow>
     \<exists>at2 til2. barrier (bar r' at0 til b) r = Some (at2, til2) \<and> at1 \<le> at2 \<and> til1 \<le> til2"
  by (auto simp: barrier_bar)

lemma bar_commute:
  "barrier (bar r a t (bar r' a' t' b)) r'' = barrier (bar r' a' t' (bar r a t b)) r''"
  by (auto simp: barrier_bar max.commute max.left_commute split: option.splits)

lemma forget_keeps:
  "barrier b r = Some (at0, til) \<Longrightarrow> now < til \<Longrightarrow> barrier (forget now b) r = Some (at0, til)"
  by (simp add: barrier_forget)

end

end
