(* ===== verification/Memory_Store.thy ===== *)
theory Memory_Store
  imports Storage
begin

text \<open>
  The in-memory store (\<^verbatim>\<open>store.rs\<close>, \<^verbatim>\<open>MemoryInner\<close> and the \<^verbatim>\<open>Storage\<close> implementation of
  \<^verbatim>\<open>MemoryStorage\<close>). Every operation runs under one mutex, so each is one atomic function of the
  state. A \<^verbatim>\<open>HashMap\<close> iteration is taken in key order; only the consent queries iterate.
\<close>

record barrier_times =
  bt_recorded_at :: system_time
  bt_until :: system_time

record scope_barriers =
  sb_client :: "barrier_times option"
  sb_family :: "barrier_times option"
  sb_consents :: "(string, barrier_times) table"

record memory =
  m_clients :: "(string, client) table"
  m_device_by_code :: "(string, device_grant) table"
  m_user_code_index :: "(string, string) table"
  m_codes :: "(string, code_record) table"
  m_pushed :: "(string, pushed_request) table"
  m_tokens :: "(string, issued_token) table"
  m_refresh :: "(string, refresh_token_record) table"
  m_consents :: "(string, consent_record) table"
  m_replay_ids :: "(string, system_time) table"
  m_barriers :: "(string, scope_barriers) table"

definition memory_new :: memory where
  "memory_new = \<lparr>m_clients = fmempty, m_device_by_code = fmempty, m_user_code_index = fmempty,
     m_codes = fmempty, m_pushed = fmempty, m_tokens = fmempty, m_refresh = fmempty,
     m_consents = fmempty, m_replay_ids = fmempty, m_barriers = fmempty\<rparr>"

section \<open>Revocation barriers\<close>

definition scope_barriers_default :: scope_barriers where
  "scope_barriers_default = \<lparr>sb_client = None, sb_family = None, sb_consents = fmempty\<rparr>"

definition scope_barriers_is_empty :: "scope_barriers \<Rightarrow> bool" where
  "scope_barriers_is_empty b \<longleftrightarrow> sb_client b = None \<and> sb_family b = None \<and> sb_consents b = fmempty"

definition barrier_merge :: "barrier_times \<Rightarrow> system_time \<Rightarrow> system_time \<Rightarrow> barrier_times" where
  "barrier_merge self recorded_at til =
     (let a = (if bt_until self < til then self\<lparr>bt_until := til\<rparr> else self)
      in if bt_recorded_at a < recorded_at then a\<lparr>bt_recorded_at := recorded_at\<rparr> else a)"

definition merge_into ::
  "barrier_times option \<Rightarrow> system_time \<Rightarrow> system_time \<Rightarrow> barrier_times option" where
  "merge_into cur recorded_at til =
     (case cur of
        Some existing \<Rightarrow> Some (barrier_merge existing recorded_at til)
      | None \<Rightarrow> Some \<lparr>bt_recorded_at = recorded_at, bt_until = til\<rparr>)"

definition barrier_covers :: "barrier_times \<Rightarrow> system_time \<Rightarrow> bool" where
  "barrier_covers t established \<longleftrightarrow> established \<le> bt_recorded_at t"

definition is_revoked ::
  "memory \<Rightarrow> client_id \<Rightarrow> string option \<Rightarrow> string option \<Rightarrow> system_time \<Rightarrow> bool" where
  "is_revoked g cid family_id subject grant_established_at \<longleftrightarrow>
     (case fmlookup (m_barriers g) (cid_str cid) of
        None \<Rightarrow> False
      | Some scopes \<Rightarrow>
          (case sb_client scopes of
             None \<Rightarrow> False
           | Some t \<Rightarrow> barrier_covers t grant_established_at \<or> fmlookup (m_clients g) (cid_str cid) = None) \<or>
          (case subject of
             None \<Rightarrow> False
           | Some sub \<Rightarrow>
               (case fmlookup (sb_consents scopes) sub of
                  None \<Rightarrow> False
                | Some t \<Rightarrow> barrier_covers t grant_established_at))) \<or>
     (case family_id of
        None \<Rightarrow> False
      | Some f \<Rightarrow>
          (case fmlookup (m_barriers g) f of
             None \<Rightarrow> False
           | Some scopes \<Rightarrow> sb_family scopes \<noteq> None))"

definition barrier_entry :: "string \<Rightarrow> (string, scope_barriers) table \<Rightarrow> scope_barriers" where
  "barrier_entry k bs = (case fmlookup bs k of None \<Rightarrow> scope_barriers_default | Some b \<Rightarrow> b)"

definition record_barrier ::
  "revocation_barrier \<Rightarrow> system_time \<Rightarrow> system_time \<Rightarrow> (string, scope_barriers) table \<Rightarrow>
     (string, scope_barriers) table" where
  "record_barrier b recorded_at til bs =
     (case b of
        BClient cid \<Rightarrow>
          let entry = barrier_entry (cid_str cid) bs
          in fmupd (cid_str cid) (entry\<lparr>sb_client := merge_into (sb_client entry) recorded_at til\<rparr>) bs
      | BTokenFamily f \<Rightarrow>
          let entry = barrier_entry f bs
          in fmupd f (entry\<lparr>sb_family := merge_into (sb_family entry) recorded_at til\<rparr>) bs
      | BConsent cid subject \<Rightarrow>
          let entry = barrier_entry (cid_str cid) bs;
              cur = (case fmlookup (sb_consents entry) subject of
                       None \<Rightarrow> \<lparr>bt_recorded_at = recorded_at, bt_until = til\<rparr>
                     | Some t \<Rightarrow> t)
          in fmupd (cid_str cid)
               (entry\<lparr>sb_consents := fmupd subject (barrier_merge cur recorded_at til) (sb_consents entry)\<rparr>) bs)"

definition expired_times :: "system_time \<Rightarrow> barrier_times option \<Rightarrow> bool" where
  "expired_times now t = (case t of None \<Rightarrow> False | Some b \<Rightarrow> bt_until b \<le> now)"

definition sweep_scope :: "system_time \<Rightarrow> scope_barriers \<Rightarrow> scope_barriers" where
  "sweep_scope now b =
     b\<lparr>sb_client := (if expired_times now (sb_client b) then None else sb_client b),
       sb_family := (if expired_times now (sb_family b) then None else sb_family b),
       sb_consents := retain (\<lambda>_ t. now < bt_until t) (sb_consents b)\<rparr>"

definition swept_in_scope :: "system_time \<Rightarrow> scope_barriers \<Rightarrow> nat" where
  "swept_in_scope now b =
     (if expired_times now (sb_client b) then 1 else 0) +
     (if expired_times now (sb_family b) then 1 else 0) +
     (table_len (sb_consents b) - table_len (retain (\<lambda>_ t. now < bt_until t) (sb_consents b)))"

definition sweep_barriers ::
  "system_time \<Rightarrow> (string, scope_barriers) table \<Rightarrow> (string, scope_barriers) table" where
  "sweep_barriers now bs = retain (\<lambda>_ b. \<not> scope_barriers_is_empty b) (fmmap (sweep_scope now) bs)"

section \<open>Operations\<close>

definition mem_get_client :: "client_id \<Rightarrow> (memory, client option) op" where
  "mem_get_client cid g = (Ok (fmlookup (m_clients g) (cid_str cid)), g)"

definition mem_put_client :: "client \<Rightarrow> (memory, unit) op" where
  "mem_put_client c g = (Ok (), g\<lparr>m_clients := fmupd (cid_str (cl_client_id c)) c (m_clients g)\<rparr>)"

definition mem_cas_client :: "client \<Rightarrow> client \<Rightarrow> (memory, bool) op" where
  "mem_cas_client expected updated g =
     (case fmlookup (m_clients g) (cid_str (cl_client_id updated)) of
        Some current \<Rightarrow>
          if current = expected
          then (Ok True, g\<lparr>m_clients := fmupd (cid_str (cl_client_id updated)) updated (m_clients g)\<rparr>)
          else (Ok False, g)
      | None \<Rightarrow> (Ok False, g))"

definition prune_index :: "memory \<Rightarrow> memory" where
  "prune_index g =
     g\<lparr>m_user_code_index := retain (\<lambda>_ dc. fmlookup (m_device_by_code g) dc \<noteq> None) (m_user_code_index g)\<rparr>"

definition mem_delete_client :: "client_id \<Rightarrow> revocation_window \<Rightarrow> (memory, bool) op" where
  "mem_delete_client cid window g =
     (case reject_empty_scope ''client_id'' (cid_str cid) of
        Inl e \<Rightarrow> (Err e, g)
      | Inr _ \<Rightarrow>
          let existed = (fmlookup (m_clients g) (cid_str cid) \<noteq> None);
              g1 = g\<lparr>m_clients := fmdrop (cid_str cid) (m_clients g),
                     m_barriers := record_barrier (BClient cid) (win_recorded_at window) (win_until window)
                       (m_barriers g),
                     m_tokens := retain (\<lambda>_ t. tok_client_id t \<noteq> cid) (m_tokens g),
                     m_refresh := retain (\<lambda>_ r. rt_client_id r \<noteq> cid) (m_refresh g),
                     m_codes := retain (\<lambda>_ c. code_client_id c \<noteq> cid) (m_codes g),
                     m_pushed := retain (\<lambda>_ p. par_client_id p \<noteq> cid) (m_pushed g),
                     m_device_by_code := retain (\<lambda>_ d. dg_client_id d \<noteq> cid) (m_device_by_code g),
                     m_consents := retain (\<lambda>_ c. cons_client_id c \<noteq> cid) (m_consents g)\<rparr>
          in (Ok existed, prune_index g1))"

definition err_user_code_taken :: storage_error where
  "err_user_code_taken = StorageError ''user code is already indexed for a different device_code''"

text \<open>The tail \<^verbatim>\<open>put_device_grant\<close> and its compare-and-swap share: claim the code, drop the old one.\<close>

definition index_grant :: "'r \<Rightarrow> device_grant \<Rightarrow> (memory, 'r) op" where
  "index_grant answer grant g =
     (let normalized = normalize_user_code (dg_user_code grant);
          owner = fmlookup (m_user_code_index g) normalized
      in if owner \<noteq> None \<and> owner \<noteq> Some (dg_device_code grant) then (Err err_user_code_taken, g)
         else
           let pruned =
                 (case fmlookup (m_device_by_code g) (dg_device_code grant) of
                    Some previous \<Rightarrow>
                      if normalize_user_code (dg_user_code previous) \<noteq> normalized
                      then fmdrop (normalize_user_code (dg_user_code previous)) (m_user_code_index g)
                      else m_user_code_index g
                  | None \<Rightarrow> m_user_code_index g)
           in (Ok answer,
               g\<lparr>m_user_code_index := fmupd normalized (dg_device_code grant) pruned,
                 m_device_by_code := fmupd (dg_device_code grant) grant (m_device_by_code g)\<rparr>))"

definition mem_put_device_grant :: "device_grant \<Rightarrow> (memory, unit) op" where
  "mem_put_device_grant grant g = index_grant () grant g"

definition mem_get_device_grant :: "string \<Rightarrow> (memory, device_grant option) op" where
  "mem_get_device_grant device_code g = (Ok (fmlookup (m_device_by_code g) device_code), g)"

definition mem_find_device_grant :: "string \<Rightarrow> (memory, device_grant option) op" where
  "mem_find_device_grant code g =
     (Ok (Option.bind (fmlookup (m_user_code_index g) code) (fmlookup (m_device_by_code g))), g)"

definition mem_take_device_grant :: "string \<Rightarrow> (memory, device_grant option) op" where
  "mem_take_device_grant device_code g =
     (let grant = fmlookup (m_device_by_code g) device_code;
          g1 = g\<lparr>m_device_by_code := fmdrop device_code (m_device_by_code g)\<rparr>
      in case grant of
           Some d \<Rightarrow> (Ok grant, g1\<lparr>m_user_code_index :=
              fmdrop (normalize_user_code (dg_user_code d)) (m_user_code_index g1)\<rparr>)
         | None \<Rightarrow> (Ok grant, g1))"

definition mem_cas_device_grant :: "device_grant_state \<Rightarrow> device_grant \<Rightarrow> (memory, bool) op" where
  "mem_cas_device_grant expected updated g =
     (case fmlookup (m_device_by_code g) (dg_device_code updated) of
        Some current \<Rightarrow>
          if dg_state current = expected then index_grant True updated g else (Ok False, g)
      | None \<Rightarrow> (Ok False, g))"

definition mem_put_code :: "code_record \<Rightarrow> (memory, unit) op" where
  "mem_put_code r g = (Ok (), g\<lparr>m_codes := fmupd (code_code r) r (m_codes g)\<rparr>)"

definition mem_cas_code :: "code_state \<Rightarrow> code_record \<Rightarrow> (memory, bool) op" where
  "mem_cas_code expected updated g =
     (case fmlookup (m_codes g) (code_code updated) of
        Some current \<Rightarrow>
          if code_state current = expected
          then (Ok True, g\<lparr>m_codes := fmupd (code_code updated) updated (m_codes g)\<rparr>)
          else (Ok False, g)
      | None \<Rightarrow> (Ok False, g))"

definition mem_take_code :: "string \<Rightarrow> (memory, code_record option) op" where
  "mem_take_code code g = (Ok (fmlookup (m_codes g) code), g\<lparr>m_codes := fmdrop code (m_codes g)\<rparr>)"

definition mem_put_pushed :: "pushed_request \<Rightarrow> (memory, write_outcome) op" where
  "mem_put_pushed r g =
     (if is_revoked g (par_client_id r) None None (par_pushed_at r) then (Ok RefusedRevoked, g)
      else (Ok Applied, g\<lparr>m_pushed := fmupd (par_request_uri r) r (m_pushed g)\<rparr>))"

definition mem_take_pushed :: "string \<Rightarrow> (memory, pushed_request option) op" where
  "mem_take_pushed request_uri g =
     (Ok (fmlookup (m_pushed g) request_uri), g\<lparr>m_pushed := fmdrop request_uri (m_pushed g)\<rparr>)"

definition mem_put_token :: "issued_token \<Rightarrow> (memory, write_outcome) op" where
  "mem_put_token t g =
     (if is_revoked g (tok_client_id t) (tok_family_id t) (tok_subject t) (tok_grant_established_at t)
      then (Ok RefusedRevoked, g)
      else (Ok Applied, g\<lparr>m_tokens := fmupd (tok_access_token t) t (m_tokens g)\<rparr>))"

definition mem_get_token :: "string \<Rightarrow> (memory, issued_token option) op" where
  "mem_get_token access_token g = (Ok (fmlookup (m_tokens g) access_token), g)"

definition mem_delete_token :: "string \<Rightarrow> (memory, unit) op" where
  "mem_delete_token access_token g = (Ok (), g\<lparr>m_tokens := fmdrop access_token (m_tokens g)\<rparr>)"

definition mem_put_refresh :: "refresh_token_record \<Rightarrow> (memory, write_outcome) op" where
  "mem_put_refresh r g =
     (if is_revoked g (rt_client_id r) (Some (rt_family_id r)) (rt_subject r) (rt_grant_established_at r)
      then (Ok RefusedRevoked, g)
      else (Ok Applied, g\<lparr>m_refresh := fmupd (rt_refresh_token r) r (m_refresh g)\<rparr>))"

definition mem_get_refresh :: "string \<Rightarrow> (memory, refresh_token_record option) op" where
  "mem_get_refresh refresh_token g = (Ok (fmlookup (m_refresh g) refresh_token), g)"

definition mem_rotate_refresh ::
  "refresh_token_record \<Rightarrow> refresh_token_record \<Rightarrow> issued_token \<Rightarrow> refresh_token_record option \<Rightarrow>
     (memory, bool) op" where
  "mem_rotate_refresh expected spent access next g =
     (if fmlookup (m_refresh g) (rt_refresh_token expected) \<noteq> Some expected \<or>
         is_revoked g (rt_client_id expected) (Some (rt_family_id expected)) (rt_subject expected)
           (rt_grant_established_at expected)
      then (Ok False, g)
      else
        let r1 = fmupd (rt_refresh_token spent) spent (m_refresh g);
            r2 = (case next of Some n \<Rightarrow> fmupd (rt_refresh_token n) n r1 | None \<Rightarrow> r1)
        in (Ok True, g\<lparr>m_refresh := r2, m_tokens := fmupd (tok_access_token access) access (m_tokens g)\<rparr>))"

definition mem_take_refresh :: "string \<Rightarrow> (memory, refresh_token_record option) op" where
  "mem_take_refresh refresh_token g =
     (Ok (fmlookup (m_refresh g) refresh_token), g\<lparr>m_refresh := fmdrop refresh_token (m_refresh g)\<rparr>)"

definition mem_revoke_family :: "string \<Rightarrow> revocation_window \<Rightarrow> (memory, nat) op" where
  "mem_revoke_family family_id window g =
     (case reject_empty_scope ''family_id'' family_id of
        Inl e \<Rightarrow> (Err e, g)
      | Inr _ \<Rightarrow>
          let count = table_len (m_tokens g) + table_len (m_refresh g);
              g1 = g\<lparr>m_barriers := record_barrier (BTokenFamily family_id) (win_recorded_at window)
                       (win_until window) (m_barriers g),
                     m_tokens := retain (\<lambda>_ t. tok_family_id t \<noteq> Some family_id) (m_tokens g),
                     m_refresh := retain (\<lambda>_ r. rt_family_id r \<noteq> family_id) (m_refresh g)\<rparr>
          in (Ok (count - (table_len (m_tokens g1) + table_len (m_refresh g1))), g1))"

definition mem_put_consent :: "consent_record \<Rightarrow> (memory, unit) op" where
  "mem_put_consent r g = (Ok (), g\<lparr>m_consents := fmupd (cons_consent_id r) r (m_consents g)\<rparr>)"

definition consent_values :: "memory \<Rightarrow> consent_record list" where
  "consent_values g = map snd (sorted_list_of_fmap (m_consents g))"

definition mem_cas_consent :: "consent_record option \<Rightarrow> consent_record \<Rightarrow> (memory, bool) op" where
  "mem_cas_consent expected updated g =
     (let current = List.find (\<lambda>c. cons_client_id c = cons_client_id updated \<and>
                       cons_subject c = cons_subject updated) (consent_values g)
      in if current = expected
         then (Ok True, g\<lparr>m_consents := fmupd (cons_consent_id updated) updated (m_consents g)\<rparr>)
         else (Ok False, g))"

definition mem_get_consent :: "string \<Rightarrow> (memory, consent_record option) op" where
  "mem_get_consent consent_id g = (Ok (fmlookup (m_consents g) consent_id), g)"

definition mem_find_consent :: "client_id \<Rightarrow> string \<Rightarrow> (memory, consent_record option) op" where
  "mem_find_consent cid subject g =
     (Ok (List.find (\<lambda>c. cons_client_id c = cid \<and> cons_subject c = subject) (consent_values g)), g)"

definition mem_consents_for_subject :: "string \<Rightarrow> (memory, consent_record list) op" where
  "mem_consents_for_subject subject g =
     (Ok (filter (\<lambda>c. cons_subject c = subject) (consent_values g)), g)"

definition grant_len :: "memory \<Rightarrow> nat" where
  "grant_len g = table_len (m_tokens g) + table_len (m_refresh g) + table_len (m_codes g) +
     table_len (m_device_by_code g)"

definition mem_revoke_consent :: "string \<Rightarrow> revocation_window \<Rightarrow> (memory, nat) op" where
  "mem_revoke_consent consent_id window g =
     (case fmlookup (m_consents g) consent_id of
        None \<Rightarrow> (Ok 0, g)
      | Some consent \<Rightarrow>
          (case rbind (reject_empty_scope ''client_id'' (cid_str (cons_client_id consent)))
                  (\<lambda>_. reject_empty_scope ''subject'' (cons_subject consent)) of
             Inl e \<Rightarrow> (Err e, g)
           | Inr _ \<Rightarrow>
               let cid = cons_client_id consent;
                   subject = cons_subject consent;
                   g1 = g\<lparr>m_consents := fmdrop consent_id (m_consents g),
                          m_barriers := record_barrier (BConsent cid subject) (win_recorded_at window)
                            (win_until window) (m_barriers g),
                          m_tokens := retain (\<lambda>_ t. \<not> (tok_client_id t = cid \<and> tok_subject t = Some subject))
                            (m_tokens g),
                          m_refresh := retain (\<lambda>_ r. \<not> (rt_client_id r = cid \<and> rt_subject r = Some subject))
                            (m_refresh g),
                          m_codes := retain (\<lambda>_ c. \<not> (code_client_id c = cid \<and> code_subject c = subject))
                            (m_codes g),
                          m_device_by_code := retain (\<lambda>_ d. \<not> (dg_client_id d = cid \<and>
                             dg_state d = Approved subject)) (m_device_by_code g)\<rparr>
               in (Ok (grant_len g - grant_len g1), prune_index g1)))"

definition mem_claim_replay_id :: "string \<Rightarrow> system_time \<Rightarrow> (memory, bool) op" where
  "mem_claim_replay_id i expires_at g =
     (if fmlookup (m_replay_ids g) i \<noteq> None then (Ok False, g)
      else (Ok True, g\<lparr>m_replay_ids := fmupd i expires_at (m_replay_ids g)\<rparr>))"

definition mem_sweep_expired :: "system_time \<Rightarrow> (memory, nat) op" where
  "mem_sweep_expired now g =
     (let g1 = g\<lparr>m_device_by_code := retain (\<lambda>_ d. now < dg_expires_at d) (m_device_by_code g)\<rparr>;
          g2 = (prune_index g1)\<lparr>
                 m_codes := retain (\<lambda>_ c. now < code_expires_at c) (m_codes g),
                 m_pushed := retain (\<lambda>_ p. now < par_expires_at p) (m_pushed g),
                 m_tokens := retain (\<lambda>_ t. now < tok_expires_at t) (m_tokens g),
                 m_refresh := retain (\<lambda>_ r. case rt_expires_at r of Some exp \<Rightarrow> now < exp | None \<Rightarrow> True)
                   (m_refresh g),
                 m_replay_ids := retain (\<lambda>_ exp. now < exp) (m_replay_ids g),
                 m_barriers := sweep_barriers now (m_barriers g)\<rparr>;
          removed =
            (table_len (m_device_by_code g) - table_len (m_device_by_code g2)) +
            (table_len (m_codes g) - table_len (m_codes g2)) +
            (table_len (m_pushed g) - table_len (m_pushed g2)) +
            (table_len (m_tokens g) - table_len (m_tokens g2)) +
            (table_len (m_refresh g) - table_len (m_refresh g2)) +
            (table_len (m_replay_ids g) - table_len (m_replay_ids g2)) +
            sum_list (map (\<lambda>(_, b). swept_in_scope now b) (sorted_list_of_fmap (m_barriers g)))
      in (Ok removed, g2))"

definition mem_storage :: "memory storage" where
  "mem_storage = \<lparr>
     st_get_client = mem_get_client, st_put_client = mem_put_client, st_cas_client = mem_cas_client,
     st_delete_client = mem_delete_client, st_put_device_grant = mem_put_device_grant,
     st_get_device_grant = mem_get_device_grant, st_find_device_grant = mem_find_device_grant,
     st_take_device_grant = mem_take_device_grant, st_cas_device_grant = mem_cas_device_grant,
     st_put_code = mem_put_code, st_cas_code = mem_cas_code, st_take_code = mem_take_code,
     st_put_pushed = mem_put_pushed, st_take_pushed = mem_take_pushed, st_put_token = mem_put_token,
     st_get_token = mem_get_token, st_delete_token = mem_delete_token,
     st_put_refresh = mem_put_refresh, st_get_refresh = mem_get_refresh,
     st_rotate_refresh = mem_rotate_refresh, st_take_refresh = mem_take_refresh,
     st_revoke_family = mem_revoke_family, st_put_consent = mem_put_consent,
     st_cas_consent = mem_cas_consent, st_get_consent = mem_get_consent,
     st_find_consent = mem_find_consent, st_consents_for_subject = mem_consents_for_subject,
     st_revoke_consent = mem_revoke_consent, st_claim_replay_id = mem_claim_replay_id,
     st_sweep_expired = mem_sweep_expired\<rparr>"

lemmas mem_op_defs =
  mem_get_client_def mem_put_client_def mem_cas_client_def mem_delete_client_def
  mem_put_device_grant_def mem_get_device_grant_def mem_find_device_grant_def
  mem_take_device_grant_def mem_cas_device_grant_def mem_put_code_def mem_cas_code_def
  mem_take_code_def mem_put_pushed_def mem_take_pushed_def mem_put_token_def mem_get_token_def
  mem_delete_token_def mem_put_refresh_def mem_get_refresh_def mem_rotate_refresh_def
  mem_take_refresh_def mem_revoke_family_def mem_put_consent_def mem_cas_consent_def
  mem_get_consent_def mem_find_consent_def mem_consents_for_subject_def mem_revoke_consent_def
  mem_claim_replay_id_def

end
