(* ===== verification/Memory_Props.thy ===== *)
theory Memory_Props
  imports Memory_Store
begin

text \<open>
  What the in-memory store guarantees. The nested barrier table refines the abstract barrier map; a
  barrier, once recorded, keeps every token of its scope out of the store under every operation;
  the user-code index always mirrors the device grants; the one-shot operations are one-shot.
\<close>

section \<open>The nested barrier table refines the abstract barrier map\<close>

definition times_pair :: "barrier_times \<Rightarrow> system_time \<times> system_time" where
  "times_pair t = (bt_recorded_at t, bt_until t)"

fun mem_barrier ::
  "(string, scope_barriers) table \<Rightarrow> revocation_barrier \<Rightarrow> (system_time \<times> system_time) option" where
  "mem_barrier bs (BClient c) = map_option times_pair (sb_client (barrier_entry (cid_str c) bs))"
| "mem_barrier bs (BTokenFamily f) = map_option times_pair (sb_family (barrier_entry f bs))"
| "mem_barrier bs (BConsent c s) =
     map_option times_pair (fmlookup (sb_consents (barrier_entry (cid_str c) bs)) s)"

lemma barrier_entry_fmupd [simp]:
  "barrier_entry k (fmupd k' b bs) = (if k = k' then b else barrier_entry k bs)"
  by (simp add: barrier_entry_def)

lemma times_pair_merge [simp]:
  "times_pair (barrier_merge t a u) = (max (bt_recorded_at t) a, max (bt_until t) u)"
  by (simp add: barrier_merge_def times_pair_def Let_def max_def)

lemma merge_into_pair:
  "map_option times_pair (merge_into cur a u) =
     Some (case map_option times_pair cur of None \<Rightarrow> (a, u) | Some (a', u') \<Rightarrow> (max a' a, max u' u))"
  by (cases cur) (simp_all add: merge_into_def, simp_all add: times_pair_def)

lemma scope_barriers_is_empty_iff: "scope_barriers_is_empty b \<longleftrightarrow> b = scope_barriers_default"
  by (cases b) (auto simp: scope_barriers_is_empty_def scope_barriers_default_def)

lemma sweep_scope_default [simp]: "sweep_scope now scope_barriers_default = scope_barriers_default"
  by (simp add: sweep_scope_def scope_barriers_default_def expired_times_def)

lemma barrier_entry_sweep: "barrier_entry k (sweep_barriers now bs) = sweep_scope now (barrier_entry k bs)"
  by (auto simp: barrier_entry_def sweep_barriers_def scope_barriers_is_empty_iff split: option.splits)

lemma mem_barrier_record:
  "mem_barrier (record_barrier r a u bs) r' =
     (if r' = r then
        Some (case mem_barrier bs r of None \<Rightarrow> (a, u) | Some (a', u') \<Rightarrow> (max a' a, max u' u))
      else mem_barrier bs r')"
proof (cases r)
  case (BConsent c s)
  show ?thesis
  proof (cases "fmlookup (sb_consents (barrier_entry (cid_str c) bs)) s")
    case None
    then show ?thesis unfolding BConsent
      by (cases r') (auto simp: record_barrier_def Let_def client_id.expand barrier_merge_def times_pair_def)
  next
    case (Some t)
    then show ?thesis unfolding BConsent
      by (cases r') (auto simp: record_barrier_def Let_def client_id.expand, auto simp: times_pair_def)
  qed
qed (cases r'; auto simp: record_barrier_def Let_def merge_into_pair client_id.expand)+

lemma mem_barrier_sweep:
  "mem_barrier (sweep_barriers now bs) r =
     (case mem_barrier bs r of
        None \<Rightarrow> None
      | Some (a, u) \<Rightarrow> if u \<le> now then None else Some (a, u))"
  by (cases r)
    (auto simp: barrier_entry_sweep sweep_scope_def expired_times_def times_pair_def split: option.splits)

interpretation mem_barriers: barrier_map mem_barrier record_barrier sweep_barriers
  by unfold_locales (rule mem_barrier_record mem_barrier_sweep)+

lemma is_revoked_iff:
  "is_revoked g c f s e \<longleftrightarrow>
     (\<exists>a u. mem_barrier (m_barriers g) (BClient c) = Some (a, u) \<and>
        (e \<le> a \<or> fmlookup (m_clients g) (cid_str c) = None)) \<or>
     (\<exists>sub a u. s = Some sub \<and> mem_barrier (m_barriers g) (BConsent c sub) = Some (a, u) \<and> e \<le> a) \<or>
     (\<exists>fam. f = Some fam \<and> mem_barrier (m_barriers g) (BTokenFamily fam) \<noteq> None)"
  by (auto simp: is_revoked_def barrier_entry_def scope_barriers_default_def barrier_covers_def
      times_pair_def split: option.splits)

text \<open>The abstract specification: one entry per scope, and a verdict that reads the entries.\<close>

type_synonym barrier_spec = "revocation_barrier \<Rightarrow> (system_time \<times> system_time) option"

definition spec_record :: "revocation_barrier \<Rightarrow> system_time \<Rightarrow> system_time \<Rightarrow> barrier_spec \<Rightarrow> barrier_spec" where
  "spec_record r a u m =
     m(r \<mapsto> (case m r of None \<Rightarrow> (a, u) | Some (a', u') \<Rightarrow> (max a' a, max u' u)))"

definition spec_sweep :: "system_time \<Rightarrow> barrier_spec \<Rightarrow> barrier_spec" where
  "spec_sweep now m r = (case m r of Some (a, u) \<Rightarrow> if u \<le> now then None else Some (a, u) | None \<Rightarrow> None)"

definition spec_revoked ::
  "(client_id \<Rightarrow> bool) \<Rightarrow> barrier_spec \<Rightarrow> client_id \<Rightarrow> string option \<Rightarrow> string option \<Rightarrow> system_time \<Rightarrow> bool" where
  "spec_revoked exists m c family subject established \<longleftrightarrow>
     (\<exists>a u. m (BClient c) = Some (a, u) \<and> (established \<le> a \<or> \<not> exists c)) \<or>
     (\<exists>sub a u. subject = Some sub \<and> m (BConsent c sub) = Some (a, u) \<and> established \<le> a) \<or>
     (\<exists>fam. family = Some fam \<and> m (BTokenFamily fam) \<noteq> None)"

text \<open>
  C20. The nested barrier table of the in-memory store, which files client, consent and family barriers of
  one key together and prunes empty entries, refines the flat specification: recording, sweeping and
  the revocation verdict commute with the abstraction.
\<close>
theorem barrier_table_refines_spec:
  "mem_barrier (record_barrier r a u bs) = spec_record r a u (mem_barrier bs) \<and>
   mem_barrier (sweep_barriers now bs) = spec_sweep now (mem_barrier bs) \<and>
   is_revoked g c f s e =
     spec_revoked (\<lambda>c. fmlookup (m_clients g) (cid_str c) \<noteq> None) (mem_barrier (m_barriers g)) c f s e"
proof (intro conjI ext)
  show "mem_barrier (record_barrier r a u bs) r' = spec_record r a u (mem_barrier bs) r'" for r'
    by (simp add: mem_barrier_record spec_record_def)
  show "mem_barrier (sweep_barriers now bs) r' = spec_sweep now (mem_barrier bs) r'" for r'
    by (simp add: mem_barrier_sweep spec_sweep_def split: option.split)
  show "is_revoked g c f s e =
      spec_revoked (\<lambda>c. fmlookup (m_clients g) (cid_str c) \<noteq> None) (mem_barrier (m_barriers g)) c f s e"
    by (simp add: is_revoked_iff spec_revoked_def)
qed

section \<open>A barred scope stays empty\<close>

text \<open>The records a barrier speaks about: those of its scope, from grants no later than \<open>at0\<close>.\<close>

fun barred ::
  "revocation_barrier \<Rightarrow> system_time \<Rightarrow> client_id \<Rightarrow> string option \<Rightarrow> string option \<Rightarrow> system_time \<Rightarrow> bool" where
  "barred (BClient c) at0 cid fam sub e = (cid = c \<and> e \<le> at0)"
| "barred (BTokenFamily f) at0 cid fam sub e = (fam = Some f)"
| "barred (BConsent c s) at0 cid fam sub e = (cid = c \<and> sub = Some s \<and> e \<le> at0)"

definition barred_token :: "revocation_barrier \<Rightarrow> system_time \<Rightarrow> issued_token \<Rightarrow> bool" where
  "barred_token b at0 t =
     barred b at0 (tok_client_id t) (tok_family_id t) (tok_subject t) (tok_grant_established_at t)"

definition barred_refresh :: "revocation_barrier \<Rightarrow> system_time \<Rightarrow> refresh_token_record \<Rightarrow> bool" where
  "barred_refresh b at0 r =
     barred b at0 (rt_client_id r) (Some (rt_family_id r)) (rt_subject r) (rt_grant_established_at r)"

definition scope_dead :: "revocation_barrier \<Rightarrow> system_time \<Rightarrow> system_time \<Rightarrow> memory \<Rightarrow> bool" where
  "scope_dead b at0 til g \<longleftrightarrow>
     (\<exists>a u. mem_barrier (m_barriers g) b = Some (a, u) \<and> at0 \<le> a \<and> til \<le> u) \<and>
     (\<forall>k t. fmlookup (m_tokens g) k = Some t \<longrightarrow> \<not> barred_token b at0 t) \<and>
     (\<forall>k r. fmlookup (m_refresh g) k = Some r \<longrightarrow> \<not> barred_refresh b at0 r)"

lemma barred_is_revoked:
  assumes "scope_dead b at0 til g" and "barred b at0 c f s e"
  shows "is_revoked g c f s e"
proof -
  obtain a u where "mem_barrier (m_barriers g) b = Some (a, u)" "at0 \<le> a"
    using assms(1) by (auto simp: scope_dead_def)
  with assms(2) show ?thesis by (cases b) (auto simp: is_revoked_iff)
qed

definition barrier_step ::
  "(string, scope_barriers) table \<Rightarrow> (string, scope_barriers) table \<Rightarrow> bool" where
  "barrier_step bs bs' \<longleftrightarrow> bs' = bs \<or> (\<exists>r a u. bs' = record_barrier r a u bs)"

lemma barrier_step_intros [simp]: "barrier_step bs bs" "barrier_step bs (record_barrier r a u bs)"
  by (auto simp: barrier_step_def)

lemma barrier_step_keeps:
  assumes "barrier_step bs bs'" and "mem_barrier bs b = Some (a, u)"
  shows "\<exists>a' u'. mem_barrier bs' b = Some (a', u') \<and> a \<le> a' \<and> u \<le> u'"
  using assms mem_barriers.bar_keeps [OF assms(2)] by (auto simp: barrier_step_def)

lemma scope_dead_cong:
  assumes "scope_dead b at0 til g"
    and "barrier_step (m_barriers g) (m_barriers g')"
    and "\<And>k t. fmlookup (m_tokens g') k = Some t \<Longrightarrow>
           fmlookup (m_tokens g) k = Some t \<or> \<not> barred_token b at0 t"
    and "\<And>k r. fmlookup (m_refresh g') k = Some r \<Longrightarrow>
           fmlookup (m_refresh g) k = Some r \<or> \<not> barred_refresh b at0 r"
  shows "scope_dead b at0 til g'"
proof -
  obtain a u where "mem_barrier (m_barriers g) b = Some (a, u)" "at0 \<le> a" "til \<le> u"
    using assms(1) by (auto simp: scope_dead_def)
  then have "\<exists>a u. mem_barrier (m_barriers g') b = Some (a, u) \<and> at0 \<le> a \<and> til \<le> u"
    using barrier_step_keeps [OF assms(2)] by fastforce
  moreover have "\<not> barred_token b at0 t" if "fmlookup (m_tokens g') k = Some t" for k t
    using assms(3) [OF that] assms(1) by (auto simp: scope_dead_def)
  moreover have "\<not> barred_refresh b at0 r" if "fmlookup (m_refresh g') k = Some r" for k r
    using assms(4) [OF that] assms(1) by (auto simp: scope_dead_def)
  ultimately show ?thesis unfolding scope_dead_def by simp
qed

lemma scope_dead_put_token: "scope_dead b at0 til g \<Longrightarrow> scope_dead b at0 til (snd (mem_put_token t g))"
  using barred_is_revoked [of b at0 til g "tok_client_id t" "tok_family_id t" "tok_subject t"
      "tok_grant_established_at t"]
  by (auto simp: mem_put_token_def barred_token_def elim!: scope_dead_cong split: if_splits)

lemma scope_dead_put_refresh: "scope_dead b at0 til g \<Longrightarrow> scope_dead b at0 til (snd (mem_put_refresh r g))"
  using barred_is_revoked [of b at0 til g "rt_client_id r" "Some (rt_family_id r)" "rt_subject r"
      "rt_grant_established_at r"]
  by (auto simp: mem_put_refresh_def barred_refresh_def elim!: scope_dead_cong split: if_splits)

lemma scope_dead_rotate:
  assumes "scope_dead b at0 til g" and "rotation_shape e sp ac n"
  shows "scope_dead b at0 til (snd (mem_rotate_refresh e sp ac n g))"
proof (cases "fmlookup (m_refresh g) (rt_refresh_token e) = Some e")
  case True
  then have "\<not> barred_refresh b at0 e" using assms(1) by (auto simp: scope_dead_def)
  then have "\<not> barred_refresh b at0 sp" "\<not> barred_token b at0 ac"
    "\<And>m. n = Some m \<Longrightarrow> \<not> barred_refresh b at0 m"
    using assms(2) by (auto simp: rotation_shape_def barred_refresh_def barred_token_def)
  then show ?thesis
    using assms(1) by (auto simp: mem_rotate_refresh_def Let_def elim!: scope_dead_cong
        split: if_splits option.splits)
qed (use assms in \<open>simp add: mem_rotate_refresh_def\<close>)

text \<open>Operations that add no token and no refresh record.\<close>

lemma scope_dead_others:
  assumes "scope_dead b at0 til g"
  shows "scope_dead b at0 til (snd (mem_put_client c g))"
    and "scope_dead b at0 til (snd (mem_cas_client c d g))"
    and "scope_dead b at0 til (snd (mem_delete_client cid w g))"
    and "scope_dead b at0 til (snd (index_grant x dg g))"
    and "scope_dead b at0 til (snd (mem_take_device_grant k g))"
    and "scope_dead b at0 til (snd (mem_cas_device_grant q dg g))"
    and "scope_dead b at0 til (snd (mem_put_code cr g))"
    and "scope_dead b at0 til (snd (mem_cas_code cs cr g))"
    and "scope_dead b at0 til (snd (mem_take_code k g))"
    and "scope_dead b at0 til (snd (mem_put_pushed p g))"
    and "scope_dead b at0 til (snd (mem_take_pushed k g))"
    and "scope_dead b at0 til (snd (mem_delete_token k g))"
    and "scope_dead b at0 til (snd (mem_take_refresh k g))"
    and "scope_dead b at0 til (snd (mem_revoke_family k w g))"
    and "scope_dead b at0 til (snd (mem_put_consent co g))"
    and "scope_dead b at0 til (snd (mem_cas_consent oc co g))"
    and "scope_dead b at0 til (snd (mem_revoke_consent k w g))"
    and "scope_dead b at0 til (snd (mem_claim_replay_id k t g))"
  using assms
  by (auto simp: mem_op_defs index_grant_def prune_index_def Let_def elim!: scope_dead_cong
      split: if_splits option.splits sum.splits)

interpretation dead: storage_invariant mem_storage "scope_dead b at0 til" for b at0 til
  by unfold_locales
    (simp_all add: mem_storage_def scope_dead_others scope_dead_put_token scope_dead_put_refresh
      scope_dead_rotate, simp_all add: mem_op_defs scope_dead_others [unfolded mem_op_defs])


section \<open>Revocation bars the scope\<close>

lemma reject_empty_scope_Ok [simp]: "value \<noteq> [] \<Longrightarrow> reject_empty_scope what value = Inr ()"
  by (simp add: reject_empty_scope_def)

lemma record_barrier_covers:
  "\<exists>a u. mem_barrier (record_barrier b a0 u0 bs) b = Some (a, u) \<and> a0 \<le> a \<and> u0 \<le> u"
  by (rule mem_barriers.bar_covers)

lemma revoke_family_dead:
  "fam \<noteq> [] \<Longrightarrow>
     scope_dead (BTokenFamily fam) (win_recorded_at w) (win_until w) (snd (mem_revoke_family fam w g))"
  using record_barrier_covers [of "BTokenFamily fam" "win_recorded_at w" "win_until w" "m_barriers g"]
  by (auto simp: scope_dead_def mem_revoke_family_def Let_def barred_token_def barred_refresh_def
      split: option.splits if_splits)

lemma delete_client_dead:
  "cid_str c \<noteq> [] \<Longrightarrow>
     scope_dead (BClient c) (win_recorded_at w) (win_until w) (snd (mem_delete_client c w g))"
  using record_barrier_covers [of "BClient c" "win_recorded_at w" "win_until w" "m_barriers g"]
  by (auto simp: scope_dead_def mem_delete_client_def prune_index_def Let_def barred_token_def
      barred_refresh_def split: option.splits if_splits)

lemma revoke_consent_dead:
  "fmlookup (m_consents g) k = Some co \<Longrightarrow> cid_str (cons_client_id co) \<noteq> [] \<Longrightarrow> cons_subject co \<noteq> [] \<Longrightarrow>
     scope_dead (BConsent (cons_client_id co) (cons_subject co)) (win_recorded_at w) (win_until w)
       (snd (mem_revoke_consent k w g))"
  using record_barrier_covers [of "BConsent (cons_client_id co) (cons_subject co)" "win_recorded_at w"
      "win_until w" "m_barriers g"]
  by (auto simp: scope_dead_def mem_revoke_consent_def prune_index_def Let_def barred_token_def
      barred_refresh_def split: option.splits if_splits)

lemma scope_dead_sweep:
  assumes "scope_dead b at0 til g" and "now < til"
  shows "scope_dead b at0 til (snd (mem_sweep_expired now g))"
proof -
  obtain a u where *: "mem_barrier (m_barriers g) b = Some (a, u)" "at0 \<le> a" "til \<le> u"
    using assms(1) by (auto simp: scope_dead_def)
  then have "mem_barrier (sweep_barriers now (m_barriers g)) b = Some (a, u)"
    using assms(2) by (intro mem_barriers.forget_keeps) simp_all
  then show ?thesis
    using assms(1) * by (auto simp: scope_dead_def mem_sweep_expired_def Let_def
        split: option.splits if_splits)
qed

text \<open>
  Revocation is final: once a token family is revoked, a client deleted or a consent withdrawn,
  no sequence of store operations, with any arguments, brings back an access or refresh token of
  that scope whose grant is no newer than the revocation, until a sweep after the recorded horizon.
\<close>
theorem revoked_scope_stays_dead:
  assumes "(fam \<noteq> [] \<and> g1 = snd (mem_revoke_family fam w g) \<and> b = BTokenFamily fam) \<or>
     (cid_str c \<noteq> [] \<and> g1 = snd (mem_delete_client c w g) \<and> b = BClient c) \<or>
     (fmlookup (m_consents g) k = Some co \<and> cid_str (cons_client_id co) \<noteq> [] \<and> cons_subject co \<noteq> [] \<and>
        g1 = snd (mem_revoke_consent k w g) \<and> b = BConsent (cons_client_id co) (cons_subject co))"
    and "(\<lambda>x y. store_step mem_storage x y \<or> (\<exists>now. now < win_until w \<and> y = snd (mem_sweep_expired now x)))\<^sup>*\<^sup>*
           g1 g2"
  shows "(\<forall>key t. fmlookup (m_tokens g2) key = Some t \<longrightarrow> \<not> barred_token b (win_recorded_at w) t) \<and>
     (\<forall>key r. fmlookup (m_refresh g2) key = Some r \<longrightarrow> \<not> barred_refresh b (win_recorded_at w) r)"
proof -
  have "scope_dead b (win_recorded_at w) (win_until w) g1"
    using assms(1) revoke_family_dead delete_client_dead revoke_consent_dead by blast
  with assms(2) have "scope_dead b (win_recorded_at w) (win_until w) g2"
    by (induction rule: rtranclp_induct) (auto dest: dead.store_step_in intro: scope_dead_sweep)
  then show ?thesis by (simp add: scope_dead_def)
qed

theorem revoked_scope_stays_dead_witness:
  "\<not> barred_token (BTokenFamily ''f'') 5
     ((issued_token_new ''t'' (ClientId ''c'') None scope_empty 0 9)\<lparr>tok_family_id := Some ''g''\<rparr>)"
proof -
  let ?w = "\<lparr>win_recorded_at = 5, win_until = 10\<rparr>"
  let ?t = "(issued_token_new ''t'' (ClientId ''c'') None scope_empty 0 9)\<lparr>tok_family_id := Some ''g''\<rparr>"
  let ?g1 = "snd (mem_revoke_family ''f'' ?w memory_new)"
  let ?g2 = "snd (mem_put_token ?t ?g1)"
  have "store_step mem_storage ?g1 ?g2"
    using store_step.intros(15) [of mem_storage ?g1 ?t] by (simp add: mem_storage_def)
  then have steps: "(\<lambda>x y. store_step mem_storage x y \<or> (\<exists>now. now < win_until ?w \<and> y = snd (mem_sweep_expired now x)))\<^sup>*\<^sup>* ?g1 ?g2"
    by (intro r_into_rtranclp) simp
  have "fmlookup (m_tokens ?g2) ''t'' = Some ?t"
    by code_simp
  then show ?thesis
    using revoked_scope_stays_dead [OF disjI1 steps, of "''f''" memory_new "BTokenFamily ''f''"] by auto
qed


section \<open>The user-code index mirrors the device grants\<close>

definition index_ok :: "memory \<Rightarrow> bool" where
  "index_ok g \<longleftrightarrow>
     (\<forall>uc dc. fmlookup (m_user_code_index g) uc = Some dc \<longrightarrow>
        (\<exists>d. fmlookup (m_device_by_code g) dc = Some d \<and> normalize_user_code (dg_user_code d) = uc)) \<and>
     (\<forall>dc d. fmlookup (m_device_by_code g) dc = Some d \<longrightarrow>
        dg_device_code d = dc \<and>
        fmlookup (m_user_code_index g) (normalize_user_code (dg_user_code d)) = Some dc)"

lemma index_okD:
  assumes "index_ok g"
  shows "fmlookup (m_user_code_index g) uc = Some dc \<Longrightarrow>
      \<exists>d. fmlookup (m_device_by_code g) dc = Some d \<and> normalize_user_code (dg_user_code d) = uc"
    and "fmlookup (m_device_by_code g) dc = Some d \<Longrightarrow> dg_device_code d = dc \<and>
      fmlookup (m_user_code_index g) (normalize_user_code (dg_user_code d)) = Some dc"
  using assms by (auto simp: index_ok_def)

lemma index_ok_new [simp]: "index_ok memory_new"
  by (simp add: index_ok_def memory_new_def)

lemma index_ok_cong:
  "index_ok g \<Longrightarrow> m_user_code_index g' = m_user_code_index g \<Longrightarrow> m_device_by_code g' = m_device_by_code g \<Longrightarrow>
     index_ok g'"
  by (simp add: index_ok_def)

lemma index_ok_prune:
  assumes "index_ok g" and "m_user_code_index g' = m_user_code_index g"
    and "m_device_by_code g' = retain P (m_device_by_code g)"
  shows "index_ok (prune_index g')"
proof -
  have 1: "\<exists>d. fmlookup (m_device_by_code (prune_index g')) dc = Some d \<and> normalize_user_code (dg_user_code d) = uc"
    if "fmlookup (m_user_code_index (prune_index g')) uc = Some dc" for uc dc
  proof -
    from that have "fmlookup (m_user_code_index g) uc = Some dc"
      and "fmlookup (retain P (m_device_by_code g)) dc \<noteq> None"
      using assms(2,3) by (auto simp: prune_index_def split: option.splits if_splits)
    then show ?thesis
      using assms(1,3) by (fastforce simp: index_ok_def prune_index_def split: option.splits if_splits)
  qed
  have 2: "dg_device_code d = dc \<and>
      fmlookup (m_user_code_index (prune_index g')) (normalize_user_code (dg_user_code d)) = Some dc"
    if "fmlookup (m_device_by_code (prune_index g')) dc = Some d" for dc d
  proof -
    from that have d: "fmlookup (m_device_by_code g) dc = Some d"
      "fmlookup (retain P (m_device_by_code g)) dc = Some d"
      using assms(3) by (auto simp: prune_index_def split: option.splits if_splits)
    then show ?thesis
      using assms by (simp add: index_ok_def prune_index_def)
  qed
  show ?thesis using 1 2 unfolding index_ok_def by blast
qed

lemma index_ok_index_grant:
  assumes "index_ok g"
  shows "index_ok (snd (index_grant x d g))"
proof -
  let ?n = "normalize_user_code (dg_user_code d)" and ?c = "dg_device_code d"
  let ?o = "fmlookup (m_user_code_index g) ?n"
  have a: "fmlookup (m_device_by_code g) dc = Some e \<and> normalize_user_code (dg_user_code e) = uc"
    if "fmlookup (m_user_code_index g) uc = Some dc" "fmlookup (m_device_by_code g) dc = Some e" for uc dc e
    using assms that unfolding index_ok_def by fastforce
  have b: "dg_device_code e = dc \<and> fmlookup (m_user_code_index g) (normalize_user_code (dg_user_code e)) = Some dc"
    if "fmlookup (m_device_by_code g) dc = Some e" for dc e
    using assms that by (simp add: index_ok_def)
  have c: "\<exists>e. fmlookup (m_device_by_code g) dc = Some e"
    if "fmlookup (m_user_code_index g) uc = Some dc" for uc dc
    using assms that unfolding index_ok_def by blast
  show ?thesis
  proof (cases "?o \<noteq> None \<and> ?o \<noteq> Some ?c")
    case True
    then show ?thesis using assms by (simp add: index_grant_def Let_def)
  next
    case False
    define idx where "idx = (case fmlookup (m_device_by_code g) ?c of
        Some previous \<Rightarrow>
          if normalize_user_code (dg_user_code previous) \<noteq> ?n
          then fmdrop (normalize_user_code (dg_user_code previous)) (m_user_code_index g)
          else m_user_code_index g
      | None \<Rightarrow> m_user_code_index g)"
    have g': "snd (index_grant x d g) = g\<lparr>m_user_code_index := fmupd ?n ?c idx,
        m_device_by_code := fmupd ?c d (m_device_by_code g)\<rparr>"
      using False by (auto simp: index_grant_def Let_def idx_def)
    have idx: "fmlookup idx uc = Some dc \<longleftrightarrow> fmlookup (m_user_code_index g) uc = Some dc \<and> dc \<noteq> ?c"
      if "uc \<noteq> ?n" for uc dc
    proof (cases "fmlookup (m_device_by_code g) ?c")
      case None
      then show ?thesis using c [of uc ?c] by (auto simp: idx_def)
    next
      case (Some prev)
      have at_prev: "fmlookup (m_user_code_index g) (normalize_user_code (dg_user_code prev)) = Some ?c"
        using b [OF Some] by simp
      have only_prev: "uc = normalize_user_code (dg_user_code prev)"
        if "fmlookup (m_user_code_index g) uc = Some ?c"
        using a [OF that Some] by simp
      show ?thesis
      proof (cases "uc = normalize_user_code (dg_user_code prev)")
        case True
        then show ?thesis using Some at_prev that by (auto simp: idx_def)
      next
        case False
        then show ?thesis using Some only_prev by (auto simp: idx_def)
      qed
    qed
    have 1: "\<exists>e. fmlookup (fmupd ?c d (m_device_by_code g)) dc = Some e \<and> normalize_user_code (dg_user_code e) = uc"
      if "fmlookup (fmupd ?n ?c idx) uc = Some dc" for uc dc
      using that idx index_okD(1) [OF assms, of uc dc] by (cases "uc = ?n") auto
    have 2: "dg_device_code e = dc \<and> fmlookup (fmupd ?n ?c idx) (normalize_user_code (dg_user_code e)) = Some dc"
      if "fmlookup (fmupd ?c d (m_device_by_code g)) dc = Some e" for dc e
    proof (cases "dc = ?c")
      case True
      then show ?thesis using that by simp
    next
      case False
      then have e: "fmlookup (m_device_by_code g) dc = Some e" using that by simp
      have "normalize_user_code (dg_user_code e) \<noteq> ?n"
        using b [OF e] \<open>\<not> (?o \<noteq> None \<and> ?o \<noteq> Some ?c)\<close> False by auto
      then show ?thesis using b [OF e] idx False by simp
    qed
    have "index_ok (g\<lparr>m_user_code_index := J, m_device_by_code := E\<rparr>)"
      if "\<And>uc dc. fmlookup J uc = Some dc \<Longrightarrow>
            \<exists>e. fmlookup E dc = Some e \<and> normalize_user_code (dg_user_code e) = uc"
        and "\<And>dc e. fmlookup E dc = Some e \<Longrightarrow>
            dg_device_code e = dc \<and> fmlookup J (normalize_user_code (dg_user_code e)) = Some dc" for J E
      using that by (simp add: index_ok_def)
    from this [OF 1 2] show ?thesis unfolding g' .
  qed
qed

lemma index_ok_take:
  assumes "index_ok g"
  shows "index_ok (snd (mem_take_device_grant k g))"
proof (cases "fmlookup (m_device_by_code g) k")
  case None
  then have "fmdrop k (m_device_by_code g) = m_device_by_code g" by (intro fmap_ext) auto
  then show ?thesis using assms None by (simp add: mem_take_device_grant_def)
next
  case (Some d)
  let ?g = "g\<lparr>m_device_by_code := retain (\<lambda>dc _. dc \<noteq> k) (m_device_by_code g)\<rparr>"
  have dev: "retain (\<lambda>dc _. dc \<noteq> k) (m_device_by_code g) = fmdrop k (m_device_by_code g)"
    by (rule fmap_ext) (auto split: option.splits)
  have "retain (\<lambda>_ dc. fmlookup (fmdrop k (m_device_by_code g)) dc \<noteq> None) (m_user_code_index g)
      = fmdrop (normalize_user_code (dg_user_code d)) (m_user_code_index g)"
    using assms Some by (intro fmap_ext) (fastforce simp: index_ok_def split: option.splits)
  then have "snd (mem_take_device_grant k g) = prune_index ?g"
    using Some by (simp add: mem_take_device_grant_def prune_index_def dev)
  then show ?thesis using index_ok_prune [OF assms, of ?g] by simp
qed

lemma index_ok_sweep: "index_ok g \<Longrightarrow> index_ok (snd (mem_sweep_expired now g))"
  using index_ok_prune [of g "g\<lparr>m_device_by_code := retain (\<lambda>_ d. now < dg_expires_at d) (m_device_by_code g)\<rparr>"
      "\<lambda>_ d. now < dg_expires_at d"]
  by (simp add: mem_sweep_expired_def Let_def, erule index_ok_cong) (simp_all add: prune_index_def)

lemma index_ok_delete: "index_ok g \<Longrightarrow> index_ok (snd (mem_delete_client c w g))"
  by (auto simp: mem_delete_client_def Let_def elim!: index_ok_prune split: sum.split)

lemma index_ok_revoke_consent: "index_ok g \<Longrightarrow> index_ok (snd (mem_revoke_consent k w g))"
  by (auto simp: mem_revoke_consent_def Let_def elim!: index_ok_prune split: sum.split option.split)

lemma index_ok_others:
  assumes "index_ok g"
  shows "index_ok (snd (mem_put_client c g))" "index_ok (snd (mem_cas_client c d g))"
    "index_ok (snd (mem_put_code cr g))" "index_ok (snd (mem_cas_code cs cr g))"
    "index_ok (snd (mem_take_code k g))" "index_ok (snd (mem_put_pushed p g))"
    "index_ok (snd (mem_take_pushed k g))" "index_ok (snd (mem_put_token t g))"
    "index_ok (snd (mem_delete_token k g))" "index_ok (snd (mem_put_refresh r g))"
    "index_ok (snd (mem_rotate_refresh e sp ac n g))" "index_ok (snd (mem_take_refresh k g))"
    "index_ok (snd (mem_revoke_family k w g))" "index_ok (snd (mem_put_consent co g))"
    "index_ok (snd (mem_cas_consent oc co g))" "index_ok (snd (mem_claim_replay_id k t0 g))"
    "index_ok (snd (mem_cas_device_grant q dg g))"
  using assms index_ok_index_grant [OF assms, of True dg]
  by (auto simp: mem_op_defs Let_def elim: index_ok_cong split: if_splits option.splits sum.splits)

interpretation index: storage_invariant mem_storage index_ok
  by unfold_locales
    (simp_all add: mem_storage_def index_ok_others index_ok_delete index_ok_revoke_consent index_ok_take
      mem_put_device_grant_def index_ok_index_grant,
     simp_all add: mem_get_client_def mem_get_device_grant_def mem_find_device_grant_def
      mem_get_token_def mem_get_refresh_def mem_get_consent_def mem_find_consent_def
      mem_consents_for_subject_def)

lemma index_ok_lookup:
  assumes ix: "index_ok g"
  shows "fst (mem_find_device_grant uc g) = Ok (Some d) \<longleftrightarrow>
       fmlookup (m_device_by_code g) (dg_device_code d) = Some d \<and> normalize_user_code (dg_user_code d) = uc"
proof -
  have "fst (mem_find_device_grant uc g) = Ok (Some d) \<longleftrightarrow>
      (\<exists>k. fmlookup (m_user_code_index g) uc = Some k \<and> fmlookup (m_device_by_code g) k = Some d)"
    by (auto simp: mem_find_device_grant_def bind_eq_Some_conv)
  also have "\<dots> \<longleftrightarrow>
      fmlookup (m_device_by_code g) (dg_device_code d) = Some d \<and> normalize_user_code (dg_user_code d) = uc"
  proof
    assume "\<exists>k. fmlookup (m_user_code_index g) uc = Some k \<and> fmlookup (m_device_by_code g) k = Some d"
    then obtain k where k: "fmlookup (m_user_code_index g) uc = Some k" "fmlookup (m_device_by_code g) k = Some d"
      by blast
    from index_okD(1) [OF ix k(1)] index_okD(2) [OF ix k(2)] k(2)
    show "fmlookup (m_device_by_code g) (dg_device_code d) = Some d \<and> normalize_user_code (dg_user_code d) = uc"
      by auto
  next
    assume "fmlookup (m_device_by_code g) (dg_device_code d) = Some d \<and> normalize_user_code (dg_user_code d) = uc"
    then show "\<exists>k. fmlookup (m_user_code_index g) uc = Some k \<and> fmlookup (m_device_by_code g) k = Some d"
      using index_okD(2) [OF ix] by blast
  qed
  finally show ?thesis .
qed

lemma index_ok_unique:
  assumes ix: "index_ok g"
    and "fmlookup (m_device_by_code g) dc = Some d" and "fmlookup (m_device_by_code g) dc' = Some d'"
    and "normalize_user_code (dg_user_code d) = normalize_user_code (dg_user_code d')"
  shows "dc = dc'"
  using index_okD(2) [OF ix assms(2)] index_okD(2) [OF ix assms(3)] assms(4) by auto

section \<open>Cascades and sweeps are exact\<close>

text \<open>
  Deleting a client removes everything that belongs to it and nothing else: after the call no
  table holds a record of that client, every record of every other client is untouched, and the
  answer says whether the client was registered.
\<close>
theorem delete_client_exact:
  assumes "cid_str c \<noteq> []"
  shows "let r = mem_delete_client c w g; g' = snd r in
     fst r = Ok (fmlookup (m_clients g) (cid_str c) \<noteq> None) \<and>
     m_clients g' = fmdrop (cid_str c) (m_clients g) \<and>
     m_tokens g' = retain (\<lambda>_ t. tok_client_id t \<noteq> c) (m_tokens g) \<and>
     m_refresh g' = retain (\<lambda>_ t. rt_client_id t \<noteq> c) (m_refresh g) \<and>
     m_codes g' = retain (\<lambda>_ t. code_client_id t \<noteq> c) (m_codes g) \<and>
     m_pushed g' = retain (\<lambda>_ t. par_client_id t \<noteq> c) (m_pushed g) \<and>
     m_device_by_code g' = retain (\<lambda>_ t. dg_client_id t \<noteq> c) (m_device_by_code g) \<and>
     m_consents g' = retain (\<lambda>_ t. cons_client_id t \<noteq> c) (m_consents g) \<and>
     m_replay_ids g' = m_replay_ids g"
  using assms by (simp add: mem_delete_client_def prune_index_def Let_def)

lemma sweep_scope_idem [simp]: "sweep_scope now (sweep_scope now b) = sweep_scope now b"
  by (simp add: sweep_scope_def expired_times_def split: option.splits)

lemma swept_in_scope_sweep [simp]: "swept_in_scope now (sweep_scope now b) = 0"
  by (simp add: swept_in_scope_def sweep_scope_def expired_times_def split: option.splits)

lemma fmlookup_sweep_barriers:
  "fmlookup (sweep_barriers now bs) k =
     (case fmlookup bs k of
        None \<Rightarrow> None
      | Some b \<Rightarrow> if scope_barriers_is_empty (sweep_scope now b) then None else Some (sweep_scope now b))"
  by (auto simp: sweep_barriers_def split: option.splits)

lemma sweep_barriers_idem [simp]: "sweep_barriers now (sweep_barriers now bs) = sweep_barriers now bs"
  by (rule fmap_ext) (auto simp: fmlookup_sweep_barriers split: option.splits)

lemma swept_count_zero: "(k, b) \<in> set (sorted_list_of_fmap (sweep_barriers now bs)) \<Longrightarrow> swept_in_scope now b = 0"
proof -
  assume "(k, b) \<in> set (sorted_list_of_fmap (sweep_barriers now bs))"
  then have "fmlookup (sweep_barriers now bs) k = Some b"
    by (auto simp: sorted_list_of_fmap_def fmlookup_dom_iff)
  then show ?thesis by (auto simp: fmlookup_sweep_barriers split: option.splits if_splits)
qed


text \<open>
  The one-shot operations are one-shot: a code, pushed request, refresh token or device grant
  that was taken is gone, a compare-and-swap never creates a record and writes only over the state
  it named, and a replay identifier is granted to one claimant only.
\<close>
theorem one_shot_operations:
  "fmlookup (m_codes (snd (mem_take_code k g))) k = None \<and>
   fmlookup (m_pushed (snd (mem_take_pushed k g))) k = None \<and>
   fmlookup (m_refresh (snd (mem_take_refresh k g))) k = None \<and>
   fmlookup (m_device_by_code (snd (mem_take_device_grant k g))) k = None \<and>
   (fst (mem_cas_code q r g) = Ok True \<longleftrightarrow>
      (\<exists>old. fmlookup (m_codes g) (code_code r) = Some old \<and> code_state old = q)) \<and>
   (fst (mem_cas_code q r g) = Ok False \<longleftrightarrow> \<not> (\<exists>old. fmlookup (m_codes g) (code_code r) = Some old \<and> code_state old = q)) \<and>
   fst (mem_claim_replay_id i e' (snd (mem_claim_replay_id i e g))) = Ok False"
  by (auto simp: mem_take_code_def mem_take_pushed_def mem_take_refresh_def mem_take_device_grant_def
      mem_cas_code_def mem_claim_replay_id_def Let_def split: option.splits)

end
