(* ===== verification/Registration_Meta.thy ===== *)
theory Registration_Meta
  imports Storage
begin

text \<open>
  Dynamic client registration, the parts without effects (\<^verbatim>\<open>registration.rs\<close>): the metadata document, the
  refusals, the configuration and the validation of a document against it.
\<close>

record client_metadata =
  md_redirect_uris :: "string list"
  md_token_endpoint_auth_method :: "string option"
  md_grant_types :: "string list option"
  md_response_types :: "string list option"
  md_client_name :: "string option"
  md_scope :: "string option"
  md_software_statement :: "string option"

record client_information =
  ci_client_id :: string
  ci_client_secret :: "string option"
  ci_client_id_issued_at :: "nat option"
  ci_client_secret_expires_at :: "nat option"
  ci_registration_access_token :: "string option"
  ci_registration_client_uri :: "string option"
  ci_metadata :: client_metadata

datatype registration_error_code = InvalidRedirectUri | InvalidClientMetadata | InvalidSoftwareStatement

fun registration_code_as_str :: "registration_error_code \<Rightarrow> string" where
  "registration_code_as_str InvalidRedirectUri = ''invalid_redirect_uri''"
| "registration_code_as_str InvalidClientMetadata = ''invalid_client_metadata''"
| "registration_code_as_str InvalidSoftwareStatement = ''invalid_software_statement''"

record registration_error_response =
  re_error :: registration_error_code
  re_description :: "string option"

definition registration_error_new :: "registration_error_code \<Rightarrow> string \<Rightarrow> registration_error_response" where
  "registration_error_new code description = \<lparr>re_error = code, re_description = Some description\<rparr>"

datatype registration_failure =
    RegDisabled | RegUnauthorized | RegInvalid registration_error_response | RegStorage storage_error

fun registration_http_status :: "registration_failure \<Rightarrow> nat" where
  "registration_http_status RegDisabled = 404"
| "registration_http_status RegUnauthorized = 401"
| "registration_http_status (RegInvalid _) = 400"
| "registration_http_status (RegStorage _) = 500"

definition randomness_failure :: registration_failure where
  "randomness_failure = RegStorage (StorageError ''the OS would not provide randomness for a registration artifact'')"

record registration_attempt =
  ra_initial_access_token :: "string option"
  ra_metadata :: client_metadata

datatype registration_decision = RegAllow | RegDeny

record registration_config =
  rc_registration_endpoint :: "string option"
  rc_allowed_grant_types :: "grant_type list"
  rc_allowed_scopes :: scope_set
  rc_client_secret_ttl :: "duration option"
  rc_management_enabled :: bool

definition registration_config_new :: registration_config where
  "registration_config_new = \<lparr>rc_registration_endpoint = None,
     rc_allowed_grant_types = [AuthorizationCode, RefreshToken], rc_allowed_scopes = scope_empty,
     rc_client_secret_ttl = None, rc_management_enabled = True\<rparr>"

definition MAX_REGISTERED_REDIRECT_URIS :: nat where "MAX_REGISTERED_REDIRECT_URIS = 16"

definition AUTH_METHOD_NONE :: string where "AUTH_METHOD_NONE = ''none''"
definition AUTH_METHOD_BASIC :: string where "AUTH_METHOD_BASIC = ''client_secret_basic''"
definition AUTH_METHOD_POST :: string where "AUTH_METHOD_POST = ''client_secret_post''"
definition RESPONSE_TYPE_CODE :: string where "RESPONSE_TYPE_CODE = ''code''"

definition redirect_uri_is_registerable :: "string \<Rightarrow> bool" where
  "redirect_uri_is_registerable value = is_valid_resource_indicator value"

record registered_terms =
  rg_redirect_uris :: "string list"
  rg_grant_types :: "grant_type list"
  rg_response_types :: "string list"
  rg_auth_method :: string
  rg_scope :: scope_set
  rg_client_name :: "string option"

abbreviation bad_metadata :: "string \<Rightarrow> registration_failure + 'a" where
  "bad_metadata d \<equiv> Err (RegInvalid (registration_error_new InvalidClientMetadata d))"

abbreviation bad_redirect :: "string \<Rightarrow> registration_failure + 'a" where
  "bad_redirect d \<equiv> Err (RegInvalid (registration_error_new InvalidRedirectUri d))"

fun validate_grants :: "grant_type list \<Rightarrow> grant_type list \<Rightarrow> string list \<Rightarrow> registration_failure + grant_type list" where
  "validate_grants allowed out [] = Ok out"
| "validate_grants allowed out (v # vs) =
     (case grant_parse v of
        None \<Rightarrow> bad_metadata ''grant_types names a grant this server does not implement''
      | Some g \<Rightarrow>
          if g \<notin> set allowed then
            bad_metadata ''grant_types names a grant this deployment does not offer registrants''
          else validate_grants allowed (if g \<in> set out then out else out @ [g]) vs)"

definition validate_grant_types :: "registration_config \<Rightarrow> string list option \<Rightarrow> registration_failure + grant_type list" where
  "validate_grant_types cfg requested =
     (case requested of
        None \<Rightarrow> Ok [AuthorizationCode]
      | Some vs \<Rightarrow> validate_grants (rc_allowed_grant_types cfg) [] vs)"

definition validate_response_types :: "bool \<Rightarrow> string list option \<Rightarrow> registration_failure + string list" where
  "validate_response_types uses_code requested =
     (case requested of
        None \<Rightarrow> Ok (if uses_code then [RESPONSE_TYPE_CODE] else [])
      | Some vs \<Rightarrow>
          if list_ex (\<lambda>v. v \<noteq> RESPONSE_TYPE_CODE) vs then
            bad_metadata ''this server issues authorization codes only; OAuth 2.1 removes the implicit grant''
          else if (vs \<noteq> []) \<noteq> uses_code then
            bad_metadata ''grant_types and response_types must correspond: authorization_code with code (RFC 7591 s2)''
          else Ok (if vs \<noteq> [] then [RESPONSE_TYPE_CODE] else []))"

definition validate_redirect_uris :: "bool \<Rightarrow> string list \<Rightarrow> registration_failure + unit" where
  "validate_redirect_uris uses_code uris =
     (if uses_code \<and> uris = [] then
        bad_redirect ''the authorization_code grant requires at least one redirect_uri''
      else if MAX_REGISTERED_REDIRECT_URIS < length uris then bad_redirect ''too many redirect_uris''
      else if list_ex (\<lambda>u. \<not> redirect_uri_is_registerable u) uris then
        bad_redirect ''each redirect_uri must be an absolute URI with no fragment (RFC 6749 s3.1.2)''
      else Ok ())"

definition validate_auth_method :: "grant_type list \<Rightarrow> string option \<Rightarrow> registration_failure + string" where
  "validate_auth_method grant_types requested =
     (let meth = (case requested of Some v \<Rightarrow> v | None \<Rightarrow> AUTH_METHOD_BASIC) in
      if meth \<notin> {AUTH_METHOD_NONE, AUTH_METHOD_BASIC, AUTH_METHOD_POST} then
        bad_metadata ''token_endpoint_auth_method is not one this server can REGISTER; RFC 8414 token_endpoint_auth_methods_supported describes the token endpoint, which accepts more''
      else if meth = AUTH_METHOD_NONE \<and> ClientCredentials \<in> set grant_types then
        bad_metadata ''client_credentials requires a confidential client (RFC 6749 s4.4)''
      else Ok meth)"

definition validate_registered_scope :: "registration_config \<Rightarrow> string option \<Rightarrow> registration_failure + scope_set" where
  "validate_registered_scope cfg requested =
     (case requested of
        None \<Rightarrow> Ok scope_empty
      | Some s \<Rightarrow>
          (case scope_parse s of
             Inl _ \<Rightarrow> bad_metadata ''scope is not a space-delimited RFC 6749 s3.3 token list''
           | Inr scope \<Rightarrow>
               if \<not> is_subset scope (rc_allowed_scopes cfg) then
                 bad_metadata ''scope exceeds what this deployment offers dynamically registered clients''
               else Ok scope))"

definition validate_registration ::
  "client_metadata \<Rightarrow> registration_config \<Rightarrow> registration_failure + registered_terms" where
  "validate_registration metadata cfg =
     (if md_software_statement metadata \<noteq> None then
        Err (RegInvalid (registration_error_new InvalidSoftwareStatement
          ''this server does not evaluate software statements (RFC 7591 s2.3)''))
      else
        rbind (validate_grant_types cfg (md_grant_types metadata)) (\<lambda>grant_types.
        let uses_code = AuthorizationCode \<in> set grant_types in
        rbind (validate_response_types uses_code (md_response_types metadata)) (\<lambda>response_types.
        rbind (validate_redirect_uris uses_code (md_redirect_uris metadata)) (\<lambda>_.
        rbind (validate_auth_method grant_types (md_token_endpoint_auth_method metadata)) (\<lambda>meth.
        rbind (validate_registered_scope cfg (md_scope metadata)) (\<lambda>scope.
        Ok \<lparr>rg_redirect_uris = md_redirect_uris metadata, rg_grant_types = grant_types,
            rg_response_types = response_types, rg_auth_method = meth, rg_scope = scope,
            rg_client_name = md_client_name metadata\<rparr>))))))"

definition registered_metadata :: "client \<Rightarrow> dynamic_registration \<Rightarrow> client_metadata" where
  "registered_metadata c registration = \<lparr>md_redirect_uris = cl_redirect_uris c,
     md_token_endpoint_auth_method = Some (token_endpoint_auth_method registration),
     md_grant_types = Some (map grant_as_str (cl_grant_types c)),
     md_response_types = Some (if allows_grant c AuthorizationCode then [RESPONSE_TYPE_CODE] else []),
     md_client_name = cl_name c,
     md_scope = (if scope_is_empty (cl_allowed_scopes c) then None else Some (scope_display (cl_allowed_scopes c))),
     md_software_statement = None\<rparr>"

section \<open>What a validated document is\<close>

text \<open>The values in the order of their first occurrence.\<close>

definition first_occurrences :: "'a list \<Rightarrow> 'a list" where
  "first_occurrences xs = rev (remdups (rev xs))"

lemma set_first_occurrences [simp]: "set (first_occurrences xs) = set xs"
  by (simp add: first_occurrences_def)

lemma distinct_first_occurrences [simp]: "distinct (first_occurrences xs)"
  by (simp add: first_occurrences_def)

lemma remdups_append_absorb:
  "remdups (xs @ ys) = remdups (filter (\<lambda>x. x \<notin> set ys) xs) @ remdups ys"
  by (induction xs) auto

lemma validate_grants_iff:
  assumes "distinct out"
  shows "validate_grants allowed out vs = Inr gs \<longleftrightarrow>
    (\<exists>hs. vs = map grant_as_str hs \<and> set hs \<subseteq> set allowed \<and> gs = first_occurrences (out @ hs))"
  using assms
proof (induction allowed out vs rule: validate_grants.induct)
  case (1 allowed out)
  then show ?case by (auto simp: first_occurrences_def distinct_remdups_id)
next
  case (2 allowed out v vs)
  show ?case
  proof (cases "grant_parse v")
    case None
    then have "v \<noteq> grant_as_str g" for g by (metis grant_parse_Some option.distinct(1))
    then show ?thesis using None by (auto simp: Cons_eq_map_conv)
  next
    case (Some g)
    then have v: "v = grant_as_str h \<longleftrightarrow> h = g" for h by (metis grant_parse_Some option.inject)
    have split: "(\<exists>hs. v # vs = map grant_as_str hs \<and> P hs) \<longleftrightarrow> (\<exists>hs. vs = map grant_as_str hs \<and> P (g # hs))" for P
      by (auto simp: Cons_eq_map_conv v)
    have absorb: "first_occurrences (out @ g # hs) = first_occurrences ((if g \<in> set out then out else out @ [g]) @ hs)" for hs
      by (auto simp: first_occurrences_def remdups_append_absorb intro!: arg_cong [where f = remdups] filter_cong)
    show ?thesis
      unfolding split using 2 Some by (auto simp: absorb)
  qed
qed

definition registration_admissible :: "registration_config \<Rightarrow> client_metadata \<Rightarrow> registered_terms \<Rightarrow> bool" where
  "registration_admissible cfg md t \<longleftrightarrow>
     md_software_statement md = None \<and>
     (case md_grant_types md of
        None \<Rightarrow> rg_grant_types t = [AuthorizationCode]
      | Some vs \<Rightarrow> \<exists>gs. vs = map grant_as_str gs \<and> set gs \<subseteq> set (rc_allowed_grant_types cfg) \<and>
          rg_grant_types t = first_occurrences gs) \<and>
     rg_response_types t = (if AuthorizationCode \<in> set (rg_grant_types t) then [RESPONSE_TYPE_CODE] else []) \<and>
     (\<forall>vs. md_response_types md = Some vs \<longrightarrow> set vs = set (rg_response_types t)) \<and>
     rg_redirect_uris t = md_redirect_uris md \<and> length (rg_redirect_uris t) \<le> MAX_REGISTERED_REDIRECT_URIS \<and>
     (AuthorizationCode \<in> set (rg_grant_types t) \<longrightarrow> rg_redirect_uris t \<noteq> []) \<and>
     (\<forall>u \<in> set (rg_redirect_uris t). is_valid_resource_indicator u) \<and>
     rg_auth_method t = (case md_token_endpoint_auth_method md of Some v \<Rightarrow> v | None \<Rightarrow> AUTH_METHOD_BASIC) \<and>
     rg_auth_method t \<in> {AUTH_METHOD_NONE, AUTH_METHOD_BASIC, AUTH_METHOD_POST} \<and>
     \<not> (rg_auth_method t = AUTH_METHOD_NONE \<and> ClientCredentials \<in> set (rg_grant_types t)) \<and>
     (case md_scope md of
        None \<Rightarrow> rg_scope t = scope_empty
      | Some s \<Rightarrow> scope_parse s = Inr (rg_scope t) \<and> is_subset (rg_scope t) (rc_allowed_scopes cfg)) \<and>
     rg_client_name t = md_client_name md"

lemma validate_grant_types_iff:
  "validate_grant_types cfg requested = Inr gs \<longleftrightarrow>
     (case requested of
        None \<Rightarrow> gs = [AuthorizationCode]
      | Some vs \<Rightarrow> \<exists>hs. vs = map grant_as_str hs \<and> set hs \<subseteq> set (rc_allowed_grant_types cfg) \<and>
          gs = first_occurrences hs)"
  by (auto simp: validate_grant_types_def validate_grants_iff split: option.split)

lemma validate_response_types_iff:
  "validate_response_types uses_code requested = Inr rs \<longleftrightarrow>
     rs = (if uses_code then [RESPONSE_TYPE_CODE] else []) \<and>
     (\<forall>vs. requested = Some vs \<longrightarrow> set vs = set rs)"
  by (cases requested; cases "the requested") (auto simp: validate_response_types_def list_ex_iff)

lemma validate_redirect_uris_iff:
  "validate_redirect_uris uses_code uris = Inr u \<longleftrightarrow>
     length uris \<le> MAX_REGISTERED_REDIRECT_URIS \<and> (uses_code \<longrightarrow> uris \<noteq> []) \<and>
     (\<forall>u \<in> set uris. is_valid_resource_indicator u)"
  by (auto simp: validate_redirect_uris_def list_ex_iff redirect_uri_is_registerable_def)

lemma validate_auth_method_iff:
  "validate_auth_method gs requested = Inr meth \<longleftrightarrow>
     meth = (case requested of Some v \<Rightarrow> v | None \<Rightarrow> AUTH_METHOD_BASIC) \<and>
     meth \<in> {AUTH_METHOD_NONE, AUTH_METHOD_BASIC, AUTH_METHOD_POST} \<and>
     \<not> (meth = AUTH_METHOD_NONE \<and> ClientCredentials \<in> set gs)"
  by (auto simp: validate_auth_method_def Let_def)

lemma validate_registered_scope_iff:
  "validate_registered_scope cfg requested = Inr scope \<longleftrightarrow>
     (case requested of
        None \<Rightarrow> scope = scope_empty
      | Some s \<Rightarrow> scope_parse s = Inr scope \<and> is_subset scope (rc_allowed_scopes cfg))"
  by (auto simp: validate_registered_scope_def split: option.split sum.split)

lemma validate_registration_admissible:
  "validate_registration md cfg = Ok t \<longleftrightarrow> registration_admissible cfg md t"
proof -
  have eq: "\<lparr>rg_redirect_uris = u, rg_grant_types = g, rg_response_types = r, rg_auth_method = a, rg_scope = s,
      rg_client_name = n\<rparr> = t \<longleftrightarrow> rg_redirect_uris t = u \<and> rg_grant_types t = g \<and> rg_response_types t = r \<and>
      rg_auth_method t = a \<and> rg_scope t = s \<and> rg_client_name t = n" for u g r a s n
    by (cases t) auto
  show ?thesis
    unfolding validate_registration_def registration_admissible_def Let_def
    by (auto simp: validate_grant_types_iff validate_response_types_iff validate_redirect_uris_iff
        validate_auth_method_iff validate_registered_scope_iff eq)
qed


text \<open>
  What a registration is echoed as can be sent back: the document the server describes a client with
  is validated to the terms the client has, as long as its grants are offered to registrants.
\<close>

definition terms_metadata :: "registered_terms \<Rightarrow> client_metadata" where
  "terms_metadata t = \<lparr>md_redirect_uris = rg_redirect_uris t,
     md_token_endpoint_auth_method = Some (rg_auth_method t),
     md_grant_types = Some (map grant_as_str (rg_grant_types t)), md_response_types = Some (rg_response_types t),
     md_client_name = rg_client_name t,
     md_scope = (if scope_is_empty (rg_scope t) then None else Some (scope_display (rg_scope t))),
     md_software_statement = None\<rparr>"

lemma admissible_grants_distinct: "registration_admissible cfg md t \<Longrightarrow> distinct (rg_grant_types t)"
  by (auto simp: registration_admissible_def split: option.splits)

lemma admissible_scope:
  assumes "registration_admissible cfg md t"
  shows "scope_set_wf (rg_scope t)" and "\<not> scope_is_empty (rg_scope t) \<Longrightarrow> is_subset (rg_scope t) (rc_allowed_scopes cfg)"
proof -
  have "rg_scope t = scope_empty \<or>
      (\<exists>s. scope_parse s = Inr (rg_scope t)) \<and> is_subset (rg_scope t) (rc_allowed_scopes cfg)"
    using assms unfolding registration_admissible_def by (cases "md_scope md") auto
  then show "scope_set_wf (rg_scope t)" "\<not> scope_is_empty (rg_scope t) \<Longrightarrow> is_subset (rg_scope t) (rc_allowed_scopes cfg)"
    using scope_set_wf_empty
    by (auto simp: scope_is_empty_def scope_empty_def scope_parse_eq_from_tokens dest: scope_from_tokens_wf)
qed

lemma scope_display_parse: "scope_set_wf s \<Longrightarrow> scope_parse (scope_display s) = Inr s"
  using scope_wire_roundtrip by (simp add: scope_serialize_def scope_deserialize_def)

lemma first_occurrences_distinct: "distinct xs \<Longrightarrow> first_occurrences xs = xs"
  by (simp add: first_occurrences_def distinct_remdups_id)

text \<open>
  What a client is told it registered can be sent back: when the grants are among those offered, the echoed
  metadata is accepted with exactly the same terms.
\<close>
theorem registration_echo_roundtrip:
  assumes "validate_registration md cfg = Ok t" and "set (rg_grant_types t) \<subseteq> set (rc_allowed_grant_types cfg)"
  shows "validate_registration (terms_metadata t) cfg = Ok t"
proof -
  have adm: "registration_admissible cfg md t" using assms(1) by (simp add: validate_registration_admissible)
  note scope = admissible_scope [OF adm]
  have "rg_scope t = scope_empty" if "scope_is_empty (rg_scope t)"
    using that by (cases "rg_scope t") (simp add: scope_is_empty_def scope_empty_def)
  moreover have "rg_grant_types t = first_occurrences (rg_grant_types t)"
    using first_occurrences_distinct [OF admissible_grants_distinct [OF adm]] by simp
  ultimately have "registration_admissible cfg (terms_metadata t) t"
    using adm assms(2) scope scope_display_parse [OF scope(1)]
    unfolding registration_admissible_def terms_metadata_def by auto
  then show ?thesis by (simp add: validate_registration_admissible)
qed

theorem registration_echo_roundtrip_witness:
  "\<exists>t. validate_registration \<lparr>md_redirect_uris = [''https://app/cb''], md_token_endpoint_auth_method = None,
       md_grant_types = Some [''refresh_token'', ''authorization_code'', ''refresh_token''],
       md_response_types = None, md_client_name = None, md_scope = None, md_software_statement = None\<rparr>
       registration_config_new = Ok t \<and>
     rg_grant_types t = [RefreshToken, AuthorizationCode] \<and>
     validate_registration (terms_metadata t) registration_config_new = Ok t"
proof -
  let ?md = "\<lparr>md_redirect_uris = [''https://app/cb''], md_token_endpoint_auth_method = None,
       md_grant_types = Some [''refresh_token'', ''authorization_code'', ''refresh_token''],
       md_response_types = None, md_client_name = None, md_scope = None, md_software_statement = None\<rparr>"
  let ?t = "\<lparr>rg_redirect_uris = [''https://app/cb''], rg_grant_types = [RefreshToken, AuthorizationCode],
     rg_response_types = [''code''], rg_auth_method = ''client_secret_basic'', rg_scope = scope_empty,
     rg_client_name = None\<rparr>"
  have ok: "validate_registration ?md registration_config_new = Ok ?t" by code_simp
  have "validate_registration (terms_metadata ?t) registration_config_new = Ok ?t"
    by (rule registration_echo_roundtrip [OF ok]) (simp add: registration_config_new_def)
  with ok show ?thesis by auto
qed

section \<open>The grant ceiling\<close>

text \<open>
  A document that names its grants is held to the configured list; one that names none is given the
  authorization code grant whether or not the list has it, and what it is then echoed as is refused.
\<close>

lemma named_grants_offered:
  assumes "validate_registration md cfg = Ok t" and "md_grant_types md \<noteq> None"
  shows "set (rg_grant_types t) \<subseteq> set (rc_allowed_grant_types cfg)"
proof -
  from assms(2) obtain vs where "md_grant_types md = Some vs" by blast
  moreover have "registration_admissible cfg md t" using assms(1) by (simp add: validate_registration_admissible)
  ultimately obtain gs where "set gs \<subseteq> set (rc_allowed_grant_types cfg)" "rg_grant_types t = first_occurrences gs"
    unfolding registration_admissible_def by auto
  then show ?thesis by simp
qed

definition unnamed_grants :: client_metadata where
  "unnamed_grants = \<lparr>md_redirect_uris = [''https://app/cb''], md_token_endpoint_auth_method = None,
     md_grant_types = None, md_response_types = None, md_client_name = None, md_scope = None,
     md_software_statement = None\<rparr>"

theorem default_grant_escapes_ceiling:
  "let cfg = registration_config_new\<lparr>rc_allowed_grant_types := [ClientCredentials]\<rparr> in
   \<exists>t e. validate_registration unnamed_grants cfg = Ok t \<and> rg_grant_types t = [AuthorizationCode] \<and>
     validate_registration (terms_metadata t) cfg = Err e"
proof -
  let ?cfg = "registration_config_new\<lparr>rc_allowed_grant_types := [ClientCredentials]\<rparr>"
  let ?t = "\<lparr>rg_redirect_uris = [''https://app/cb''], rg_grant_types = [AuthorizationCode],
     rg_response_types = [''code''], rg_auth_method = ''client_secret_basic'', rg_scope = scope_empty,
     rg_client_name = None\<rparr>"
  have "validate_registration unnamed_grants ?cfg = Ok ?t" by code_simp
  moreover have "\<exists>e. validate_registration (terms_metadata ?t) ?cfg = Err e"
    by (simp add: validate_registration_def terms_metadata_def validate_grant_types_def registration_config_new_def
        grant_parse_def)
  ultimately show ?thesis by (auto simp: Let_def)
qed

end
