(* ===== verification/Ip_Address.thy ===== *)
theory Ip_Address
  imports Server_Util
begin

unbundle bit_operations_syntax

text \<open>
  IP address literals as the client identifier check reads them (\<^verbatim>\<open>cimd.rs\<close>): the standard library's parsers for
  IPv4 and IPv6 addresses, the printing of an IPv4 address, and the classification of special-use addresses.
\<close>

section \<open>The parsers\<close>

type_synonym ipv4 = "8 word \<times> 8 word \<times> 8 word \<times> 8 word"
type_synonym ipv6 = "16 word list"

definition to_digit :: "nat \<Rightarrow> char \<Rightarrow> nat option" where
  "to_digit radix c =
     (let n = of_ascii c;
          d = (if is_ascii_digit c then n - 48
               else if is_ascii_lowercase c then n - 97 + 10
               else if is_ascii_uppercase c then n - 65 + 10 else radix)
      in if d < radix then Some d else None)"

definition digits_value :: "nat \<Rightarrow> string \<Rightarrow> nat" where
  "digits_value radix ds = foldl (\<lambda>acc c. acc * radix + the (to_digit radix c)) 0 ds"

text \<open>A number of at most \<open>max_digits\<close> digits below \<open>bound\<close>, with what follows it.\<close>

definition read_number :: "nat \<Rightarrow> nat \<Rightarrow> bool \<Rightarrow> nat \<Rightarrow> string \<Rightarrow> (nat \<times> string) option" where
  "read_number radix max_digits allow_zero_prefix bound s =
     (let ds = takeWhile (\<lambda>c. to_digit radix c \<noteq> None) s;
          v = digits_value radix ds
      in if ds = [] \<or> max_digits < length ds \<or> bound \<le> v \<or>
            \<not> allow_zero_prefix \<and> hd ds = CHR ''0'' \<and> 1 < length ds
         then None else Some (v, drop (length ds) s))"

definition read_given_char :: "char \<Rightarrow> string \<Rightarrow> string option" where
  "read_given_char c s = (case s of x # xs \<Rightarrow> if x = c then Some xs else None | [] \<Rightarrow> None)"

definition read_separator :: "char \<Rightarrow> nat \<Rightarrow> (string \<Rightarrow> ('a \<times> string) option) \<Rightarrow> string \<Rightarrow> ('a \<times> string) option" where
  "read_separator sep i inner s =
     (if 0 < i then Option.bind (read_given_char sep s) inner else inner s)"

definition read_octet :: "nat \<Rightarrow> string \<Rightarrow> (8 word \<times> string) option" where
  "read_octet i s = map_option (apfst of_nat) (read_separator CHR ''.'' i (read_number 10 3 False 256) s)"

definition read_ipv4_addr :: "string \<Rightarrow> (ipv4 \<times> string) option" where
  "read_ipv4_addr s =
     Option.bind (read_octet 0 s) (\<lambda>(a, s).
     Option.bind (read_octet 1 s) (\<lambda>(b, s).
     Option.bind (read_octet 2 s) (\<lambda>(c, s).
     Option.bind (read_octet 3 s) (\<lambda>(d, s). Some ((a, b, c, d), s)))))"

definition ipv4_parse :: "string \<Rightarrow> ipv4 option" where
  "ipv4_parse s =
     (if 15 < length s then None
      else case read_ipv4_addr s of Some (v, []) \<Rightarrow> Some v | _ \<Rightarrow> None)"

definition be_u16 :: "8 word \<Rightarrow> 8 word \<Rightarrow> 16 word" where
  "be_u16 hi lo = push_bit 8 (ucast hi) OR ucast lo"

text \<open>Groups of an IPv6 address up to the limit, and whether an embedded IPv4 address ended them.\<close>

function read_groups :: "nat \<Rightarrow> nat \<Rightarrow> string \<Rightarrow> 16 word list \<times> bool \<times> string" where
  "read_groups limit i s =
     (if limit \<le> i then ([], False, s)
      else case (if i < limit - 1 then read_separator CHR '':'' i read_ipv4_addr s else None) of
             Some ((a, b, c, d), s') \<Rightarrow> ([be_u16 a b, be_u16 c d], True, s')
           | None \<Rightarrow>
               (case read_separator CHR '':'' i (read_number 16 4 True 65536) s of
                  None \<Rightarrow> ([], False, s)
                | Some (g, s') \<Rightarrow>
                    (case read_groups limit (Suc i) s' of (gs, v4, rest) \<Rightarrow> (of_nat g # gs, v4, rest))))"
  by pat_completeness auto
termination by (relation "measure (\<lambda>(limit, i, _). limit - i)") auto

declare read_groups.simps [simp del]

definition read_ipv6_addr :: "string \<Rightarrow> (ipv6 \<times> string) option" where
  "read_ipv6_addr s =
     (case read_groups 8 0 s of
        (head, head_ipv4, s1) \<Rightarrow>
          if length head = 8 then Some (head, s1)
          else if head_ipv4 then None
          else Option.bind (read_given_char CHR '':'' s1) (\<lambda>s2.
               Option.bind (read_given_char CHR '':'' s2) (\<lambda>s3.
               case read_groups (8 - (length head + 1)) 0 s3 of
                 (tail, _, rest) \<Rightarrow>
                   Some (head @ replicate (8 - length head - length tail) 0 @ tail, rest))))"

definition ipv6_parse :: "string \<Rightarrow> ipv6 option" where
  "ipv6_parse s = (case read_ipv6_addr s of Some (v, []) \<Rightarrow> Some v | _ \<Rightarrow> None)"

fun ipv4_display :: "ipv4 \<Rightarrow> string" where
  "ipv4_display (a, b, c, d) =
     show_nat (unat a) @ ''.'' @ show_nat (unat b) @ ''.'' @ show_nat (unat c) @ ''.'' @ show_nat (unat d)"

declare ipv4_display.simps [simp del]

section \<open>Canonical spelling\<close>

lemma to_digit_10 [simp]: "to_digit 10 c = (if is_ascii_digit c then Some (of_ascii c - 48) else None)"
  by (auto simp: to_digit_def is_ascii_digit_def Let_def)

lemma digits_value_10: "list_all is_ascii_digit ds \<Longrightarrow> digits_value 10 ds = read_nat ds"
  unfolding digits_value_def read_nat_def
  by (induction ds rule: rev_induct) auto

lemma show_nat_list_all: "list_all is_ascii_digit (show_nat n)"
  by (auto simp: list_all_iff is_ascii_digit_def dest: show_nat_digits)

lemma show_nat_not_Nil [simp]: "show_nat n \<noteq> []"
  by (subst show_nat.simps) simp

lemma length_show_nat: "n < 1000 \<Longrightarrow> length (show_nat n) \<le> 3"
  by (subst show_nat.simps, subst show_nat.simps, subst show_nat.simps) simp

lemma hd_show_nat: "hd (show_nat n) = CHR ''0'' \<longleftrightarrow> n = 0"
proof (induction n rule: show_nat.induct)
  case (1 n)
  have "digit_char 0 = CHR ''0''" by code_simp
  moreover have "of_ascii CHR ''0'' = 48" by (simp add: of_ascii_def)
  ultimately have "digit_char n = CHR ''0'' \<longleftrightarrow> n = 0" if "n < 10"
    using digit_char_value [OF that] by (cases "n = 0") auto
  with 1 show ?case by (subst show_nat.simps) (auto simp: hd_append)
qed

lemma takeWhile_show_nat:
  assumes "s = [] \<or> \<not> is_ascii_digit (hd s)"
  shows "takeWhile is_ascii_digit (show_nat n @ s) = show_nat n"
  using assms show_nat_list_all [of n] by (cases s) (auto simp: takeWhile_append2 list_all_iff)

lemma read_number_show:
  assumes "n < 256" and "s = [] \<or> \<not> is_ascii_digit (hd s)"
  shows "read_number 10 3 False 256 (show_nat n @ s) = Some (n, s)"
proof -
  have "takeWhile (\<lambda>c. to_digit 10 c \<noteq> None) (show_nat n @ s) = show_nat n"
    using takeWhile_show_nat [OF assms(2)] by (simp add: if_distrib [of "\<lambda>x. x \<noteq> None"] cong: if_cong)
  moreover have "hd (show_nat n) = CHR ''0'' \<Longrightarrow> length (show_nat n) = 1"
    unfolding hd_show_nat by (subst show_nat.simps) simp
  ultimately show ?thesis
    using assms(1) length_show_nat [of n]
    by (auto simp: read_number_def Let_def digits_value_10 [OF show_nat_list_all] read_show_nat)
qed

lemma unat_byte [simp]: "unat (x :: 8 word) < 256"
  using unsigned_less [of x] by simp

lemma ipv4_roundtrip: "ipv4_parse (ipv4_display o4) = Some o4"
proof (cases o4)
  case (fields a b c d)
  have "length (show_nat (unat x)) \<le> 3" for x :: "8 word"
    using length_show_nat [of "unat x"] unat_byte [of x] by simp
  from this [of a] this [of b] this [of c] this [of d] have "length (ipv4_display o4) \<le> 15"
    by (simp add: fields ipv4_display.simps)
  moreover have "\<not> is_ascii_digit CHR ''.''" by (simp add: is_ascii_digit_def of_ascii_def)
  ultimately show ?thesis
    by (simp add: fields ipv4_display.simps ipv4_parse_def read_ipv4_addr_def read_octet_def read_separator_def read_given_char_def
        read_number_show read_number_show [where s = "[]", simplified])
qed

lemma show_read_nat:
  assumes "list_all is_ascii_digit ds" and "ds \<noteq> []" and "hd ds = CHR ''0'' \<Longrightarrow> length ds = 1"
  shows "show_nat (read_nat ds) = ds"
  using assms
proof (induction ds rule: rev_induct)
  case (snoc c xs)
  have c: "of_ascii c - 48 < 10" "digit_char (of_ascii c - 48) = c"
    using snoc.prems(1) by (auto simp: is_ascii_digit_def digit_char_def of_ascii_def)
  show ?case
  proof (cases "xs = []")
    case True
    with c show ?thesis by (simp add: read_nat_def show_nat.simps)
  next
    case False
    with snoc have xs: "show_nat (read_nat xs) = xs" "hd xs \<noteq> CHR ''0''" by auto
    then have "read_nat xs \<noteq> 0" using hd_show_nat [of "read_nat xs"] by auto
    moreover have "read_nat (xs @ [c]) = read_nat xs * 10 + (of_ascii c - 48)" by (simp add: read_nat_def)
    ultimately show ?thesis using xs c by (simp add: show_nat.simps [of "read_nat xs * 10 + _"])
  qed
qed simp

lemma read_number_canonical:
  assumes "read_number 10 3 False 256 s = Some (n, rest)"
  shows "s = show_nat n @ rest" and "n < 256"
proof -
  define ds where "ds = takeWhile is_ascii_digit s"
  have tw: "takeWhile (\<lambda>c. to_digit 10 c \<noteq> None) s = ds"
    unfolding ds_def by (simp add: if_distrib [of "\<lambda>x. x \<noteq> None"] cong: if_cong)
  have digits: "list_all is_ascii_digit ds" by (auto simp: ds_def list_all_iff dest: set_takeWhileD)
  from assms have ds: "ds \<noteq> []" "hd ds = CHR ''0'' \<Longrightarrow> length ds = 1" "n = read_nat ds" "rest = drop (length ds) s"
    and n: "n < 256"
    unfolding read_number_def tw Let_def digits_value_10 [OF digits]
    by (auto split: if_splits) (cases ds; auto)
  have "s = ds @ drop (length ds) s"
    unfolding ds_def by (metis takeWhile_eq_take append_take_drop_id)
  then show "s = show_nat n @ rest" using show_read_nat [OF digits ds(1,2)] ds by simp
  show "n < 256" by (rule n)
qed

lemma read_octet_canonical:
  assumes "read_octet i s = Some (x, rest)"
  shows "s = (if 0 < i then [CHR ''.''] else []) @ show_nat (unat x) @ rest"
proof -
  obtain n where n: "read_separator CHR ''.'' i (read_number 10 3 False 256) s = Some (n, rest)" and x: "x = of_nat n"
    using assms by (auto simp: read_octet_def)
  then obtain s' where "s = (if 0 < i then [CHR ''.''] else []) @ s'" "read_number 10 3 False 256 s' = Some (n, rest)"
    by (auto simp: read_separator_def read_given_char_def bind_eq_Some_conv split: if_splits list.splits)
  moreover from this(2) have "s' = show_nat n @ rest" "n < 256" by (rule read_number_canonical)+
  moreover from this(2) have "unat x = n" by (simp add: x unat_of_nat)
  ultimately show ?thesis by simp
qed

text \<open>An IPv4 address has exactly one spelling the parser accepts, the one it is printed as.\<close>

lemma ipv4_parse_canonical: "ipv4_parse s = Some v \<longleftrightarrow> s = ipv4_display v"
proof
  assume parsed: "ipv4_parse s = Some v"
  obtain a b c d where v: "v = (a, b, c, d)" by (cases v)
  from parsed obtain s1 s2 s3 where "read_octet 0 s = Some (a, s1)" "read_octet 1 s1 = Some (b, s2)"
      "read_octet 2 s2 = Some (c, s3)" "read_octet 3 s3 = Some (d, [])"
    by (auto simp: ipv4_parse_def read_ipv4_addr_def v bind_eq_Some_conv split: if_splits option.splits list.splits)
  note this [THEN read_octet_canonical]
  then show "s = ipv4_display v" by (simp add: v ipv4_display.simps)
qed (simp add: ipv4_roundtrip)

section \<open>Special-use addresses\<close>

fun special_use_v4 :: "bool \<Rightarrow> ipv4 \<Rightarrow> bool" where
  "special_use_v4 allow_loopback (a, b, c, d) =
     (if a = 127 then \<not> allow_loopback
      else a = 0 \<or> a = 10 \<or> a = 172 \<and> 16 \<le> b \<and> b \<le> 31 \<or> a = 192 \<and> b = 168 \<or>
           a = 100 \<and> 64 \<le> b \<and> b \<le> 127 \<or> a = 169 \<and> b = 254 \<or> a = 192 \<and> b = 0 \<and> c = 0 \<or>
           a = 192 \<and> b = 0 \<and> c = 2 \<or> a = 198 \<and> b = 51 \<and> c = 100 \<or> a = 203 \<and> b = 0 \<and> c = 113 \<or>
           a = 192 \<and> b = 88 \<and> c = 99 \<or> a = 198 \<and> (b = 18 \<or> b = 19) \<or> 224 \<le> a)"

text \<open>
  An IPv6 address that embeds an IPv4 address is judged by what it embeds, printed and read again.
\<close>

definition embedded_v4 :: "ipv6 \<Rightarrow> ipv4" where
  "embedded_v4 s =
     (ucast (drop_bit 8 (s ! 6)), ucast (s ! 6 AND 0xff), ucast (drop_bit 8 (s ! 7)), ucast (s ! 7 AND 0xff))"

definition special_use_v6 :: "ipv6 \<Rightarrow> bool" where
  "special_use_v6 s =
     (let first = s ! 0 in
      if first = 0 then True
      else if first = 0x0064 then True
      else if first = 0x0100 then s ! 1 = 0 \<and> s ! 2 = 0 \<and> s ! 3 = 0
      else if first = 0x2001 then s ! 1 < 0x0200 \<or> s ! 1 = 0x0db8
      else if first = 0x2002 then True
      else first AND 0xfe00 = 0xfc00 \<or> first AND 0xffc0 = 0xfe80 \<or> drop_bit 8 first = 0xff)"

definition ipv6_localhost :: ipv6 where "ipv6_localhost = replicate 7 0 @ [1]"

function is_special_use_literal :: "string \<Rightarrow> bool \<Rightarrow> bool" where
  "is_special_use_literal host allow_loopback =
     (case ipv4_parse host of
        Some v4 \<Rightarrow> special_use_v4 allow_loopback v4
      | None \<Rightarrow>
          (case ipv6_parse host of
             Some s \<Rightarrow>
               if s = ipv6_localhost then \<not> allow_loopback
               else if take 5 s = replicate 5 0 \<and> (s ! 5 = 0xffff \<or> s ! 5 = 0) then
                 is_special_use_literal (ipv4_display (embedded_v4 s)) allow_loopback
               else special_use_v6 s
           | None \<Rightarrow> False))"
  by pat_completeness auto
termination
  by (relation "measure (\<lambda>(host, _). if ipv4_parse host = None then 1 else 0)") (auto simp: ipv4_roundtrip)

declare is_special_use_literal.simps [simp del]

text \<open>The reference: the blocks of the special-purpose registries, as prefixes of the 32 bit address.\<close>

fun v4_nat :: "ipv4 \<Rightarrow> nat" where
  "v4_nat (a, b, c, d) = ((unat a * 256 + unat b) * 256 + unat c) * 256 + unat d"

definition in_block :: "nat \<Rightarrow> ipv4 \<times> nat \<Rightarrow> bool" where
  "in_block v = (\<lambda>(net, len). v div 2 ^ (32 - len) = v4_nat net div 2 ^ (32 - len))"

definition special_blocks :: "(ipv4 \<times> nat) list" where
  "special_blocks = [((0, 0, 0, 0), 8), ((10, 0, 0, 0), 8), ((172, 16, 0, 0), 12), ((192, 168, 0, 0), 16),
     ((100, 64, 0, 0), 10), ((169, 254, 0, 0), 16), ((192, 0, 0, 0), 24), ((192, 0, 2, 0), 24),
     ((198, 51, 100, 0), 24), ((203, 0, 113, 0), 24), ((192, 88, 99, 0), 24), ((198, 18, 0, 0), 15),
     ((224, 0, 0, 0), 4), ((240, 0, 0, 0), 4)]"

lemma div_byte: "y < 256 \<Longrightarrow> (x * 256 + y) div (256 * m) = x div m" for x y m :: nat
  by (simp add: div_mult2_eq)

lemma v4_prefixes:
  "v4_nat (a, b, c, d) div 268435456 = unat a div 16"
  "v4_nat (a, b, c, d) div 16777216 = unat a"
  "v4_nat (a, b, c, d) div 4194304 = unat a * 4 + unat b div 64"
  "v4_nat (a, b, c, d) div 1048576 = unat a * 16 + unat b div 16"
  "v4_nat (a, b, c, d) div 131072 = unat a * 128 + unat b div 2"
  "v4_nat (a, b, c, d) div 65536 = unat a * 256 + unat b"
  "v4_nat (a, b, c, d) div 256 = (unat a * 256 + unat b) * 256 + unat c"
proof -
  have split: "(268435456 :: nat) = 256 * (256 * (256 * 16))" "(16777216 :: nat) = 256 * (256 * (256 * 1))"
    "(4194304 :: nat) = 256 * (256 * 64)" "(1048576 :: nat) = 256 * (256 * 16)" "(131072 :: nat) = 256 * (256 * 2)"
    "(65536 :: nat) = 256 * (256 * 1)" by simp_all
  note go = v4_nat.simps split div_byte [OF unat_byte]
  show "v4_nat (a, b, c, d) div 268435456 = unat a div 16" by (simp only: go)
  show "v4_nat (a, b, c, d) div 16777216 = unat a" by (simp only: go div_by_1)
  show "v4_nat (a, b, c, d) div 4194304 = unat a * 4 + unat b div 64" by (simp only: go)
  show "v4_nat (a, b, c, d) div 1048576 = unat a * 16 + unat b div 16" by (simp only: go)
  show "v4_nat (a, b, c, d) div 131072 = unat a * 128 + unat b div 2" by (simp only: go)
  show "v4_nat (a, b, c, d) div 65536 = unat a * 256 + unat b" by (simp only: go div_by_1)
  show "v4_nat (a, b, c, d) div 256 = (unat a * 256 + unat b) * 256 + unat c"
    using div_byte [OF unat_byte, of "(unat a * 256 + unat b) * 256 + unat c" d 1] by simp
qed

lemma digit_pair: "x < m \<Longrightarrow> y < m \<Longrightarrow> a * m + x = b * m + y \<longleftrightarrow> a = b \<and> x = y" for a b x y m :: nat
proof
  assume "x < m" "y < m" "a * m + x = b * m + y"
  then have "(a * m + x) div m = (b * m + y) div m" "(a * m + x) mod m = (b * m + y) mod m" by simp_all
  with \<open>x < m\<close> \<open>y < m\<close> show "a = b \<and> x = y" by simp
qed simp

lemmas block_simps = in_block_def v4_prefixes digit_pair word_unat_eq_iff

lemma in_block_prefixes:
  "in_block (v4_nat (a, b, c, d)) ((k, 0, 0, 0), 8) \<longleftrightarrow> a = k"
  "in_block (v4_nat (a, b, c, d)) ((k, l, 0, 0), 16) \<longleftrightarrow> a = k \<and> b = l"
  "in_block (v4_nat (a, b, c, d)) ((k, l, m, 0), 24) \<longleftrightarrow> a = k \<and> b = l \<and> c = m"
  "in_block (v4_nat (a, b, c, d)) ((k, 0, 0, 0), 4) \<longleftrightarrow> unat a div 16 = unat k div 16"
proof -
  have "(unat a * 256 + unat b) * 256 + unat c = (unat k * 256 + unat l) * 256 + unat m \<longleftrightarrow>
      a = k \<and> b = l \<and> c = m"
    by (simp only: digit_pair unat_byte) (simp add: word_unat_eq_iff)
  then show "in_block (v4_nat (a, b, c, d)) ((k, l, m, 0), 24) \<longleftrightarrow> a = k \<and> b = l \<and> c = m"
    by (simp add: in_block_def v4_prefixes del: v4_nat.simps)
qed (simp_all add: block_simps conj_assoc del: v4_nat.simps)

lemma within:
  "unat x div 16 = 1 \<longleftrightarrow> 16 \<le> x \<and> x \<le> 31"
  "unat x div 64 = 1 \<longleftrightarrow> 64 \<le> x \<and> x \<le> 127"
  "unat x div 2 = 9 \<longleftrightarrow> x = 18 \<or> x = 19"
  "unat x div 16 = 14 \<or> unat x div 16 = 15 \<longleftrightarrow> 224 \<le> x" for x :: "8 word"
proof -
  have "n div 16 = 1 \<longleftrightarrow> 16 \<le> n \<and> n \<le> 31" "n div 64 = 1 \<longleftrightarrow> 64 \<le> n \<and> n \<le> 127"
    "n div 2 = 9 \<longleftrightarrow> n = 18 \<or> n = 19" "n div 16 = 14 \<or> n div 16 = 15 \<longleftrightarrow> 224 \<le> n \<and> n < 256" for n :: nat
    by linarith+
  then show "unat x div 16 = 1 \<longleftrightarrow> 16 \<le> x \<and> x \<le> 31" "unat x div 64 = 1 \<longleftrightarrow> 64 \<le> x \<and> x \<le> 127"
      "unat x div 2 = 9 \<longleftrightarrow> x = 18 \<or> x = 19" "unat x div 16 = 14 \<or> unat x div 16 = 15 \<longleftrightarrow> 224 \<le> x"
    by (simp_all add: word_le_nat_alt word_unat_eq_iff)
qed

lemma in_block_inner:
  "in_block (v4_nat (a, b, c, d)) ((172, 16, 0, 0), 12) \<longleftrightarrow> a = 172 \<and> 16 \<le> b \<and> b \<le> 31"
  "in_block (v4_nat (a, b, c, d)) ((100, 64, 0, 0), 10) \<longleftrightarrow> a = 100 \<and> 64 \<le> b \<and> b \<le> 127"
  "in_block (v4_nat (a, b, c, d)) ((198, 18, 0, 0), 15) \<longleftrightarrow> a = 198 \<and> (b = 18 \<or> b = 19)"
proof -
  have small: "unat b div 16 < 16" "unat b div 64 < 4" "unat b div 2 < 128" using unat_byte [of b] by linarith+
  have "unat a * 16 + unat b div 16 = 172 * 16 + 1 \<longleftrightarrow> a = 172 \<and> unat b div 16 = 1"
    "unat a * 4 + unat b div 64 = 100 * 4 + 1 \<longleftrightarrow> a = 100 \<and> unat b div 64 = 1"
    "unat a * 128 + unat b div 2 = 198 * 128 + 9 \<longleftrightarrow> a = 198 \<and> unat b div 2 = 9"
    using small by (simp_all only: digit_pair) (simp_all add: word_unat_eq_iff)
  then show "in_block (v4_nat (a, b, c, d)) ((172, 16, 0, 0), 12) \<longleftrightarrow> a = 172 \<and> 16 \<le> b \<and> b \<le> 31"
    "in_block (v4_nat (a, b, c, d)) ((100, 64, 0, 0), 10) \<longleftrightarrow> a = 100 \<and> 64 \<le> b \<and> b \<le> 127"
    "in_block (v4_nat (a, b, c, d)) ((198, 18, 0, 0), 15) \<longleftrightarrow> a = 198 \<and> (b = 18 \<or> b = 19)"
    by (simp_all add: in_block_def v4_prefixes within within [unfolded One_nat_def] del: v4_nat.simps)
qed

lemma special_use_v4_blocks:
  "special_use_v4 allow v \<longleftrightarrow>
     (\<not> allow \<and> in_block (v4_nat v) ((127, 0, 0, 0), 8)) \<or> (\<exists>b \<in> set special_blocks. in_block (v4_nat v) b)"
proof (cases v)
  case (fields a b c d)
  show ?thesis
    unfolding fields special_blocks_def
    by (simp add: in_block_prefixes in_block_inner within(4) [symmetric] del: v4_nat.simps)
qed

text \<open>The same for IPv6, over the 128 bit address.\<close>

lemma high_bits:
  fixes x c :: "'a::len word"
  assumes "c AND NOT (mask n) = c"
  shows "x AND NOT (mask n) = c \<longleftrightarrow> drop_bit n x = drop_bit n c"
proof -
  have low: "drop_bit n (y AND NOT (mask n)) = drop_bit n y" for y :: "'a word"
    by (rule bit_eqI) (auto simp: bit_simps dest: bit_imp_le_length)
  have high: "y AND NOT (mask n) = push_bit n (drop_bit n y)" for y :: "'a word"
    by (rule bit_eqI) (auto simp: bit_simps)
  show ?thesis using low [of x] low [of c] high [of x] high [of c] assms by auto
qed

lemma v6_masks:
  "x AND 0xfe00 = 0xfc00 \<longleftrightarrow> unat x div 512 = 126"
  "x AND 0xffc0 = 0xfe80 \<longleftrightarrow> unat x div 64 = 1018"
  "drop_bit 8 x = 0xff \<longleftrightarrow> unat x div 256 = 255" for x :: "16 word"
proof -
  have u: "unat (drop_bit n y) = unat y div 2 ^ n" for n and y :: "16 word"
    unfolding unat_drop_bit_eq by (rule drop_bit_eq_div)
  have m: "(0xfe00 :: 16 word) = NOT (mask 9)" "(0xffc0 :: 16 word) = NOT (mask 6)" by (simp_all add: mask_eq_exp_minus_1)
  have "x AND NOT (mask 9) = 0xfc00 \<longleftrightarrow> drop_bit 9 x = drop_bit 9 0xfc00"
    by (rule high_bits) (simp add: mask_eq_exp_minus_1)
  then show "x AND 0xfe00 = 0xfc00 \<longleftrightarrow> unat x div 512 = 126"
    by (simp add: m word_unat_eq_iff [of "drop_bit _ _"] u)
  have "x AND NOT (mask 6) = 0xfe80 \<longleftrightarrow> drop_bit 6 x = drop_bit 6 0xfe80"
    by (rule high_bits) (simp add: mask_eq_exp_minus_1)
  then show "x AND 0xffc0 = 0xfe80 \<longleftrightarrow> unat x div 64 = 1018"
    by (simp add: m word_unat_eq_iff [of "drop_bit _ _"] u)
  show "drop_bit 8 x = 0xff \<longleftrightarrow> unat x div 256 = 255"
    by (simp add: word_unat_eq_iff u)
qed

lemma length_read_groups: "length (fst (read_groups limit i s)) \<le> limit - i"
proof (induction limit i s rule: read_groups.induct)
  case (1 limit i s)
  let ?v4 = "if i < limit - 1 then read_separator CHR '':'' i read_ipv4_addr s else None"
  let ?g = "read_separator CHR '':'' i (read_number 16 4 True 65536) s"
  note unfold = read_groups.simps [of limit i s]
  show ?case
  proof (cases "limit \<le> i \<or> ?v4 \<noteq> None \<or> ?g = None")
    case True
    then show ?thesis by (auto simp: unfold split: if_splits option.splits)
  next
    case False
    then have v4: "?v4 = None" and i: "\<not> limit \<le> i" by blast+
    from False obtain g s' where g: "?g = Some (g, s')" by (cases ?g) auto
    have "fst (read_groups limit i s) = of_nat g # fst (read_groups limit (Suc i) s')"
      using i by (simp only: unfold v4 g) (simp split: prod.split)
    with 1 [OF i v4 g refl] i show ?thesis by simp
  qed
qed

lemma ipv6_parse_length:
  assumes "ipv6_parse s = Some v"
  shows "length v = 8"
proof -
  obtain head b s1 where head: "read_groups 8 0 s = (head, b, s1)" by (cases "read_groups 8 0 s")
  then have le: "length head \<le> 8" using length_read_groups [of 8 0 s] by simp
  have read: "read_ipv6_addr s = Some (v, [])"
    using assms by (auto simp: ipv6_parse_def split: option.splits list.splits)
  show ?thesis
  proof (cases "length head = 8")
    case True
    with read head show ?thesis by (simp add: read_ipv6_addr_def)
  next
    case False
    with read head obtain s2 s3 where "(case read_groups (8 - (length head + 1)) 0 s3 of
        (tail, _, rest) \<Rightarrow> Some (head @ replicate (8 - length head - length tail) 0 @ tail, rest)) = Some (v, [])"
      by (simp only: read_ipv6_addr_def prod.case if_False) (auto simp: bind_eq_Some_conv split: if_splits)
    moreover obtain tail b' rest where tail: "read_groups (8 - (length head + 1)) 0 s3 = (tail, b', rest)"
      by (cases "read_groups (8 - (length head + 1)) 0 s3")
    moreover have "length tail \<le> 8 - (length head + 1)"
      using length_read_groups [of "8 - (length head + 1)" 0 s3] tail by simp
    ultimately show ?thesis using le by auto
  qed
qed

definition v6_nat :: "ipv6 \<Rightarrow> nat" where
  "v6_nat s = foldl (\<lambda>acc g. acc * 65536 + unat g) 0 s"

definition in_block6 :: "nat \<Rightarrow> ipv6 \<times> nat \<Rightarrow> bool" where
  "in_block6 v = (\<lambda>(net, len). v div 2 ^ (128 - len) = v6_nat net div 2 ^ (128 - len))"

definition special_blocks6 :: "(ipv6 \<times> nat) list" where
  "special_blocks6 =
     [([0, 0, 0, 0, 0, 0, 0, 0], 16), ([0x64, 0, 0, 0, 0, 0, 0, 0], 16), ([0x100, 0, 0, 0, 0, 0, 0, 0], 64),
      ([0x2001, 0, 0, 0, 0, 0, 0, 0], 23), ([0x2001, 0xdb8, 0, 0, 0, 0, 0, 0], 32), ([0x2002, 0, 0, 0, 0, 0, 0, 0], 16),
      ([0xfc00, 0, 0, 0, 0, 0, 0, 0], 7), ([0xfe80, 0, 0, 0, 0, 0, 0, 0], 10), ([0xff00, 0, 0, 0, 0, 0, 0, 0], 8)]"

lemma unat_u16 [simp]: "unat (x :: 16 word) < 65536"
  using unsigned_less [of x] by simp

lemma div_u16: "y < 65536 \<Longrightarrow> (x * 65536 + y) div (65536 * m) = x div m" for x y m :: nat
  by (simp add: div_mult2_eq)

lemma v6_prefixes:
  fixes a b c d e f g h :: "16 word"
  defines "v \<equiv> v6_nat [a, b, c, d, e, f, g, h]"
  shows "v div 2 ^ 64 = ((unat a * 65536 + unat b) * 65536 + unat c) * 65536 + unat d"
    and "v div 2 ^ 96 = unat a * 65536 + unat b"
    and "v div 2 ^ 105 = (unat a * 65536 + unat b) div 512"
    and "v div 2 ^ 112 = unat a" and "v div 2 ^ 118 = unat a div 64" and "v div 2 ^ 120 = unat a div 256"
    and "v div 2 ^ 121 = unat a div 512"
proof -
  have v: "v = ((((((unat a * 65536 + unat b) * 65536 + unat c) * 65536 + unat d) * 65536 + unat e) * 65536 + unat f)
      * 65536 + unat g) * 65536 + unat h" by (simp add: v_def v6_nat_def)
  have split: "(2 ^ 64 :: nat) = 65536 * (65536 * (65536 * (65536 * 1)))"
    "(2 ^ 96 :: nat) = 65536 * (65536 * (65536 * (65536 * (65536 * (65536 * 1)))))"
    "(2 ^ 105 :: nat) = 65536 * (65536 * (65536 * (65536 * (65536 * (65536 * 512)))))"
    "(2 ^ 112 :: nat) = 65536 * (65536 * (65536 * (65536 * (65536 * (65536 * (65536 * 1))))))"
    "(2 ^ 118 :: nat) = 65536 * (65536 * (65536 * (65536 * (65536 * (65536 * (65536 * 64))))))"
    "(2 ^ 120 :: nat) = 65536 * (65536 * (65536 * (65536 * (65536 * (65536 * (65536 * 256))))))"
    "(2 ^ 121 :: nat) = 65536 * (65536 * (65536 * (65536 * (65536 * (65536 * (65536 * 512))))))" by simp_all
  show "v div 2 ^ 64 = ((unat a * 65536 + unat b) * 65536 + unat c) * 65536 + unat d"
    "v div 2 ^ 96 = unat a * 65536 + unat b" "v div 2 ^ 105 = (unat a * 65536 + unat b) div 512"
    "v div 2 ^ 112 = unat a" "v div 2 ^ 118 = unat a div 64" "v div 2 ^ 120 = unat a div 256"
    "v div 2 ^ 121 = unat a div 512"
    by (simp_all only: v split div_u16 unat_u16 div_by_1)
qed

lemma in_block6_prefixes:
  fixes a b c d e f g h :: "16 word"
  defines "v \<equiv> v6_nat [a, b, c, d, e, f, g, h]"
  shows "in_block6 v ([k, 0, 0, 0, 0, 0, 0, 0], 16) \<longleftrightarrow> a = k"
    and "in_block6 v ([k, l, 0, 0, 0, 0, 0, 0], 32) \<longleftrightarrow> a = k \<and> b = l"
    and "in_block6 v ([0x2001, 0, 0, 0, 0, 0, 0, 0], 23) \<longleftrightarrow> a = 0x2001 \<and> b < 0x200"
    and "in_block6 v ([k, 0, 0, 0, 0, 0, 0, 0], 64) \<longleftrightarrow> a = k \<and> b = 0 \<and> c = 0 \<and> d = 0"
    and "in_block6 v ([k, 0, 0, 0, 0, 0, 0, 0], 7) \<longleftrightarrow> unat a div 512 = unat k div 512"
    and "in_block6 v ([k, 0, 0, 0, 0, 0, 0, 0], 10) \<longleftrightarrow> unat a div 64 = unat k div 64"
    and "in_block6 v ([k, 0, 0, 0, 0, 0, 0, 0], 8) \<longleftrightarrow> unat a div 256 = unat k div 256"
proof -
  have lens: "128 - 16 = (112 :: nat)" "128 - 32 = (96 :: nat)" "128 - 23 = (105 :: nat)" "128 - 64 = (64 :: nat)"
    "128 - 7 = (121 :: nat)" "128 - 10 = (118 :: nat)" "128 - 8 = (120 :: nat)" by simp_all
  note block = in_block6_def prod.case lens v_def v6_prefixes
  show "in_block6 v ([k, 0, 0, 0, 0, 0, 0, 0], 16) \<longleftrightarrow> a = k"
    "in_block6 v ([k, 0, 0, 0, 0, 0, 0, 0], 7) \<longleftrightarrow> unat a div 512 = unat k div 512"
    "in_block6 v ([k, 0, 0, 0, 0, 0, 0, 0], 10) \<longleftrightarrow> unat a div 64 = unat k div 64"
    "in_block6 v ([k, 0, 0, 0, 0, 0, 0, 0], 8) \<longleftrightarrow> unat a div 256 = unat k div 256"
    by (simp_all only: block word_unat_eq_iff)
  show "in_block6 v ([k, l, 0, 0, 0, 0, 0, 0], 32) \<longleftrightarrow> a = k \<and> b = l"
    by (simp only: block digit_pair unat_u16 word_unat_eq_iff)
  show "in_block6 v ([k, 0, 0, 0, 0, 0, 0, 0], 64) \<longleftrightarrow> a = k \<and> b = 0 \<and> c = 0 \<and> d = 0"
    by (simp only: block digit_pair unat_u16 word_unat_eq_iff conj_assoc)
  have half: "(x * 65536 + y) div 512 = x * 128 + y div 512" for x y :: nat
    using div_mult_self2 [of 512 y "x * 128"] by (simp add: algebra_simps)
  have "unat b div 512 < 128" using unat_u16 [of b] by linarith
  then have "unat a * 128 + unat b div 512 = 0x2001 * 128 + 0 \<longleftrightarrow> unat a = 0x2001 \<and> unat b div 512 = 0"
    by (simp only: digit_pair)
  then show "in_block6 v ([0x2001, 0, 0, 0, 0, 0, 0, 0], 23) \<longleftrightarrow> a = 0x2001 \<and> b < 0x200"
    by (simp only: block half) (simp add: word_unat_eq_iff word_less_nat_alt div_eq_0_iff)
qed

lemma special_use_v6_blocks:
  assumes "length s = 8"
  shows "special_use_v6 s \<longleftrightarrow> (\<exists>b \<in> set special_blocks6. in_block6 (v6_nat s) b)"
proof -
  obtain a b c d e f g h where s: "s = [a, b, c, d, e, f, g, h]"
    using assms by (auto simp: numeral_eq_Suc length_Suc_conv)
  show ?thesis
    unfolding s special_blocks6_def
    by (simp add: special_use_v6_def v6_masks in_block6_prefixes)
qed

definition embeds_v4 :: "ipv6 \<Rightarrow> bool" where
  "embeds_v4 s \<longleftrightarrow> take 5 s = replicate 5 0 \<and> (s ! 5 = 0xffff \<or> s ! 5 = 0)"

definition special_v4 :: "bool \<Rightarrow> ipv4 \<Rightarrow> bool" where
  "special_v4 allow v \<longleftrightarrow>
     \<not> allow \<and> in_block (v4_nat v) ((127, 0, 0, 0), 8) \<or> (\<exists>b \<in> set special_blocks. in_block (v4_nat v) b)"

definition special_v6 :: "bool \<Rightarrow> ipv6 \<Rightarrow> bool" where
  "special_v6 allow s \<longleftrightarrow>
     (if s = ipv6_localhost then \<not> allow
      else if embeds_v4 s then special_v4 allow (embedded_v4 s)
      else (\<exists>b \<in> set special_blocks6. in_block6 (v6_nat s) b))"

lemma special_use_literal_blocks:
  "is_special_use_literal host allow \<longleftrightarrow>
     (case ipv4_parse host of
        Some v \<Rightarrow> special_v4 allow v
      | None \<Rightarrow> (case ipv6_parse host of Some s \<Rightarrow> special_v6 allow s | None \<Rightarrow> False))"
  using special_use_v6_blocks [OF ipv6_parse_length [of host]]
  by (auto simp: is_special_use_literal.simps [of host] special_use_v4_blocks special_v4_def special_v6_def embeds_v4_def
      is_special_use_literal.simps [of "ipv4_display _"] ipv4_roundtrip split: option.split)

definition special_address :: "bool \<Rightarrow> string \<Rightarrow> bool" where
  "special_address allow host \<longleftrightarrow>
     (\<exists>v. host = ipv4_display v \<and> special_v4 allow v) \<or>
     (\<nexists>v. host = ipv4_display v) \<and> (\<exists>s. ipv6_parse host = Some s \<and> special_v6 allow s)"

lemma special_use_literal_address: "is_special_use_literal host allow \<longleftrightarrow> special_address allow host"
  by (auto simp: special_address_def special_use_literal_blocks ipv4_parse_canonical [symmetric] split: option.split)

text \<open>
  The classification of address literals is exactly membership in the blocks of the special-purpose
  registries, as prefixes of the 32 or 128 bit address: IPv4 in its one canonical spelling, IPv6 by its own
  blocks, and IPv6 that embeds an IPv4 address by the address it embeds; loopback as the policy says.
\<close>
theorem special_use_literal_exact: "is_special_use_literal host allow \<longleftrightarrow> special_address allow host"
  by (rule special_use_literal_address)

end
