(* ===== verification/Cimd.thy ===== *)
theory Cimd
  imports Registration_Meta Ip_Address
begin

text \<open>
  Client identifier metadata documents (\<^verbatim>\<open>cimd.rs\<close>): the checks on a client identifier URL and on the document
  fetched from it. Fetching is the host's; the JSON deserialiser is the parameter \<open>de\<close>.
\<close>

definition MAX_CLIENT_ID_DOCUMENT_BYTES :: nat where "MAX_CLIENT_ID_DOCUMENT_BYTES = 5120"
definition MAX_CLIENT_ID_URL_BYTES :: nat where "MAX_CLIENT_ID_URL_BYTES = 2048"

datatype cimd_error =
    NotHttps | NoHost | NotAscii | NoPath | DotSegment | Fragment | Userinfo | QueryString | SpecialUseAddress
  | UrlTooLong | DocumentTooLarge | NotJson | MissingClientId | ClientIdMismatch | ClientSecretPresent
  | SharedSecretAuthMethod | KeyMaterialPresent | RedirectUriNotSameOrigin
  | CimdMetadata registration_error_response

record cimd_policy =
  cp_allow_loopback :: bool
  cp_max_document_bytes :: nat
  cp_redirect_uris_same_origin :: bool
  cp_allow_query_string :: bool
  cp_registration_bounds :: registration_config

definition cimd_policy_new :: cimd_policy where
  "cimd_policy_new = \<lparr>cp_allow_loopback = False, cp_max_document_bytes = MAX_CLIENT_ID_DOCUMENT_BYTES,
     cp_redirect_uris_same_origin = True, cp_allow_query_string = False,
     cp_registration_bounds = registration_config_new\<rparr>"

section \<open>The URL\<close>

definition is_ascii_hexdigit :: "char \<Rightarrow> bool" where
  "is_ascii_hexdigit c \<longleftrightarrow> is_ascii_digit c \<or> (65 \<le> of_ascii c \<and> of_ascii c \<le> 70) \<or> (97 \<le> of_ascii c \<and> of_ascii c \<le> 102)"

definition ends_in_a_number :: "string \<Rightarrow> bool" where
  "ends_in_a_number host =
     (let host' = (if host \<noteq> [] \<and> last host = CHR ''.'' then butlast host else host);
          label = last (split_on CHR ''.'' host')
      in if label = [] then False
         else case strip_prefix ''0x'' label of
                Some hex \<Rightarrow> list_all is_ascii_hexdigit hex
              | None \<Rightarrow>
                  (case strip_prefix ''0X'' label of
                     Some hex \<Rightarrow> list_all is_ascii_hexdigit hex
                   | None \<Rightarrow> list_all is_ascii_digit label))"

definition host_of :: "string \<Rightarrow> string option" where
  "host_of authority =
     (let keep = (\<lambda>h. if h = [] then None else Some h)
      in if authority = [] then None
         else if hd authority = CHR ''['' then keep (hd (split_on CHR '']'' (tl authority)))
         else keep (hd (split_on CHR '':'' authority)))"

definition authority_end :: "char \<Rightarrow> bool" where
  "authority_end c \<longleftrightarrow> c = CHR ''/'' \<or> c = CHR ''?''"

datatype client_id_url = ClientIdUrl (url_str: string)

definition client_id_url_parse :: "cimd_policy \<Rightarrow> string \<Rightarrow> cimd_error + client_id_url" where
  "client_id_url_parse policy raw =
     (if MAX_CLIENT_ID_URL_BYTES < length raw then Err UrlTooLong
      else if \<not> list_all (\<lambda>b. 33 \<le> of_ascii b \<and> of_ascii b \<le> 126) raw then Err NotAscii
      else rbind (ok_or NotHttps (strip_prefix ''https://'' raw)) (\<lambda>rest.
      if CHR ''#'' \<in> set raw then Err Fragment
      else
        let authority = takeWhile (\<lambda>c. \<not> authority_end c) rest;
            after = drop (length authority) rest
        in if CHR ''@'' \<in> set authority then Err Userinfo
           else if after = [] \<or> hd after \<noteq> CHR ''/'' then Err NoPath
           else
             let (path, query) = (case split_once CHR ''?'' after of
                   Some (p, q) \<Rightarrow> (p, Some q) | None \<Rightarrow> (after, None))
             in if list_ex (\<lambda>segment. segment = ''.'' \<or> segment = ''..'') (split_on CHR ''/'' path) then Err DotSegment
                else if query \<noteq> None \<and> \<not> cp_allow_query_string policy then Err QueryString
                else rbind (ok_or NoHost (host_of authority)) (\<lambda>host.
                if CHR '':'' \<notin> set host \<and> ends_in_a_number host \<and> ipv4_parse host = None then Err SpecialUseAddress
                else if CHR 0x5c \<in> set authority then Err NotAscii
                else if CHR ''%'' \<in> set authority then Err NotAscii
                else if is_special_use_literal host (cp_allow_loopback policy) then Err SpecialUseAddress
                else Ok (ClientIdUrl raw))))"

definition url_origin :: "client_id_url \<Rightarrow> string" where
  "url_origin u =
     (case strip_prefix ''https://'' (url_str u) of
        None \<Rightarrow> url_str u
      | Some rest \<Rightarrow> take (8 + length (takeWhile (\<lambda>c. \<not> authority_end c) rest)) (url_str u))"

section \<open>The document\<close>

record client_id_document =
  cd_client_id :: "string option"
  cd_client_secret :: "json option"
  cd_client_secret_expires_at :: "json option"
  cd_jwks :: "json option"
  cd_jwks_uri :: "json option"
  cd_metadata :: client_metadata

definition FORBIDDEN_AUTH_METHODS :: "string list" where
  "FORBIDDEN_AUTH_METHODS = [''client_secret_basic'', ''client_secret_post'', ''client_secret_jwt'']"

record validated_document =
  vd_url :: client_id_url
  vd_registered :: registered_terms

definition cimd_failure :: "registration_failure \<Rightarrow> cimd_error" where
  "cimd_failure failure =
     (case failure of
        RegInvalid response \<Rightarrow> CimdMetadata response
      | _ \<Rightarrow> CimdMetadata (registration_error_new InvalidClientMetadata
               ''the document names metadata this server will not accept''))"

definition same_origin_redirect :: "string \<Rightarrow> string \<Rightarrow> bool" where
  "same_origin_redirect origin uri =
     (case strip_prefix origin uri of
        None \<Rightarrow> False
      | Some rest \<Rightarrow> rest = [] \<or> hd rest = CHR ''/'' \<or> hd rest = CHR ''?'')"

definition document_metadata :: "client_metadata \<Rightarrow> cimd_error + client_metadata" where
  "document_metadata md =
     (case md_token_endpoint_auth_method md of
        Some meth \<Rightarrow> if meth \<in> set FORBIDDEN_AUTH_METHODS then Err SharedSecretAuthMethod else Ok md
      | None \<Rightarrow> Ok (md\<lparr>md_token_endpoint_auth_method := Some AUTH_METHOD_NONE\<rparr>))"

definition validate_document ::
  "(byte list \<Rightarrow> client_id_document option) \<Rightarrow> client_id_url \<Rightarrow> byte list \<Rightarrow> cimd_policy \<Rightarrow>
     cimd_error + validated_document" where
  "validate_document de fetched_from body policy =
     (if cp_max_document_bytes policy < length body then Err DocumentTooLarge
      else rbind (ok_or NotJson (de body)) (\<lambda>document.
      rbind (ok_or MissingClientId (cd_client_id document)) (\<lambda>claimed.
      if claimed \<noteq> url_str fetched_from then Err ClientIdMismatch
      else if cd_client_secret document \<noteq> None \<or> cd_client_secret_expires_at document \<noteq> None then
        Err ClientSecretPresent
      else if cd_jwks document \<noteq> None \<or> cd_jwks_uri document \<noteq> None then Err KeyMaterialPresent
      else rbind (document_metadata (cd_metadata document)) (\<lambda>metadata.
      rbind (map_sum cimd_failure id (validate_registration metadata (cp_registration_bounds policy))) (\<lambda>registered.
      if cp_redirect_uris_same_origin policy \<and>
         list_ex (\<lambda>uri. \<not> same_origin_redirect (url_origin fetched_from) uri) (rg_redirect_uris registered)
      then Err RedirectUriNotSameOrigin
      else Ok \<lparr>vd_url = fetched_from, vd_registered = registered\<rparr>)))))"

definition document_to_client :: "validated_document \<Rightarrow> client" where
  "document_to_client d =
     \<lparr>cl_client_id = ClientId (url_str (vd_url d)), cl_auth = Public,
      cl_grant_types = rg_grant_types (vd_registered d), cl_redirect_uris = rg_redirect_uris (vd_registered d),
      cl_allowed_scopes = rg_scope (vd_registered d), cl_default_scopes = scope_empty,
      cl_name = rg_client_name (vd_registered d), cl_registration = None\<rparr>"

section \<open>What the checks give\<close>

text \<open>What a client identifier URL has to be, read off its parts.\<close>

definition client_id_url_admissible :: "cimd_policy \<Rightarrow> string \<Rightarrow> bool" where
  "client_id_url_admissible policy raw \<longleftrightarrow>
     (\<exists>authority path query host.
        raw = ''https://'' @ authority @ path @ query \<and> length raw \<le> MAX_CLIENT_ID_URL_BYTES \<and>
        list_all (\<lambda>b. 33 \<le> of_ascii b \<and> of_ascii b \<le> 126) raw \<and> CHR ''#'' \<notin> set raw \<and>
        set authority \<inter> set ''/?@%'' = {} \<and> CHR 0x5c \<notin> set authority \<and>
        (\<exists>p. path = CHR ''/'' # p) \<and> CHR ''?'' \<notin> set path \<and>
        set (split_on CHR ''/'' path) \<inter> {''.'', ''..''} = {} \<and>
        (query = [] \<or> cp_allow_query_string policy \<and> (\<exists>q. query = CHR ''?'' # q)) \<and>
        host_of authority = Some host \<and> \<not> special_address (cp_allow_loopback policy) host \<and>
        (ends_in_a_number host \<and> CHR '':'' \<notin> set host \<longrightarrow> (\<exists>v. host = ipv4_display v)))"

lemma authority_takeWhile:
  "set authority \<inter> set ''/?@%'' = {} \<Longrightarrow> takeWhile (\<lambda>c. \<not> authority_end c) (authority @ CHR ''/'' # p) = authority"
  by (subst takeWhile_append2) (auto simp: authority_end_def)

lemma canonical_v4: "ipv4_parse host = None \<longleftrightarrow> (\<nexists>v. host = ipv4_display v)"
  unfolding ipv4_parse_canonical [symmetric] by (metis not_None_eq)

text \<open>The checks after the authority was found, for both ways the path can end.\<close>

definition path_and_query :: "string \<Rightarrow> string \<times> string" where
  "path_and_query after = (takeWhile (\<lambda>c. c \<noteq> CHR ''?'') after, dropWhile (\<lambda>c. c \<noteq> CHR ''?'') after)"

lemma path_and_query_join:
  assumes "path_and_query after = (path, query)"
  shows "after = path @ query" and "CHR ''?'' \<notin> set path" and "query = [] \<or> (\<exists>q. query = CHR ''?'' # q)"
proof -
  show "after = path @ query" "CHR ''?'' \<notin> set path"
    using assms by (auto simp: path_and_query_def dest: set_takeWhileD)
  show "query = [] \<or> (\<exists>q. query = CHR ''?'' # q)"
    using assms hd_dropWhile [of "\<lambda>c. c \<noteq> CHR ''?''" after] by (cases query) (auto simp: path_and_query_def)
qed

lemma path_and_query_parts:
  assumes "CHR ''?'' \<notin> set path" and "query = [] \<or> (\<exists>q. query = CHR ''?'' # q)"
  shows "path_and_query (path @ query) = (path, query)"
proof -
  have "c \<noteq> CHR ''?''" if "c \<in> set path" for c using assms(1) that by auto
  with assms(2) show ?thesis by (auto simp: path_and_query_def takeWhile_append2 dropWhile_append2)
qed

lemma split_once_path:
  assumes "path_and_query after = (path, query)"
  shows "split_once CHR ''?'' after = (if query = [] then None else Some (path, tl query))"
  using path_and_query_join [OF assms] by (auto simp: split_once_eq_None split_once_eq_Some)

lemma guard_eq: "(if P then Inl e else r) = Inr x \<longleftrightarrow> \<not> P \<and> r = Inr x"
  by simp

lemma map_error_eq: "map_sum f id r = Inr x \<longleftrightarrow> r = Inr x"
  by (cases r) simp_all

lemma client_id_url_parse_parts:
  assumes "path_and_query (drop (length authority) rest) = (path, query)"
    and "authority = takeWhile (\<lambda>c. \<not> authority_end c) rest"
  shows "client_id_url_parse policy (''https://'' @ rest) = Inr u \<longleftrightarrow>
     length (''https://'' @ rest) \<le> MAX_CLIENT_ID_URL_BYTES \<and>
     list_all (\<lambda>b. 33 \<le> of_ascii b \<and> of_ascii b \<le> 126) (''https://'' @ rest) \<and> CHR ''#'' \<notin> set (''https://'' @ rest) \<and>
     CHR ''@'' \<notin> set authority \<and> (\<exists>p. drop (length authority) rest = CHR ''/'' # p) \<and>
     set (split_on CHR ''/'' path) \<inter> {''.'', ''..''} = {} \<and> (query = [] \<or> cp_allow_query_string policy) \<and>
     (\<exists>host. host_of authority = Some host \<and>
        (ends_in_a_number host \<and> CHR '':'' \<notin> set host \<longrightarrow> (\<exists>v. host = ipv4_display v)) \<and>
        \<not> special_address (cp_allow_loopback policy) host) \<and>
     CHR 0x5c \<notin> set authority \<and> CHR ''%'' \<notin> set authority \<and> u = ClientIdUrl (''https://'' @ rest)"
proof -
  obtain raw where raw: "raw = ''https://'' @ rest" by blast
  then have strip: "strip_prefix ''https://'' raw = Some x \<longleftrightarrow> x = rest" for x by (auto simp: strip_prefix_eq_Some)
  have query: "(case split_once CHR ''?'' (drop (length authority) rest) of
      Some (p, q) \<Rightarrow> (p, Some q) | None \<Rightarrow> (drop (length authority) rest, None)) =
      (path, if query = [] then None else Some (tl query))"
    unfolding split_once_path [OF assms(1)] using path_and_query_join(1) [OF assms(1)] by simp
  have seg: "list_ex (\<lambda>segment. segment = ''.'' \<or> segment = ''..'') (split_on CHR ''/'' path) \<longleftrightarrow>
      set (split_on CHR ''/'' path) \<inter> {''.'', ''..''} \<noteq> {}" by (auto simp: list_ex_iff)
  have after: "(\<exists>p. xs = CHR ''/'' # p) \<longleftrightarrow> \<not> (xs = [] \<or> hd xs \<noteq> CHR ''/'')" for xs
    by (cases xs) auto
  have v4: "(\<exists>v. host = ipv4_display v) \<longleftrightarrow> ipv4_parse host \<noteq> None" for host
    unfolding canonical_v4 by (rule not_not [symmetric])
  show ?thesis
    unfolding client_id_url_parse_def raw [symmetric] Let_def guard_eq rbind_eq_Inr ok_or_eq strip v4
      special_use_literal_address simp_thms
    unfolding assms(2) [symmetric] query seg after guard_eq rbind_eq_Inr ok_or_eq prod.case by auto
qed

lemma client_id_url_parse_admissible:
  "client_id_url_parse policy raw = Inr u \<longleftrightarrow> u = ClientIdUrl raw \<and> client_id_url_admissible policy raw"
proof
  assume parsed: "client_id_url_parse policy raw = Inr u"
  then obtain rest where raw: "raw = ''https://'' @ rest"
    by (auto simp: client_id_url_parse_def strip_prefix_eq_Some split: if_splits)
  define authority where "authority = takeWhile (\<lambda>c. \<not> authority_end c) rest"
  obtain path query where pq: "path_and_query (drop (length authority) rest) = (path, query)" by fastforce
  note parts = parsed [unfolded raw client_id_url_parse_parts [OF pq authority_def]]
  note join = path_and_query_join [OF pq]
  have rest: "rest = authority @ path @ query"
    unfolding join(1) [symmetric] authority_def by (metis append_take_drop_id takeWhile_eq_take)
  have "CHR ''/'' \<notin> set authority" "CHR ''?'' \<notin> set authority"
    by (auto simp: authority_def authority_end_def dest: set_takeWhileD)
  with parts have auth: "set authority \<inter> set ''/?@%'' = {}" by auto
  from parts obtain host where host: "host_of authority = Some host"
      "ends_in_a_number host \<and> CHR '':'' \<notin> set host \<longrightarrow> (\<exists>v. host = ipv4_display v)"
      "\<not> special_address (cp_allow_loopback policy) host" by blast
  have path: "\<exists>p. path = CHR ''/'' # p"
    using parts join by (cases path) auto
  have "client_id_url_admissible policy raw"
    unfolding client_id_url_admissible_def
    by (rule exI [of _ authority], rule exI [of _ path], rule exI [of _ query], rule exI [of _ host])
      (use parts join(2,3) rest auth host path raw in blast)
  with parts raw show "u = ClientIdUrl raw \<and> client_id_url_admissible policy raw" by blast
next
  assume u: "u = ClientIdUrl raw \<and> client_id_url_admissible policy raw"
  then obtain authority path query host p where raw: "raw = ''https://'' @ authority @ path @ query"
    and ok: "length raw \<le> MAX_CLIENT_ID_URL_BYTES" "list_all (\<lambda>b. 33 \<le> of_ascii b \<and> of_ascii b \<le> 126) raw"
      "CHR ''#'' \<notin> set raw" "CHR 0x5c \<notin> set authority"
    and auth: "set authority \<inter> set ''/?@%'' = {}" and path: "path = CHR ''/'' # p" "CHR ''?'' \<notin> set path"
      "set (split_on CHR ''/'' path) \<inter> {''.'', ''..''} = {}"
    and query: "query = [] \<or> cp_allow_query_string policy \<and> (\<exists>q. query = CHR ''?'' # q)"
    and host: "host_of authority = Some host" "\<not> special_address (cp_allow_loopback policy) host"
      "ends_in_a_number host \<and> CHR '':'' \<notin> set host \<longrightarrow> (\<exists>v. host = ipv4_display v)"
    unfolding client_id_url_admissible_def by blast
  have tw: "authority = takeWhile (\<lambda>c. \<not> authority_end c) (authority @ path @ query)"
    using authority_takeWhile [OF auth, of "p @ query"] by (simp add: path(1))
  have pq: "path_and_query (drop (length authority) (authority @ path @ query)) = (path, query)"
    using path_and_query_parts [OF path(2)] query by auto
  show "client_id_url_parse policy raw = Inr u"
    unfolding raw client_id_url_parse_parts [OF pq tw]
    using ok auth path query host u raw by auto
qed


definition https_authority :: "string \<Rightarrow> string option" where
  "https_authority uri = map_option (takeWhile (\<lambda>c. \<not> authority_end c)) (strip_prefix ''https://'' uri)"

lemma same_origin_authority:
  assumes "client_id_url_admissible policy raw" and "same_origin_redirect (url_origin (ClientIdUrl raw)) uri"
  shows "https_authority uri = https_authority raw"
proof -
  from assms(1) obtain rest where raw: "raw = ''https://'' @ rest"
    unfolding client_id_url_admissible_def by blast
  then have strip: "strip_prefix ''https://'' raw = Some rest" by (simp only: strip_prefix_eq_Some)
  let ?a = "takeWhile (\<lambda>c. \<not> authority_end c) rest"
  have "take (8 + n) (p @ rest) = p @ take n rest" if "length p = 8" for n p using that by simp
  from this [of "''https://''" "length ?a"] have "take (8 + length ?a) raw = ''https://'' @ ?a"
    unfolding raw takeWhile_eq_take [symmetric] by simp
  then have "url_origin (ClientIdUrl raw) = ''https://'' @ ?a" by (simp add: url_origin_def strip)
  with assms(2) obtain tl where uri: "uri = (''https://'' @ ?a) @ tl"
    and tl: "tl = [] \<or> hd tl = CHR ''/'' \<or> hd tl = CHR ''?''"
    by (auto simp: same_origin_redirect_def strip_prefix_eq_Some split: option.splits)
  have "takeWhile (\<lambda>c. \<not> authority_end c) (?a @ tl) = ?a"
    using tl by (subst takeWhile_append2) (auto dest: set_takeWhileD simp: authority_end_def takeWhile_eq_Nil_iff)
  moreover have "strip_prefix ''https://'' uri = Some (?a @ tl)" by (simp only: strip_prefix_eq_Some uri append_assoc)
  ultimately show ?thesis by (simp add: https_authority_def strip)
qed

lemma admissible_https: "client_id_url_admissible policy raw \<Longrightarrow> https_authority raw \<noteq> None"
  unfolding client_id_url_admissible_def https_authority_def
  by (elim exE conjE) (simp only: strip_prefix_eq_Some [THEN iffD2, OF refl] option.simps not_False_eq_True)

lemma document_terms:
  assumes "document_metadata md0 = Inr md" and "registration_admissible cfg md t"
  shows "rg_auth_method t = AUTH_METHOD_NONE" and "ClientCredentials \<notin> set (rg_grant_types t)"
proof -
  have "rg_auth_method t \<in> {AUTH_METHOD_NONE, AUTH_METHOD_BASIC, AUTH_METHOD_POST}"
    "rg_auth_method t = (case md_token_endpoint_auth_method md of Some v \<Rightarrow> v | None \<Rightarrow> AUTH_METHOD_BASIC)"
    and grants: "\<not> (rg_auth_method t = AUTH_METHOD_NONE \<and> ClientCredentials \<in> set (rg_grant_types t))"
    using assms(2) unfolding registration_admissible_def by blast+
  then show none: "rg_auth_method t = AUTH_METHOD_NONE"
    using assms(1) by (auto simp: document_metadata_def FORBIDDEN_AUTH_METHODS_def AUTH_METHOD_BASIC_def
        AUTH_METHOD_POST_def split: option.splits if_splits)
  with grants show "ClientCredentials \<notin> set (rg_grant_types t)" by blast
qed


definition sample_document :: client_id_document where
  "sample_document = \<lparr>cd_client_id = Some ''https://app.example/client'', cd_client_secret = None,
     cd_client_secret_expires_at = None, cd_jwks = None, cd_jwks_uri = None,
     cd_metadata = \<lparr>md_redirect_uris = [''https://app.example/cb''], md_token_endpoint_auth_method = None,
       md_grant_types = None, md_response_types = None, md_client_name = Some ''App'', md_scope = None,
       md_software_statement = None\<rparr>\<rparr>"


end
