(* ===== verification/Server.thy ===== *)
theory Server
  imports Request_Object Dpop Memory_Props Server_Util Registration_Meta Cimd
begin

text \<open>
  The authorization server's shared parts (\<^verbatim>\<open>server.rs\<close>, \<^verbatim>\<open>events.rs\<close>): configuration, events and
  hooks, the server as a record of what the host plugs in, and the small fallible helpers every
  endpoint uses. A server works over an abstract host state \<open>'s\<close>; each call of the host (store,
  clock, randomness, signer, event sink, rate limiter) is one atomic step of a program.
\<close>

section \<open>Events and hooks\<close>

datatype client_auth_failure =
    UnknownClient | SecretMismatch | RateLimited | SecretExpired | NotConfidential
  | NoDynamicRegistration | NoCertificatePresented | CertificateMismatch
  | AssertionInvalid assertion_failure

datatype event =
    EvClientAuthenticationFailed string client_auth_failure
  | EvTokenIssued string grant_type "string option" scope_set "string option" bool
  | EvGrantRefused string grant_type error_code
  | EvDpopProofRefused dpop_failure
  | EvDeviceGrantApproved string string
  | EvDeviceGrantDenied string
  | EvAuthorizationCodeReplayDetected string "string option" bool bool
  | EvRefreshTokenReuseDetected string string nat bool
  | EvTokenRevoked string token_type_hint bool
  | EvConsentWithdrawn string string nat
  | EvClientRegistered string
  | EvClientRegistrationAuthenticationFailed string client_auth_failure
  | EvClientRegistrationUpdated string
  | EvClientRegistrationDeleted string
  | EvClientRegistrationRefusedByPolicy "string option"

datatype attempt =
    AtClientAuthentication string
  | AtDeviceUserCodeEntry
  | AtAuthorizationRequest string
  | AtClientRegistration

datatype rate_limit_decision = Allow | Deny

datatype attempt_outcome = Succeeded | Failed

record 's rate_limiter =
  rl_check :: "attempt \<Rightarrow> 's \<Rightarrow> rate_limit_decision \<times> 's"
  rl_record :: "attempt \<Rightarrow> attempt_outcome \<Rightarrow> 's \<Rightarrow> 's"

record 's hooks =
  hk_events :: "(event \<Rightarrow> 's \<Rightarrow> 's) option"
  hk_rate_limiter :: "'s rate_limiter option"
  hk_secret_verifier :: "secret_verifier option"
  hk_jws_verifiers :: "jws_verifiers option"
  hk_request_object_keys :: "(client_id \<Rightarrow> request_object_key option) option"
  hk_registration_policy :: "(registration_attempt \<Rightarrow> 's \<Rightarrow> registration_decision \<times> 's) option"

definition emit :: "'s hooks \<Rightarrow> event \<Rightarrow> ('s, unit) prog" where
  "emit hk e = (case hk_events hk of None \<Rightarrow> Done () | Some sink \<Rightarrow> act (\<lambda>s. ((), sink e s)))"

definition is_observed :: "'s hooks \<Rightarrow> bool" where
  "is_observed hk \<longleftrightarrow> hk_events hk \<noteq> None"

definition hooks_check :: "'s hooks \<Rightarrow> attempt \<Rightarrow> ('s, rate_limit_decision) prog" where
  "hooks_check hk a = (case hk_rate_limiter hk of None \<Rightarrow> Done Allow | Some l \<Rightarrow> act (rl_check l a))"

definition hooks_record :: "'s hooks \<Rightarrow> attempt \<Rightarrow> attempt_outcome \<Rightarrow> ('s, unit) prog" where
  "hooks_record hk a out =
     (case hk_rate_limiter hk of None \<Rightarrow> Done () | Some l \<Rightarrow> act (\<lambda>s. ((), rl_record l a out s)))"

section \<open>Configuration\<close>

record resource_server_registration =
  rs_client_id :: client_id
  rs_resources :: "string list"

datatype refresh_rotation = Rotate | Reuse

datatype assertion_audience = Rfc7523 | IssuerOnly

record par_config =
  parc_endpoint :: "string option"
  parc_request_uri_ttl :: duration
  parc_require_pushed :: bool
  parc_require_redirect_uri :: bool

record jar_config =
  jarc_require_signed :: bool
  jarc_max_lifetime :: duration

definition par_config_new :: par_config where
  "par_config_new = \<lparr>parc_endpoint = None, parc_request_uri_ttl = from_secs 60,
     parc_require_pushed = False, parc_require_redirect_uri = False\<rparr>"

definition jar_config_new :: jar_config where
  "jar_config_new = \<lparr>jarc_require_signed = False, jarc_max_lifetime = from_secs 300\<rparr>"

text \<open>
  Every field of \<^verbatim>\<open>ServerConfig\<close> but \<^verbatim>\<open>registration\<close> and \<^verbatim>\<open>cimd\<close>, the policies of two components outside
  this development.
\<close>

record server_config =
  cfg_issuer :: string
  cfg_verification_uri :: string
  cfg_authorization_endpoint :: "string option"
  cfg_token_endpoint :: "string option"
  cfg_device_authorization_endpoint :: "string option"
  cfg_introspection_endpoint :: "string option"
  cfg_revocation_endpoint :: "string option"
  cfg_jwks_uri :: "string option"
  cfg_par :: "par_config option"
  cfg_jar :: "jar_config option"
  cfg_registration :: "registration_config option"
  cfg_cimd :: "cimd_policy option"
  cfg_scopes_supported :: "string list option"
  cfg_allowed_resources :: "string list option"
  cfg_resource_servers :: "resource_server_registration list option"
  cfg_service_documentation :: "string option"
  cfg_authorization_details_types_supported :: "string list option"
  cfg_protected_resources :: "string list option"
  cfg_access_token_format :: access_token_format
  cfg_jws_alg_allow_list :: alg_allow_list
  cfg_authorization_code_ttl :: duration
  cfg_include_verification_uri_complete :: bool
  cfg_device_code_ttl :: duration
  cfg_poll_interval :: duration
  cfg_slow_down_increment :: duration
  cfg_access_token_ttl :: duration
  cfg_issue_refresh_tokens :: bool
  cfg_allow_sender_constrained_exchange :: bool
  cfg_allow_authorization_details_exchange :: bool
  cfg_refresh_token_ttl :: "duration option"
  cfg_refresh_reuse_window :: duration
  cfg_refresh_retry_window :: duration
  cfg_refresh_rotation :: refresh_rotation
  cfg_require_dpop :: bool
  cfg_assertion_audience :: assertion_audience
  cfg_user_code_length :: nat

definition MIN_USER_CODE_LENGTH :: nat where "MIN_USER_CODE_LENGTH = 8"
definition MAX_RESOURCE_INDICATORS :: nat where "MAX_RESOURCE_INDICATORS = 16"
definition USER_CODE_GENERATION_ATTEMPTS :: nat where "USER_CODE_GENERATION_ATTEMPTS = 8"

definition config_new :: "string \<Rightarrow> string \<Rightarrow> server_config" where
  "config_new issuer verification_uri =
     \<lparr>cfg_issuer = issuer, cfg_verification_uri = verification_uri, cfg_authorization_endpoint = None,
      cfg_token_endpoint = None, cfg_device_authorization_endpoint = None,
      cfg_introspection_endpoint = None, cfg_revocation_endpoint = None, cfg_jwks_uri = None,
      cfg_par = None, cfg_jar = None, cfg_registration = None, cfg_cimd = None, cfg_scopes_supported = None,
      cfg_allowed_resources = None, cfg_resource_servers = None, cfg_service_documentation = None,
      cfg_authorization_details_types_supported = None, cfg_protected_resources = None,
      cfg_access_token_format = Opaque,
      cfg_jws_alg_allow_list = allow_all, cfg_authorization_code_ttl = from_secs 60,
      cfg_include_verification_uri_complete = False, cfg_device_code_ttl = from_secs 600,
      cfg_poll_interval = from_secs 5, cfg_slow_down_increment = from_secs 5,
      cfg_access_token_ttl = from_secs 3600, cfg_issue_refresh_tokens = True,
      cfg_allow_sender_constrained_exchange = False, cfg_allow_authorization_details_exchange = False,
      cfg_refresh_token_ttl = None, cfg_refresh_reuse_window = from_secs (30 * 24 * 60 * 60),
      cfg_refresh_retry_window = 0, cfg_refresh_rotation = Rotate, cfg_require_dpop = False,
      cfg_assertion_audience = Rfc7523, cfg_user_code_length = MIN_USER_CODE_LENGTH\<rparr>"

section \<open>The server\<close>

record 's server =
  srv_config :: server_config
  srv_store :: "'s storage"
  srv_clock :: "'s \<Rightarrow> system_time \<times> 's"
  srv_random :: "nat \<Rightarrow> 's \<Rightarrow> byte list option \<times> 's"
  srv_sign :: "jwk \<Rightarrow> byte list \<Rightarrow> 's \<Rightarrow> (string + byte list) \<times> 's"
  srv_hooks :: "'s hooks"
  srv_lib :: crates
  srv_details_de :: "string \<Rightarrow> authorization_detail list option"
  srv_backend :: "jws_alg \<Rightarrow> jwk \<Rightarrow> byte list \<Rightarrow> byte list \<Rightarrow> bool"
  srv_draw_bound :: nat
  srv_float :: "string \<Rightarrow> rat"

definition trim_end_slashes :: "string \<Rightarrow> string" where
  "trim_end_slashes s = rev (dropWhile (\<lambda>c. c = CHR ''/'') (rev s))"

definition token_endpoint :: "'s server \<Rightarrow> string" where
  "token_endpoint srv =
     (case cfg_token_endpoint (srv_config srv) of
        Some endpoint \<Rightarrow> endpoint
      | None \<Rightarrow> trim_end_slashes (cfg_issuer (srv_config srv)) @ ''/token'')"

definition issuer_identifier :: "'s server \<Rightarrow> string" where
  "issuer_identifier srv = trim_end_slashes (cfg_issuer (srv_config srv))"

definition now :: "'s server \<Rightarrow> ('s, system_time) prog" where
  "now srv = act (srv_clock srv)"

definition store_op :: "('s, 'r) op \<Rightarrow> ('s, storage_error + 'r) prog" where
  "store_op f = act f"

definition to_wire :: "storage_error \<Rightarrow> error_response" where
  "to_wire e = error_new ServerError"

lemma error_to_wire [simp]: "error (to_wire e) = ServerError"
  by (simp add: to_wire_def)

text \<open>A store call whose failure becomes the opaque \<^verbatim>\<open>server_error\<close>: \<^verbatim>\<open>.await.map_err(storage_error)?\<close>.\<close>

abbreviation stored ::
  "('s, 'r) op \<Rightarrow> ('r \<Rightarrow> ('s, error_response + 'b) prog) \<Rightarrow> ('s, error_response + 'b) prog" where
  "stored f k \<equiv> ptry_map to_wire (store_op f) k"

definition randomness_error :: error_response where
  "randomness_error = error_new ServerError"

definition try_random_hex :: "'s server \<Rightarrow> nat \<Rightarrow> ('s, string option) prog" where
  "try_random_hex srv n = pbind (act (srv_random srv n)) (\<lambda>r. Done (map_option hex_encode r))"

definition jws_verifier :: "'s server \<Rightarrow> jws_alg \<Rightarrow> jws_verifier option" where
  "jws_verifier srv alg =
     (if \<not> is_allowed (cfg_jws_alg_allow_list (srv_config srv)) alg then None
      else case Option.bind (hk_jws_verifiers (srv_hooks srv)) (\<lambda>vs. get_verifier vs alg) of
        Some v \<Rightarrow> Some v
      | None \<Rightarrow>
          if alg = Es256 then Some \<lparr>ver_alg = Es256, ver_verify = verify_es256 (srv_lib srv)\<rparr>
          else Some \<lparr>ver_alg = alg, ver_verify = srv_backend srv alg\<rparr>)"

definition resolved_jws_verifiers :: "'s server \<Rightarrow> jws_verifiers" where
  "resolved_jws_verifiers srv =
     (let base = (case hk_jws_verifiers (srv_hooks srv) of Some vs \<Rightarrow> vs | None \<Rightarrow> verifiers_new);
          fill = (\<lambda>alg f vs. if get_verifier vs alg = None
                   then install \<lparr>ver_alg = alg, ver_verify = f\<rparr> vs else vs)
      in restrict_to (cfg_jws_alg_allow_list (srv_config srv))
           (fill EdDsa (srv_backend srv EdDsa) (fill Ps256 (srv_backend srv Ps256)
             (fill Rs256 (srv_backend srv Rs256) (fill Es256 (verify_es256 (srv_lib srv)) base)))))"

definition longest_lifetime :: "server_config \<Rightarrow> duration" where
  "longest_lifetime cfg =
     max (max (max (max (cfg_access_token_ttl cfg)
       (case cfg_refresh_token_ttl cfg of Some d \<Rightarrow> d | None \<Rightarrow> 0))
       (cfg_refresh_reuse_window cfg)) (cfg_authorization_code_ttl cfg)) (cfg_device_code_ttl cfg)"

definition revocation_window :: "'s server \<Rightarrow> ('s, Storage.revocation_window) prog" where
  "revocation_window srv =
     pbind (now srv) (\<lambda>recorded_at.
     Done \<lparr>win_recorded_at = recorded_at,
           win_until = saturating_deadline recorded_at (longest_lifetime (srv_config srv))\<rparr>)"

section \<open>Transitions of the host\<close>

text \<open>
  The contract between a host and the endpoints, for one relation on the host state: every store
  operation and every other call of the host makes a transition in it. Each endpoint's theory proves
  inside this locale that all calls of its handlers do.
\<close>

locale server_auth_steps = storage_auth_steps "srv_store srv" T
  for srv :: "'s server" and T :: "'s \<Rightarrow> 's \<Rightarrow> bool" +
  assumes clock: "T s (snd (srv_clock srv s))"
    and event: "hk_events (srv_hooks srv) = Some sink \<Longrightarrow> T s (sink ev s)"
    and limiter_check: "hk_rate_limiter (srv_hooks srv) = Some l \<Longrightarrow> T s (snd (rl_check l a s))"
    and limiter_record: "hk_rate_limiter (srv_hooks srv) = Some l \<Longrightarrow> T s (rl_record l a out s)"
begin

lemma keeps_now: "steps T (now srv)"
  unfolding now_def by (rule steps_act) (simp add: clock)

lemma keeps_emit: "steps T (emit (srv_hooks srv) e)"
  by (auto simp: emit_def event split: option.split intro!: keeps_intros)

lemma keeps_check: "steps T (hooks_check (srv_hooks srv) a)"
  by (auto simp: hooks_check_def limiter_check split: option.split intro!: keeps_intros)

lemma keeps_record: "steps T (hooks_record (srv_hooks srv) a out)"
  by (auto simp: hooks_record_def limiter_record split: option.split intro!: keeps_intros)

lemma keeps_revocation_window: "steps T (revocation_window srv)"
  unfolding revocation_window_def by (intro steps_pbind keeps_now steps_Done)

lemma keeps_store_op:
  assumes "\<And>s. T s (snd (f s))"
  shows "steps T (store_op f)"
  unfolding store_op_def by (rule steps_act) (simp add: assms)

lemmas keeps_auth_host =
  keeps_now keeps_emit keeps_check keeps_record keeps_revocation_window get_client [THEN keeps_store_op] claim_replay_id [THEN keeps_store_op]

lemmas keeps_auth_rules = keeps_intros keeps_auth_host

end

locale server_core_steps = server_auth_steps srv T + storage_core_steps "srv_store srv" T
  for srv :: "'s server" and T :: "'s \<Rightarrow> 's \<Rightarrow> bool" +
  assumes random: "T s (snd (srv_random srv n s))"
    and sign: "T s (snd (srv_sign srv key msg s))"
    and policy: "hk_registration_policy (srv_hooks srv) = Some p \<Longrightarrow> T s (snd (p attempt s))"
begin

lemma keeps_random: "steps T (act (srv_random srv n))"
  by (rule steps_act) (simp add: random)

lemma keeps_sign: "steps T (act (srv_sign srv key msg))"
  by (rule steps_act) (simp add: sign)

lemma keeps_try_random_hex: "steps T (try_random_hex srv n)"
  unfolding try_random_hex_def by (intro steps_pbind keeps_random steps_Done)

lemma keeps_rotate:
  "rotation_shape e sp ac n \<Longrightarrow> steps T (store_op (st_rotate_refresh (srv_store srv) e sp ac n))"
  by (intro keeps_store_op rotate_refresh)

lemmas keeps_host = keeps_auth_host keeps_random keeps_sign keeps_try_random_hex op_steps [THEN keeps_store_op]

lemmas keeps_rules = keeps_intros keeps_host

end

locale server_code_steps = server_core_steps srv T + storage_code_steps "srv_store srv" T
  for srv :: "'s server" and T :: "'s \<Rightarrow> 's \<Rightarrow> bool"
begin

lemmas keeps_code_rules = keeps_rules put_code [THEN keeps_store_op] cas_code [THEN keeps_store_op]

end

locale server_device_steps = server_core_steps srv T + storage_device_steps "srv_store srv" T
  for srv :: "'s server" and T :: "'s \<Rightarrow> 's \<Rightarrow> bool"
begin

lemmas keeps_device_rules = keeps_rules put_device_grant [THEN keeps_store_op]

end

locale server_pushed_steps = server_core_steps srv T + storage_pushed_steps "srv_store srv" T
  for srv :: "'s server" and T :: "'s \<Rightarrow> 's \<Rightarrow> bool"
begin

lemmas keeps_pushed_rules = keeps_rules put_pushed [THEN keeps_store_op]

end

locale server_steps =
  server_code_steps srv T + server_device_steps srv T + server_pushed_steps srv T +
  storage_steps "srv_store srv" T
  for srv :: "'s server" and T :: "'s \<Rightarrow> 's \<Rightarrow> bool"

section \<open>Resources\<close>

definition err_target :: "string \<Rightarrow> error_response" where
  "err_target d = fail_with InvalidTarget d"

lemma error_err_target [simp]: "error (err_target d) = InvalidTarget"
  by (simp add: err_target_def)

definition target_is_permitted :: "'s server \<Rightarrow> string \<Rightarrow> error_response + unit" where
  "target_is_permitted srv value =
     (case cfg_allowed_resources (srv_config srv) of
        Some allowed \<Rightarrow>
          if \<not> list_ex (\<lambda>a. a = value) allowed
          then Err (err_target ''this server does not issue tokens for that resource'')
          else Ok ()
      | None \<Rightarrow> Ok ())"

fun validate_resources_loop ::
  "'s server \<Rightarrow> nat \<Rightarrow> string list \<Rightarrow> string list \<Rightarrow> error_response + string list" where
  "validate_resources_loop srv seen out [] = Ok out"
| "validate_resources_loop srv seen out (value # rest) =
     (if MAX_RESOURCE_INDICATORS < seen + 1 then
        Err (err_target ''too many resource indicators (RFC 8707 s2)'')
      else if \<not> is_valid_resource_indicator value then
        Err (err_target ''resource must be an absolute URI with no fragment (RFC 8707 s2)'')
      else rbind (target_is_permitted srv value) (\<lambda>_.
        validate_resources_loop srv (seen + 1) (if value \<in> set out then out else out @ [value]) rest))"

definition validate_resources :: "'s server \<Rightarrow> string list \<Rightarrow> error_response + string list" where
  "validate_resources srv requested = validate_resources_loop srv 0 [] requested"

definition narrow_resources :: "string list \<Rightarrow> string list \<Rightarrow> error_response + string list" where
  "narrow_resources granted requested =
     (if requested = [] then Ok granted
      else if list_ex (\<lambda>want. \<not> list_ex (\<lambda>g. g = want) granted) requested
      then Err (err_target ''resource was not granted by the authorization request'')
      else Ok requested)"

definition narrow_and_permit ::
  "'s server \<Rightarrow> string list \<Rightarrow> string list \<Rightarrow> error_response + string list" where
  "narrow_and_permit srv granted requested =
     rbind (narrow_resources granted requested) (\<lambda>issued.
     if requested \<noteq> [] then Ok issued
     else
       let permitted = filter (\<lambda>v. target_is_permitted srv v = Ok ()) issued
       in if permitted = [] \<and> granted \<noteq> []
          then Err (err_target ''this server no longer issues tokens for any resource this grant names'')
          else Ok permitted)"

lemma target_is_permitted_Ok:
  "target_is_permitted srv v = Inr u \<longleftrightarrow>
     (case cfg_allowed_resources (srv_config srv) of None \<Rightarrow> True | Some allowed \<Rightarrow> v \<in> set allowed)"
  by (auto simp: target_is_permitted_def list_ex_iff split: option.splits)

lemma validate_resources_loop_Ok:
  assumes "validate_resources_loop srv seen out req = Inr res" and "distinct out"
  shows "distinct res \<and> set res = set out \<union> set req \<and> (req = [] \<or> seen + length req \<le> MAX_RESOURCE_INDICATORS) \<and>
     (\<forall>v \<in> set req. is_valid_resource_indicator v \<and> target_is_permitted srv v = Ok ())"
  using assms
proof (induction req arbitrary: seen out)
  case (Cons v rest)
  let ?out = "if v \<in> set out then out else out @ [v]"
  have ok: "\<not> MAX_RESOURCE_INDICATORS < seen + 1" "is_valid_resource_indicator v"
      "target_is_permitted srv v = Ok ()"
    and rest: "validate_resources_loop srv (seen + 1) ?out rest = Ok res"
    using Cons.prems(1) by (simp_all split: if_splits)
  have "distinct ?out" using Cons.prems(2) by simp
  from Cons.IH [OF rest this] ok show ?case by (auto split: if_splits)
qed simp

text \<open>
  Validated resource indicators are few, well formed, permitted and duplicate free: at most
  sixteen were presented, the result has exactly the presented values, and each is an absolute URI
  without fragment that the server's allow list permits.
\<close>
theorem validate_resources_sound:
  assumes "validate_resources srv requested = Ok res"
  shows "distinct res \<and> set res = set requested \<and> length requested \<le> MAX_RESOURCE_INDICATORS \<and>
     list_all is_valid_resource_indicator res \<and> list_all (\<lambda>v. target_is_permitted srv v = Ok ()) res"
  using validate_resources_loop_Ok [of srv 0 "[]" requested res] assms
  by (auto simp: validate_resources_def list_all_iff)

lemma narrow_resources_Ok:
  "narrow_resources granted requested = Inr res \<longleftrightarrow>
     (requested = [] \<and> res = granted) \<or> (requested \<noteq> [] \<and> set requested \<subseteq> set granted \<and> res = requested)"
  by (auto simp: narrow_resources_def list_ex_iff)

text \<open>
  A token request never widens the resources of its grant: whatever is issued was granted, an
  explicit request is answered with exactly itself, and an implicit one only with what the server's
  allow list still permits, never with an empty audience for a grant that named one.
\<close>
theorem narrow_and_permit_sound:
  assumes "narrow_and_permit srv granted requested = Ok res"
  shows "set res \<subseteq> set granted \<and>
     (if requested \<noteq> [] then res = requested
      else res = filter (\<lambda>v. target_is_permitted srv v = Ok ()) granted \<and> (res = [] \<longrightarrow> granted = []))"
proof (cases "requested = []")
  case True
  then show ?thesis
    using assms by (simp add: narrow_and_permit_def narrow_resources_def Let_def split: if_splits) auto
next
  case False
  then show ?thesis
    using assms by (auto simp: narrow_and_permit_def narrow_resources_Ok)
qed

end
