(* ===== verification/Client_Auth.thy ===== *)
theory Client_Auth
  imports Server
begin

text \<open>
  Client authentication at the token endpoint (\<^verbatim>\<open>server.rs\<close>: \<^verbatim>\<open>authenticate_client\<close> and what it
  calls, \<^verbatim>\<open>verify_dpop\<close>, \<^verbatim>\<open>register_client\<close>; \<^verbatim>\<open>mtls.rs\<close>: \<^verbatim>\<open>verify_certificate\<close>). The crate's features
  \<^verbatim>\<open>client-assertion\<close>, \<^verbatim>\<open>mtls\<close> and \<^verbatim>\<open>dpop\<close> are all taken as enabled.
\<close>

definition CLIENT_ASSERTION_TYPE :: string where
  "CLIENT_ASSERTION_TYPE = ''urn:ietf:params:oauth:client-assertion-type:jwt-bearer''"

record client_credential =
  cred_secret :: "string option"
  cred_assertion_type :: "string option"
  cred_assertion :: "string option"
  cred_certificate :: "client_certificate option"

definition credential_secret :: "string option \<Rightarrow> client_credential" where
  "credential_secret client_secret =
     \<lparr>cred_secret = client_secret, cred_assertion_type = None, cred_assertion = None, cred_certificate = None\<rparr>"

definition credential_assertion :: "string option \<Rightarrow> string \<Rightarrow> client_credential" where
  "credential_assertion client_assertion_type client_assertion =
     \<lparr>cred_secret = None, cred_assertion_type = client_assertion_type,
      cred_assertion = Some client_assertion, cred_certificate = None\<rparr>"

definition credential_certificate :: "client_certificate \<Rightarrow> client_credential" where
  "credential_certificate cert = (credential_secret None)\<lparr>cred_certificate := Some cert\<rparr>"

definition or_secret :: "client_credential \<Rightarrow> string option \<Rightarrow> client_credential" where
  "or_secret self secret = (if cred_secret self = None then self\<lparr>cred_secret := secret\<rparr> else self)"

record credential_cost =
  paid_secret :: bool
  paid_assertion :: bool

definition cost_default :: credential_cost where
  "cost_default = \<lparr>paid_secret = False, paid_assertion = False\<rparr>"

datatype client_auth_verdict = Authenticated client | Refused client_auth_failure

definition assertion_could_be_verified :: "client_credential \<Rightarrow> bool" where
  "assertion_could_be_verified cred \<longleftrightarrow>
     cred_assertion cred \<noteq> None \<and> cred_assertion_type cred = Some CLIENT_ASSERTION_TYPE \<and>
     cred_secret cred = None"

definition presented_assertion_alg :: "'z crates_scheme \<Rightarrow> string \<Rightarrow> jws_alg option" where
  "presented_assertion_alg lib assertion =
     (if MAX_ASSERTION_BYTES < length assertion then None
      else case jws_parse lib assertion of
        Inl _ \<Rightarrow> None
      | Inr j \<Rightarrow> Option.bind (header_str j ''alg'') classify_alg)"

text \<open>
  The verifications a refusal performs on top of those already paid for: the secret handed to
  \<^verbatim>\<open>dummy_verify\<close> (which does nothing without one) and whether \<^verbatim>\<open>dummy_assertion_verify\<close> runs, with
  the algorithm it runs for. Their results are discarded by the code.
\<close>

definition settle_credential_cost ::
  "'z crates_scheme \<Rightarrow> client_credential \<Rightarrow> credential_cost \<Rightarrow> string option \<times> jws_alg option option" where
  "settle_credential_cost lib cred paid =
     (if \<not> paid_secret paid then cred_secret cred else None,
      if \<not> paid_assertion paid \<and> assertion_could_be_verified cred
      then Some (Option.bind (cred_assertion cred) (presented_assertion_alg lib)) else None)"

definition verify_certificate :: "client \<Rightarrow> client_credential \<Rightarrow> client_auth_failure + unit" where
  "verify_certificate c cred =
     (case cl_auth c of
        Mtls registration \<Rightarrow>
          if cred_secret cred \<noteq> None then Err SecretMismatch
          else rbind (ok_or NoCertificatePresented (cred_certificate cred)) (\<lambda>certificate.
            if mtls_accepts registration certificate then Ok () else Err CertificateMismatch)
      | _ \<Rightarrow> Err SecretMismatch)"

definition audience_rule_of :: "'s server \<Rightarrow> audience_rule" where
  "audience_rule_of srv =
     (case cfg_assertion_audience (srv_config srv) of
        Rfc7523 \<Rightarrow> AnyOf [token_endpoint srv, issuer_identifier srv]
      | IssuerOnly \<Rightarrow> Exactly (issuer_identifier srv))"

definition authenticate_by_assertion ::
  "'s server \<Rightarrow> client \<Rightarrow> client_credential \<Rightarrow> credential_cost \<Rightarrow>
     ('s, (assertion_failure + unit) \<times> credential_cost) prog" where
  "authenticate_by_assertion srv c cred paid =
     (if \<not> assertion_could_be_verified cred then Done (Err AfMalformed, paid)
      else case cred_assertion cred of
        None \<Rightarrow> Done (Err AfMalformed, paid)
      | Some assertion \<Rightarrow>
          (case cl_auth c of
             ConfidentialAssertion ks \<Rightarrow>
               let paid = paid\<lparr>paid_assertion := True\<rparr>;
                   verifier = Option.bind (asymmetric_alg ks) (jws_verifier srv)
               in pbind (now srv) (\<lambda>t.
                  case verify_assertion (srv_lib srv) verifier ks assertion (cid_str (cl_client_id c))
                         (audience_rule_of srv) t of
                    Inl e \<Rightarrow> Done (Err e, paid)
                  | Inr verified \<Rightarrow>
                      pbind (store_op (st_claim_replay_id (srv_store srv)
                        (replay_key ''ca'' (cid_str (cl_client_id c)) (va_jti verified))
                        (va_expires_at verified))) (\<lambda>r.
                      case r of
                        Inl _ \<Rightarrow> Done (Err AfReplayCheckUnavailable, paid)
                      | Inr claimed \<Rightarrow>
                          if \<not> claimed then Done (Err AfReplayed, paid) else Done (Ok (), paid)))
           | _ \<Rightarrow> Done (Err AfWrongPrincipal, paid)))"

text \<open>Whether a dynamically registered secret has passed its stated expiry.\<close>

definition secret_expired :: "'s server \<Rightarrow> client \<Rightarrow> ('s, bool) prog" where
  "secret_expired srv c =
     (case Option.bind (cl_registration c) client_secret_expires_at of
        None \<Rightarrow> Done False
      | Some expires_at \<Rightarrow>
          if expires_at = 0 then Done False
          else pbind (now srv) (\<lambda>t. Done (case unix_seconds t of None \<Rightarrow> False | Some since \<Rightarrow> expires_at \<le> since)))"

definition classify_client_credential ::
  "'s server \<Rightarrow> client_id \<Rightarrow> client_credential \<Rightarrow> credential_cost \<Rightarrow>
     ('s, error_response + (client_auth_verdict \<times> credential_cost)) prog" where
  "classify_client_credential srv cid cred paid =
     stored (st_get_client (srv_store srv) cid) (\<lambda>found.
     case found of
       None \<Rightarrow> Done (Ok (Refused UnknownClient, paid))
     | Some c \<Rightarrow>
         pbind (secret_expired srv c) (\<lambda>expired.
         if expired then Done (Ok (Refused SecretExpired, paid))
         else if cred_assertion cred \<noteq> None then
           pbind (authenticate_by_assertion srv c cred paid) (\<lambda>(outcome, paid).
           Done (Ok (case outcome of
                       Inr _ \<Rightarrow> (Authenticated c, paid)
                     | Inl reason \<Rightarrow> (Refused (AssertionInvalid reason), paid))))
         else case cl_auth c of
           Mtls _ \<Rightarrow>
             Done (Ok (case verify_certificate c cred of
                         Inr _ \<Rightarrow> (Authenticated c, paid)
                       | Inl failure \<Rightarrow> (Refused failure, paid)))
         | _ \<Rightarrow>
             let paid = paid\<lparr>paid_secret :=
                   (case cl_auth c of ConfidentialSecret _ \<Rightarrow> True | ConfidentialSecretHash _ \<Rightarrow> True | _ \<Rightarrow> False)\<rparr>
             in if \<not> verify_with (srv_lib srv) (cl_auth c) (cred_secret cred) (hk_secret_verifier (srv_hooks srv))
                then Done (Ok (Refused SecretMismatch, paid))
                else Done (Ok (Authenticated c, paid))))"

definition admit_client_authentication ::
  "'s server \<Rightarrow> attempt \<Rightarrow> client_id \<Rightarrow> ('s, error_response + unit) prog" where
  "admit_client_authentication srv a cid =
     pbind (hooks_check (srv_hooks srv) a) (\<lambda>d.
     if d = Deny then
       pbind (emit (srv_hooks srv) (EvClientAuthenticationFailed (cid_str cid) RateLimited)) (\<lambda>_.
       Done (Err (error_new InvalidClient)))
     else Done (Ok ()))"

definition authenticate_client ::
  "'s server \<Rightarrow> client_id \<Rightarrow> client_credential \<Rightarrow> ('s, error_response + client) prog" where
  "authenticate_client srv cid cred =
     (let a = AtClientAuthentication (cid_str cid) in
      ptry (admit_client_authentication srv a cid) (\<lambda>_.
      ptry (classify_client_credential srv cid cred cost_default) (\<lambda>(verdict, paid).
      case verdict of
        Authenticated c \<Rightarrow>
          pbind (hooks_record (srv_hooks srv) a Succeeded) (\<lambda>_. Done (Ok c))
      | Refused failure \<Rightarrow>
          pbind (hooks_record (srv_hooks srv) a Failed) (\<lambda>_.
          pbind (emit (srv_hooks srv) (EvClientAuthenticationFailed (cid_str cid) failure)) (\<lambda>_.
          Done (Err (error_new InvalidClient)))))))"

definition err_dpop_required :: error_response where
  "err_dpop_required = fail_with InvalidDpopProof ''this server requires a DPoP proof on every token request''"

definition verify_dpop_inner ::
  "'s server \<Rightarrow> string option \<Rightarrow> string \<Rightarrow> string \<Rightarrow> ('s, error_response + string option) prog" where
  "verify_dpop_inner srv prf htm htu =
     (case prf of
        None \<Rightarrow> if cfg_require_dpop (srv_config srv) then Done (Err err_dpop_required) else Done (Ok None)
      | Some prf \<Rightarrow>
          let verifiers = resolved_jws_verifiers srv in
          if installed verifiers = [] then
            pbind (emit (srv_hooks srv) (EvDpopProofRefused DfUnsupportedAlgorithm)) (\<lambda>_.
            Done (Err (error_new InvalidDpopProof)))
          else pbind (now srv) (\<lambda>t.
            case verify_proof (srv_lib srv) verifiers prf htm htu t of
              Inl failure \<Rightarrow>
                pbind (emit (srv_hooks srv) (EvDpopProofRefused failure)) (\<lambda>_.
                Done (Err (error_new InvalidDpopProof)))
            | Inr verified \<Rightarrow>
                stored (st_claim_replay_id (srv_store srv)
                  (replay_key ''dpop'' (vp_jkt verified) (vp_jti verified)) (vp_replay_until verified)) (\<lambda>claimed.
                if \<not> claimed then
                  pbind (emit (srv_hooks srv) (EvDpopProofRefused DfReplayed)) (\<lambda>_.
                  Done (Err (error_new InvalidDpopProof)))
                else Done (Ok (Some (vp_jkt verified))))))"

definition verify_dpop :: "'s server \<Rightarrow> string option \<Rightarrow> ('s, error_response + string option) prog" where
  "verify_dpop srv prf = verify_dpop_inner srv prf ''POST'' (token_endpoint srv)"

definition err_redirect_registration :: "string \<Rightarrow> storage_error" where
  "err_redirect_registration uri = StorageError (''redirect_uri '' @ uri @ '' is not registerable'')"

definition register_client :: "'s server \<Rightarrow> client \<Rightarrow> ('s, storage_error + unit) prog" where
  "register_client srv c =
     (case List.find (\<lambda>uri. \<not> is_valid_resource_indicator uri) (cl_redirect_uris c) of
        Some uri \<Rightarrow> Done (Err (err_redirect_registration uri))
      | None \<Rightarrow> store_op (st_put_client (srv_store srv) c))"

section \<open>Transitions\<close>

context server_auth_steps
begin

lemma keeps_authenticate_by_assertion: "steps T (authenticate_by_assertion srv c cred paid)"
  unfolding authenticate_by_assertion_def Let_def
  by (auto split: option.split client_auth.split sum.split intro!: keeps_auth_rules)

lemma keeps_secret_expired: "steps T (secret_expired srv c)"
  unfolding secret_expired_def by (auto split: option.split intro!: keeps_auth_rules)

lemma keeps_classify: "steps T (classify_client_credential srv cid cred paid)"
  unfolding classify_client_credential_def Let_def
  by (auto split: option.split client_auth.split prod.split
      intro!: keeps_auth_rules keeps_secret_expired keeps_authenticate_by_assertion)

lemma keeps_admit: "steps T (admit_client_authentication srv a cid)"
  unfolding admit_client_authentication_def by (auto intro!: keeps_auth_rules)

lemma keeps_authenticate_client: "steps T (authenticate_client srv cid cred)"
  unfolding authenticate_client_def Let_def
  by (auto split: client_auth_verdict.split intro!: keeps_auth_rules keeps_admit keeps_classify)

lemma keeps_verify_dpop_inner: "steps T (verify_dpop_inner srv prf htm htu)"
  unfolding verify_dpop_inner_def Let_def
  by (auto split: option.split sum.split intro!: keeps_auth_rules)

lemma keeps_verify_dpop: "steps T (verify_dpop srv prf)"
  unfolding verify_dpop_def by (rule keeps_verify_dpop_inner)

end

context server_core_steps
begin

lemma keeps_register_client: "steps T (register_client srv c)"
  unfolding register_client_def by (auto split: option.split intro!: keeps_rules)

end

section \<open>What a verdict means\<close>

text \<open>
  The evidence a credential carries for a client: a verified assertion when one is presented (and
  then no secret beside it), an accepted certificate for a client registered for mutual TLS, and
  otherwise the registered secret, or no secret at all for a public client.
\<close>

definition credential_proves :: "'s server \<Rightarrow> client \<Rightarrow> client_credential \<Rightarrow> bool" where
  "credential_proves srv c cred =
     (case cred_assertion cred of
        Some assertion \<Rightarrow>
          assertion_could_be_verified cred \<and>
          (\<exists>ks t v. cl_auth c = ConfidentialAssertion ks \<and>
             verify_assertion (srv_lib srv) (Option.bind (asymmetric_alg ks) (jws_verifier srv)) ks assertion
               (cid_str (cl_client_id c)) (audience_rule_of srv) t = Ok v)
      | None \<Rightarrow>
          (case cl_auth c of
             Mtls r \<Rightarrow> cred_secret cred = None \<and>
               (\<exists>cert. cred_certificate cred = Some cert \<and> mtls_accepts r cert)
           | a \<Rightarrow> verify_with (srv_lib srv) a (cred_secret cred) (hk_secret_verifier (srv_hooks srv))))"

lemma verify_certificate_Ok:
  "verify_certificate c cred = Inr u \<longleftrightarrow>
     (\<exists>r cert. cl_auth c = Mtls r \<and> cred_secret cred = None \<and> cred_certificate cred = Some cert \<and>
        mtls_accepts r cert)"
  by (auto simp: verify_certificate_def split: client_auth.splits)

definition verdict_sound ::
  "'s server \<Rightarrow> client_credential \<Rightarrow> credential_cost \<Rightarrow> client_auth_verdict \<times> credential_cost \<Rightarrow> bool" where
  "verdict_sound srv cred paid vp =
     (case vp of
        (Authenticated c, _) \<Rightarrow> credential_proves srv c cred
      | (Refused _, paid') \<Rightarrow> paid_assertion paid' \<longrightarrow> paid_assertion paid \<or> assertion_could_be_verified cred)"

lemma authenticate_by_assertion_sound:
  "always (\<lambda>(r, paid').
       (r = Ok () \<longrightarrow> credential_proves srv c cred) \<and>
       (paid_assertion paid' \<longrightarrow> paid_assertion paid \<or> assertion_could_be_verified cred))
     (authenticate_by_assertion srv c cred paid)"
  unfolding authenticate_by_assertion_def Let_def
  by (auto split: option.split client_auth.split sum.split intro!: always_intros
      simp: credential_proves_def) blast+

lemma classify_sound:
  "always (\<lambda>r. case r of Inl e \<Rightarrow> e = error_new ServerError | Inr vp \<Rightarrow> verdict_sound srv cred paid vp)
     (classify_client_credential srv cid cred paid)"
proof -
  have assertion: "always (\<lambda>r. case r of Inl e \<Rightarrow> e = error_new ServerError | Inr vp \<Rightarrow> verdict_sound srv cred paid vp)
      (pbind (authenticate_by_assertion srv c cred paid) (\<lambda>(outcome, paid).
         Done (Ok (case outcome of
                     Inr _ \<Rightarrow> (Authenticated c, paid)
                   | Inl reason \<Rightarrow> (Refused (AssertionInvalid reason), paid)))))" for c
    by (rule safe_pbind [OF authenticate_by_assertion_sound])
      (auto simp: verdict_sound_def split: sum.splits)
  show ?thesis
    unfolding classify_client_credential_def Let_def
    by (intro always_intros)
      (auto split: option.split client_auth.split sum.split intro!: always_intros assertion
        simp: to_wire_def verdict_sound_def credential_proves_def verify_certificate_Ok
        dest: verify_certificate_Ok [THEN iffD1])
qed

lemma authenticate_client_results:
  "always (\<lambda>r. case r of
       Inl e \<Rightarrow> e = error_new InvalidClient \<or> e = error_new ServerError
     | Inr c \<Rightarrow> credential_proves srv c cred) (authenticate_client srv cid cred)"
proof -
  have admit: "always (\<lambda>r. case r of Inl e \<Rightarrow> e = error_new InvalidClient | Inr _ \<Rightarrow> True)
      (admit_client_authentication srv a cid)" for a
    unfolding admit_client_authentication_def by (auto intro!: always_intros)
  show ?thesis
    unfolding authenticate_client_def Let_def
    apply (rule safe_ptry [OF admit])
     apply (rule safe_ptry [OF classify_sound])
      apply (auto split: client_auth_verdict.split prod.split sum.splits intro!: always_intros
        simp: verdict_sound_def)
    done
qed




end
