(* ===== verification/Rate_Limit.thy ===== *)
theory Rate_Limit
  imports Server
begin

text \<open>
  The bundled rate limiter (\<^verbatim>\<open>rate_limit.rs\<close>): a fixed window of cost units, one counter for user code
  entries and one for registrations, and a budget per client for authentications and for
  authorization requests, with one shared budget for the clients beyond the tracking bound.  Counters
  are 64-bit words, so the unchecked addition in \<open>charge\<close> wraps as in the code unless it is shown not to.
  An \<^verbatim>\<open>Instant\<close> is a number of nanoseconds.
\<close>

type_synonym u64 = "64 word"
type_synonym instant = nat

definition saturating_sub :: "u64 \<Rightarrow> u64 \<Rightarrow> u64" where
  "saturating_sub a b = (if b \<le> a then a - b else 0)"

definition saturating_add :: "u64 \<Rightarrow> u64 \<Rightarrow> u64" where
  "saturating_add a b = (if b \<le> - 1 - a then a + b else - 1)"

definition ATTEMPT_COST :: u64 where "ATTEMPT_COST = 1"
definition DEFAULT_WINDOW :: duration where "DEFAULT_WINDOW = from_secs 60"
definition DEFAULT_DEVICE_USER_CODE_CAPACITY :: u64 where "DEFAULT_DEVICE_USER_CODE_CAPACITY = 200"
definition DEFAULT_DEVICE_USER_CODE_FAILURE_COST :: u64 where "DEFAULT_DEVICE_USER_CODE_FAILURE_COST = 9"
definition DEFAULT_CLIENT_AUTHENTICATION_CAPACITY :: u64 where "DEFAULT_CLIENT_AUTHENTICATION_CAPACITY = 6000"
definition DEFAULT_CLIENT_AUTHENTICATION_FAILURE_COST :: u64 where
  "DEFAULT_CLIENT_AUTHENTICATION_FAILURE_COST = 199"
definition CLIENT_AUTHENTICATION_FAILURE_CEILING_DIVISOR :: u64 where
  "CLIENT_AUTHENTICATION_FAILURE_CEILING_DIVISOR = 2"
definition DEFAULT_AUTHORIZATION_REQUEST_CAPACITY :: u64 where "DEFAULT_AUTHORIZATION_REQUEST_CAPACITY = 3000"
definition DEFAULT_AUTHORIZATION_REQUEST_FAILURE_COST :: u64 where "DEFAULT_AUTHORIZATION_REQUEST_FAILURE_COST = 9"
definition DEFAULT_CLIENT_REGISTRATION_CAPACITY :: u64 where "DEFAULT_CLIENT_REGISTRATION_CAPACITY = 60"
definition DEFAULT_CLIENT_REGISTRATION_FAILURE_COST :: u64 where "DEFAULT_CLIENT_REGISTRATION_FAILURE_COST = 9"
definition DEFAULT_MAX_TRACKED_CLIENTS :: nat where "DEFAULT_MAX_TRACKED_CLIENTS = 4096"
definition MAX_TRACKED_CLIENT_ID_LEN :: nat where "MAX_TRACKED_CLIENT_ID_LEN = 128"
definition MIN_WINDOW :: duration where "MIN_WINDOW = 1000000"

lemmas limiter_constants = ATTEMPT_COST_def DEFAULT_WINDOW_def DEFAULT_DEVICE_USER_CODE_CAPACITY_def
  DEFAULT_DEVICE_USER_CODE_FAILURE_COST_def DEFAULT_CLIENT_AUTHENTICATION_CAPACITY_def
  DEFAULT_CLIENT_AUTHENTICATION_FAILURE_COST_def CLIENT_AUTHENTICATION_FAILURE_CEILING_DIVISOR_def
  DEFAULT_AUTHORIZATION_REQUEST_CAPACITY_def DEFAULT_AUTHORIZATION_REQUEST_FAILURE_COST_def
  DEFAULT_CLIENT_REGISTRATION_CAPACITY_def DEFAULT_CLIENT_REGISTRATION_FAILURE_COST_def
  DEFAULT_MAX_TRACKED_CLIENTS_def

section \<open>Configuration\<close>

record rate_limit_config =
  rlc_window :: duration
  device_user_code_capacity :: u64
  device_user_code_failure_cost :: u64
  client_authentication_capacity :: u64
  client_authentication_capacity_overrides :: "(string, u64) fmap"
  client_authentication_failure_cost :: u64
  authorization_request_capacity :: u64
  authorization_request_failure_cost :: u64
  client_registration_capacity :: u64
  client_registration_failure_cost :: u64
  max_tracked_clients :: nat

definition rate_limit_config_default :: rate_limit_config where
  "rate_limit_config_default = \<lparr>
     rlc_window = DEFAULT_WINDOW,
     device_user_code_capacity = DEFAULT_DEVICE_USER_CODE_CAPACITY,
     device_user_code_failure_cost = DEFAULT_DEVICE_USER_CODE_FAILURE_COST,
     client_authentication_capacity = DEFAULT_CLIENT_AUTHENTICATION_CAPACITY,
     client_authentication_capacity_overrides = fmempty,
     client_authentication_failure_cost = DEFAULT_CLIENT_AUTHENTICATION_FAILURE_COST,
     authorization_request_capacity = DEFAULT_AUTHORIZATION_REQUEST_CAPACITY,
     authorization_request_failure_cost = DEFAULT_AUTHORIZATION_REQUEST_FAILURE_COST,
     client_registration_capacity = DEFAULT_CLIENT_REGISTRATION_CAPACITY,
     client_registration_failure_cost = DEFAULT_CLIENT_REGISTRATION_FAILURE_COST,
     max_tracked_clients = DEFAULT_MAX_TRACKED_CLIENTS\<rparr>"

definition with_window :: "duration \<Rightarrow> rate_limit_config \<Rightarrow> rate_limit_config" where
  "with_window d cfg = cfg\<lparr>rlc_window := max d MIN_WINDOW\<rparr>"

definition with_device_user_code_budget :: "u64 \<Rightarrow> u64 \<Rightarrow> rate_limit_config \<Rightarrow> rate_limit_config" where
  "with_device_user_code_budget capacity failure_cost cfg =
     cfg\<lparr>device_user_code_capacity := capacity, device_user_code_failure_cost := failure_cost\<rparr>"

definition with_client_authentication_budget :: "u64 \<Rightarrow> u64 \<Rightarrow> rate_limit_config \<Rightarrow> rate_limit_config" where
  "with_client_authentication_budget capacity failure_cost cfg =
     cfg\<lparr>client_authentication_capacity := capacity, client_authentication_failure_cost := failure_cost\<rparr>"

definition with_client_authentication_capacity_for ::
  "string \<Rightarrow> u64 \<Rightarrow> rate_limit_config \<Rightarrow> rate_limit_config" where
  "with_client_authentication_capacity_for client_id capacity cfg =
     cfg\<lparr>client_authentication_capacity_overrides :=
           fmupd client_id capacity (client_authentication_capacity_overrides cfg)\<rparr>"

definition with_max_tracked_clients :: "nat \<Rightarrow> rate_limit_config \<Rightarrow> rate_limit_config" where
  "with_max_tracked_clients n cfg = cfg\<lparr>max_tracked_clients := n\<rparr>"

definition effective_window :: "rate_limit_config \<Rightarrow> duration" where
  "effective_window cfg = max (rlc_window cfg) MIN_WINDOW"

definition client_authentication_failure_ceiling :: "rate_limit_config \<Rightarrow> u64" where
  "client_authentication_failure_ceiling cfg =
     client_authentication_capacity cfg div CLIENT_AUTHENTICATION_FAILURE_CEILING_DIVISOR"

definition client_authentication_capacity_for :: "rate_limit_config \<Rightarrow> string \<Rightarrow> u64" where
  "client_authentication_capacity_for cfg client_id =
     (if client_authentication_capacity_overrides cfg = fmempty then client_authentication_capacity cfg
      else case fmlookup (client_authentication_capacity_overrides cfg) client_id of
             Some c \<Rightarrow> c | None \<Rightarrow> client_authentication_capacity cfg)"

definition client_authentication_failure_ceiling_for :: "rate_limit_config \<Rightarrow> string \<Rightarrow> u64" where
  "client_authentication_failure_ceiling_for cfg client_id =
     client_authentication_capacity_for cfg client_id div CLIENT_AUTHENTICATION_FAILURE_CEILING_DIVISOR"

definition authorization_request_failure_ceiling :: "rate_limit_config \<Rightarrow> u64" where
  "authorization_request_failure_ceiling cfg =
     authorization_request_capacity cfg div CLIENT_AUTHENTICATION_FAILURE_CEILING_DIVISOR"

section \<open>The window\<close>

record client_budget =
  cb_attempts :: u64
  cb_failures :: u64

definition client_budget_default :: client_budget where
  "client_budget_default = \<lparr>cb_attempts = 0, cb_failures = 0\<rparr>"

record window =
  win_index :: u64
  win_device_user_code :: u64
  win_clients :: "(string, client_budget) fmap"
  win_overflow :: client_budget
  win_authorization :: "(string, client_budget) fmap"
  win_authorization_overflow :: client_budget
  win_registration :: u64

definition window_default :: window where
  "window_default = \<lparr>win_index = 0, win_device_user_code = 0, win_clients = fmempty,
     win_overflow = client_budget_default, win_authorization = fmempty,
     win_authorization_overflow = client_budget_default, win_registration = 0\<rparr>"

definition roll_to :: "u64 \<Rightarrow> window \<Rightarrow> window" where
  "roll_to index st =
     (if win_index st = index then st
      else st\<lparr>win_index := index, win_device_user_code := 0, win_registration := 0,
              win_authorization_overflow := client_budget_default, win_authorization := fmempty,
              win_overflow := client_budget_default, win_clients := fmempty\<rparr>)"

text \<open>
  The code hands out a mutable reference to a budget and says whether it is the client's own.  Here
  the counter is found (and inserted when there is room), then read and written back.
\<close>

definition client_counter :: "string \<Rightarrow> nat \<Rightarrow> window \<Rightarrow> bool \<times> window" where
  "client_counter client_id max_tracked st =
     (if MAX_TRACKED_CLIENT_ID_LEN < length client_id then (False, st)
      else if fmlookup (win_clients st) client_id = None then
        if max_tracked \<le> fcard (fmdom (win_clients st)) then (False, st)
        else (True, st\<lparr>win_clients := fmupd client_id client_budget_default (win_clients st)\<rparr>)
      else (True, st))"

definition budget_of :: "(string, client_budget) fmap \<Rightarrow> string \<Rightarrow> client_budget" where
  "budget_of m client_id = (case fmlookup m client_id of Some b \<Rightarrow> b | None \<Rightarrow> client_budget_default)"

definition client_budget_at :: "bool \<Rightarrow> string \<Rightarrow> window \<Rightarrow> client_budget" where
  "client_budget_at tracked client_id st =
     (if tracked then budget_of (win_clients st) client_id else win_overflow st)"

definition set_client_budget :: "bool \<Rightarrow> string \<Rightarrow> client_budget \<Rightarrow> window \<Rightarrow> window" where
  "set_client_budget tracked client_id b st =
     (if tracked then st\<lparr>win_clients := fmupd client_id b (win_clients st)\<rparr> else st\<lparr>win_overflow := b\<rparr>)"

definition authorization_counter :: "string \<Rightarrow> nat \<Rightarrow> window \<Rightarrow> bool \<times> window" where
  "authorization_counter client_id max_tracked st =
     (if MAX_TRACKED_CLIENT_ID_LEN < length client_id then (False, st)
      else if fmlookup (win_authorization st) client_id = None then
        if max_tracked \<le> fcard (fmdom (win_authorization st)) then (False, st)
        else (True, st\<lparr>win_authorization := fmupd client_id client_budget_default (win_authorization st)\<rparr>)
      else (True, st))"

definition authorization_budget_at :: "bool \<Rightarrow> string \<Rightarrow> window \<Rightarrow> client_budget" where
  "authorization_budget_at tracked client_id st =
     (if tracked then budget_of (win_authorization st) client_id
      else win_authorization_overflow st)"

definition set_authorization_budget :: "bool \<Rightarrow> string \<Rightarrow> client_budget \<Rightarrow> window \<Rightarrow> window" where
  "set_authorization_budget tracked client_id b st =
     (if tracked then st\<lparr>win_authorization := fmupd client_id b (win_authorization st)\<rparr>
      else st\<lparr>win_authorization_overflow := b\<rparr>)"

section \<open>Checking and recording\<close>

definition window_index :: "rate_limit_config \<Rightarrow> instant \<Rightarrow> instant \<Rightarrow> u64" where
  "window_index cfg base t = of_nat (min ((t - base) div effective_window cfg) (2 ^ 64 - 1))"

definition charge :: "u64 \<Rightarrow> u64 \<Rightarrow> u64 \<Rightarrow> rate_limit_decision \<times> u64" where
  "charge counter capacity cost =
     (if saturating_sub capacity counter < cost then (Deny, counter) else (Allow, counter + cost))"

definition penalise :: "u64 \<Rightarrow> u64 \<Rightarrow> u64 \<Rightarrow> u64" where
  "penalise counter capacity cost = min (saturating_add counter cost) capacity"

definition charge_budget :: "client_budget \<Rightarrow> u64 \<Rightarrow> rate_limit_decision \<times> client_budget" where
  "charge_budget b capacity =
     (case charge (cb_attempts b) (saturating_sub capacity (cb_failures b)) ATTEMPT_COST of
        (d, n) \<Rightarrow> (d, b\<lparr>cb_attempts := n\<rparr>))"

definition penalise_budget :: "client_budget \<Rightarrow> u64 \<Rightarrow> u64 \<Rightarrow> client_budget" where
  "penalise_budget b limit cost = b\<lparr>cb_failures := penalise (cb_failures b) limit cost\<rparr>"

fun check_in_window :: "rate_limit_config \<Rightarrow> attempt \<Rightarrow> window \<Rightarrow> rate_limit_decision \<times> window" where
  "check_in_window cfg AtDeviceUserCodeEntry st =
     (case charge (win_device_user_code st) (device_user_code_capacity cfg) ATTEMPT_COST of
        (d, n) \<Rightarrow> (d, st\<lparr>win_device_user_code := n\<rparr>))"
| "check_in_window cfg (AtClientAuthentication client_id) st =
     (case client_counter client_id (max_tracked_clients cfg) st of (tracked, st) \<Rightarrow>
        let capacity = (if tracked then client_authentication_capacity_for cfg client_id
                        else client_authentication_capacity cfg)
        in case charge_budget (client_budget_at tracked client_id st) capacity of
             (d, b) \<Rightarrow> (d, set_client_budget tracked client_id b st))"
| "check_in_window cfg (AtAuthorizationRequest client_id) st =
     (case authorization_counter client_id (max_tracked_clients cfg) st of (tracked, st) \<Rightarrow>
        case charge_budget (authorization_budget_at tracked client_id st) (authorization_request_capacity cfg) of
          (d, b) \<Rightarrow> (d, set_authorization_budget tracked client_id b st))"
| "check_in_window cfg AtClientRegistration st =
     (case charge (win_registration st) (client_registration_capacity cfg) ATTEMPT_COST of
        (d, n) \<Rightarrow> (d, st\<lparr>win_registration := n\<rparr>))"

fun record_in_window :: "rate_limit_config \<Rightarrow> attempt \<Rightarrow> window \<Rightarrow> window" where
  "record_in_window cfg AtDeviceUserCodeEntry st =
     st\<lparr>win_device_user_code := penalise (win_device_user_code st) (device_user_code_capacity cfg)
                              (device_user_code_failure_cost cfg)\<rparr>"
| "record_in_window cfg (AtClientAuthentication client_id) st =
     (case client_counter client_id (max_tracked_clients cfg) st of (tracked, st) \<Rightarrow>
        let limit = (if tracked then client_authentication_failure_ceiling_for cfg client_id
                     else client_authentication_failure_ceiling cfg)
        in set_client_budget tracked client_id
             (penalise_budget (client_budget_at tracked client_id st) limit
               (client_authentication_failure_cost cfg)) st)"
| "record_in_window cfg (AtAuthorizationRequest client_id) st =
     (case authorization_counter client_id (max_tracked_clients cfg) st of (tracked, st) \<Rightarrow>
        set_authorization_budget tracked client_id
          (penalise_budget (authorization_budget_at tracked client_id st)
            (authorization_request_failure_ceiling cfg) (authorization_request_failure_cost cfg)) st)"
| "record_in_window cfg AtClientRegistration st =
     st\<lparr>win_registration := penalise (win_registration st) (client_registration_capacity cfg)
                          (client_registration_failure_cost cfg)\<rparr>"

definition check_at :: "rate_limit_config \<Rightarrow> instant \<Rightarrow> attempt \<Rightarrow> instant \<Rightarrow> window \<Rightarrow>
    rate_limit_decision \<times> window" where
  "check_at cfg base a t st = check_in_window cfg a (roll_to (window_index cfg base t) st)"

definition record_at :: "rate_limit_config \<Rightarrow> instant \<Rightarrow> attempt \<Rightarrow> attempt_outcome \<Rightarrow> instant \<Rightarrow> window \<Rightarrow>
    window" where
  "record_at cfg base a out t st =
     (if out = Succeeded then st else record_in_window cfg a (roll_to (window_index cfg base t) st))"

text \<open>The limiter a host installs: its configuration and the instant it was built at.\<close>

record fixed_window_rate_limiter =
  frl_config :: rate_limit_config
  frl_base :: instant

definition limiter_check :: "fixed_window_rate_limiter \<Rightarrow> instant \<Rightarrow> attempt \<Rightarrow> window \<Rightarrow>
    rate_limit_decision \<times> window" where
  "limiter_check l t a st = check_at (frl_config l) (frl_base l) a t st"

definition limiter_record :: "fixed_window_rate_limiter \<Rightarrow> instant \<Rightarrow> attempt \<Rightarrow> attempt_outcome \<Rightarrow> window \<Rightarrow>
    window" where
  "limiter_record l t a out st = record_at (frl_config l) (frl_base l) a out t st"

section \<open>The counters\<close>

lemma unat_saturating_sub [simp]: "unat (saturating_sub a b) = unat a - unat b"
  by (simp add: saturating_sub_def unat_sub word_le_nat_alt)

lemma unat_saturating_add: "unat (saturating_add a b) = min (unat a + unat b) (2 ^ 64 - 1)"
proof -
  have top: "unat (- 1 :: u64) = 2 ^ 64 - 1" by (simp add: unsigned_minus_1_eq_mask mask_eq_exp_minus_1)
  have rest: "unat (- 1 - a) = 2 ^ 64 - 1 - unat a"
    by (subst unat_sub) (simp_all add: top)
  have a: "unat a \<le> 2 ^ 64 - 1" using unsigned_less [of a, where 'a = nat] by simp
  show ?thesis
  proof (cases "b \<le> - 1 - a")
    case True
    then have "unat a + unat b \<le> 2 ^ 64 - 1" using a by (simp add: word_le_nat_alt rest)
    then show ?thesis using True by (simp add: saturating_add_def unat_word_ariths)
  next
    case False
    then have "2 ^ 64 - 1 < unat a + unat b" using a by (simp add: word_le_nat_alt rest)
    then show ?thesis using False by (simp add: saturating_add_def top)
  qed
qed

text \<open>An admitted charge is paid in full: the unchecked addition never wraps.\<close>

lemma charge_decision: "fst (charge n cap cost) = Allow \<longleftrightarrow> unat cost \<le> unat cap - unat n"
  by (simp add: charge_def word_less_nat_alt not_less)

lemma charge_exact:
  assumes "fst (charge n cap cost) = Allow"
  shows "unat (snd (charge n cap cost)) = unat n + unat cost"
proof -
  have le: "unat cost \<le> unat cap - unat n" using assms by (simp only: charge_decision)
  have "unat n + unat cost < 2 ^ 64"
    using le unsigned_less [of cap, where 'a = nat] unsigned_less [of n, where 'a = nat]
    by (cases "unat cost = 0") auto
  then show ?thesis using assms by (auto simp: charge_def unat_word_ariths split: if_splits)
qed

lemma charge_refused: "fst (charge n cap cost) = Deny \<Longrightarrow> snd (charge n cap cost) = n"
  by (auto simp: charge_def split: if_splits)

lemma unat_penalise: "unat (penalise n cap cost) = min (unat n + unat cost) (unat cap)"
  using unsigned_less [of cap, where 'a = nat]
  by (auto simp: penalise_def min_def word_le_nat_alt unat_saturating_add)

lemma unat_half [simp]: "unat (c div CLIENT_AUTHENTICATION_FAILURE_CEILING_DIVISOR) = unat c div 2"
  by (simp add: unat_div CLIENT_AUTHENTICATION_FAILURE_CEILING_DIVISOR_def)

lemma unat_attempt_cost [simp]: "unat ATTEMPT_COST = 1"
  by (simp add: ATTEMPT_COST_def)

text \<open>A counter that holds \<open>x\<close>, cut off at the capacity.\<close>

lemma charge_counts:
  assumes "unat n = min (unat cap) x" and "charge n cap ATTEMPT_COST = (d, n')"
  shows "d = Allow \<longleftrightarrow> x < unat cap" and "unat n' = min (unat cap) (if d = Allow then Suc x else x)"
proof -
  show d: "d = Allow \<longleftrightarrow> x < unat cap"
    using charge_decision [of n cap ATTEMPT_COST] assms by auto
  show "unat n' = min (unat cap) (if d = Allow then Suc x else x)"
    using d charge_exact [of n cap ATTEMPT_COST] charge_refused [of n cap ATTEMPT_COST] assms
    by (cases d) auto
qed

lemma penalise_counts:
  "unat n = min (unat cap) x \<Longrightarrow> unat (penalise n cap cost) = min (unat cap) (x + unat cost)"
  by (simp add: unat_penalise)

section \<open>Histories and budgets\<close>

text \<open>
  The specification forgets the counters: a history of calls and decisions, and a budget per attempt.
  An attempt is admitted while the number of earlier admissions and the penalty for the recorded
  failures stay below the capacity.
\<close>

datatype limiter_call = LcCheck attempt | LcRecord attempt attempt_outcome

datatype limiter_event = Checked attempt rate_limit_decision | Recorded attempt attempt_outcome

fun limiter_step :: "rate_limit_config \<Rightarrow> instant \<Rightarrow> limiter_call \<times> instant \<Rightarrow> window \<Rightarrow> limiter_event \<times> window" where
  "limiter_step cfg base (LcCheck a, t) st = (case check_at cfg base a t st of (d, st') \<Rightarrow> (Checked a d, st'))"
| "limiter_step cfg base (LcRecord a out, t) st = (Recorded a out, record_at cfg base a out t st)"

fun limiter_run :: "rate_limit_config \<Rightarrow> instant \<Rightarrow> (limiter_call \<times> instant) list \<Rightarrow> window \<Rightarrow>
    limiter_event list \<times> window" where
  "limiter_run cfg base [] st = ([], st)"
| "limiter_run cfg base (c # cs) st =
     (case limiter_step cfg base c st of
        (e, st') \<Rightarrow> (case limiter_run cfg base cs st' of (h, st'') \<Rightarrow> (e # h, st'')))"

definition admitted :: "attempt \<Rightarrow> limiter_event list \<Rightarrow> nat" where
  "admitted a h = length (filter (\<lambda>e. e = Checked a Allow) h)"

definition recorded_failures :: "attempt \<Rightarrow> limiter_event list \<Rightarrow> nat" where
  "recorded_failures a h = length (filter (\<lambda>e. e = Recorded a Failed) h)"

fun budget_capacity :: "rate_limit_config \<Rightarrow> attempt \<Rightarrow> nat" where
  "budget_capacity cfg AtDeviceUserCodeEntry = unat (device_user_code_capacity cfg)"
| "budget_capacity cfg (AtClientAuthentication c) = unat (client_authentication_capacity_for cfg c)"
| "budget_capacity cfg (AtAuthorizationRequest c) = unat (authorization_request_capacity cfg)"
| "budget_capacity cfg AtClientRegistration = unat (client_registration_capacity cfg)"

fun budget_penalty :: "rate_limit_config \<Rightarrow> attempt \<Rightarrow> nat \<Rightarrow> nat" where
  "budget_penalty cfg AtDeviceUserCodeEntry n = n * unat (device_user_code_failure_cost cfg)"
| "budget_penalty cfg (AtClientAuthentication c) n =
     min (budget_capacity cfg (AtClientAuthentication c) div 2) (n * unat (client_authentication_failure_cost cfg))"
| "budget_penalty cfg (AtAuthorizationRequest c) n =
     min (budget_capacity cfg (AtAuthorizationRequest c) div 2) (n * unat (authorization_request_failure_cost cfg))"
| "budget_penalty cfg AtClientRegistration n = n * unat (client_registration_failure_cost cfg)"

definition budget_allows :: "rate_limit_config \<Rightarrow> limiter_event list \<Rightarrow> attempt \<Rightarrow> bool" where
  "budget_allows cfg h a \<longleftrightarrow> admitted a h + budget_penalty cfg a (recorded_failures a h) < budget_capacity cfg a"

text \<open>Client ids short enough to be tracked that a list of calls names, per table.\<close>

fun call_attempt :: "limiter_call \<Rightarrow> attempt" where
  "call_attempt (LcCheck a) = a"
| "call_attempt (LcRecord a out) = a"

definition tracked_ids :: "(string \<Rightarrow> attempt) \<Rightarrow> attempt set \<Rightarrow> string set" where
  "tracked_ids mk as = {c. length c \<le> MAX_TRACKED_CLIENT_ID_LEN \<and> mk c \<in> as}"

fun own_budget :: "attempt \<Rightarrow> bool" where
  "own_budget (AtClientAuthentication c) \<longleftrightarrow> length c \<le> MAX_TRACKED_CLIENT_ID_LEN"
| "own_budget (AtAuthorizationRequest c) \<longleftrightarrow> length c \<le> MAX_TRACKED_CLIENT_ID_LEN"
| "own_budget _ \<longleftrightarrow> True"

lemma admitted_simps [simp]:
  "admitted a [] = 0"
  "admitted a (h @ [Recorded a' out]) = admitted a h"
  "admitted a (h @ [Checked a' d]) = (if a' = a \<and> d = Allow then Suc (admitted a h) else admitted a h)"
  by (simp_all add: admitted_def)

lemma recorded_failures_simps [simp]:
  "recorded_failures a [] = 0"
  "recorded_failures a (h @ [Checked a' d]) = recorded_failures a h"
  "recorded_failures a (h @ [Recorded a' out]) = (if a' = a \<and> out = Failed then Suc (recorded_failures a h) else recorded_failures a h)"
  by (simp_all add: recorded_failures_def)

section \<open>The tables keep the budgets\<close>

definition budget_tracks :: "u64 \<Rightarrow> u64 \<Rightarrow> attempt \<Rightarrow> limiter_event list \<Rightarrow> client_budget \<Rightarrow> bool" where
  "budget_tracks cap cost a h b \<longleftrightarrow> unat (cb_attempts b) = admitted a h \<and>
     unat (cb_failures b) = min (unat cap div 2) (recorded_failures a h * unat cost)"

lemma budget_tracks_charge:
  assumes "budget_tracks cap cost a h b" and "charge_budget b cap = (d, b')"
  shows "d = Allow \<longleftrightarrow> admitted a h + min (unat cap div 2) (recorded_failures a h * unat cost) < unat cap"
    and "budget_tracks cap cost a (h @ [Checked a d]) b'"
proof -
  let ?n = "cb_attempts b" and ?room = "saturating_sub cap (cb_failures b)"
  obtain n' where n': "charge ?n ?room ATTEMPT_COST = (d, n')" and b': "b' = b\<lparr>cb_attempts := n'\<rparr>"
    using assms(2) by (auto simp: charge_budget_def split: prod.splits)
  show "d = Allow \<longleftrightarrow> admitted a h + min (unat cap div 2) (recorded_failures a h * unat cost) < unat cap"
    using charge_decision [of ?n ?room ATTEMPT_COST] assms(1) n' by (auto simp: budget_tracks_def)
  show "budget_tracks cap cost a (h @ [Checked a d]) b'"
    using charge_exact [of ?n ?room ATTEMPT_COST] charge_refused [of ?n ?room ATTEMPT_COST] assms(1) n' b'
    by (cases d) (auto simp: budget_tracks_def)
qed

lemma budget_tracks_penalise:
  assumes "budget_tracks cap cost a h b"
  shows "budget_tracks cap cost a (h @ [Recorded a Failed])
     (penalise_budget b (cap div CLIENT_AUTHENTICATION_FAILURE_CEILING_DIVISOR) cost)"
  using assms by (simp add: budget_tracks_def penalise_budget_def unat_penalise)

text \<open>A table \<open>m\<close> of budgets for the clients \<open>ns\<close>, kept for the attempts that \<open>mk\<close> builds.\<close>

definition table_tracks ::
  "string set \<Rightarrow> (string \<Rightarrow> u64) \<Rightarrow> u64 \<Rightarrow> (string \<Rightarrow> attempt) \<Rightarrow> limiter_event list \<Rightarrow>
     (string, client_budget) fmap \<Rightarrow> bool" where
  "table_tracks ns cap cost mk h m \<longleftrightarrow> fset (fmdom m) \<subseteq> ns \<and>
     (\<forall>c \<in> ns. budget_tracks (cap c) cost (mk c) h (budget_of m c))"

lemma budget_of_upd [simp]: "budget_of (fmupd c b m) c' = (if c = c' then b else budget_of m c')"
  by (simp add: budget_of_def)

lemma table_tracks_upd:
  assumes "table_tracks ns cap cost mk h m" and "c \<in> ns" and "inj mk"
    and "budget_tracks (cap c) cost (mk c) (h @ [e]) b"
    and "e = Checked (mk c) d \<or> e = Recorded (mk c) out"
  shows "table_tracks ns cap cost mk (h @ [e]) (fmupd c b m)"
  using assms by (auto simp: table_tracks_def budget_tracks_def inj_eq)

lemma table_tracks_other:
  assumes "table_tracks ns cap cost mk h m"
    and "\<forall>c \<in> ns. e \<noteq> Checked (mk c) Allow \<and> e \<noteq> Recorded (mk c) Failed"
  shows "table_tracks ns cap cost mk (h @ [e]) m"
  using assms by (auto simp: table_tracks_def budget_tracks_def admitted_def recorded_failures_def)

lemma table_has_room:
  assumes "table_tracks ns cap cost mk h m" and "c \<in> ns" and "finite ns" and "card ns \<le> n"
    and "fmlookup m c = None"
  shows "\<not> n \<le> fcard (fmdom m)"
proof -
  have "c \<notin> fset (fmdom m)" using assms(5) by (simp add: fmlookup_dom_iff)
  then have "fset (fmdom m) \<subset> ns" using assms(1,2) by (auto simp: table_tracks_def)
  then have "card (fset (fmdom m)) < card ns" by (rule psubset_card_mono [OF assms(3)])
  then show ?thesis using assms(4) by (simp add: fcard.rep_eq)
qed

text \<open>A client with a budget of its own is charged there, whether or not it had been seen.\<close>

definition room_for :: "nat \<Rightarrow> string \<Rightarrow> (string, client_budget) fmap \<Rightarrow> bool" where
  "room_for n c m \<longleftrightarrow> length c \<le> MAX_TRACKED_CLIENT_ID_LEN \<and> (fmlookup m c = None \<longrightarrow> \<not> n \<le> fcard (fmdom m))"

lemma check_client:
  "room_for (max_tracked_clients cfg) c (win_clients st) \<Longrightarrow>
   check_in_window cfg (AtClientAuthentication c) st =
     (case charge_budget (budget_of (win_clients st) c) (client_authentication_capacity_for cfg c) of
        (d, b) \<Rightarrow> (d, st\<lparr>win_clients := fmupd c b (win_clients st)\<rparr>))"
  by (auto simp: room_for_def client_counter_def client_budget_at_def set_client_budget_def budget_of_def
      split: prod.split)

lemma check_authorization:
  "room_for (max_tracked_clients cfg) c (win_authorization st) \<Longrightarrow>
   check_in_window cfg (AtAuthorizationRequest c) st =
     (case charge_budget (budget_of (win_authorization st) c) (authorization_request_capacity cfg) of
        (d, b) \<Rightarrow> (d, st\<lparr>win_authorization := fmupd c b (win_authorization st)\<rparr>))"
  by (auto simp: room_for_def authorization_counter_def authorization_budget_at_def
      set_authorization_budget_def budget_of_def split: prod.split)

lemma record_client:
  "room_for (max_tracked_clients cfg) c (win_clients st) \<Longrightarrow>
   record_in_window cfg (AtClientAuthentication c) st = st\<lparr>win_clients :=
     fmupd c (penalise_budget (budget_of (win_clients st) c)
       (client_authentication_capacity_for cfg c div CLIENT_AUTHENTICATION_FAILURE_CEILING_DIVISOR)
       (client_authentication_failure_cost cfg)) (win_clients st)\<rparr>"
  by (auto simp: room_for_def client_counter_def client_budget_at_def set_client_budget_def budget_of_def
      client_authentication_failure_ceiling_for_def)

lemma record_authorization:
  "room_for (max_tracked_clients cfg) c (win_authorization st) \<Longrightarrow>
   record_in_window cfg (AtAuthorizationRequest c) st = st\<lparr>win_authorization :=
     fmupd c (penalise_budget (budget_of (win_authorization st) c)
       (authorization_request_capacity cfg div CLIENT_AUTHENTICATION_FAILURE_CEILING_DIVISOR)
       (authorization_request_failure_cost cfg)) (win_authorization st)\<rparr>"
  by (auto simp: room_for_def authorization_counter_def authorization_budget_at_def
      set_authorization_budget_def budget_of_def authorization_request_failure_ceiling_def)

text \<open>Longer client ids share the overflow budgets and leave the tables alone.\<close>

lemma long_id_windows:
  assumes "MAX_TRACKED_CLIENT_ID_LEN < length c"
  shows "\<exists>b. snd (check_in_window cfg (AtClientAuthentication c) st) = st\<lparr>win_overflow := b\<rparr>"
    and "\<exists>b. snd (check_in_window cfg (AtAuthorizationRequest c) st) = st\<lparr>win_authorization_overflow := b\<rparr>"
    and "\<exists>b. record_in_window cfg (AtClientAuthentication c) st = st\<lparr>win_overflow := b\<rparr>"
    and "\<exists>b. record_in_window cfg (AtAuthorizationRequest c) st = st\<lparr>win_authorization_overflow := b\<rparr>"
  using assms
  by (auto simp: client_counter_def authorization_counter_def set_client_budget_def
      set_authorization_budget_def Let_def split: prod.split)

definition window_tracks :: "rate_limit_config \<Rightarrow> string set \<Rightarrow> string set \<Rightarrow> limiter_event list \<Rightarrow> window \<Rightarrow> bool" where
  "window_tracks cfg ns ms h st \<longleftrightarrow>
     unat (win_device_user_code st) = min (unat (device_user_code_capacity cfg))
       (admitted AtDeviceUserCodeEntry h + recorded_failures AtDeviceUserCodeEntry h * unat (device_user_code_failure_cost cfg)) \<and>
     unat (win_registration st) = min (unat (client_registration_capacity cfg))
       (admitted AtClientRegistration h + recorded_failures AtClientRegistration h * unat (client_registration_failure_cost cfg)) \<and>
     table_tracks ns (client_authentication_capacity_for cfg) (client_authentication_failure_cost cfg)
       AtClientAuthentication h (win_clients st) \<and>
     table_tracks ms (\<lambda>_. authorization_request_capacity cfg) (authorization_request_failure_cost cfg)
       AtAuthorizationRequest h (win_authorization st)"

text \<open>The attempts of the calls at hand all find room in the tables.\<close>

definition covered :: "string set \<Rightarrow> string set \<Rightarrow> attempt \<Rightarrow> bool" where
  "covered ns ms a \<longleftrightarrow> tracked_ids AtClientAuthentication {a} \<subseteq> ns \<and> tracked_ids AtAuthorizationRequest {a} \<subseteq> ms"

declare check_in_window.simps(2,3) [simp del] record_in_window.simps(2,3) [simp del]

lemma table_room_for:
  assumes "table_tracks ns cap cost mk h m" and "c \<in> ns" and "finite ns" and "card ns \<le> n"
    and "length c \<le> MAX_TRACKED_CLIENT_ID_LEN"
  shows "room_for n c m"
  using assms table_has_room [OF assms(1-4)] by (simp add: room_for_def)

lemma table_check:
  assumes "table_tracks ns cap cost mk h m" and "c \<in> ns" and "inj mk"
    and "charge_budget (budget_of m c) (cap c) = (d, b)"
  shows "table_tracks ns cap cost mk (h @ [Checked (mk c) d]) (fmupd c b m)"
    and "d = Allow \<longleftrightarrow> admitted (mk c) h + min (unat (cap c) div 2) (recorded_failures (mk c) h * unat cost) < unat (cap c)"
proof -
  have b: "budget_tracks (cap c) cost (mk c) h (budget_of m c)"
    using assms(1,2) by (simp add: table_tracks_def)
  show "d = Allow \<longleftrightarrow> admitted (mk c) h + min (unat (cap c) div 2) (recorded_failures (mk c) h * unat cost) < unat (cap c)"
    by (rule budget_tracks_charge(1) [OF b assms(4)])
  show "table_tracks ns cap cost mk (h @ [Checked (mk c) d]) (fmupd c b m)"
    by (rule table_tracks_upd [OF assms(1-3) budget_tracks_charge(2) [OF b assms(4)]]) simp
qed

lemma table_record:
  assumes "table_tracks ns cap cost mk h m" and "c \<in> ns" and "inj mk"
  shows "table_tracks ns cap cost mk (h @ [Recorded (mk c) Failed])
    (fmupd c (penalise_budget (budget_of m c) (cap c div CLIENT_AUTHENTICATION_FAILURE_CEILING_DIVISOR) cost) m)"
proof -
  have "budget_tracks (cap c) cost (mk c) h (budget_of m c)"
    using assms(1,2) by (simp add: table_tracks_def)
  from table_tracks_upd [OF assms budget_tracks_penalise [OF this]] show ?thesis by simp
qed

lemma inj_attempts [simp]: "inj AtClientAuthentication" "inj AtAuthorizationRequest"
  by (simp_all add: inj_def)

definition sized_for :: "rate_limit_config \<Rightarrow> string set \<Rightarrow> bool" where
  "sized_for cfg ns \<longleftrightarrow> finite ns \<and> card ns \<le> max_tracked_clients cfg \<and>
     (\<forall>c \<in> ns. length c \<le> MAX_TRACKED_CLIENT_ID_LEN)"

lemma check_tracks:
  assumes "window_tracks cfg ns ms h st" and "covered ns ms a" and "sized_for cfg ns" and "sized_for cfg ms"
    and "check_in_window cfg a st = (d, st')"
  shows "window_tracks cfg ns ms (h @ [Checked a d]) st' \<and> (own_budget a \<longrightarrow> (d = Allow \<longleftrightarrow> budget_allows cfg h a))"
proof (cases a)
  case (AtClientAuthentication c)
  show ?thesis
  proof (cases "length c \<le> MAX_TRACKED_CLIENT_ID_LEN")
    case True
    then have c: "c \<in> ns" using assms(2) AtClientAuthentication by (auto simp: covered_def tracked_ids_def)
    have "room_for (max_tracked_clients cfg) c (win_clients st)"
      using assms(1,3) True c by (auto simp: window_tracks_def sized_for_def intro: table_room_for)
    then obtain b where b: "charge_budget (budget_of (win_clients st) c) (client_authentication_capacity_for cfg c) = (d, b)"
      and st': "st' = st\<lparr>win_clients := fmupd c b (win_clients st)\<rparr>"
      using assms(5) AtClientAuthentication by (auto simp: check_client split: prod.splits)
    have t: "table_tracks ns (\<lambda>c. client_authentication_capacity_for cfg c)
        (client_authentication_failure_cost cfg) AtClientAuthentication h (win_clients st)"
      using assms(1) by (simp add: window_tracks_def)
    show ?thesis
      using assms(1) table_check [OF t c _ b] AtClientAuthentication
      by (auto simp: window_tracks_def budget_allows_def st' intro!: table_tracks_other)
  next
    case False
    then obtain b where "st' = st\<lparr>win_overflow := b\<rparr>"
      using assms(5) AtClientAuthentication long_id_windows(1) [of c cfg st] by auto
    then show ?thesis
      using assms(1,3) AtClientAuthentication False by (auto simp: window_tracks_def sized_for_def intro!: table_tracks_other)
  qed
next
  case AtDeviceUserCodeEntry
  then obtain n where n: "charge (win_device_user_code st) (device_user_code_capacity cfg) ATTEMPT_COST = (d, n)"
    and st': "st' = st\<lparr>win_device_user_code := n\<rparr>"
    using assms(5) by (auto split: prod.splits)
  have "unat (win_device_user_code st) = min (unat (device_user_code_capacity cfg))
      (admitted AtDeviceUserCodeEntry h + recorded_failures AtDeviceUserCodeEntry h * unat (device_user_code_failure_cost cfg))"
    using assms(1) by (simp add: window_tracks_def)
  note counts = charge_counts [OF this n]
  show ?thesis
    using assms(1) counts AtDeviceUserCodeEntry
    by (auto simp: window_tracks_def budget_allows_def st' intro!: table_tracks_other)
next
  case (AtAuthorizationRequest c)
  show ?thesis
  proof (cases "length c \<le> MAX_TRACKED_CLIENT_ID_LEN")
    case True
    then have c: "c \<in> ms" using assms(2) AtAuthorizationRequest by (auto simp: covered_def tracked_ids_def)
    have "room_for (max_tracked_clients cfg) c (win_authorization st)"
      using assms(1,4) True c by (auto simp: window_tracks_def sized_for_def intro: table_room_for)
    then obtain b where b: "charge_budget (budget_of (win_authorization st) c) (authorization_request_capacity cfg) = (d, b)"
      and st': "st' = st\<lparr>win_authorization := fmupd c b (win_authorization st)\<rparr>"
      using assms(5) AtAuthorizationRequest by (auto simp: check_authorization split: prod.splits)
    have t: "table_tracks ms (\<lambda>c. authorization_request_capacity cfg)
        (authorization_request_failure_cost cfg) AtAuthorizationRequest h (win_authorization st)"
      using assms(1) by (simp add: window_tracks_def)
    show ?thesis
      using assms(1) table_check [OF t c _ b] AtAuthorizationRequest
      by (auto simp: window_tracks_def budget_allows_def st' intro!: table_tracks_other)
  next
    case False
    then obtain b where "st' = st\<lparr>win_authorization_overflow := b\<rparr>"
      using assms(5) AtAuthorizationRequest long_id_windows(2) [of c cfg st] by auto
    then show ?thesis
      using assms(1,4) AtAuthorizationRequest False by (auto simp: window_tracks_def sized_for_def intro!: table_tracks_other)
  qed
next
  case AtClientRegistration
  then obtain n where n: "charge (win_registration st) (client_registration_capacity cfg) ATTEMPT_COST = (d, n)"
    and st': "st' = st\<lparr>win_registration := n\<rparr>"
    using assms(5) by (auto split: prod.splits)
  have "unat (win_registration st) = min (unat (client_registration_capacity cfg))
      (admitted AtClientRegistration h + recorded_failures AtClientRegistration h * unat (client_registration_failure_cost cfg))"
    using assms(1) by (simp add: window_tracks_def)
  note counts = charge_counts [OF this n]
  show ?thesis
    using assms(1) counts AtClientRegistration
    by (auto simp: window_tracks_def budget_allows_def st' intro!: table_tracks_other)
qed

lemma record_tracks:
  assumes "window_tracks cfg ns ms h st" and "covered ns ms a" and "sized_for cfg ns" and "sized_for cfg ms"
  shows "window_tracks cfg ns ms (h @ [Recorded a Failed]) (record_in_window cfg a st)"
proof (cases a)
  case (AtClientAuthentication c)
  show ?thesis
  proof (cases "length c \<le> MAX_TRACKED_CLIENT_ID_LEN")
    case True
    then have c: "c \<in> ns" using assms(2) AtClientAuthentication by (auto simp: covered_def tracked_ids_def)
    have "room_for (max_tracked_clients cfg) c (win_clients st)"
      using assms(1,3) True c by (auto simp: window_tracks_def sized_for_def intro: table_room_for)
    then show ?thesis
      using assms(1) c AtClientAuthentication
      by (auto simp: window_tracks_def record_client table_record intro!: table_tracks_other)
  next
    case False
    then obtain b where "record_in_window cfg a st = st\<lparr>win_overflow := b\<rparr>"
      using AtClientAuthentication long_id_windows(3) [of c cfg st] by auto
    then show ?thesis
      using assms(1,3) AtClientAuthentication False
      by (auto simp: window_tracks_def sized_for_def intro!: table_tracks_other)
  qed
next
  case (AtAuthorizationRequest c)
  show ?thesis
  proof (cases "length c \<le> MAX_TRACKED_CLIENT_ID_LEN")
    case True
    then have c: "c \<in> ms" using assms(2) AtAuthorizationRequest by (auto simp: covered_def tracked_ids_def)
    have "room_for (max_tracked_clients cfg) c (win_authorization st)"
      using assms(1,4) True c by (auto simp: window_tracks_def sized_for_def intro: table_room_for)
    moreover have "table_tracks ms (\<lambda>_. authorization_request_capacity cfg) (authorization_request_failure_cost cfg)
        AtAuthorizationRequest h (win_authorization st)"
      using assms(1) by (simp add: window_tracks_def)
    note table_record [OF this c]
    ultimately show ?thesis
      using assms(1) AtAuthorizationRequest
      by (auto simp: window_tracks_def record_authorization intro!: table_tracks_other)
  next
    case False
    then obtain b where "record_in_window cfg a st = st\<lparr>win_authorization_overflow := b\<rparr>"
      using AtAuthorizationRequest long_id_windows(4) [of c cfg st] by auto
    then show ?thesis
      using assms(1,4) AtAuthorizationRequest False
      by (auto simp: window_tracks_def sized_for_def intro!: table_tracks_other)
  qed
qed (use assms(1) in \<open>auto simp: window_tracks_def unat_penalise intro!: table_tracks_other\<close>)

lemma succeeded_tracks:
  "window_tracks cfg ns ms h st \<Longrightarrow> window_tracks cfg ns ms (h @ [Recorded a Succeeded]) st"
  by (simp add: window_tracks_def table_tracks_other)

section \<open>One window\<close>

lemma roll_to_idem [simp]: "roll_to i (roll_to i st) = roll_to i st"
  by (simp add: roll_to_def)

lemma roll_to_index [simp]: "win_index (roll_to i st) = i"
  by (simp add: roll_to_def)

lemma roll_to_same [simp]: "win_index st = i \<Longrightarrow> roll_to i st = st"
  by (simp add: roll_to_def)

lemma check_keeps_index: "win_index (snd (check_in_window cfg a st)) = win_index st"
  by (cases a) (auto simp: check_in_window.simps client_counter_def authorization_counter_def
      set_client_budget_def set_authorization_budget_def Let_def split: prod.splits if_splits)

lemma record_keeps_index: "win_index (record_in_window cfg a st) = win_index st"
  by (cases a) (auto simp: record_in_window.simps client_counter_def authorization_counter_def
      set_client_budget_def set_authorization_budget_def Let_def split: prod.splits if_splits)

lemma limiter_step_tracks:
  assumes "window_tracks cfg ns ms h (roll_to i st)" and "covered ns ms (call_attempt c)"
    and "sized_for cfg ns" and "sized_for cfg ms" and "window_index cfg base t = i"
    and "limiter_step cfg base (c, t) st = (e, st')"
  shows "window_tracks cfg ns ms (h @ [e]) (roll_to i st')"
proof (cases c)
  case (LcCheck a)
  then obtain d where e: "e = Checked a d" and d: "check_in_window cfg a (roll_to i st) = (d, st')"
    using assms(5,6) by (auto simp: check_at_def split: prod.splits)
  moreover have "win_index st' = i" using check_keeps_index [of cfg a "roll_to i st"] d by simp
  ultimately show ?thesis using check_tracks [OF assms(1) _ assms(3,4) d] assms(2) LcCheck by simp
next
  case (LcRecord a out)
  show ?thesis
  proof (cases out)
    case Succeeded
    then show ?thesis using assms(1,6) LcRecord by (auto simp: record_at_def succeeded_tracks)
  next
    case Failed
    moreover have "win_index (record_in_window cfg a (roll_to i st)) = i" by (simp add: record_keeps_index)
    ultimately show ?thesis
      using record_tracks [OF assms(1) _ assms(3,4), of a] assms(2,5,6) LcRecord
      by (auto simp: record_at_def)
  qed
qed

lemma limiter_run_tracks:
  assumes "limiter_run cfg base calls st = (h', st')" and "window_tracks cfg ns ms h (roll_to i st)"
    and "\<forall>(c, t) \<in> set calls. window_index cfg base t = i \<and> covered ns ms (call_attempt c)"
    and "sized_for cfg ns" and "sized_for cfg ms"
  shows "window_tracks cfg ns ms (h @ h') (roll_to i st')"
  using assms
proof (induction calls arbitrary: st h h')
  case (Cons ct calls)
  obtain c t where ct: "ct = (c, t)" by (cases ct)
  obtain e st1 where e: "limiter_step cfg base (c, t) st = (e, st1)" by (cases "limiter_step cfg base (c, t) st")
  obtain h2 where h2: "limiter_run cfg base calls st1 = (h2, st')" "h' = e # h2"
    using Cons.prems(1) by (auto simp: ct e split: prod.splits)
  have "window_tracks cfg ns ms (h @ [e]) (roll_to i st1)"
    using Cons.prems(3) limiter_step_tracks [OF Cons.prems(2) _ Cons.prems(4,5) _ e] by (simp add: ct)
  from Cons.IH [OF h2(1) this _ Cons.prems(4,5)] Cons.prems(3) show ?case by (simp add: h2(2))
qed simp

text \<open>A window the limiter has not charged yet: a fresh limiter, or one whose window is over.\<close>

definition window_open :: "u64 \<Rightarrow> window \<Rightarrow> bool" where
  "window_open i st \<longleftrightarrow> win_index st \<noteq> i \<or> st = window_default"

lemma window_open_tracks: "window_open i st \<Longrightarrow> window_tracks cfg ns ms [] (roll_to i st)"
  by (auto simp: window_open_def roll_to_def window_default_def window_tracks_def table_tracks_def
      budget_tracks_def budget_of_def client_budget_default_def)

definition ids_fit :: "rate_limit_config \<Rightarrow> attempt set \<Rightarrow> bool" where
  "ids_fit cfg as \<longleftrightarrow> card (tracked_ids AtClientAuthentication as) \<le> max_tracked_clients cfg \<and>
     card (tracked_ids AtAuthorizationRequest as) \<le> max_tracked_clients cfg"

lemma finite_tracked_ids: "finite as \<Longrightarrow> inj mk \<Longrightarrow> finite (tracked_ids mk as)"
  unfolding tracked_ids_def by (rule finite_subset [of _ "mk -` as"]) (auto intro: finite_vimageI)

lemma sized_for_tracked_ids:
  "card (tracked_ids mk as) \<le> max_tracked_clients cfg \<Longrightarrow> finite as \<Longrightarrow> inj mk \<Longrightarrow> sized_for cfg (tracked_ids mk as)"
  by (simp add: sized_for_def finite_tracked_ids) (simp add: tracked_ids_def)

text \<open>
  C18. The limiter implements the budgets: within one window, whatever calls came before from whatever
  clients in whatever order, an attempt is admitted exactly when its own earlier admissions and its
  own penalty stay below its capacity. In particular no client's traffic or failures count against
  another's, as long as the clients of the window fit the tables.
\<close>
theorem limiter_refines_budgets:
  assumes "limiter_run cfg base calls st0 = (h, st)" and "window_open i st0"
    and "\<forall>(c, t) \<in> set calls. window_index cfg base t = i" and "window_index cfg base t = i"
    and "ids_fit cfg (insert a (call_attempt ` fst ` set calls))" and "own_budget a"
  shows "fst (check_at cfg base a t st) = Allow \<longleftrightarrow> budget_allows cfg h a"
proof -
  let ?as = "insert a (call_attempt ` fst ` set calls)"
  let ?ns = "tracked_ids AtClientAuthentication ?as" and ?ms = "tracked_ids AtAuthorizationRequest ?as"
  have sized: "sized_for cfg ?ns" "sized_for cfg ?ms"
    using assms(5) by (auto simp only: ids_fit_def intro!: sized_for_tracked_ids finite.insertI finite_imageI finite_set inj_attempts)
  have covered: "covered ?ns ?ms a'" if "a' \<in> ?as" for a'
    using that by (auto simp: covered_def tracked_ids_def)
  have "\<forall>(c, t) \<in> set calls. window_index cfg base t = i \<and> covered ?ns ?ms (call_attempt c)"
  proof clarify
    fix c t assume ct: "(c, t) \<in> set calls"
    then have "call_attempt c \<in> ?as" by (metis fst_conv image_eqI insertI2)
    then show "window_index cfg base t = i \<and> covered ?ns ?ms (call_attempt c)"
      using assms(3) ct covered by blast
  qed
  from limiter_run_tracks [OF assms(1) window_open_tracks [OF assms(2)] this sized]
  have st: "window_tracks cfg ?ns ?ms h (roll_to i st)" by simp
  obtain d st' where d: "check_in_window cfg a (roll_to i st) = (d, st')"
    by (cases "check_in_window cfg a (roll_to i st)")
  from check_tracks [OF st covered sized d] assms(4,6) d show ?thesis by (simp add: check_at_def)
qed

theorem limiter_refines_budgets_witness:
  "let cfg = with_device_user_code_budget 2 1 rate_limit_config_default;
       calls = [(LcCheck AtDeviceUserCodeEntry, 5), (LcRecord AtDeviceUserCodeEntry Failed, 6)];
       (h, st) = limiter_run cfg 0 calls window_default
   in h = [Checked AtDeviceUserCodeEntry Allow, Recorded AtDeviceUserCodeEntry Failed] \<and>
      (fst (check_at cfg 0 AtDeviceUserCodeEntry 7 st) = Allow \<longleftrightarrow> budget_allows cfg h AtDeviceUserCodeEntry) \<and>
      \<not> budget_allows cfg h AtDeviceUserCodeEntry"
proof -
  let ?cfg = "with_device_user_code_budget 2 1 rate_limit_config_default"
  let ?calls = "[(LcCheck AtDeviceUserCodeEntry, 5), (LcRecord AtDeviceUserCodeEntry Failed, 6)]"
  let ?h = "[Checked AtDeviceUserCodeEntry Allow, Recorded AtDeviceUserCodeEntry Failed]"
  obtain h st where run: "limiter_run ?cfg 0 ?calls window_default = (h, st)"
    by (cases "limiter_run ?cfg 0 ?calls window_default")
  have h: "h = ?h"
  proof -
    have "fst (limiter_run ?cfg 0 ?calls window_default) = ?h" by code_simp
    then show ?thesis by (simp only: run fst_conv)
  qed
  have zero: "window_index ?cfg 0 t = 0" if "t < 60" for t
    using that by (simp add: window_index_def effective_window_def with_device_user_code_budget_def
        rate_limit_config_default_def DEFAULT_WINDOW_def MIN_WINDOW_def from_secs_def nanos_per_sec_def)
  have fit: "ids_fit ?cfg (insert AtDeviceUserCodeEntry (call_attempt ` fst ` set ?calls))"
    by (simp add: ids_fit_def tracked_ids_def)
  have "fst (check_at ?cfg 0 AtDeviceUserCodeEntry 7 st) = Allow \<longleftrightarrow> budget_allows ?cfg h AtDeviceUserCodeEntry"
    by (rule limiter_refines_budgets [OF run, of 0]) (use fit in \<open>simp_all add: window_open_def zero\<close>)
  moreover have "\<not> budget_allows ?cfg ?h AtDeviceUserCodeEntry" by code_simp
  ultimately show ?thesis by (simp add: run h Let_def del: limiter_run.simps)
qed

section \<open>Bounded memory\<close>

text \<open>What the limiter holds at any time, over any number of windows and clients.\<close>

definition budget_ok :: "u64 \<Rightarrow> client_budget \<Rightarrow> bool" where
  "budget_ok cap b \<longleftrightarrow> unat (cb_attempts b) \<le> unat cap \<and> unat (cb_failures b) \<le> unat cap div 2"

definition table_ok :: "nat \<Rightarrow> (string \<Rightarrow> u64) \<Rightarrow> (string, client_budget) fmap \<Rightarrow> bool" where
  "table_ok n cap m \<longleftrightarrow> fcard (fmdom m) \<le> n \<and>
     (\<forall>c b. fmlookup m c = Some b \<longrightarrow> length c \<le> MAX_TRACKED_CLIENT_ID_LEN \<and> budget_ok (cap c) b)"

definition window_ok :: "rate_limit_config \<Rightarrow> window \<Rightarrow> bool" where
  "window_ok cfg st \<longleftrightarrow>
     unat (win_device_user_code st) \<le> unat (device_user_code_capacity cfg) \<and>
     unat (win_registration st) \<le> unat (client_registration_capacity cfg) \<and>
     table_ok (max_tracked_clients cfg) (client_authentication_capacity_for cfg) (win_clients st) \<and>
     budget_ok (client_authentication_capacity cfg) (win_overflow st) \<and>
     table_ok (max_tracked_clients cfg) (\<lambda>_. authorization_request_capacity cfg) (win_authorization st) \<and>
     budget_ok (authorization_request_capacity cfg) (win_authorization_overflow st)"

lemma charge_bound: "unat n \<le> unat cap \<Longrightarrow> unat (snd (charge n cap cost)) \<le> unat cap"
  using charge_decision [of n cap cost] charge_exact [of n cap cost] charge_refused [of n cap cost]
  by (cases "fst (charge n cap cost)") auto

lemma charge_budget_ok:
  assumes "budget_ok cap b"
  shows "budget_ok cap (snd (charge_budget b cap))"
proof -
  let ?room = "saturating_sub cap (cb_failures b)"
  let ?c = "charge (cb_attempts b) ?room ATTEMPT_COST"
  have "unat (snd ?c) \<le> unat cap"
    using charge_decision [of "cb_attempts b" ?room ATTEMPT_COST] assms
      charge_exact [of "cb_attempts b" ?room ATTEMPT_COST] charge_refused [of "cb_attempts b" ?room ATTEMPT_COST]
    by (cases "fst ?c") (auto simp: budget_ok_def)
  then show ?thesis using assms by (auto simp: budget_ok_def charge_budget_def split: prod.splits)
qed

lemma penalise_budget_ok:
  "budget_ok cap b \<Longrightarrow>
   budget_ok cap (penalise_budget b (cap div CLIENT_AUTHENTICATION_FAILURE_CEILING_DIVISOR) cost)"
  by (simp add: budget_ok_def penalise_budget_def unat_penalise)

lemma budget_ok_default [simp]: "budget_ok cap client_budget_default"
  by (simp add: budget_ok_def client_budget_default_def)

lemma budget_of_ok: "table_ok n cap m \<Longrightarrow> budget_ok (cap c) (budget_of m c)"
  by (auto simp: table_ok_def budget_of_def split: option.split)

lemma table_ok_upd:
  assumes "table_ok n cap m" and "room_for n c m" and "budget_ok (cap c) b"
  shows "table_ok n cap (fmupd c b m)"
proof -
  have "fcard (fmdom (fmupd c b m)) \<le> n"
  proof (cases "fmlookup m c")
    case None
    then have "c |\<notin>| fmdom m" by (simp add: fmdom_notI)
    then show ?thesis using assms(2) None by (simp add: room_for_def fcard_finsert_disjoint)
  next
    case (Some x)
    then show ?thesis using assms(1) by (simp add: table_ok_def finsert_absorb fmdomI)
  qed
  then show ?thesis using assms by (auto simp: table_ok_def room_for_def)
qed

text \<open>A client without room of its own is charged to the shared budget.\<close>

lemma check_client_overflow:
  "\<not> room_for (max_tracked_clients cfg) c (win_clients st) \<Longrightarrow>
   snd (check_in_window cfg (AtClientAuthentication c) st) =
     st\<lparr>win_overflow := snd (charge_budget (win_overflow st) (client_authentication_capacity cfg))\<rparr>"
  by (auto simp: check_in_window.simps room_for_def client_counter_def client_budget_at_def
      set_client_budget_def Let_def split: prod.split)

lemma check_authorization_overflow:
  "\<not> room_for (max_tracked_clients cfg) c (win_authorization st) \<Longrightarrow>
   snd (check_in_window cfg (AtAuthorizationRequest c) st) =
     st\<lparr>win_authorization_overflow :=
       snd (charge_budget (win_authorization_overflow st) (authorization_request_capacity cfg))\<rparr>"
  by (auto simp: check_in_window.simps room_for_def authorization_counter_def authorization_budget_at_def
      set_authorization_budget_def split: prod.split)

lemma record_client_overflow:
  "\<not> room_for (max_tracked_clients cfg) c (win_clients st) \<Longrightarrow>
   record_in_window cfg (AtClientAuthentication c) st =
     st\<lparr>win_overflow := penalise_budget (win_overflow st)
       (client_authentication_capacity cfg div CLIENT_AUTHENTICATION_FAILURE_CEILING_DIVISOR)
       (client_authentication_failure_cost cfg)\<rparr>"
  by (auto simp: record_in_window.simps room_for_def client_counter_def client_budget_at_def
      set_client_budget_def client_authentication_failure_ceiling_def)

lemma record_authorization_overflow:
  "\<not> room_for (max_tracked_clients cfg) c (win_authorization st) \<Longrightarrow>
   record_in_window cfg (AtAuthorizationRequest c) st =
     st\<lparr>win_authorization_overflow := penalise_budget (win_authorization_overflow st)
       (authorization_request_capacity cfg div CLIENT_AUTHENTICATION_FAILURE_CEILING_DIVISOR)
       (authorization_request_failure_cost cfg)\<rparr>"
  by (auto simp: record_in_window.simps room_for_def authorization_counter_def authorization_budget_at_def
      set_authorization_budget_def authorization_request_failure_ceiling_def)

lemma check_ok:
  assumes "window_ok cfg st"
  shows "window_ok cfg (snd (check_in_window cfg a st))"
proof (cases a)
  case (AtClientAuthentication c)
  then show ?thesis
    using assms charge_budget_ok [OF budget_of_ok, of _ _ "win_clients st" c]
    by (cases "room_for (max_tracked_clients cfg) c (win_clients st)")
      (auto simp: window_ok_def check_client check_client_overflow charge_budget_ok split_beta
        intro!: table_ok_upd)
next
  case (AtAuthorizationRequest c)
  then show ?thesis
    using assms charge_budget_ok [OF budget_of_ok, of _ _ "win_authorization st" c]
    by (cases "room_for (max_tracked_clients cfg) c (win_authorization st)")
      (auto simp: window_ok_def check_authorization check_authorization_overflow charge_budget_ok split_beta
        intro!: table_ok_upd)
qed (use assms charge_bound in \<open>auto simp: window_ok_def split_beta\<close>)

lemma record_ok:
  assumes "window_ok cfg st"
  shows "window_ok cfg (record_in_window cfg a st)"
proof (cases a)
  case (AtClientAuthentication c)
  then show ?thesis
    using assms penalise_budget_ok [OF budget_of_ok, of _ _ "win_clients st" c]
    by (cases "room_for (max_tracked_clients cfg) c (win_clients st)")
      (auto simp: window_ok_def record_client record_client_overflow penalise_budget_ok intro!: table_ok_upd)
next
  case (AtAuthorizationRequest c)
  then show ?thesis
    using assms penalise_budget_ok [OF budget_of_ok, of _ _ "win_authorization st" c]
    by (cases "room_for (max_tracked_clients cfg) c (win_authorization st)")
      (auto simp: window_ok_def record_authorization record_authorization_overflow penalise_budget_ok
        intro!: table_ok_upd)
qed (use assms in \<open>auto simp: window_ok_def unat_penalise\<close>)

lemma window_ok_fresh: "window_ok cfg window_default"
  by (simp add: window_ok_def window_default_def table_ok_def fcard_fempty)

lemma roll_to_ok: "window_ok cfg st \<Longrightarrow> window_ok cfg (roll_to i st)"
  by (auto simp: roll_to_def window_ok_def table_ok_def fcard_fempty)

lemma limiter_step_ok: "window_ok cfg st \<Longrightarrow> window_ok cfg (snd (limiter_step cfg base ct st))"
  by (cases "(cfg, base, ct, st)" rule: limiter_step.cases)
    (auto simp: check_at_def record_at_def split_beta check_ok record_ok roll_to_ok)


section \<open>Wrong user codes\<close>

lemma limiter_run_append:
  "limiter_run cfg base (cs @ ds) st =
     (case limiter_run cfg base cs st of (h, st') \<Rightarrow>
        (case limiter_run cfg base ds st' of (h', st'') \<Rightarrow> (h @ h', st'')))"
  by (induction cs arbitrary: st) (auto split: prod.splits)

text \<open>User code entries that are looked up, found wrong and recorded before the next one is checked.\<close>

fun wrong_entries :: "rate_limit_config \<Rightarrow> instant \<Rightarrow> instant list \<Rightarrow> window \<Rightarrow> nat \<times> window" where
  "wrong_entries cfg base [] st = (0, st)"
| "wrong_entries cfg base (t # ts) st =
     (case check_at cfg base AtDeviceUserCodeEntry t st of
        (Deny, st') \<Rightarrow> wrong_entries cfg base ts st'
      | (Allow, st') \<Rightarrow>
          (case wrong_entries cfg base ts (record_at cfg base AtDeviceUserCodeEntry Failed t st') of
             (n, st'') \<Rightarrow> (Suc n, st'')))"

lemma wrong_entries_bound:
  assumes "\<forall>t \<in> set ts. window_index cfg base t = i" and "win_index st = i"
    and "unat (win_device_user_code st) = min (unat (device_user_code_capacity cfg)) x"
    and "wrong_entries cfg base ts st = (n, st')"
  shows "n = 0 \<or> x + n * Suc (unat (device_user_code_failure_cost cfg)) <
    unat (device_user_code_capacity cfg) + Suc (unat (device_user_code_failure_cost cfg))"
  using assms
proof (induction ts arbitrary: st x n)
  case (Cons t ts)
  let ?cap = "device_user_code_capacity cfg"
  obtain d m where c: "charge (win_device_user_code st) ?cap ATTEMPT_COST = (d, m)"
    by (cases "charge (win_device_user_code st) ?cap ATTEMPT_COST")
  note counts = charge_counts [OF Cons.prems(3) c]
  have step: "check_at cfg base AtDeviceUserCodeEntry t st = (d, st\<lparr>win_device_user_code := m\<rparr>)"
    using Cons.prems(1,2) c by (simp add: check_at_def)
  show ?case
  proof (cases d)
    case Allow
    let ?st = "record_at cfg base AtDeviceUserCodeEntry Failed t (st\<lparr>win_device_user_code := m\<rparr>)"
    obtain k where k: "wrong_entries cfg base ts ?st = (k, st')" "n = Suc k"
      using Cons.prems(4) by (auto simp: step Allow split: prod.splits)
    have "unat (win_device_user_code ?st) = min (unat ?cap) (Suc x + unat (device_user_code_failure_cost cfg))"
      and "win_index ?st = i"
      using Cons.prems(1,2) counts(2) Allow by (simp_all add: record_at_def unat_penalise)
    from Cons.IH [OF _ this(2,1) k(1)] Cons.prems(1) counts(1) Allow show ?thesis by (auto simp: k(2))
  next
    case Deny
    have "wrong_entries cfg base ts (st\<lparr>win_device_user_code := m\<rparr>) = (n, st')"
      using Cons.prems(4) by (simp add: step Deny)
    from Cons.IH [OF _ _ _ this] Cons.prems(1,2) counts(2) Deny show ?thesis by auto
  qed
qed simp

text \<open>
  Entries handled one after the other: in one window at most the capacity divided by the cost of a
  failure, rounded up, are looked up and found wrong; twenty with the default numbers.
\<close>
theorem sequential_wrong_entries_bounded:
  assumes "\<forall>t \<in> set ts. window_index cfg base t = i" and "window_open i st"
  shows "fst (wrong_entries cfg base ts st) * Suc (unat (device_user_code_failure_cost cfg)) <
    unat (device_user_code_capacity cfg) + Suc (unat (device_user_code_failure_cost cfg))"
proof -
  let ?n = "fst (wrong_entries cfg base ts st)"
  have same: "?n = fst (wrong_entries cfg base ts (roll_to i st))"
    using assms(1) by (cases ts) (simp_all add: check_at_def)
  have "unat (win_device_user_code (roll_to i st)) = min (unat (device_user_code_capacity cfg)) 0"
    using assms(2) by (auto simp: window_open_def roll_to_def window_default_def)
  from wrong_entries_bound [OF assms(1) roll_to_index this prod.collapse [symmetric]] show ?thesis
    by (auto simp: same)
qed

theorem sequential_wrong_entries_bounded_witness:
  "fst (wrong_entries rate_limit_config_default 0 (replicate 1000 0) window_default) * 10 < 210"
proof -
  have zero: "window_index rate_limit_config_default 0 0 = 0" by (simp add: window_index_def)
  have "\<forall>t \<in> set (replicate 1000 0). window_index rate_limit_config_default 0 t = 0"
    and "window_open 0 window_default" by (simp_all add: zero window_open_def)
  from sequential_wrong_entries_bounded [OF this] show ?thesis
    by (simp add: rate_limit_config_default_def limiter_constants)
qed

text \<open>
  Entries in flight together: the penalty is recorded only after the lookup, so a burst that checks
  before any of it has recorded is admitted up to the whole capacity, and every entry of it may be
  wrong: two hundred with the default numbers, in one window.
\<close>

lemma burst_checks:
  assumes "window_index cfg base t = win_index st"
    and "unat (win_device_user_code st) + n \<le> unat (device_user_code_capacity cfg)"
  shows "fst (limiter_run cfg base (replicate n (LcCheck AtDeviceUserCodeEntry, t)) st) =
    replicate n (Checked AtDeviceUserCodeEntry Allow)"
  using assms
proof (induction n arbitrary: st)
  case (Suc n)
  let ?cap = "device_user_code_capacity cfg"
  obtain d m where c: "charge (win_device_user_code st) ?cap ATTEMPT_COST = (d, m)"
    by (cases "charge (win_device_user_code st) ?cap ATTEMPT_COST")
  have full: "unat (win_device_user_code st) = min (unat ?cap) (unat (win_device_user_code st))"
    using Suc.prems(2) by simp
  note counts = charge_counts [OF full c]
  have d: "d = Allow" using counts(1) Suc.prems(2) by simp
  have step: "check_at cfg base AtDeviceUserCodeEntry t st = (Allow, st\<lparr>win_device_user_code := m\<rparr>)"
    using Suc.prems(1) c d by (simp add: check_at_def)
  show ?case
    using Suc.IH [of "st\<lparr>win_device_user_code := m\<rparr>"] counts(2) d Suc.prems
    by (auto simp: step split: prod.splits)
qed simp

lemma burst_records:
  "fst (limiter_run cfg base (replicate n (LcRecord a out, t)) st) = replicate n (Recorded a out)"
  by (induction n arbitrary: st) (simp_all add: split_beta)

theorem concurrent_wrong_entries:
  assumes "n \<le> unat (device_user_code_capacity cfg)" and "window_index cfg base t = 0"
  shows "\<exists>h st. limiter_run cfg base (replicate n (LcCheck AtDeviceUserCodeEntry, t) @
      replicate n (LcRecord AtDeviceUserCodeEntry Failed, t)) window_default = (h, st) \<and>
    admitted AtDeviceUserCodeEntry h = n \<and> recorded_failures AtDeviceUserCodeEntry h = n"
proof -
  let ?checks = "replicate n (LcCheck AtDeviceUserCodeEntry, t)"
  have "fst (limiter_run cfg base ?checks window_default) = replicate n (Checked AtDeviceUserCodeEntry Allow)"
    by (rule burst_checks) (simp_all add: assms window_default_def)
  then show ?thesis
    by (auto simp: limiter_run_append split_beta burst_records admitted_def recorded_failures_def filter_replicate)
qed

theorem concurrent_wrong_entries_witness:
  "\<exists>h st. limiter_run rate_limit_config_default 0 (replicate 200 (LcCheck AtDeviceUserCodeEntry, 0) @
      replicate 200 (LcRecord AtDeviceUserCodeEntry Failed, 0)) window_default = (h, st) \<and>
    admitted AtDeviceUserCodeEntry h = 200 \<and> recorded_failures AtDeviceUserCodeEntry h = 200"
  by (rule concurrent_wrong_entries)
    (simp_all add: window_index_def rate_limit_config_default_def limiter_constants)

end
