(* ===== verification/Host.thy ===== *)
theory Host
  imports Rate_Limit
begin

text \<open>
  A concrete embedding host: the in-memory store, a clock, a supply of random bytes that can run
  dry, an event log and, when one is installed, the bundled rate limiter with its monotonic clock. Every theorem about an abstract host is instantiated on it, and the
  concrete runs of the development execute on it.
\<close>

record world =
  w_mem :: memory
  w_time :: system_time
  w_entropy :: "byte list"
  w_events :: "event list"
  w_limits :: window
  w_instant :: instant

definition lift_op :: "(memory, 'r) op \<Rightarrow> (world, 'r) op" where
  "lift_op f w = (case f (w_mem w) of (r, m) \<Rightarrow> (r, w\<lparr>w_mem := m\<rparr>))"

lemma lift_op_simps [simp]:
  "fst (lift_op f w) = fst (f (w_mem w))"
  "w_mem (snd (lift_op f w)) = snd (f (w_mem w))"
  by (simp_all add: lift_op_def split: prod.splits)

definition lift_storage :: "memory storage \<Rightarrow> world storage" where
  "lift_storage st = \<lparr>
     st_get_client = (\<lambda>a. lift_op (st_get_client st a)),
     st_put_client = (\<lambda>a. lift_op (st_put_client st a)),
     st_cas_client = (\<lambda>a b. lift_op (st_cas_client st a b)),
     st_delete_client = (\<lambda>a b. lift_op (st_delete_client st a b)),
     st_put_device_grant = (\<lambda>a. lift_op (st_put_device_grant st a)),
     st_get_device_grant = (\<lambda>a. lift_op (st_get_device_grant st a)),
     st_find_device_grant = (\<lambda>a. lift_op (st_find_device_grant st a)),
     st_take_device_grant = (\<lambda>a. lift_op (st_take_device_grant st a)),
     st_cas_device_grant = (\<lambda>a b. lift_op (st_cas_device_grant st a b)),
     st_put_code = (\<lambda>a. lift_op (st_put_code st a)),
     st_cas_code = (\<lambda>a b. lift_op (st_cas_code st a b)),
     st_take_code = (\<lambda>a. lift_op (st_take_code st a)),
     st_put_pushed = (\<lambda>a. lift_op (st_put_pushed st a)),
     st_take_pushed = (\<lambda>a. lift_op (st_take_pushed st a)),
     st_put_token = (\<lambda>a. lift_op (st_put_token st a)),
     st_get_token = (\<lambda>a. lift_op (st_get_token st a)),
     st_delete_token = (\<lambda>a. lift_op (st_delete_token st a)),
     st_put_refresh = (\<lambda>a. lift_op (st_put_refresh st a)),
     st_get_refresh = (\<lambda>a. lift_op (st_get_refresh st a)),
     st_rotate_refresh = (\<lambda>a b c d. lift_op (st_rotate_refresh st a b c d)),
     st_take_refresh = (\<lambda>a. lift_op (st_take_refresh st a)),
     st_revoke_family = (\<lambda>a b. lift_op (st_revoke_family st a b)),
     st_put_consent = (\<lambda>a. lift_op (st_put_consent st a)),
     st_cas_consent = (\<lambda>a b. lift_op (st_cas_consent st a b)),
     st_get_consent = (\<lambda>a. lift_op (st_get_consent st a)),
     st_find_consent = (\<lambda>a b. lift_op (st_find_consent st a b)),
     st_consents_for_subject = (\<lambda>a. lift_op (st_consents_for_subject st a)),
     st_revoke_consent = (\<lambda>a b. lift_op (st_revoke_consent st a b)),
     st_claim_replay_id = (\<lambda>a b. lift_op (st_claim_replay_id st a b)),
     st_sweep_expired = (\<lambda>a. lift_op (st_sweep_expired st a))\<rparr>"

lemma world_same_mem [simp]: "w\<lparr>w_mem := w_mem w\<rparr> = w"
  by (cases w) simp

text \<open>Running one store call on the in-memory store.\<close>

lemma run_store_mem [simp]:
  "run (store_op (lift_op f)) w = (fst (f (w_mem w)), w\<lparr>w_mem := snd (f (w_mem w))\<rparr>)"
  by (simp add: store_op_def lift_op_def split: prod.split)

lemmas host_ops = lift_storage_def mem_storage_def

abbreviation on_mem :: "(memory \<Rightarrow> memory \<Rightarrow> bool) \<Rightarrow> world \<Rightarrow> world \<Rightarrow> bool" where
  "on_mem T w w' \<equiv> T (w_mem w) (w_mem w')"

lemma lift_auth_steps: "storage_auth_steps st T \<Longrightarrow> storage_auth_steps (lift_storage st) (on_mem T)"
  by (simp add: storage_auth_steps_def lift_storage_def)

lemma lift_core_steps:
  assumes "storage_core_steps st T"
  shows "storage_core_steps (lift_storage st) (on_mem T)"
proof -
  note ops = storage_core_steps.op_steps [OF assms] storage_core_steps.rotate_refresh [OF assms]
  show ?thesis by unfold_locales (simp_all add: lift_storage_def ops)
qed

lemma lift_code_steps: "storage_code_steps st T \<Longrightarrow> storage_code_steps (lift_storage st) (on_mem T)"
  by (simp add: storage_code_steps_def storage_code_steps_axioms_def lift_core_steps)
    (simp add: lift_storage_def)

lemma lift_device_steps: "storage_device_steps st T \<Longrightarrow> storage_device_steps (lift_storage st) (on_mem T)"
  by (simp add: storage_device_steps_def storage_device_steps_axioms_def lift_core_steps)
    (simp add: lift_storage_def)

lemma lift_pushed_steps: "storage_pushed_steps st T \<Longrightarrow> storage_pushed_steps (lift_storage st) (on_mem T)"
  by (simp add: storage_pushed_steps_def storage_pushed_steps_axioms_def lift_core_steps)
    (simp add: lift_storage_def)

text \<open>What does not change while a host runs.\<close>

record platform =
  pf_config :: server_config
  pf_lib :: crates
  pf_details_de :: "string \<Rightarrow> authorization_detail list option"
  pf_backend :: "jws_alg \<Rightarrow> jwk \<Rightarrow> byte list \<Rightarrow> byte list \<Rightarrow> bool"
  pf_sign :: "jwk \<Rightarrow> byte list \<Rightarrow> string + byte list"
  pf_limiter :: "fixed_window_rate_limiter option"
  pf_secret_verifier :: "secret_verifier option"
  pf_jws_verifiers :: "jws_verifiers option"
  pf_draw_bound :: nat
  pf_request_object_keys :: "(client_id \<Rightarrow> request_object_key option) option"
  pf_float :: "string \<Rightarrow> rat"
  pf_registration_policy :: "(registration_attempt \<Rightarrow> registration_decision) option"

definition draw :: "nat \<Rightarrow> world \<Rightarrow> byte list option \<times> world" where
  "draw n w =
     (if n \<le> length (w_entropy w)
      then (Some (take n (w_entropy w)), w\<lparr>w_entropy := drop n (w_entropy w)\<rparr>) else (None, w))"

definition host_limiter :: "fixed_window_rate_limiter \<Rightarrow> world rate_limiter" where
  "host_limiter l = \<lparr>
     rl_check = (\<lambda>a w. case limiter_check l (w_instant w) a (w_limits w) of (d, st) \<Rightarrow> (d, w\<lparr>w_limits := st\<rparr>)),
     rl_record = (\<lambda>a out w. w\<lparr>w_limits := limiter_record l (w_instant w) a out (w_limits w)\<rparr>)\<rparr>"

definition host :: "platform \<Rightarrow> world server" where
  "host pf = \<lparr>srv_config = pf_config pf, srv_store = lift_storage mem_storage,
     srv_clock = (\<lambda>w. (w_time w, w)), srv_random = draw,
     srv_sign = (\<lambda>key msg w. (pf_sign pf key msg, w)),
     srv_hooks = \<lparr>hk_events = Some (\<lambda>e w. w\<lparr>w_events := w_events w @ [e]\<rparr>),
       hk_rate_limiter = map_option host_limiter (pf_limiter pf),
       hk_secret_verifier = pf_secret_verifier pf, hk_jws_verifiers = pf_jws_verifiers pf,
       hk_request_object_keys = pf_request_object_keys pf,
       hk_registration_policy = map_option (\<lambda>p attempt w. (p attempt, w)) (pf_registration_policy pf)\<rparr>,
     srv_lib = pf_lib pf, srv_details_de = pf_details_de pf, srv_backend = pf_backend pf,
     srv_draw_bound = pf_draw_bound pf, srv_float = pf_float pf\<rparr>"

lemma host_sel [simp]:
  "srv_config (host pf) = pf_config pf"
  "srv_store (host pf) = lift_storage mem_storage"
  "srv_lib (host pf) = pf_lib pf"
  by (simp_all add: host_def)

text \<open>Outside the store a host's calls do not touch the store.\<close>

lemma host_auth_steps:
  assumes "storage_auth_steps mem_storage T" and refl: "\<And>m. T m m"
  shows "server_auth_steps (host pf) (on_mem T)"
proof -
  have st: "storage_auth_steps (srv_store (host pf)) (on_mem T)"
    by (simp add: lift_auth_steps assms(1))
  show ?thesis
    by (rule server_auth_steps.intro [OF st], unfold_locales) (auto simp: host_def draw_def host_limiter_def refl split: prod.split)
qed

lemma host_core_steps:
  assumes "storage_core_steps mem_storage T" and "\<And>m. T m m"
  shows "server_core_steps (host pf) (on_mem T)"
proof -
  have auth: "server_auth_steps (host pf) (on_mem T)"
    by (intro host_auth_steps storage_core_steps.axioms(1) [OF assms(1)] assms(2))
  have st: "storage_core_steps (srv_store (host pf)) (on_mem T)"
    by (simp add: lift_core_steps assms(1))
  show ?thesis
    by (rule server_core_steps.intro [OF auth st], unfold_locales) (auto simp: host_def draw_def host_limiter_def assms(2) split: prod.split)
qed

lemma host_code_steps:
  assumes "storage_code_steps mem_storage T" and "\<And>m. T m m"
  shows "server_code_steps (host pf) (on_mem T)"
  by (intro server_code_steps.intro host_core_steps assms storage_code_steps.axioms(1) [OF assms(1)])
    (simp add: lift_code_steps assms(1))

lemma host_device_steps:
  assumes "storage_device_steps mem_storage T" and "\<And>m. T m m"
  shows "server_device_steps (host pf) (on_mem T)"
  by (intro server_device_steps.intro host_core_steps assms storage_device_steps.axioms(1) [OF assms(1)])
    (simp add: lift_device_steps assms(1))

lemma host_pushed_steps:
  assumes "storage_pushed_steps mem_storage T" and "\<And>m. T m m"
  shows "server_pushed_steps (host pf) (on_mem T)"
  by (intro server_pushed_steps.intro host_core_steps assms storage_pushed_steps.axioms(1) [OF assms(1)])
    (simp add: lift_pushed_steps assms(1))

lemma host_server_steps:
  assumes "storage_steps mem_storage T" and "\<And>m. T m m"
  shows "server_steps (host pf) (on_mem T)"
proof -
  note parts = storage_steps.axioms [OF assms(1)]
  have "storage_steps (srv_store (host pf)) (on_mem T)"
    by (simp add: storage_steps_def lift_code_steps lift_device_steps lift_pushed_steps parts)
  then show ?thesis
    by (intro server_steps.intro host_code_steps host_device_steps host_pushed_steps parts assms(2))
qed

interpretation host_dead:
  server_steps "host pf" "\<lambda>w w'. scope_dead b at0 til (w_mem w) \<longrightarrow> scope_dead b at0 til (w_mem w')"
  for pf b at0 til
  by (rule host_server_steps [OF dead.storage_steps_axioms]) simp

interpretation host_index: server_steps "host pf" "\<lambda>w w'. index_ok (w_mem w) \<longrightarrow> index_ok (w_mem w')" for pf
  by (rule host_server_steps [OF index.storage_steps_axioms]) simp

section \<open>Concrete instances\<close>

definition sample_platform :: platform where
  "sample_platform = \<lparr>pf_config = config_new ''https://as'' ''https://as/device'',
     pf_lib = sample_crates, pf_details_de = (\<lambda>_. None), pf_backend = (\<lambda>_ _ _ _. True),
     pf_sign = (\<lambda>_ _. Ok []), pf_limiter = Some \<lparr>frl_config = rate_limit_config_default, frl_base = 0\<rparr>, pf_secret_verifier = None,
     pf_jws_verifiers = None, pf_draw_bound = 8,
     pf_request_object_keys = None, pf_float = (\<lambda>_. 0), pf_registration_policy = None\<rparr>"

definition sample_client :: client where
  "sample_client = \<lparr>cl_client_id = ClientId ''c1'', cl_auth = ConfidentialSecret ''s3cret'',
     cl_grant_types = [AuthorizationCode, RefreshToken, ClientCredentials, DeviceCode],
     cl_redirect_uris = [''https://app/cb''],
     cl_allowed_scopes = (case scope_parse ''read write'' of Inr s \<Rightarrow> s | Inl _ \<Rightarrow> scope_empty),
     cl_default_scopes = (case scope_parse ''read'' of Inr s \<Rightarrow> s | Inl _ \<Rightarrow> scope_empty),
     cl_name = None, cl_registration = None\<rparr>"

definition sample_world :: world where
  "sample_world = \<lparr>w_mem = memory_new\<lparr>m_clients := fmupd ''c1'' sample_client fmempty\<rparr>,
     w_time = 1000 * 1000000000, w_entropy = replicate 512 7, w_events = [], w_limits = window_default, w_instant = 0\<rparr>"

definition narrow_platform :: platform where
  "narrow_platform = sample_platform\<lparr>pf_config := (pf_config sample_platform)
     \<lparr>cfg_allowed_resources := Some [''https://a'', ''https://b'']\<rparr>\<rparr>"

lemma narrow_platform_allows:
  "cfg_allowed_resources (pf_config narrow_platform) = Some [''https://a'', ''https://b'']"
  by (simp add: narrow_platform_def)

theorem validate_resources_sound_witness:
  "\<exists>res. validate_resources (host narrow_platform) [''https://a'', ''https://a''] = Ok res \<and>
     distinct res \<and> set res = {''https://a''}"
proof -
  have "is_valid_resource_indicator ''https://a''" by code_simp
  then have "validate_resources (host narrow_platform) [''https://a'', ''https://a''] = Ok [''https://a'']"
    by (simp add: validate_resources_def MAX_RESOURCE_INDICATORS_def target_is_permitted_def narrow_platform_allows)
  with validate_resources_sound [OF this] show ?thesis by simp
qed

theorem narrow_and_permit_sound_witness:
  "\<exists>res. narrow_and_permit (host narrow_platform) [''https://a'', ''https://old''] [] = Ok res \<and>
     set res \<subseteq> {''https://a'', ''https://old''} \<and> res = [''https://a'']"
proof -
  have "narrow_and_permit (host narrow_platform) [''https://a'', ''https://old''] [] = Ok [''https://a'']"
    by (simp add: narrow_and_permit_def narrow_resources_def target_is_permitted_def narrow_platform_allows)
  with narrow_and_permit_sound [OF this] show ?thesis by simp
qed

end
