(* ===== verification/Device_Endpoint.thy ===== *)
theory Device_Endpoint
  imports Client_Auth Host
begin

text \<open>
  The device authorization endpoint and the user's decision (\<^verbatim>\<open>server.rs\<close>:
  \<^verbatim>\<open>device_authorization_with_credential\<close>, \<^verbatim>\<open>unique_user_code\<close>, \<^verbatim>\<open>approve_device\<close>, \<^verbatim>\<open>deny_device\<close>), with
  the scope resolution every grant shares.

  \<^verbatim>\<open>random_user_code\<close> redraws 64-byte buffers until enough bytes were below the rejection bound; that
  loop has no bound in the code. The model draws at most \<open>srv_draw_bound\<close> buffers and then answers as
  if the randomness source had failed; \<open>random_user_code_returns\<close> shows when the bound is enough.
\<close>

section \<open>Scope resolution\<close>

definition granted_default_scope :: "client \<Rightarrow> scope_set" where
  "granted_default_scope c =
     (if is_subset (cl_default_scopes c) (cl_allowed_scopes c) then cl_default_scopes c
      else case scope_from_tokens (map as_str
                  (filter (\<lambda>s. scope_contains (cl_allowed_scopes c) (as_str s)) (tokens (cl_default_scopes c)))) of
        Inr s \<Rightarrow> s
      | Inl _ \<Rightarrow> scope_empty)"

definition err_scope_exceeds_registration :: error_response where
  "err_scope_exceeds_registration = fail_with InvalidScope ''requested scope exceeds the client registration''"

definition resolve_scope :: "client \<Rightarrow> scope_set option \<Rightarrow> error_response + scope_set" where
  "resolve_scope c requested =
     (case requested of
        None \<Rightarrow> Ok (granted_default_scope c)
      | Some s \<Rightarrow>
          if is_subset s (cl_allowed_scopes c) then Ok s else Err err_scope_exceeds_registration)"

section \<open>User codes\<close>

primrec random_user_code_loop :: "'s server \<Rightarrow> nat \<Rightarrow> nat \<Rightarrow> string \<Rightarrow> ('s, string option) prog" where
  "random_user_code_loop srv 0 len out = Done (if length out < len then None else Some out)"
| "random_user_code_loop srv (Suc n) len out =
     (if length out < len then
        pbind (act (srv_random srv 64)) (\<lambda>buf.
        case buf of
          None \<Rightarrow> Done None
        | Some bytes \<Rightarrow> random_user_code_loop srv n len (user_code_fill len out bytes))
      else Done (Some out))"

definition random_user_code :: "'s server \<Rightarrow> nat \<Rightarrow> ('s, string option) prog" where
  "random_user_code srv len = random_user_code_loop srv (srv_draw_bound srv) len []"

definition err_user_code :: error_response where
  "err_user_code = fail_with ServerError ''could not allocate an unused user code''"

primrec unique_user_code_loop :: "'s server \<Rightarrow> nat \<Rightarrow> nat \<Rightarrow> ('s, error_response + string) prog" where
  "unique_user_code_loop srv len 0 = Done (Err err_user_code)"
| "unique_user_code_loop srv len (Suc n) =
     pbind (random_user_code srv len) (\<lambda>r.
     pure_try (ok_or randomness_error r) (\<lambda>raw.
     stored (st_find_device_grant (srv_store srv) raw) (\<lambda>found.
     if found = None then Done (Ok (display_user_code raw))
     else unique_user_code_loop srv len n)))"

definition user_code_len :: "'s server \<Rightarrow> nat" where
  "user_code_len srv = max (cfg_user_code_length (srv_config srv)) MIN_USER_CODE_LENGTH"

definition unique_user_code :: "'s server \<Rightarrow> ('s, error_response + string) prog" where
  "unique_user_code srv = unique_user_code_loop srv (user_code_len srv) USER_CODE_GENERATION_ATTEMPTS"

section \<open>The device authorization request\<close>

definition err_no_device_grant :: error_response where
  "err_no_device_grant =
     fail_with UnauthorizedClient ''client registration does not include the device_code grant''"

definition verification_uri_complete :: "server_config \<Rightarrow> string \<Rightarrow> string option" where
  "verification_uri_complete cfg user_code =
     (if cfg_include_verification_uri_complete cfg
      then Some (cfg_verification_uri cfg @ [query_separator (cfg_verification_uri cfg)] @ ''user_code='' @ user_code)
      else None)"

definition device_authorization_with_credential ::
  "'s server \<Rightarrow> client_id \<Rightarrow> client_credential \<Rightarrow> scope_set option \<Rightarrow>
     ('s, error_response + device_authorization_response) prog" where
  "device_authorization_with_credential srv cid cred requested_scope =
     (let cfg = srv_config srv in
      pbind (now srv) (\<lambda>created_at.
      ptry (authenticate_client srv cid cred) (\<lambda>c.
      if \<not> allows_grant c DeviceCode then Done (Err err_no_device_grant)
      else pure_try (resolve_scope c requested_scope) (\<lambda>scope.
      pbind (now srv) (\<lambda>t.
      pbind (try_random_hex srv 32) (\<lambda>r.
      pure_try (ok_or randomness_error r) (\<lambda>device_code.
      ptry (unique_user_code srv) (\<lambda>user_code.
      stored (st_put_device_grant (srv_store srv)
        \<lparr>dg_device_code = device_code, dg_user_code = user_code, dg_client_id = cl_client_id c,
         dg_scope = scope, dg_state = Pending, dg_created_at = created_at,
         dg_expires_at = saturating_deadline t (cfg_device_code_ttl cfg),
         dg_interval = cfg_poll_interval cfg, dg_last_poll_at = None\<rparr>) (\<lambda>_.
      Done (Ok \<lparr>dar_device_code = device_code, dar_user_code = user_code,
                dar_verification_uri = cfg_verification_uri cfg,
                dar_verification_uri_complete = verification_uri_complete cfg user_code,
                dar_expires_in = cfg_device_code_ttl cfg div nanos_per_sec,
                dar_interval = cfg_poll_interval cfg div nanos_per_sec\<rparr>))))))))))"

definition device_authorization ::
  "'s server \<Rightarrow> client_id \<Rightarrow> string option \<Rightarrow> scope_set option \<Rightarrow>
     ('s, error_response + device_authorization_response) prog" where
  "device_authorization srv cid client_secret requested_scope =
     device_authorization_with_credential srv cid (credential_secret client_secret) requested_scope"

section \<open>The user's decision\<close>

datatype device_approval_error =
    DaUnknownUserCode | DaExpired | DaNotPending | DaRateLimited | DaStorage storage_error

definition lookup_pending_grant_by_user_code ::
  "'s server \<Rightarrow> string \<Rightarrow> ('s, device_approval_error + device_grant) prog" where
  "lookup_pending_grant_by_user_code srv entered =
     ptry_map DaStorage (store_op (st_find_device_grant (srv_store srv) (normalize_user_code entered))) (\<lambda>found.
     pure_try (ok_or DaUnknownUserCode found) (\<lambda>grant.
     pbind (now srv) (\<lambda>t.
     if dg_expires_at grant \<le> t then
       pbind (store_op (st_take_device_grant (srv_store srv) (dg_device_code grant))) (\<lambda>_. Done (Err DaExpired))
     else if dg_state grant \<noteq> Pending then Done (Err DaNotPending)
     else Done (Ok grant))))"

definition pending_grant_by_user_code ::
  "'s server \<Rightarrow> string \<Rightarrow> ('s, device_approval_error + device_grant) prog" where
  "pending_grant_by_user_code srv entered =
     pbind (hooks_check (srv_hooks srv) AtDeviceUserCodeEntry) (\<lambda>d.
     if d = Deny then Done (Err DaRateLimited)
     else pbind (lookup_pending_grant_by_user_code srv entered) (\<lambda>outcome.
       pbind (hooks_record (srv_hooks srv) AtDeviceUserCodeEntry
         (case outcome of Inr _ \<Rightarrow> Succeeded | Inl _ \<Rightarrow> Failed)) (\<lambda>_. Done outcome)))"

definition approve_device :: "'s server \<Rightarrow> string \<Rightarrow> string \<Rightarrow> ('s, device_approval_error + unit) prog" where
  "approve_device srv entered subject =
     ptry (pending_grant_by_user_code srv entered) (\<lambda>grant.
     ptry_map DaStorage (store_op (st_cas_device_grant (srv_store srv) Pending
       (grant\<lparr>dg_state := Approved subject\<rparr>))) (\<lambda>swapped.
     if \<not> swapped then Done (Err DaNotPending)
     else pbind (emit (srv_hooks srv) (EvDeviceGrantApproved (cid_str (dg_client_id grant)) subject)) (\<lambda>_.
       Done (Ok ()))))"

definition deny_device :: "'s server \<Rightarrow> string \<Rightarrow> ('s, device_approval_error + unit) prog" where
  "deny_device srv entered =
     ptry (pending_grant_by_user_code srv entered) (\<lambda>grant.
     ptry_map DaStorage (store_op (st_cas_device_grant (srv_store srv) Pending
       (grant\<lparr>dg_state := Denied\<rparr>))) (\<lambda>swapped.
     if \<not> swapped then Done (Err DaNotPending)
     else pbind (emit (srv_hooks srv) (EvDeviceGrantDenied (cid_str (dg_client_id grant)))) (\<lambda>_.
       Done (Ok ()))))"

section \<open>Transitions\<close>

context server_core_steps
begin

lemma keeps_random_user_code_loop: "steps T (random_user_code_loop srv n len out)"
  by (induction n arbitrary: out) (auto split: option.split intro!: keeps_rules)

lemma keeps_random_user_code: "steps T (random_user_code srv len)"
  unfolding random_user_code_def by (rule keeps_random_user_code_loop)

lemma keeps_unique_user_code: "steps T (unique_user_code srv)"
proof -
  have "steps T (unique_user_code_loop srv len n)" for len n
    by (induction n) (auto intro!: keeps_rules keeps_random_user_code)
  then show ?thesis by (simp add: unique_user_code_def)
qed

lemma keeps_pending_grant: "steps T (pending_grant_by_user_code srv entered)"
  unfolding pending_grant_by_user_code_def lookup_pending_grant_by_user_code_def
  by (auto intro!: keeps_rules)

lemma keeps_approve_device: "steps T (approve_device srv entered subject)"
  unfolding approve_device_def by (auto intro!: keeps_rules keeps_pending_grant)

lemma keeps_deny_device: "steps T (deny_device srv entered)"
  unfolding deny_device_def by (auto intro!: keeps_rules keeps_pending_grant)

end

context server_device_steps
begin

lemma keeps_device_authorization: "steps T (device_authorization_with_credential srv cid cred sc)"
  unfolding device_authorization_with_credential_def Let_def
  by (auto intro!: keeps_device_rules keeps_authenticate_client keeps_unique_user_code)

end

section \<open>Scopes never exceed the registration\<close>

lemma granted_default_scope_correct:
  assumes "scope_set_wf (cl_allowed_scopes c)" and "scope_set_wf (cl_default_scopes c)"
  shows "scope_set_wf (granted_default_scope c)"
    and "scope_toks (granted_default_scope c) = scope_toks (cl_default_scopes c) \<inter> scope_toks (cl_allowed_scopes c)"
proof -
  let ?ws = "map as_str (filter (\<lambda>s. scope_contains (cl_allowed_scopes c) (as_str s)) (tokens (cl_default_scopes c)))"
  have "list_all (\<lambda>w. scope_wf (Scope w)) ?ws"
    using assms(2) by (auto simp: scope_set_wf_def list_all_iff)
  then obtain s where s: "scope_from_tokens ?ws = Inr s" by (auto simp: scope_from_tokens_Ok)
  have toks: "scope_toks s = scope_toks (cl_default_scopes c) \<inter> scope_toks (cl_allowed_scopes c)"
    unfolding scope_toks_from_tokens [OF s] by (auto simp: scope_contains_iff scope_toks_def)
  show "scope_set_wf (granted_default_scope c)"
    using assms(2) s by (simp add: granted_default_scope_def scope_from_tokens_wf)
  show "scope_toks (granted_default_scope c) = scope_toks (cl_default_scopes c) \<inter> scope_toks (cl_allowed_scopes c)"
    using assms s toks
    by (auto simp: granted_default_scope_def is_subset_iff_tokens simp flip: scope_toks_subset_iff)
qed

text \<open>
  Scope resolution never exceeds the registration: the resolved scope is within the client's
  allowed scopes, an explicit request is answered with exactly itself or refused, and an omitted one
  with the part of the default that is still allowed.
\<close>
theorem resolve_scope_sound:
  assumes "scope_set_wf (cl_allowed_scopes c)" and "scope_set_wf (cl_default_scopes c)"
    and "case requested of None \<Rightarrow> True | Some s \<Rightarrow> scope_set_wf s"
  shows "case resolve_scope c requested of
      Inr scope \<Rightarrow> scope_set_wf scope \<and> scope_toks scope \<subseteq> scope_toks (cl_allowed_scopes c) \<and>
        scope_toks scope = (case requested of
          Some s \<Rightarrow> scope_toks s
        | None \<Rightarrow> scope_toks (cl_default_scopes c) \<inter> scope_toks (cl_allowed_scopes c))
    | Inl e \<Rightarrow> error e = InvalidScope \<and>
        (case requested of Some s \<Rightarrow> \<not> scope_toks s \<subseteq> scope_toks (cl_allowed_scopes c) | None \<Rightarrow> False)"
proof (cases requested)
  case (Some s)
  then show ?thesis
    using assms by (auto simp: resolve_scope_def is_subset_iff_tokens scope_toks_subset_iff
        err_scope_exceeds_registration_def)
next
  case None
  then show ?thesis
    using granted_default_scope_correct [OF assms(1,2)] by (simp add: resolve_scope_def)
qed

theorem resolve_scope_sound_witness:
  "case resolve_scope sample_client None of
     Inr scope \<Rightarrow> scope_toks scope \<subseteq> scope_toks (cl_allowed_scopes sample_client) | Inl e \<Rightarrow> error e = InvalidScope"
proof -
  have "scope_set_wf (cl_allowed_scopes sample_client)" "scope_set_wf (cl_default_scopes sample_client)"
    by code_simp+
  from resolve_scope_sound [OF this, of None] show ?thesis by (simp split: sum.splits)
qed

section \<open>User codes are well formed and the drawing loop ends\<close>

definition raw_user_code :: "nat \<Rightarrow> string \<Rightarrow> bool" where
  "raw_user_code len raw \<longleftrightarrow> length raw = len \<and> set raw \<subseteq> set USER_CODE_ALPHABET"

lemma random_user_code_loop_ok:
  assumes "length out \<le> len" and "set out \<subseteq> set USER_CODE_ALPHABET"
  shows "always (\<lambda>r. case r of None \<Rightarrow> True | Some raw \<Rightarrow> raw_user_code len raw)
    (random_user_code_loop srv n len out)"
  using assms
proof (induction n arbitrary: out)
  case (Suc n)
  have "always (\<lambda>r. case r of None \<Rightarrow> True | Some raw \<Rightarrow> raw_user_code len raw)
      (random_user_code_loop srv n len (user_code_fill len out bytes))" for bytes
    using Suc.prems by (intro Suc.IH) (simp_all add: user_code_fill_length user_code_fill_alphabet)
  then show ?case
    using Suc.prems by (auto simp: raw_user_code_def split: option.split intro!: always_intros)
qed (auto simp: raw_user_code_def)

lemma random_user_code_ok:
  "always (\<lambda>r. case r of None \<Rightarrow> True | Some raw \<Rightarrow> raw_user_code len raw) (random_user_code srv len)"
  unfolding random_user_code_def by (rule random_user_code_loop_ok) simp_all

text \<open>
  An allocated user code is the display form of a code of the configured length, at least
  eight symbols of the alphabet, and typing it back in any accepted form finds it: normalising the
  displayed code yields the code that was checked to be unused.
\<close>
theorem unique_user_code_sound:
  "always (\<lambda>r. case r of
       Inl e \<Rightarrow> error e = ServerError
     | Inr shown \<Rightarrow> \<exists>raw. shown = display_user_code raw \<and> normalize_user_code shown = raw \<and>
         length raw = max (cfg_user_code_length (srv_config srv)) 8 \<and> set raw \<subseteq> set USER_CODE_ALPHABET)
     (unique_user_code srv)"
proof -
  have "always (\<lambda>r. case r of
       Inl e \<Rightarrow> error e = ServerError
     | Inr shown \<Rightarrow> \<exists>raw. shown = display_user_code raw \<and> raw_user_code len raw)
     (unique_user_code_loop srv len n)" for n len
  proof (induction n)
    case (Suc n)
    show ?case
      unfolding unique_user_code_loop.simps
    proof (rule safe_pbind [OF random_user_code_ok], goal_cases)
      case (1 r)
      then show ?case
        using Suc by (cases r) (auto intro!: always_intros simp: randomness_error_def to_wire_def ok_or_def)
    qed
  qed (simp add: err_user_code_def)
  then show ?thesis
    unfolding unique_user_code_def user_code_len_def MIN_USER_CODE_LENGTH_def
    by (rule safe_mono) (auto simp: raw_user_code_def normalize_display split: sum.splits)
qed

lemma user_code_fill_grows:
  assumes "length out < len" and "\<exists>b \<in> set bytes. b < USER_CODE_REJECT_AT"
  shows "length out < length (user_code_fill len out bytes)"
proof -
  from assms(2) have "filter (\<lambda>b. b < USER_CODE_REJECT_AT) bytes \<noteq> []"
    by (auto simp: filter_empty_conv)
  then have "0 < length (filter (\<lambda>b. b < USER_CODE_REJECT_AT) bytes)" by simp
  then show ?thesis using assms(1) by (simp add: user_code_fill_progress)
qed

lemma random_user_code_loop_returns:
  assumes "length out \<le> len" and "len - length out \<le> n"
    and "64 * (len - length out) \<le> length (w_entropy w)"
    and "\<forall>i < len - length out. \<exists>b \<in> set (take 64 (drop (64 * i) (w_entropy w))). b < USER_CODE_REJECT_AT"
  shows "\<exists>code w'. run (random_user_code_loop (host pf) n len out) w = (Some code, w')"
  using assms
proof (induction n arbitrary: out w)
  case (Suc n)
  show ?case
  proof (cases "length out < len")
    case True
    let ?bytes = "take 64 (w_entropy w)" and ?w = "w\<lparr>w_entropy := drop 64 (w_entropy w)\<rparr>"
    let ?out = "user_code_fill len out ?bytes"
    have "\<exists>b \<in> set ?bytes. b < USER_CODE_REJECT_AT"
      using Suc.prems(4) [rule_format, of 0] True by simp
    then have grow: "length out < length ?out" using True by (rule user_code_fill_grows [rotated])
    have le: "length ?out \<le> len" using Suc.prems(1) by (simp add: user_code_fill_length)
    have blocks: "\<forall>i < len - length ?out. \<exists>b \<in> set (take 64 (drop (64 * i) (w_entropy ?w))). b < USER_CODE_REJECT_AT"
    proof (intro allI impI)
      fix i assume "i < len - length ?out"
      then have "Suc i < len - length out" using grow by linarith
      then show "\<exists>b \<in> set (take 64 (drop (64 * i) (w_entropy ?w))). b < USER_CODE_REJECT_AT"
        using Suc.prems(4) [rule_format, of "Suc i"] by (simp add: add.commute)
    qed
    have enough: "64 \<le> length (w_entropy w)" using Suc.prems(3) True by linarith
    have fuel: "len - length ?out \<le> n" using Suc.prems(2) True grow by linarith
    have "64 * (len - length ?out) \<le> length (w_entropy ?w)" using Suc.prems(3) True grow by simp
    from Suc.IH [OF le fuel this blocks] show ?thesis
      using True enough by (simp add: host_def draw_def)
  qed simp
qed simp

text \<open>
  C26. The drawing loop ends: when each of the next buffers of randomness holds at least one byte
  below the rejection bound, as many buffers as the code has symbols are enough, and the loop
  returns a code of exactly the requested length.
\<close>
theorem random_user_code_returns:
  assumes "len \<le> pf_draw_bound pf" and "64 * len \<le> length (w_entropy w)"
    and "\<forall>i < len. \<exists>b \<in> set (take 64 (drop (64 * i) (w_entropy w))). b < USER_CODE_REJECT_AT"
  shows "\<exists>code w'. run (random_user_code (host pf) len) w = (Some code, w') \<and>
    length code = len \<and> set code \<subseteq> set USER_CODE_ALPHABET"
proof -
  have "\<exists>code w'. run (random_user_code (host pf) len) w = (Some code, w')"
    using random_user_code_loop_returns [of "[]" len "pf_draw_bound pf" w pf] assms
    by (simp add: random_user_code_def host_def)
  then obtain code w' where "run (random_user_code (host pf) len) w = (Some code, w')" by blast
  then show ?thesis
    using always_run [OF random_user_code_ok, of len "host pf" w] by (simp add: raw_user_code_def)
qed

theorem random_user_code_returns_witness:
  "\<exists>code w'. run (random_user_code (host sample_platform) 2) sample_world = (Some code, w') \<and> length code = 2"
proof -
  have "\<forall>i < 2. \<exists>b \<in> set (take 64 (drop (64 * i) (w_entropy sample_world))). b < USER_CODE_REJECT_AT"
    by (simp add: sample_world_def USER_CODE_REJECT_AT_def)
  with random_user_code_returns [of 2 sample_platform sample_world]
  show ?thesis by (auto simp: sample_platform_def sample_world_def)
qed

end
