(* ===== verification/Token_Issue.thy ===== *)
theory Token_Issue
  imports Device_Endpoint
begin

text \<open>
  Issuing tokens (\<^verbatim>\<open>server.rs\<close>: \<^verbatim>\<open>issue\<close>, \<^verbatim>\<open>access_token_signing_input\<close>, \<^verbatim>\<open>commit_refresh_retry\<close>,
  \<^verbatim>\<open>refresh_retry_response\<close>, \<^verbatim>\<open>restore_refresh_token\<close>, \<^verbatim>\<open>undo_issuance\<close>, \<^verbatim>\<open>introspect\<close>). The arguments of
  \<^verbatim>\<open>issue\<close> are the record \<open>issuance\<close>. \<^verbatim>\<open>GrantedDetails\<close> boxes a non-empty detail list or holds nothing;
  here it is the list itself.
\<close>

record bound =
  bd_cred :: client_credential
  bd_jkt :: "string option"

record refresh_chain =
  ch_family_id :: string
  ch_expires_at :: "system_time option"
  ch_retry :: "refresh_token_record option"

record issuance =
  is_client :: client
  is_bound :: bound
  is_grant_type :: grant_type
  is_established_at :: system_time
  is_subject :: "string option"
  is_scope :: scope_set
  is_resource :: "string list"
  is_details :: authorization_details
  is_chain :: "refresh_chain option"
  is_allow_refresh :: bool
  is_authentication :: "authentication option"
  is_actor :: "act_claim option"
  is_ceiling :: "system_time option"

definition granted_narrow ::
  "authorization_details \<Rightarrow> authorization_details \<Rightarrow> error_response + authorization_details" where
  "granted_narrow self requested = (if requested = [] then Ok self else narrow_details self requested)"

definition bound_thumbprint :: "bound \<Rightarrow> certificate_thumbprint option" where
  "bound_thumbprint b = map_option cert_thumbprint (cred_certificate (bd_cred b))"

definition scope_param :: "scope_set \<Rightarrow> string option" where
  "scope_param s = (if scope_is_empty s then None else Some (scope_display s))"

section \<open>JWT access tokens\<close>

definition server_error_of :: "jwt_error + 'a \<Rightarrow> error_response + 'a" where
  "server_error_of r = (case r of Inl _ \<Rightarrow> Err (error_new ServerError) | Inr a \<Rightarrow> Ok a)"

definition resource_audience :: "jwt_config \<Rightarrow> string list \<Rightarrow> audience" where
  "resource_audience jwt resource =
     (case resource of [] \<Rightarrow> jwt_audience jwt | [one] \<Rightarrow> One one | many \<Rightarrow> Many many)"

definition bound_confirmation :: "bound \<Rightarrow> confirmation option" where
  "bound_confirmation b =
     (let cnf = \<lparr>cnf_jkt = bd_jkt b, cnf_x5t_s256 = bound_thumbprint b\<rparr>
      in if confirmation_is_empty cnf then None else Some cnf)"

definition access_token_signing_input ::
  "'s server \<Rightarrow> issuance \<Rightarrow> system_time \<Rightarrow> system_time \<Rightarrow> string \<Rightarrow>
     error_response + (string + (jwt_config \<times> string))" where
  "access_token_signing_input srv q at expires_at jti =
     (case cfg_access_token_format (srv_config srv) of
        Opaque \<Rightarrow> Ok (Inl jti)
      | FormatJwt jwt \<Rightarrow>
          rbind (server_error_of (jwt_unix_seconds expires_at)) (\<lambda>exp.
          rbind (server_error_of (jwt_unix_seconds at)) (\<lambda>iat.
          rbind (server_error_of (jwt_signing_input (srv_lib srv) jwt
            \<lparr>cm_iss = issuer_identifier srv, cm_exp = exp, cm_aud = resource_audience jwt (is_resource q),
             cm_sub = (case is_subject q of Some s \<Rightarrow> s | None \<Rightarrow> cid_str (cl_client_id (is_client q))),
             cm_client_id = cid_str (cl_client_id (is_client q)), cm_iat = iat, cm_jti = jti,
             cm_scope = scope_param (is_scope q), cm_authorization_details = is_details q,
             cm_auth_time = Option.bind (is_authentication q) (\<lambda>a. unix_seconds (auth_time a)),
             cm_acr = Option.bind (is_authentication q) auth_acr,
             cm_cnf = bound_confirmation (is_bound q), cm_act = is_actor q\<rparr>)) (\<lambda>input.
          Ok (Inr (jwt, input))))))"

definition finish_signing :: "'s server \<Rightarrow> jwt_config \<Rightarrow> string \<Rightarrow> ('s, jwt_error + string) prog" where
  "finish_signing srv jwt compact =
     pbind (act (srv_sign srv (jwt_active jwt) (as_bytes compact))) (\<lambda>r.
     case r of
       Inl _ \<Rightarrow> Done (Err (JwtError ''the JWS signer could not sign''))
     | Inr sig \<Rightarrow> Done (Ok (compact @ ''.'' @ b64url_encode (srv_lib srv) sig)))"

section \<open>The records an issuance writes\<close>

definition issue_expires_at :: "server_config \<Rightarrow> system_time \<Rightarrow> system_time option \<Rightarrow> system_time" where
  "issue_expires_at cfg at limit =
     (let ordinary = saturating_deadline at (cfg_access_token_ttl cfg)
      in case limit of Some c \<Rightarrow> min ordinary c | None \<Rightarrow> ordinary)"

definition issues_refresh :: "server_config \<Rightarrow> issuance \<Rightarrow> bool" where
  "issues_refresh cfg q \<longleftrightarrow>
     is_allow_refresh q \<and> cfg_issue_refresh_tokens cfg \<and> allows_grant (is_client q) RefreshToken"

definition issue_family_id :: "server_config \<Rightarrow> issuance \<Rightarrow> byte list \<Rightarrow> string option" where
  "issue_family_id cfg q entropy =
     (case is_chain q of
        Some c \<Rightarrow> Some (ch_family_id c)
      | None \<Rightarrow> if issues_refresh cfg q then Some (hex_encode (take 16 entropy)) else None)"

definition access_record ::
  "server_config \<Rightarrow> issuance \<Rightarrow> byte list \<Rightarrow> system_time \<Rightarrow> string \<Rightarrow> issued_token" where
  "access_record cfg q entropy at access_token =
     \<lparr>tok_access_token = access_token, tok_client_id = cl_client_id (is_client q),
      tok_subject = is_subject q, tok_scope = is_scope q, tok_resource = is_resource q,
      tok_authorization_details = is_details q, tok_issued_at = at,
      tok_grant_established_at = is_established_at q,
      tok_expires_at = issue_expires_at cfg at (is_ceiling q), tok_jkt = bd_jkt (is_bound q),
      tok_x5t_s256 = bound_thumbprint (is_bound q), tok_family_id = issue_family_id cfg q entropy,
      tok_act = is_actor q, tok_authentication = is_authentication q\<rparr>"

definition refresh_record ::
  "server_config \<Rightarrow> issuance \<Rightarrow> byte list \<Rightarrow> system_time \<Rightarrow> refresh_token_record option" where
  "refresh_record cfg q entropy at =
     (if issues_refresh cfg q then
        Some \<lparr>rt_refresh_token = hex_encode (drop 48 entropy), rt_client_id = cl_client_id (is_client q),
          rt_subject = is_subject q, rt_scope = is_scope q, rt_resource = is_resource q,
          rt_authorization_details = is_details q, rt_grant_established_at = is_established_at q,
          rt_expires_at = (case is_chain q of
              Some c \<Rightarrow> ch_expires_at c
            | None \<Rightarrow> map_option (saturating_deadline at) (cfg_refresh_token_ttl cfg)),
          rt_jkt = bd_jkt (is_bound q), rt_x5t_s256 = bound_thumbprint (is_bound q),
          rt_family_id = (case issue_family_id cfg q entropy of Some f \<Rightarrow> f | None \<Rightarrow> []),
          rt_state = Active, rt_retry = None, rt_authentication = is_authentication q\<rparr>
      else None)"

definition seconds_between :: "system_time \<Rightarrow> system_time \<Rightarrow> nat" where
  "seconds_between earlier later =
     (if earlier \<le> later then nat (later - earlier) div nanos_per_sec else 0)"

definition issue_response ::
  "issuance \<Rightarrow> system_time \<Rightarrow> issued_token \<Rightarrow> refresh_token_record option \<Rightarrow> token_response" where
  "issue_response q at access refresh =
     \<lparr>resp_access_token = tok_access_token access,
      resp_token_type = (case bd_jkt (is_bound q) of Some _ \<Rightarrow> Dpop | None \<Rightarrow> Bearer),
      resp_expires_in = seconds_between at (tok_expires_at access),
      resp_refresh_token = map_option rt_refresh_token refresh,
      resp_scope = scope_param (is_scope q), resp_authorization_details = is_details q\<rparr>"

section \<open>Retryable rotation\<close>

definition introspect :: "'s server \<Rightarrow> string \<Rightarrow> ('s, storage_error + issued_token option) prog" where
  "introspect srv access_token =
     ptry (store_op (st_get_token (srv_store srv) access_token)) (\<lambda>found.
     case found of
       None \<Rightarrow> Done (Ok None)
     | Some t \<Rightarrow> pbind (now srv) (\<lambda>n. Done (Ok (if n < tok_expires_at t then Some t else None))))"

definition refresh_retry_response ::
  "'s server \<Rightarrow> refresh_token_record \<Rightarrow> client \<Rightarrow> bound \<Rightarrow> scope_set option \<Rightarrow> string list \<Rightarrow>
     authorization_details \<Rightarrow> ('s, error_response + token_response option) prog" where
  "refresh_retry_response srv record c b requested_scope requested_resources requested_details =
     (case rt_retry record of
        None \<Rightarrow> Done (Ok None)
      | Some retry \<Rightarrow>
          pbind (now srv) (\<lambda>n.
          if retry_until retry \<le> n then Done (Ok None)
          else if rt_client_id record \<noteq> cl_client_id c \<or>
                  (case rt_expires_at record of Some expiry \<Rightarrow> expiry \<le> n | None \<Rightarrow> False) then
            Done (Err (error_new InvalidGrant))
          else if (case retry_jkt retry of Some j \<Rightarrow> Some j | None \<Rightarrow> rt_jkt record) \<noteq> bd_jkt b then
            Done (Err (error_new InvalidDpopProof))
          else if rt_x5t_s256 record \<noteq> bound_thumbprint b then Done (Err (error_new InvalidGrant))
          else ptry_map to_wire (introspect srv (resp_access_token (retry_response retry))) (\<lambda>found.
          pure_try (ok_or (error_new InvalidGrant) found) (\<lambda>token.
          if tok_client_id token \<noteq> rt_client_id record \<or> tok_subject token \<noteq> rt_subject record \<or>
             tok_family_id token \<noteq> Some (rt_family_id record) \<or>
             tok_grant_established_at token \<noteq> rt_grant_established_at record then
            Done (Err (error_new InvalidGrant))
          else if \<not> is_subset (rt_scope record) (cl_allowed_scopes c) \<or>
             (case requested_scope of Some s \<Rightarrow> s | None \<Rightarrow> rt_scope record) \<noteq> tok_scope token then
            Done (Err (error_new InvalidScope))
          else pure_try (narrow_and_permit srv (rt_resource record) requested_resources) (\<lambda>resource.
          if length resource \<noteq> length (tok_resource token) \<or>
             list_ex (\<lambda>r. r \<notin> set (tok_resource token)) resource then
            Done (Err (error_new InvalidTarget))
          else pure_try (granted_narrow (rt_authorization_details record) requested_details) (\<lambda>narrowed.
          if narrowed \<noteq> tok_authorization_details token then
            Done (Err (error_new InvalidAuthorizationDetails))
          else
            let answer = pbind (now srv) (\<lambda>n2. Done (Ok (Some
                  ((retry_response retry)\<lparr>resp_expires_in := seconds_between n2 (tok_expires_at token)\<rparr>))))
            in case resp_refresh_token (retry_response retry) of
                 None \<Rightarrow> answer
               | Some nxt \<Rightarrow>
                   stored (st_get_refresh (srv_store srv) nxt) (\<lambda>r.
                   pure_try (ok_or (error_new InvalidGrant) r) (\<lambda>nxt.
                   if rt_state nxt \<noteq> Active \<or> rt_family_id nxt \<noteq> rt_family_id record then
                     Done (Err (error_new InvalidGrant))
                   else answer))))))))"

definition retry_until_of :: "server_config \<Rightarrow> refresh_token_record \<Rightarrow> issued_token \<Rightarrow> system_time" where
  "retry_until_of cfg expected access =
     min (min (saturating_deadline (tok_issued_at access) (cfg_refresh_retry_window cfg)) (tok_expires_at access))
       (case rt_expires_at expected of Some e \<Rightarrow> e | None \<Rightarrow> tok_expires_at access)"

definition spent_record ::
  "server_config \<Rightarrow> system_time \<Rightarrow> refresh_token_record \<Rightarrow> refresh_token_record" where
  "spent_record cfg at record =
     record\<lparr>rt_state := Spent,
       rt_expires_at := (case rt_expires_at record of
          Some e \<Rightarrow> Some e
        | None \<Rightarrow> Some (saturating_deadline at (cfg_refresh_reuse_window cfg)))\<rparr>"

definition commit_refresh_retry ::
  "'s server \<Rightarrow> refresh_token_record \<Rightarrow> issued_token \<Rightarrow> refresh_token_record option \<Rightarrow> token_response \<Rightarrow>
     client \<Rightarrow> bound \<Rightarrow> ('s, error_response + token_response option) prog" where
  "commit_refresh_retry srv expected access next response c b =
     (let cfg = srv_config srv;
          retry = \<lparr>retry_response = response, retry_until = retry_until_of cfg expected access, retry_jkt = bd_jkt b\<rparr>;
          spent = (spent_record cfg (tok_issued_at access) expected)\<lparr>rt_retry := Some retry\<rparr>;
          next = map_option (\<lambda>n. n\<lparr>rt_retry := Some retry\<rparr>) next
      in stored (st_rotate_refresh (srv_store srv) expected spent access next) (\<lambda>rotated.
         if rotated then Done (Ok None)
         else stored (st_get_refresh (srv_store srv) (rt_refresh_token expected)) (\<lambda>cur.
           pure_try (ok_or (error_new InvalidGrant) cur) (\<lambda>current.
           ptry (refresh_retry_response srv current c b (Some (tok_scope access)) (tok_resource access)
             (tok_authorization_details access)) (\<lambda>r.
           pure_try (ok_or (error_new InvalidGrant) r) (\<lambda>recovered. Done (Ok (Some recovered))))))))"

definition restore_refresh_token ::
  "'s server \<Rightarrow> refresh_token_record \<Rightarrow> ('s, error_response + unit) prog" where
  "restore_refresh_token srv record =
     (if cfg_refresh_retry_window (srv_config srv) \<noteq> 0 then Done (Ok ())
      else stored (st_put_refresh (srv_store srv) record) (\<lambda>_. Done (Ok ())))"

definition undo_issuance :: "'s server \<Rightarrow> string \<Rightarrow> ('s, unit) prog" where
  "undo_issuance srv access_token =
     pbind (store_op (st_delete_token (srv_store srv) access_token)) (\<lambda>_. Done ())"

section \<open>Issuing\<close>

definition err_revoked_while_issuing :: error_response where
  "err_revoked_while_issuing = fail_with InvalidGrant ''the grant was revoked while this token was being issued''"

definition issue_audit :: "'s server \<Rightarrow> issuance \<Rightarrow> issued_token \<Rightarrow> token_response \<Rightarrow> ('s, error_response + token_response) prog" where
  "issue_audit srv q access response =
     pbind (emit (srv_hooks srv) (EvTokenIssued (cid_str (cl_client_id (is_client q))) (is_grant_type q)
       (is_subject q) (is_scope q) (tok_family_id access) (resp_refresh_token response \<noteq> None))) (\<lambda>_.
     Done (Ok response))"

text \<open>The text of the access token: opaque, or signed by the host.\<close>

definition mint_access_token ::
  "'s server \<Rightarrow> issuance \<Rightarrow> system_time \<Rightarrow> byte list \<Rightarrow> ('s, error_response + string) prog" where
  "mint_access_token srv q n entropy =
     pure_try (access_token_signing_input srv q n (issue_expires_at (srv_config srv) n (is_ceiling q))
       (hex_encode (take 32 (drop 16 entropy)))) (\<lambda>prepared.
     case prepared of
       Inl opaque \<Rightarrow> Done (Ok opaque)
     | Inr (jwt, input) \<Rightarrow>
         ptry_map (\<lambda>_. error_new ServerError) (finish_signing srv jwt input) (\<lambda>t. Done (Ok t)))"

text \<open>Storing what was minted: one atomic rotation, or the access token and then the refresh token.\<close>

definition commit_issue ::
  "'s server \<Rightarrow> issuance \<Rightarrow> issued_token \<Rightarrow> refresh_token_record option \<Rightarrow> token_response \<Rightarrow>
     ('s, error_response + token_response) prog" where
  "commit_issue srv q access refresh response =
     (case Option.bind (is_chain q) ch_retry of
        Some expected \<Rightarrow>
          ptry (commit_refresh_retry srv expected access refresh response (is_client q) (is_bound q)) (\<lambda>recovered.
          case recovered of
            Some r \<Rightarrow> Done (Ok r)
          | None \<Rightarrow> issue_audit srv q access response)
      | None \<Rightarrow>
          stored (st_put_token (srv_store srv) access) (\<lambda>outcome.
          if is_refused outcome then Done (Err err_revoked_while_issuing)
          else case refresh of
            None \<Rightarrow> issue_audit srv q access response
          | Some record \<Rightarrow>
              stored (st_put_refresh (srv_store srv) record) (\<lambda>outcome.
              if is_refused outcome then
                pbind (undo_issuance srv (tok_access_token access)) (\<lambda>_. Done (Err err_revoked_while_issuing))
              else issue_audit srv q access response)))"

definition issue :: "'s server \<Rightarrow> issuance \<Rightarrow> ('s, error_response + token_response) prog" where
  "issue srv q =
     (let cfg = srv_config srv in
      pbind (now srv) (\<lambda>n.
      pbind (act (srv_random srv 80)) (\<lambda>drawn.
      pure_try (ok_or randomness_error drawn) (\<lambda>entropy.
      ptry (mint_access_token srv q n entropy) (\<lambda>access_token.
      let access = access_record cfg q entropy n access_token;
          refresh = refresh_record cfg q entropy n
      in commit_issue srv q access refresh (issue_response q n access refresh))))))"

section \<open>Transitions\<close>

text \<open>
  A chain that is retried atomically was read from the record it rotates, so everything the
  rotation writes belongs to that record's family, client, subject and grant.
\<close>

definition chain_consistent :: "issuance \<Rightarrow> bool" where
  "chain_consistent q =
     (case is_chain q of
        None \<Rightarrow> True
      | Some ch \<Rightarrow>
          (case ch_retry ch of
             None \<Rightarrow> True
           | Some e \<Rightarrow> ch_family_id ch = rt_family_id e \<and> cl_client_id (is_client q) = rt_client_id e \<and>
               is_subject q = rt_subject e \<and> is_established_at q = rt_grant_established_at e))"

lemma rotation_shape_issue:
  assumes "is_chain q = Some ch" and "ch_retry ch = Some e" and "chain_consistent q"
  shows "rotation_shape e ((spent_record cfg t e)\<lparr>rt_retry := Some r\<rparr>) (access_record cfg q entropy n tok)
     (map_option (\<lambda>x. x\<lparr>rt_retry := Some r\<rparr>) (refresh_record cfg q entropy n))"
  using assms
  by (simp add: rotation_shape_def spent_record_def access_record_def refresh_record_def
      issue_family_id_def chain_consistent_def split: option.split)

context server_core_steps
begin

lemma keeps_introspect: "steps T (introspect srv tok)"
  unfolding introspect_def by (auto split: option.split intro!: keeps_rules)

lemma keeps_refresh_retry_response: "steps T (refresh_retry_response srv record c b sc rs ds)"
  unfolding refresh_retry_response_def Let_def
  by (auto split: option.split intro!: keeps_rules keeps_introspect)

lemma keeps_commit_refresh_retry:
  assumes "\<And>r. rotation_shape e ((spent_record (srv_config srv) (tok_issued_at access) e)\<lparr>rt_retry := Some r\<rparr>) access
     (map_option (\<lambda>x. x\<lparr>rt_retry := Some r\<rparr>) nxt)"
  shows "steps T (commit_refresh_retry srv e access nxt response c b)"
  unfolding commit_refresh_retry_def Let_def
  by (auto intro!: keeps_rules keeps_refresh_retry_response keeps_rotate assms)

lemma keeps_restore_refresh_token: "steps T (restore_refresh_token srv record)"
  unfolding restore_refresh_token_def by (auto intro!: keeps_rules)

lemma keeps_undo_issuance: "steps T (undo_issuance srv tok)"
  unfolding undo_issuance_def by (auto intro!: keeps_rules)

lemma keeps_finish_signing: "steps T (finish_signing srv jwt input)"
  unfolding finish_signing_def by (auto split: sum.split intro!: keeps_rules)

lemma keeps_issue_audit: "steps T (issue_audit srv q access response)"
  unfolding issue_audit_def by (auto intro!: keeps_rules)

lemma keeps_issue:
  assumes "chain_consistent q"
  shows "steps T (issue srv q)"
proof -
  have commit: "steps T (commit_refresh_retry srv e (access_record (srv_config srv) q entropy n tok)
      nx response c b)"
    if "Option.bind (is_chain q) ch_retry = Some e" and nx: "refresh_record (srv_config srv) q entropy n = nx"
    for e entropy n tok nx response c b
  proof -
    from that(1) obtain ch where ch: "is_chain q = Some ch" "ch_retry ch = Some e"
      by (auto simp: bind_eq_Some_conv)
    show ?thesis unfolding nx [symmetric]
      by (intro keeps_commit_refresh_retry rotation_shape_issue [OF ch assms])
  qed
  show ?thesis
    unfolding issue_def mint_access_token_def commit_issue_def Let_def
    by (auto split: option.split sum.split prod.split
        intro!: keeps_rules keeps_finish_signing keeps_issue_audit keeps_undo_issuance commit)
qed

end

end
