(* ===== verification/Token_Endpoint.thy ===== *)
theory Token_Endpoint
  imports Token_Issue
begin

text \<open>
  The token endpoint (\<^verbatim>\<open>server.rs\<close>: \<^verbatim>\<open>token_with_context\<close> and the four grants it dispatches to). Each
  handler is the whole handler: every store call it makes, in order, with the early returns and the
  records it puts back.
\<close>

datatype token_request =
    TrAuthorizationCode client_id "string option" string "string option" "string option"
  | TrClientCredentials client_id "string option" "scope_set option"
  | TrDeviceCode client_id "string option" string
  | TrRefreshToken client_id "string option" string "scope_set option"

record token_context =
  tc_credential :: client_credential
  tc_resources :: "string list"
  tc_authorization_details :: "string option"
  tc_dpop_proof :: "string option"

definition context_new :: "client_credential \<Rightarrow> token_context" where
  "context_new cred =
     \<lparr>tc_credential = cred, tc_resources = [], tc_authorization_details = None, tc_dpop_proof = None\<rparr>"

definition narrow_grant ::
  "'s server \<Rightarrow> string list \<Rightarrow> authorization_details \<Rightarrow> string list \<Rightarrow> authorization_details \<Rightarrow>
     error_response + (string list \<times> authorization_details)" where
  "narrow_grant srv granted_resource granted_details requested_resources requested_details =
     rbind (narrow_and_permit srv granted_resource requested_resources) (\<lambda>r.
     rbind (granted_narrow granted_details requested_details) (\<lambda>d. Ok (r, d)))"

section \<open>The authorization code grant\<close>

text \<open>A store call whose failure is ignored: \<^verbatim>\<open>let _ = ...\<close>.\<close>

definition ignoring :: "('s, 'r) op \<Rightarrow> ('s, 'b) prog \<Rightarrow> ('s, 'b) prog" where
  "ignoring f k = pbind (store_op f) (\<lambda>_. k)"

definition failed :: "'e + 'a \<Rightarrow> bool" where
  "failed r = (case r of Inl _ \<Rightarrow> True | Inr _ \<Rightarrow> False)"

text \<open>The family revocation of a replay: which family was found, whether it was revoked, whether a
  call failed.\<close>

definition contain_replay ::
  "'s server \<Rightarrow> string option \<Rightarrow> ('s, string option \<times> bool \<times> bool) prog" where
  "contain_replay srv refresh_token =
     (case refresh_token of
        None \<Rightarrow> Done (None, False, False)
      | Some rt \<Rightarrow>
          pbind (store_op (st_get_refresh (srv_store srv) rt)) (\<lambda>found.
          case found of
            Inl _ \<Rightarrow> Done (None, False, True)
          | Inr None \<Rightarrow> Done (None, False, False)
          | Inr (Some rec) \<Rightarrow>
              pbind (revocation_window srv) (\<lambda>w.
              pbind (store_op (st_revoke_family (srv_store srv) (rt_family_id rec) w)) (\<lambda>r.
              Done (Some (rt_family_id rec), \<not> failed r, failed r)))))"

definition replay_detected ::
  "'s server \<Rightarrow> client \<Rightarrow> code_record \<Rightarrow> string option \<Rightarrow> string option \<Rightarrow>
     ('s, error_response + token_response) prog" where
  "replay_detected srv c record access_token refresh_token =
     pbind (contain_replay srv refresh_token) (\<lambda>(revoked_family_id, revoked_family, failed1).
     pbind (if revoked_family then Done False
            else case access_token of
              None \<Rightarrow> Done False
            | Some at \<Rightarrow>
                pbind (store_op (st_delete_token (srv_store srv) at)) (\<lambda>r. Done (failed r))) (\<lambda>failed2.
     pbind (store_op (st_put_code (srv_store srv)
       (record\<lparr>code_state := Replayed access_token refresh_token\<rparr>))) (\<lambda>r.
     pbind (emit (srv_hooks srv) (EvAuthorizationCodeReplayDetected (cid_str (cl_client_id c)) revoked_family_id
       revoked_family (failed1 \<or> failed2 \<or> failed r))) (\<lambda>_.
     Done (Err (error_new InvalidGrant))))))"

definition err_code_expired :: error_response where
  "err_code_expired = fail_with InvalidGrant ''authorization code expired''"

definition err_redirect_uri :: error_response where
  "err_redirect_uri = fail_with InvalidGrant ''redirect_uri does not match the authorization request''"

definition err_code_verifier :: error_response where
  "err_code_verifier =
     fail_with InvalidGrant ''code_verifier does not match the recorded code_challenge''"

definition err_code_dpop :: error_response where
  "err_code_dpop = fail_with InvalidDpopProof
     ''the DPoP proof key does not match the key this authorization code is bound to''"

definition err_redemption_raced :: error_response where
  "err_redemption_raced =
     fail_with InvalidGrant ''this authorization code was replayed or revoked during redemption''"

definition err_redemption_unrecorded :: error_response where
  "err_redemption_unrecorded = fail_with ServerError ''could not record the redemption''"

definition redirect_uri_matches :: "code_record \<Rightarrow> string option \<Rightarrow> bool" where
  "redirect_uri_matches record redirect_uri =
     (case redirect_uri of
        Some u \<Rightarrow> u = code_redirect_uri record
      | None \<Rightarrow> \<not> code_redirect_uri_was_explicit record)"

definition pkce_verified :: "'z crates_scheme \<Rightarrow> code_record \<Rightarrow> string option \<Rightarrow> bool" where
  "pkce_verified lib record code_verifier =
     (case (code_verifier, code_code_challenge_method record) of
        (Some v, S256) \<Rightarrow> verifier_is_valid v \<and> verify_s256 lib v (code_code_challenge record)
      | (None, _) \<Rightarrow> False)"

definition code_issuance ::
  "client \<Rightarrow> bound \<Rightarrow> code_record \<Rightarrow> string list \<Rightarrow> authorization_details \<Rightarrow> issuance" where
  "code_issuance c b record resource details =
     \<lparr>is_client = c, is_bound = b, is_grant_type = AuthorizationCode,
      is_established_at = code_issued_at record, is_subject = Some (code_subject record),
      is_scope = code_scope record, is_resource = resource, is_details = details, is_chain = None,
      is_allow_refresh = True, is_authentication = code_authentication record, is_actor = None,
      is_ceiling = None\<rparr>"

text \<open>From the successful checks on: mark the code consumed, issue, record what was issued.\<close>

definition redeem_code ::
  "'s server \<Rightarrow> client \<Rightarrow> bound \<Rightarrow> code_record \<Rightarrow> string list \<Rightarrow> authorization_details \<Rightarrow>
     ('s, error_response + token_response) prog" where
  "redeem_code srv c b record resource details =
     (let consumed = record\<lparr>code_state := Consumed None None\<rparr> in
      stored (st_put_code (srv_store srv) consumed) (\<lambda>_.
      ptry (issue srv (code_issuance c b record resource details)) (\<lambda>issued.
      pbind (store_op (st_cas_code (srv_store srv) (Consumed None None)
        (consumed\<lparr>code_state := Consumed (Some (resp_access_token issued)) (resp_refresh_token issued)\<rparr>))) (\<lambda>recorded.
      if recorded = Ok True then Done (Ok issued)
      else pbind (undo_issuance srv (resp_access_token issued)) (\<lambda>_.
        let answer = Done (Err (case recorded of
              Inr _ \<Rightarrow> err_redemption_raced | Inl _ \<Rightarrow> err_redemption_unrecorded))
        in case resp_refresh_token issued of
             Some rt \<Rightarrow> ignoring (st_take_refresh (srv_store srv) rt) answer
           | None \<Rightarrow> answer)))))"

text \<open>The code is out of the store: every refusal that leaves it usable puts it back.\<close>

definition redeem_taken_code ::
  "'s server \<Rightarrow> client \<Rightarrow> bound \<Rightarrow> code_record \<Rightarrow> string option \<Rightarrow> string option \<Rightarrow> string list \<Rightarrow>
     authorization_details \<Rightarrow> ('s, error_response + token_response) prog" where
  "redeem_taken_code srv c b record redirect_uri code_verifier requested_resources requested_details =
     (if code_client_id record \<noteq> cl_client_id c then
        stored (st_put_code (srv_store srv) record) (\<lambda>_. Done (Err (error_new InvalidGrant)))
      else case minted (code_state record) of
        Some (access_token, refresh_token) \<Rightarrow> replay_detected srv c record access_token refresh_token
      | None \<Rightarrow>
          pbind (now srv) (\<lambda>n.
          if code_expires_at record \<le> n then Done (Err err_code_expired)
          else if \<not> redirect_uri_matches record redirect_uri then
            ignoring (st_put_code (srv_store srv) record) (Done (Err err_redirect_uri))
          else if \<not> pkce_verified (srv_lib srv) record code_verifier then
            ignoring (st_put_code (srv_store srv) record) (Done (Err err_code_verifier))
          else if (case code_dpop_jkt record of Some j \<Rightarrow> bd_jkt b \<noteq> Some j | None \<Rightarrow> False) then
            ignoring (st_put_code (srv_store srv) record) (Done (Err err_code_dpop))
          else case narrow_grant srv (code_resource record) (code_authorization_details record)
                      requested_resources requested_details of
            Inl e \<Rightarrow> ignoring (st_put_code (srv_store srv) record) (Done (Err e))
          | Inr (resource, details) \<Rightarrow> redeem_code srv c b record resource details))"

definition authorization_code_token ::
  "'s server \<Rightarrow> client_id \<Rightarrow> bound \<Rightarrow> string \<Rightarrow> string option \<Rightarrow> string option \<Rightarrow> string list \<Rightarrow>
     authorization_details \<Rightarrow> ('s, error_response + token_response) prog" where
  "authorization_code_token srv cid b code redirect_uri code_verifier requested_resources requested_details =
     ptry (authenticate_client srv cid (bd_cred b)) (\<lambda>c.
     if \<not> allows_grant c AuthorizationCode then Done (Err (error_new UnauthorizedClient))
     else stored (st_take_code (srv_store srv) code) (\<lambda>found.
     pure_try (ok_or (error_new InvalidGrant) found) (\<lambda>record.
     redeem_taken_code srv c b record redirect_uri code_verifier requested_resources requested_details)))"

section \<open>The client credentials grant\<close>

definition client_credentials_token ::
  "'s server \<Rightarrow> client_id \<Rightarrow> bound \<Rightarrow> scope_set option \<Rightarrow> string list \<Rightarrow> authorization_details \<Rightarrow>
     ('s, error_response + token_response) prog" where
  "client_credentials_token srv cid b requested_scope resource details =
     pbind (now srv) (\<lambda>established_at.
     ptry (authenticate_client srv cid (bd_cred b)) (\<lambda>c.
     if cl_auth c = Public then
       pbind (emit (srv_hooks srv) (EvClientAuthenticationFailed (cid_str cid) NotConfidential)) (\<lambda>_.
       Done (Err (error_new InvalidClient)))
     else if \<not> allows_grant c ClientCredentials then Done (Err (error_new UnauthorizedClient))
     else pure_try (resolve_scope c requested_scope) (\<lambda>scope.
     issue srv \<lparr>is_client = c, is_bound = b, is_grant_type = ClientCredentials,
       is_established_at = established_at, is_subject = None, is_scope = scope, is_resource = resource,
       is_details = details, is_chain = None, is_allow_refresh = False, is_authentication = None,
       is_actor = None, is_ceiling = None\<rparr>)))"

section \<open>The device grant\<close>

definition duration_saturating_add :: "duration \<Rightarrow> duration \<Rightarrow> duration" where
  "duration_saturating_add a b = min (a + b) duration_max"

definition polled_too_soon :: "device_grant \<Rightarrow> system_time \<Rightarrow> bool" where
  "polled_too_soon grant n =
     (case dg_last_poll_at grant of
        None \<Rightarrow> False
      | Some last_poll \<Rightarrow>
          (case time_checked_add last_poll (dg_interval grant) of None \<Rightarrow> True | Some due \<Rightarrow> n < due))"

definition device_token ::
  "'s server \<Rightarrow> client_id \<Rightarrow> bound \<Rightarrow> string \<Rightarrow> ('s, error_response + token_response) prog" where
  "device_token srv cid b device_code =
     ptry (authenticate_client srv cid (bd_cred b)) (\<lambda>c.
     if \<not> allows_grant c DeviceCode then Done (Err (error_new UnauthorizedClient))
     else stored (st_get_device_grant (srv_store srv) device_code) (\<lambda>found.
     pure_try (ok_or (error_new InvalidGrant) found) (\<lambda>grant.
     if dg_client_id grant \<noteq> cl_client_id c then Done (Err (error_new InvalidGrant))
     else pbind (now srv) (\<lambda>n.
     if dg_expires_at grant \<le> n then
       ignoring (st_take_device_grant (srv_store srv) device_code) (Done (Err (error_new ExpiredToken)))
     else if polled_too_soon grant n then
       stored (st_cas_device_grant (srv_store srv) (dg_state grant)
         (grant\<lparr>dg_interval := duration_saturating_add (dg_interval grant) (cfg_slow_down_increment (srv_config srv)),
                dg_last_poll_at := Some n\<rparr>)) (\<lambda>_.
       Done (Err (error_new SlowDown)))
     else case dg_state grant of
       Pending \<Rightarrow>
         stored (st_cas_device_grant (srv_store srv) Pending (grant\<lparr>dg_last_poll_at := Some n\<rparr>)) (\<lambda>_.
         Done (Err (error_new AuthorizationPending)))
     | Denied \<Rightarrow>
         ignoring (st_take_device_grant (srv_store srv) device_code) (Done (Err (error_new AccessDenied)))
     | Approved subject \<Rightarrow>
         stored (st_take_device_grant (srv_store srv) device_code) (\<lambda>r.
         pure_try (ok_or (error_new InvalidGrant) r) (\<lambda>taken.
         issue srv \<lparr>is_client = c, is_bound = b, is_grant_type = DeviceCode,
           is_established_at = dg_created_at taken, is_subject = Some subject, is_scope = dg_scope taken,
           is_resource = [], is_details = [], is_chain = None, is_allow_refresh = True,
           is_authentication = None, is_actor = None, is_ceiling = None\<rparr>))))))"

section \<open>The refresh grant\<close>

definition err_reuse_detected :: error_response where
  "err_reuse_detected =
     fail_with InvalidGrant ''refresh token reuse detected; the grant has been revoked''"

definition err_refresh_dpop :: error_response where
  "err_refresh_dpop = fail_with InvalidDpopProof
     ''this refresh token's DPoP binding does not match the presented proof''"

definition err_refresh_certificate :: error_response where
  "err_refresh_certificate =
     fail_with InvalidGrant ''this refresh token is bound to a different client certificate''"

definition err_chain_expired :: error_response where
  "err_chain_expired = fail_with InvalidGrant ''refresh token chain expired''"

definition err_scopes_withdrawn :: error_response where
  "err_scopes_withdrawn = fail_with InvalidScope
     ''this grant carries scopes the client's registration no longer allows''"

definition err_scope_widened :: error_response where
  "err_scope_widened = fail_with InvalidScope ''refresh may narrow scope, never widen it''"

definition err_revoked_while_refreshing :: error_response where
  "err_revoked_while_refreshing =
     fail_with InvalidGrant ''the grant was revoked while this token was being refreshed''"

definition reuse_detected ::
  "'s server \<Rightarrow> client \<Rightarrow> refresh_token_record \<Rightarrow> ('s, error_response + token_response) prog" where
  "reuse_detected srv c record =
     pbind (revocation_window srv) (\<lambda>w.
     pbind (store_op (st_revoke_family (srv_store srv) (rt_family_id record) w)) (\<lambda>r.
     let answer = (\<lambda>revoked failed.
           pbind (emit (srv_hooks srv) (EvRefreshTokenReuseDetected (cid_str (cl_client_id c))
             (rt_family_id record) revoked failed)) (\<lambda>_.
           Done (Err err_reuse_detected)))
     in case r of
          Inr revoked \<Rightarrow> answer revoked False
        | Inl _ \<Rightarrow> ignoring (st_put_refresh (srv_store srv) record) (answer 0 True)))"

definition dpop_binding_violation :: "client \<Rightarrow> refresh_token_record \<Rightarrow> bound \<Rightarrow> bool" where
  "dpop_binding_violation c record b =
     (if is_confidential (cl_auth c) then (rt_jkt record \<noteq> None) \<noteq> (bd_jkt b \<noteq> None)
      else rt_jkt record \<noteq> bd_jkt b)"

definition refused_restoring ::
  "'s server \<Rightarrow> refresh_token_record \<Rightarrow> error_response \<Rightarrow> ('s, error_response + 'a) prog" where
  "refused_restoring srv record e = ptry (restore_refresh_token srv record) (\<lambda>_. Done (Err e))"

definition refresh_issuance ::
  "client \<Rightarrow> bound \<Rightarrow> refresh_token_record \<Rightarrow> scope_set \<Rightarrow> string list \<Rightarrow> authorization_details \<Rightarrow>
     refresh_token_record option \<Rightarrow> bool \<Rightarrow> issuance" where
  "refresh_issuance c b record scope resource details retry allow_refresh =
     \<lparr>is_client = c, is_bound = b, is_grant_type = RefreshToken,
      is_established_at = rt_grant_established_at record, is_subject = rt_subject record, is_scope = scope,
      is_resource = resource, is_details = details,
      is_chain = Some \<lparr>ch_family_id = rt_family_id record, ch_expires_at = rt_expires_at record, ch_retry = retry\<rparr>,
      is_allow_refresh = allow_refresh, is_authentication = rt_authentication record, is_actor = None,
      is_ceiling = None\<rparr>"

text \<open>The rotation itself, once every check has passed.\<close>

definition rotate_refresh_token ::
  "'s server \<Rightarrow> client \<Rightarrow> bound \<Rightarrow> string \<Rightarrow> refresh_token_record \<Rightarrow> scope_set \<Rightarrow> string list \<Rightarrow>
     authorization_details \<Rightarrow> ('s, error_response + token_response) prog" where
  "rotate_refresh_token srv c b presented record scope resource details =
     (let cfg = srv_config srv in
      if cfg_refresh_rotation cfg = Reuse then
        ptry (issue srv (refresh_issuance c b record scope resource details None False)) (\<lambda>response.
        Done (Ok (response\<lparr>resp_refresh_token := Some presented\<rparr>)))
      else if cfg_refresh_retry_window cfg = 0 then
        pbind (case rt_expires_at record of Some _ \<Rightarrow> Done 0 | None \<Rightarrow> now srv) (\<lambda>n.
        stored (st_put_refresh (srv_store srv) (spent_record cfg n record)) (\<lambda>outcome.
        if is_refused outcome then Done (Err err_revoked_while_refreshing)
        else issue srv (refresh_issuance c b record scope resource details None True)))
      else issue srv (refresh_issuance c b record scope resource details (Some record) True))"

definition refresh_scope ::
  "refresh_token_record \<Rightarrow> scope_set option \<Rightarrow> scope_set option" where
  "refresh_scope record requested_scope =
     (case requested_scope of
        None \<Rightarrow> Some (rt_scope record)
      | Some s \<Rightarrow> if is_subset s (rt_scope record) then Some s else None)"

definition refresh_checked ::
  "'s server \<Rightarrow> client \<Rightarrow> bound \<Rightarrow> string \<Rightarrow> refresh_token_record \<Rightarrow> scope_set option \<Rightarrow> string list \<Rightarrow>
     authorization_details \<Rightarrow> ('s, error_response + token_response) prog" where
  "refresh_checked srv c b presented record requested_scope requested_resources requested_details =
     (if dpop_binding_violation c record b then refused_restoring srv record err_refresh_dpop
      else if rt_x5t_s256 record \<noteq> bound_thumbprint b then refused_restoring srv record err_refresh_certificate
      else pbind (case rt_expires_at record of
                    None \<Rightarrow> Done False
                  | Some expires_at \<Rightarrow> pbind (now srv) (\<lambda>n. Done (expires_at \<le> n))) (\<lambda>expired.
        if expired then Done (Err err_chain_expired)
        else if \<not> is_subset (rt_scope record) (cl_allowed_scopes c) then Done (Err err_scopes_withdrawn)
        else case refresh_scope record requested_scope of
          None \<Rightarrow> refused_restoring srv record err_scope_widened
        | Some scope \<Rightarrow>
            (case narrow_grant srv (rt_resource record) (rt_authorization_details record)
                    requested_resources requested_details of
               Inl e \<Rightarrow> refused_restoring srv record e
             | Inr (resource, details) \<Rightarrow> rotate_refresh_token srv c b presented record scope resource details)))"

definition refresh_token ::
  "'s server \<Rightarrow> client_id \<Rightarrow> bound \<Rightarrow> string \<Rightarrow> scope_set option \<Rightarrow> string list \<Rightarrow>
     authorization_details \<Rightarrow> ('s, error_response + token_response) prog" where
  "refresh_token srv cid b presented requested_scope requested_resources requested_details =
     ptry (authenticate_client srv cid (bd_cred b)) (\<lambda>c.
     if \<not> allows_grant c RefreshToken then Done (Err (error_new UnauthorizedClient))
     else
       let cfg = srv_config srv;
           reuse = (cfg_refresh_rotation cfg = Reuse);
           strict = (\<not> reuse \<and> cfg_refresh_retry_window cfg = 0);
           retryable = (\<not> reuse \<and> cfg_refresh_retry_window cfg \<noteq> 0)
       in stored (if strict then st_take_refresh (srv_store srv) presented
                  else st_get_refresh (srv_store srv) presented) (\<lambda>found.
          pure_try (ok_or (error_new InvalidGrant) found) (\<lambda>record.
          if rt_client_id record \<noteq> cl_client_id c then refused_restoring srv record (error_new InvalidGrant)
          else ptry (if retryable
                     then refresh_retry_response srv record c b requested_scope requested_resources requested_details
                     else Done (Ok None)) (\<lambda>replayed.
            case replayed of
              Some response \<Rightarrow> Done (Ok response)
            | None \<Rightarrow>
                if \<not> reuse \<and> rt_state record = Spent then reuse_detected srv c record
                else refresh_checked srv c b presented record requested_scope requested_resources requested_details))))"

section \<open>Dispatch\<close>

definition err_device_resource :: error_response where
  "err_device_resource =
     fail_with InvalidTarget ''the device authorization request granted no resource to narrow to''"

definition err_device_details :: error_response where
  "err_device_details = fail_with InvalidAuthorizationDetails
     ''the device authorization request granted no authorization_details''"

definition emit_refusal ::
  "'s server \<Rightarrow> client_id \<Rightarrow> grant_type \<Rightarrow> error_response + token_response \<Rightarrow>
     ('s, error_response + token_response) prog" where
  "emit_refusal srv cid gt outcome =
     (case outcome of
        Inl e \<Rightarrow> pbind (emit (srv_hooks srv) (EvGrantRefused (cid_str cid) gt (error e))) (\<lambda>_. Done outcome)
      | Inr _ \<Rightarrow> Done outcome)"

definition requested_details_param ::
  "'s server \<Rightarrow> string option \<Rightarrow> error_response + authorization_details" where
  "requested_details_param srv raw =
     (case raw of
        None \<Rightarrow> Ok []
      | Some raw \<Rightarrow>
          rbind (details_parse (srv_details_de srv) raw) (\<lambda>parsed.
          rbind (require_supported_types parsed (cfg_authorization_details_types_supported (srv_config srv))) (\<lambda>_.
          Ok parsed)))"

definition token_with_context ::
  "'s server \<Rightarrow> token_request \<Rightarrow> token_context \<Rightarrow> ('s, error_response + token_response) prog" where
  "token_with_context srv request ctx =
     pure_try (validate_resources srv (tc_resources ctx)) (\<lambda>resources.
     pure_try (requested_details_param srv (tc_authorization_details ctx)) (\<lambda>details.
     ptry (verify_dpop srv (tc_dpop_proof ctx)) (\<lambda>jkt.
     let bd = (\<lambda>secret. \<lparr>bd_cred = or_secret (tc_credential ctx) secret, bd_jkt = jkt\<rparr>) in
     case request of
       TrAuthorizationCode cid secret code redirect_uri code_verifier \<Rightarrow>
         pbind (authorization_code_token srv cid (bd secret) code redirect_uri code_verifier resources details)
           (emit_refusal srv cid AuthorizationCode)
     | TrClientCredentials cid secret scope \<Rightarrow>
         pbind (client_credentials_token srv cid (bd secret) scope resources details)
           (emit_refusal srv cid ClientCredentials)
     | TrDeviceCode cid secret device_code \<Rightarrow>
         if resources \<noteq> [] then Done (Err err_device_resource)
         else if details \<noteq> [] then Done (Err err_device_details)
         else pbind (device_token srv cid (bd secret) device_code) (emit_refusal srv cid DeviceCode)
     | TrRefreshToken cid secret presented scope \<Rightarrow>
         pbind (refresh_token srv cid (bd secret) presented scope resources details)
           (emit_refusal srv cid RefreshToken))))"

definition token_with_resources ::
  "'s server \<Rightarrow> token_request \<Rightarrow> string list \<Rightarrow> ('s, error_response + token_response) prog" where
  "token_with_resources srv request resources =
     token_with_context srv request ((context_new (credential_secret None))\<lparr>tc_resources := resources\<rparr>)"

definition token :: "'s server \<Rightarrow> token_request \<Rightarrow> ('s, error_response + token_response) prog" where
  "token srv request = token_with_resources srv request []"

section \<open>Transitions\<close>

lemma chain_consistent_simps [simp]:
  "is_chain q = None \<Longrightarrow> chain_consistent q"
  "chain_consistent (refresh_issuance c b record scope resource details None allow)"
  "rt_client_id record = cl_client_id c \<Longrightarrow>
     chain_consistent (refresh_issuance c b record scope resource details (Some record) allow)"
  by (simp_all add: chain_consistent_def refresh_issuance_def)

lemma code_issuance_sel [simp]: "is_chain (code_issuance c b record resource details) = None"
  by (simp add: code_issuance_def)

context server_core_steps
begin

lemma keeps_ignoring:
  "steps T (store_op f) \<Longrightarrow> steps T k \<Longrightarrow> steps T (ignoring f k)"
  unfolding ignoring_def by (intro steps_pbind)

lemma keeps_contain_replay: "steps T (contain_replay srv rt)"
  unfolding contain_replay_def by (auto split: option.split sum.split intro!: keeps_rules)

lemma keeps_client_credentials_token: "steps T (client_credentials_token srv cid b sc rs ds)"
  unfolding client_credentials_token_def
  by (auto intro!: keeps_rules keeps_authenticate_client keeps_issue)

lemma keeps_device_token: "steps T (device_token srv cid b dc)"
  unfolding device_token_def
  by (auto split: device_grant_state.split
      intro!: keeps_rules keeps_ignoring keeps_authenticate_client keeps_issue)

lemma keeps_reuse_detected: "steps T (reuse_detected srv c record)"
  unfolding reuse_detected_def Let_def by (auto split: sum.split intro!: keeps_rules keeps_ignoring)

lemma keeps_refused_restoring: "steps T (refused_restoring srv record e)"
  unfolding refused_restoring_def by (auto intro!: keeps_rules keeps_restore_refresh_token)

lemma keeps_rotate_refresh_token:
  "rt_client_id record = cl_client_id c \<Longrightarrow>
     steps T (rotate_refresh_token srv c b presented record scope resource details)"
  unfolding rotate_refresh_token_def Let_def
  by (auto split: option.split intro!: keeps_rules keeps_issue)

lemma keeps_refresh_checked:
  "rt_client_id record = cl_client_id c \<Longrightarrow> steps T (refresh_checked srv c b presented record sc rs ds)"
  unfolding refresh_checked_def
  by (auto split: option.split sum.split prod.split
      intro!: keeps_rules keeps_refused_restoring keeps_rotate_refresh_token)

lemma keeps_refresh_token: "steps T (refresh_token srv cid b presented sc rs ds)"
proof -
  have get: "steps T (store_op (if x then st_take_refresh (srv_store srv) presented
      else st_get_refresh (srv_store srv) presented))" for x
    by (auto intro!: keeps_rules)
  show ?thesis
    unfolding refresh_token_def Let_def
    by (auto split: option.split
        intro!: keeps_rules get keeps_refused_restoring keeps_authenticate_client keeps_refresh_retry_response
          keeps_reuse_detected keeps_refresh_checked)
qed

lemma keeps_emit_refusal: "steps T (emit_refusal srv cid gt outcome)"
  unfolding emit_refusal_def by (auto split: sum.split intro!: keeps_rules)

lemma keeps_token_without_code:
  assumes "\<And>cid secret code uri cv. request \<noteq> TrAuthorizationCode cid secret code uri cv"
  shows "steps T (token_with_context srv request ctx)"
  unfolding token_with_context_def Let_def using assms
  by (auto split: token_request.split
      intro!: keeps_rules keeps_verify_dpop keeps_emit_refusal keeps_client_credentials_token
        keeps_device_token keeps_refresh_token)

end

context server_code_steps
begin

lemma keeps_replay_detected: "steps T (replay_detected srv c record at rt)"
  unfolding replay_detected_def
  by (auto split: option.split prod.split intro!: keeps_code_rules keeps_contain_replay)

lemma keeps_redeem_code: "steps T (redeem_code srv c b record resource details)"
  unfolding redeem_code_def Let_def
  by (auto split: option.split intro!: keeps_code_rules keeps_ignoring keeps_undo_issuance keeps_issue)

lemma keeps_redeem_taken_code: "steps T (redeem_taken_code srv c b record uri cv rs ds)"
  unfolding redeem_taken_code_def
  by (auto split: option.split prod.split sum.split
      intro!: keeps_code_rules keeps_ignoring keeps_replay_detected keeps_redeem_code)

lemma keeps_authorization_code_token:
  "steps T (authorization_code_token srv cid b code uri cv rs ds)"
  unfolding authorization_code_token_def
  by (auto intro!: keeps_code_rules keeps_authenticate_client keeps_redeem_taken_code)

lemma keeps_token_with_context: "steps T (token_with_context srv request ctx)"
  unfolding token_with_context_def Let_def
  by (auto split: token_request.split
      intro!: keeps_code_rules keeps_verify_dpop keeps_emit_refusal keeps_authorization_code_token
        keeps_client_credentials_token keeps_device_token keeps_refresh_token)

end

end
