(* ===== verification/Token_Exchange.thy ===== *)
theory Token_Exchange
  imports Token_Endpoint
begin

text \<open>
  Token exchange (\<^verbatim>\<open>token_exchange.rs\<close>, RFC 8693): an access token of this server is exchanged for one of the
  exchanging client, either in the subject's name alone or with an actor recorded in the \<^verbatim>\<open>act\<close> chain.
\<close>

definition MAX_AUDIENCE_VALUES :: nat where "MAX_AUDIENCE_VALUES = MAX_RESOURCE_INDICATORS"

definition MAX_ACT_CHAIN_DEPTH :: nat where "MAX_ACT_CHAIN_DEPTH = 8"

datatype token_type_identifier = TtAccessToken | TtRefreshToken | TtIdToken | TtSaml1 | TtSaml2 | TtJwt

fun token_type_as_str :: "token_type_identifier \<Rightarrow> string" where
  "token_type_as_str TtAccessToken = ''urn:ietf:params:oauth:token-type:access_token''"
| "token_type_as_str TtRefreshToken = ''urn:ietf:params:oauth:token-type:refresh_token''"
| "token_type_as_str TtIdToken = ''urn:ietf:params:oauth:token-type:id_token''"
| "token_type_as_str TtSaml1 = ''urn:ietf:params:oauth:token-type:saml1''"
| "token_type_as_str TtSaml2 = ''urn:ietf:params:oauth:token-type:saml2''"
| "token_type_as_str TtJwt = ''urn:ietf:params:oauth:token-type:jwt''"

definition token_type_parse :: "string \<Rightarrow> token_type_identifier option" where
  "token_type_parse s =
     (if s = ''urn:ietf:params:oauth:token-type:access_token'' then Some TtAccessToken
      else if s = ''urn:ietf:params:oauth:token-type:refresh_token'' then Some TtRefreshToken
      else if s = ''urn:ietf:params:oauth:token-type:id_token'' then Some TtIdToken
      else if s = ''urn:ietf:params:oauth:token-type:saml1'' then Some TtSaml1
      else if s = ''urn:ietf:params:oauth:token-type:saml2'' then Some TtSaml2
      else if s = ''urn:ietf:params:oauth:token-type:jwt'' then Some TtJwt
      else None)"

datatype unknown_token_type = UnknownTokenTypeIdentifier string

definition token_type_from_str :: "string \<Rightarrow> unknown_token_type + token_type_identifier" where
  "token_type_from_str s = ok_or (UnknownTokenTypeIdentifier s) (token_type_parse s)"

datatype exchange_semantics = Impersonation | Delegation

record exchange_request =
  xr_client_id :: client_id
  xr_client_secret :: "string option"
  xr_client_assertion_type :: "string option"
  xr_client_assertion :: "string option"
  xr_subject_token :: string
  xr_subject_token_type :: token_type_identifier
  xr_actor_token :: "string option"
  xr_actor_token_type :: "token_type_identifier option"
  xr_resource :: "string list"
  xr_audience :: "string list"
  xr_scope :: "scope_set option"
  xr_requested_token_type :: "token_type_identifier option"

definition exchange_request_new :: "client_id \<Rightarrow> string \<Rightarrow> token_type_identifier \<Rightarrow> exchange_request" where
  "exchange_request_new cid subject_token subject_token_type =
     \<lparr>xr_client_id = cid, xr_client_secret = None, xr_client_assertion_type = None, xr_client_assertion = None,
      xr_subject_token = subject_token, xr_subject_token_type = subject_token_type,
      xr_actor_token = None, xr_actor_token_type = None, xr_resource = [], xr_audience = [],
      xr_scope = None, xr_requested_token_type = None\<rparr>"

record exchange_response =
  xp_access_token :: string
  xp_issued_token_type :: token_type_identifier
  xp_token_type :: token_type
  xp_expires_in :: "nat option"
  xp_scope :: "string option"
  xp_refresh_token :: "string option"

record exchanged_token =
  xt_response :: exchange_response
  xt_semantics :: exchange_semantics
  xt_act :: "act_claim option"

definition sender_constrained_refusal :: "string \<Rightarrow> error_response" where
  "sender_constrained_refusal mechanism = fail_with InvalidRequest
     (''subject_token is sender constrained by '' @ mechanism @
      '' and cannot be exchanged for a token that is not, because the issued token would belong to a client that cannot prove possession of the binding key'')"

text \<open>The loop counts one per link and gives up at the limit.\<close>

fun act_chain_walk :: "nat \<Rightarrow> act_claim option \<Rightarrow> nat" where
  "act_chain_walk depth None = depth"
| "act_chain_walk depth (Some (ActClaim sub cid inner)) =
     (if MAX_ACT_CHAIN_DEPTH \<le> Suc depth then Suc depth else act_chain_walk (Suc depth) inner)"

definition act_chain_depth :: "act_claim \<Rightarrow> nat" where
  "act_chain_depth a = act_chain_walk 1 (act_inner a)"

definition err_issued_type :: error_response where
  "err_issued_type = fail_with InvalidRequest ''this server issues only urn:ietf:params:oauth:token-type:access_token''"

definition err_exchange_grant :: error_response where
  "err_exchange_grant = fail_with UnauthorizedClient ''client registration does not include the token-exchange grant''"

definition err_subject_type :: error_response where
  "err_subject_type = fail_with InvalidRequest
     ''subject_token_type must be urn:ietf:params:oauth:token-type:access_token''"

definition err_subject_dead :: error_response where
  "err_subject_dead = fail_with InvalidRequest ''subject_token is not a live access token''"

definition err_actor_type_alone :: error_response where
  "err_actor_type_alone = fail_with InvalidRequest ''actor_token_type is meaningless without actor_token''"

definition err_actor_type_missing :: error_response where
  "err_actor_type_missing = fail_with InvalidRequest ''actor_token_type is required when actor_token is present''"

definition err_actor_type :: error_response where
  "err_actor_type = fail_with InvalidRequest
     ''actor_token_type must be urn:ietf:params:oauth:token-type:access_token''"

definition err_actor_dead :: error_response where
  "err_actor_dead = fail_with InvalidRequest ''actor_token is not a live access token''"

definition err_act_depth :: error_response where
  "err_act_depth = fail_with InvalidRequest
     ''the subject token's act chain is already at this server's maximum delegation depth''"

definition err_exchange_widen :: error_response where
  "err_exchange_widen = fail_with InvalidScope ''token exchange may narrow the subject token scope, never widen it''"

definition err_exchange_scope :: error_response where
  "err_exchange_scope = fail_with InvalidScope ''scope exceeds the exchanging client registration''"

definition err_exchange_details :: error_response where
  "err_exchange_details = fail_with InvalidRequest
     ''subject_token carries authorization_details and cannot be exchanged for a token issued to a different client, because this server has no per-client registration of the detail types that client may hold''"

definition err_audience_count :: error_response where
  "err_audience_count = fail_with InvalidTarget ''too many audience values (RFC 8693 s2.1.1)''"

definition exchange_bound :: "exchange_request \<Rightarrow> bound" where
  "exchange_bound r = \<lparr>bd_cred = \<lparr>cred_secret = xr_client_secret r, cred_assertion_type = xr_client_assertion_type r,
     cred_assertion = xr_client_assertion r, cred_certificate = None\<rparr>, bd_jkt = None\<rparr>"

text \<open>The actor: none, or a live token of the exchanging client that is put before the subject's chain.\<close>

definition exchange_actor ::
  "'s server \<Rightarrow> exchange_request \<Rightarrow> client \<Rightarrow> issued_token \<Rightarrow>
     ('s, error_response + exchange_semantics \<times> act_claim option) prog" where
  "exchange_actor srv request c subject =
     (case (xr_actor_token request, xr_actor_token_type request) of
        (None, None) \<Rightarrow> Done (Ok (Impersonation, None))
      | (None, Some _) \<Rightarrow> Done (Err err_actor_type_alone)
      | (Some _, None) \<Rightarrow> Done (Err err_actor_type_missing)
      | (Some actor_token, Some actor_token_type) \<Rightarrow>
          if actor_token_type \<noteq> TtAccessToken then Done (Err err_actor_type)
          else ptry_map (\<lambda>_. error_new ServerError) (introspect srv actor_token) (\<lambda>found.
          pure_try (ok_or err_actor_dead found) (\<lambda>actor.
          if tok_client_id actor \<noteq> cl_client_id c then Done (Err err_actor_dead)
          else if (case tok_act subject of Some prior \<Rightarrow> MAX_ACT_CHAIN_DEPTH \<le> act_chain_depth prior | None \<Rightarrow> False) then
            Done (Err err_act_depth)
          else Done (Ok (Delegation, Some (ActClaim
            (case tok_subject actor of Some s \<Rightarrow> s | None \<Rightarrow> cid_str (tok_client_id actor))
            (Some (cid_str (tok_client_id actor))) (tok_act subject)))))))"

fun add_audiences :: "'s server \<Rightarrow> string list \<Rightarrow> string list \<Rightarrow> error_response + string list" where
  "add_audiences srv targets [] = Ok targets"
| "add_audiences srv targets (a # as) =
     rbind (target_is_permitted srv a) (\<lambda>_.
     add_audiences srv (if a \<in> set targets then targets else targets @ [a]) as)"

definition exchange_targets :: "'s server \<Rightarrow> exchange_request \<Rightarrow> error_response + string list" where
  "exchange_targets srv request =
     rbind (validate_resources srv (xr_resource request)) (\<lambda>targets.
     if MAX_AUDIENCE_VALUES < length (xr_audience request) then Err err_audience_count
     else add_audiences srv targets (xr_audience request))"

definition exchange_scope :: "exchange_request \<Rightarrow> client \<Rightarrow> issued_token \<Rightarrow> error_response + scope_set" where
  "exchange_scope request c subject =
     rbind (case xr_scope request of
              None \<Rightarrow> Ok (tok_scope subject)
            | Some s \<Rightarrow> if is_subset s (tok_scope subject) then Ok s else Err err_exchange_widen) (\<lambda>scope.
     if \<not> is_subset scope (cl_allowed_scopes c) then Err err_exchange_scope else Ok scope)"

definition exchange_issuance ::
  "client \<Rightarrow> bound \<Rightarrow> issued_token \<Rightarrow> scope_set \<Rightarrow> string list \<Rightarrow> act_claim option \<Rightarrow> issuance" where
  "exchange_issuance c b subject scope resource actor =
     \<lparr>is_client = c, is_bound = b, is_grant_type = TokenExchange,
      is_established_at = tok_grant_established_at subject, is_subject = tok_subject subject,
      is_scope = scope, is_resource = resource, is_details = tok_authorization_details subject,
      is_chain = None, is_allow_refresh = False, is_authentication = None, is_actor = actor,
      is_ceiling = Some (tok_expires_at subject)\<rparr>"

definition exchange_answer :: "token_response \<Rightarrow> exchange_semantics \<Rightarrow> act_claim option \<Rightarrow> exchanged_token" where
  "exchange_answer issued semantics actor =
     \<lparr>xt_response = \<lparr>xp_access_token = resp_access_token issued, xp_issued_token_type = TtAccessToken,
        xp_token_type = resp_token_type issued, xp_expires_in = Some (resp_expires_in issued),
        xp_scope = resp_scope issued, xp_refresh_token = None\<rparr>,
      xt_semantics = semantics, xt_act = actor\<rparr>"

text \<open>Everything after the subject token was found.\<close>

definition exchange_subject ::
  "'s server \<Rightarrow> exchange_request \<Rightarrow> client \<Rightarrow> issued_token \<Rightarrow> ('s, error_response + exchanged_token) prog" where
  "exchange_subject srv request c subject =
     (let cfg = srv_config srv in
      if tok_jkt subject \<noteq> None \<and> \<not> cfg_allow_sender_constrained_exchange cfg then
        Done (Err (sender_constrained_refusal ''DPoP (RFC 9449)''))
      else if tok_x5t_s256 subject \<noteq> None \<and> \<not> cfg_allow_sender_constrained_exchange cfg then
        Done (Err (sender_constrained_refusal ''mutual TLS (RFC 8705)''))
      else ptry (exchange_actor srv request c subject) (\<lambda>(semantics, actor).
      pure_try (exchange_scope request c subject) (\<lambda>scope.
      if tok_authorization_details subject \<noteq> [] \<and> tok_client_id subject \<noteq> cl_client_id c \<and>
         \<not> cfg_allow_authorization_details_exchange cfg then
        Done (Err err_exchange_details)
      else pure_try (exchange_targets srv request) (\<lambda>targets.
      pure_try (narrow_and_permit srv (tok_resource subject) targets) (\<lambda>resource.
      ptry (issue srv (exchange_issuance c (exchange_bound request) subject scope resource actor)) (\<lambda>issued.
      Done (Ok (exchange_answer issued semantics actor))))))))"

definition exchange :: "'s server \<Rightarrow> exchange_request \<Rightarrow> ('s, error_response + exchanged_token) prog" where
  "exchange srv request =
     (if xr_requested_token_type request \<notin> {None, Some TtAccessToken} then Done (Err err_issued_type)
      else ptry (authenticate_client srv (xr_client_id request) (bd_cred (exchange_bound request))) (\<lambda>c.
      if \<not> is_confidential (cl_auth c) then
        pbind (emit (srv_hooks srv) (EvClientAuthenticationFailed (cid_str (xr_client_id request)) NotConfidential))
          (\<lambda>_. Done (Err (error_new InvalidClient)))
      else if \<not> allows_grant c TokenExchange then Done (Err err_exchange_grant)
      else if xr_subject_token_type request \<noteq> TtAccessToken then Done (Err err_subject_type)
      else ptry_map (\<lambda>_. error_new ServerError) (introspect srv (xr_subject_token request)) (\<lambda>found.
      pure_try (ok_or err_subject_dead found) (exchange_subject srv request c))))"

definition exchange_token :: "'s server \<Rightarrow> exchange_request \<Rightarrow> ('s, error_response + exchanged_token) prog" where
  "exchange_token srv request =
     pbind (exchange srv request) (\<lambda>outcome.
     case outcome of
       Inl e \<Rightarrow> pbind (emit (srv_hooks srv) (EvGrantRefused (cid_str (xr_client_id request)) TokenExchange (error e)))
         (\<lambda>_. Done outcome)
     | Inr _ \<Rightarrow> Done outcome)"

section \<open>Transitions\<close>

context server_core_steps
begin

lemma keeps_exchange_token: "steps T (exchange_token srv request)"
proof -
  have "steps T (exchange_actor srv request c subject)" for c subject
    unfolding exchange_actor_def by (auto split: option.split intro!: keeps_rules keeps_introspect)
  moreover have "chain_consistent (exchange_issuance c b subject scope resource actor)" for c b subject scope resource actor
    by (simp add: exchange_issuance_def)
  ultimately have "steps T (exchange_subject srv request c subject)" for c subject
    unfolding exchange_subject_def Let_def by (auto split: prod.split intro!: keeps_rules keeps_issue)
  then show ?thesis
    unfolding exchange_token_def exchange_def
    by (auto split: sum.split intro!: keeps_rules keeps_authenticate_client keeps_introspect)
qed

end

section \<open>The delegation chain\<close>

fun act_links :: "act_claim \<Rightarrow> nat" where
  "act_links (ActClaim s c None) = 1"
| "act_links (ActClaim s c (Some a)) = Suc (act_links a)"

lemma act_links_pos [simp]: "0 < act_links a"
  by (cases a rule: act_links.cases) simp_all

lemma act_chain_walk_links:
  assumes "d < MAX_ACT_CHAIN_DEPTH"
  shows "act_chain_walk d (Some a) = min MAX_ACT_CHAIN_DEPTH (d + act_links a)"
  using assms
proof (induction a arbitrary: d rule: act_links.induct)
  case (2 s c a)
  then show ?case
    using act_links_pos [of a] by (cases "MAX_ACT_CHAIN_DEPTH \<le> Suc d") (auto simp: min_def)
qed (auto simp: min_def)

text \<open>The walk gives up early, which decides the comparison with the limit all the same.\<close>

lemma act_chain_depth_links: "act_chain_depth a = min MAX_ACT_CHAIN_DEPTH (act_links a)"
proof (cases a rule: act_links.cases)
  case (2 s c b)
  then show ?thesis
    by (simp add: act_chain_depth_def act_chain_walk_links [simplified] MAX_ACT_CHAIN_DEPTH_def)
qed (simp_all add: act_chain_depth_def MAX_ACT_CHAIN_DEPTH_def)

end
