(* ===== verification/Authorization_Endpoint.thy ===== *)
theory Authorization_Endpoint
  imports Device_Endpoint
begin

text \<open>
  The authorization endpoint (\<^verbatim>\<open>server.rs\<close>: \<^verbatim>\<open>validate_authorization_request\<close> and what it calls, the
  issuing of authorization codes). Errors found before the redirect URI is known to belong to the
  client are answered directly; every later one goes to that URI.
\<close>

section \<open>Validating a request\<close>

definition direct :: "error_code \<Rightarrow> string \<Rightarrow> authorization_error" where
  "direct c why = Direct (fail_with c why)"

definition redirect_uri_of ::
  "client \<Rightarrow> string option \<Rightarrow> authorization_error + string" where
  "redirect_uri_of c requested =
     (case requested of
        Some r \<Rightarrow>
          if list_ex (\<lambda>registered. registered = r \<or>
                (cl_auth c = Public \<and> loopback_redirect_matches registered r)) (cl_redirect_uris c)
          then Ok r
          else Err (direct InvalidRequest ''redirect_uri does not exactly match a registered URI'')
      | None \<Rightarrow>
          (case cl_redirect_uris c of
             [only] \<Rightarrow> Ok only
           | _ \<Rightarrow> Err (direct InvalidRequest ''redirect_uri is required for this client'')))"

definition to_redirect :: "'s server \<Rightarrow> string \<Rightarrow> string option \<Rightarrow> error_response \<Rightarrow> authorization_error" where
  "to_redirect srv redirect_uri st e =
     Redirect \<lparr>er_redirect_uri = redirect_uri, er_error = e, er_state = st, er_iss = issuer_identifier srv\<rparr>"

definition map_err :: "('e \<Rightarrow> 'f) \<Rightarrow> 'e + 'a \<Rightarrow> 'f + 'a" where
  "map_err h r = (case r of Inl e \<Rightarrow> Err (h e) | Inr a \<Rightarrow> Ok a)"

lemma map_err_Ok [simp]: "map_err h r = Inr a \<longleftrightarrow> r = Inr a"
  by (cases r) (simp_all add: map_err_def)

definition response_type_ok :: "string option \<Rightarrow> error_response + unit" where
  "response_type_ok response_type =
     (case response_type of
        None \<Rightarrow> Err (fail_with InvalidRequest ''missing response_type'')
      | Some r \<Rightarrow>
          ensure (r = ''code'')
            (fail_with UnsupportedResponseType ''this server issues authorization codes only''))"

definition challenge_method_ok :: "string option \<Rightarrow> error_response + unit" where
  "challenge_method_ok code_challenge_method =
     (case code_challenge_method of
        None \<Rightarrow> Err (fail_with InvalidRequest ''code_challenge_method=S256 is required'')
      | Some cm \<Rightarrow>
          ensure (cm = ''S256'') (fail_with InvalidRequest ''only code_challenge_method=S256 is supported''))"

definition request_scope :: "client \<Rightarrow> string option \<Rightarrow> error_response + scope_set" where
  "request_scope c raw =
     (case raw of
        None \<Rightarrow> Ok (granted_default_scope c)
      | Some s \<Rightarrow>
          rbind (map_err (\<lambda>_. fail_with InvalidScope ''malformed scope'') (scope_parse s)) (\<lambda>requested.
          if \<not> is_subset requested (cl_allowed_scopes c) then Err err_scope_exceeds_registration
          else Ok requested))"

definition request_details :: "'s server \<Rightarrow> string option \<Rightarrow> error_response + authorization_details" where
  "request_details srv raw =
     (case raw of
        None \<Rightarrow> Ok details_none
      | Some raw \<Rightarrow>
          rbind (details_parse (srv_details_de srv) raw) (\<lambda>parsed.
          rbind (require_supported_types parsed (cfg_authorization_details_types_supported (srv_config srv))) (\<lambda>_.
          Ok parsed)))"

text \<open>The checks whose failures are redirected, in the code's order.\<close>

definition validate_redirectable ::
  "'s server \<Rightarrow> client \<Rightarrow> string \<Rightarrow> authorization_request \<Rightarrow> error_response + validated_request" where
  "validate_redirectable srv c redirect_uri request =
     rbind (response_type_ok (ar_response_type request)) (\<lambda>_.
     rbind (ensure (allows_grant c AuthorizationCode)
       (fail_with UnauthorizedClient ''client registration does not include the authorization_code grant'')) (\<lambda>_.
     rbind (challenge_method_ok (ar_code_challenge_method request)) (\<lambda>_.
     let code_challenge = (case ar_code_challenge request of Some ch \<Rightarrow> ch | None \<Rightarrow> []) in
     rbind (ensure (challenge_is_well_formed code_challenge)
       (fail_with InvalidRequest ''code_challenge must be the base64url SHA-256 form of RFC 7636 section 4.2'')) (\<lambda>_.
     rbind (request_scope c (ar_scope request)) (\<lambda>scope.
     rbind (validate_resources srv (ar_resource request)) (\<lambda>resource.
     rbind (request_details srv (ar_authorization_details request)) (\<lambda>details.
     rbind (requirement_from_request request) (\<lambda>requirement.
     Ok ((validated_new (cl_client_id c) redirect_uri (ar_redirect_uri request \<noteq> None) scope (ar_state request)
           code_challenge S256 (issuer_identifier srv) resource)
         \<lparr>val_authorization_details := details, val_requirement := requirement,
          val_dpop_jkt := ar_dpop_jkt request\<rparr>)))))))))"

definition validate_direct_authorization_request_inner ::
  "'s server \<Rightarrow> authorization_request \<Rightarrow> ('s, authorization_error + validated_request) prog" where
  "validate_direct_authorization_request_inner srv request =
     pure_try (ok_or (direct InvalidRequest ''missing client_id'')
       (case ar_client_id request of Some s \<Rightarrow> if s = [] then None else Some s | None \<Rightarrow> None)) (\<lambda>client_id.
     ptry_map (\<lambda>_. direct ServerError ''storage unavailable'')
       (store_op (st_get_client (srv_store srv) (ClientId client_id))) (\<lambda>found.
     pure_try (ok_or (direct InvalidRequest ''unknown client_id'') found) (\<lambda>c.
     pure_try (redirect_uri_of c (ar_redirect_uri request)) (\<lambda>redirect_uri.
     pure_try (map_err (to_redirect srv redirect_uri (ar_state request))
       (validate_redirectable srv c redirect_uri request)) (\<lambda>validated.
     Done (Ok validated))))))"

definition err_too_many :: error_response where
  "err_too_many = fail_with TemporarilyUnavailable ''too many authorization requests; retry later''"

definition validate_direct_authorization_request ::
  "'s server \<Rightarrow> authorization_request \<Rightarrow> ('s, authorization_error + validated_request) prog" where
  "validate_direct_authorization_request srv request =
     (let a = AtAuthorizationRequest (case ar_client_id request of Some s \<Rightarrow> s | None \<Rightarrow> []) in
      pbind (hooks_check (srv_hooks srv) a) (\<lambda>d.
      if d = Deny then Done (Err (Direct err_too_many))
      else pbind (validate_direct_authorization_request_inner srv request) (\<lambda>outcome.
        pbind (hooks_record (srv_hooks srv) a
          (case outcome of Inr _ \<Rightarrow> Succeeded | Inl _ \<Rightarrow> Failed)) (\<lambda>_.
        Done outcome))))"

definition validate_authorization_request ::
  "'s server \<Rightarrow> authorization_request \<Rightarrow> ('s, authorization_error + validated_request) prog" where
  "validate_authorization_request srv request =
     (if (case cfg_par (srv_config srv) of Some par \<Rightarrow> parc_require_pushed par | None \<Rightarrow> False) then
        Done (Err (direct InvalidRequest ''this server accepts authorization request data only via PAR (RFC 9126 s4)''))
      else if (case cfg_jar (srv_config srv) of Some jar \<Rightarrow> jarc_require_signed jar | None \<Rightarrow> False) then
        Done (Err (direct InvalidRequest ''this server requires a signed request object (RFC 9101 s10.5)''))
      else validate_direct_authorization_request srv request)"

section \<open>Issuing a code\<close>

record user_approval =
  ua_request :: validated_request
  ua_subject :: string
  ua_decided_at :: "system_time option"

definition approval_granted :: "validated_request \<Rightarrow> string \<Rightarrow> user_approval" where
  "approval_granted request subject = \<lparr>ua_request = request, ua_subject = subject, ua_decided_at = None\<rparr>"

definition approval_granted_at :: "validated_request \<Rightarrow> string \<Rightarrow> system_time \<Rightarrow> user_approval" where
  "approval_granted_at request subject decided_at =
     \<lparr>ua_request = request, ua_subject = subject, ua_decided_at = Some decided_at\<rparr>"

definition request_redirect :: "validated_request \<Rightarrow> error_response \<Rightarrow> authorization_error" where
  "request_redirect request e =
     Redirect \<lparr>er_redirect_uri = val_redirect_uri request, er_error = e, er_state = val_state request,
       er_iss = val_issuer request\<rparr>"

definition code_record_of ::
  "server_config \<Rightarrow> user_approval \<Rightarrow> authentication option \<Rightarrow> system_time \<Rightarrow> string \<Rightarrow> code_record" where
  "code_record_of cfg approval authn n code =
     (let request = ua_request approval in
      \<lparr>code_code = code, code_client_id = val_client_id request, code_redirect_uri = val_redirect_uri request,
       code_redirect_uri_was_explicit = val_redirect_uri_was_explicit request,
       code_scope = val_scope request, code_subject = ua_subject approval,
       code_code_challenge = val_code_challenge request,
       code_code_challenge_method = val_code_challenge_method request, code_resource = val_resource request,
       code_authorization_details = val_authorization_details request,
       code_issued_at = (case ua_decided_at approval of Some t \<Rightarrow> t | None \<Rightarrow> n),
       code_expires_at = saturating_deadline n (cfg_authorization_code_ttl cfg), code_state = Issued,
       code_authentication = authn, code_dpop_jkt = val_dpop_jkt request\<rparr>)"

definition issue_authorization_code_inner ::
  "'s server \<Rightarrow> user_approval \<Rightarrow> authentication option \<Rightarrow> ('s, authorization_error + authorization_response) prog" where
  "issue_authorization_code_inner srv approval authn =
     (let request = ua_request approval;
          a = AtAuthorizationRequest (cid_str (val_client_id request))
      in pbind (hooks_check (srv_hooks srv) a) (\<lambda>d.
         if d = Deny then Done (Err (request_redirect request err_too_many))
         else pbind (now srv) (\<lambda>n.
         pbind (try_random_hex srv 32) (\<lambda>drawn.
         case drawn of
           None \<Rightarrow>
             pbind (hooks_record (srv_hooks srv) a Failed) (\<lambda>_.
             Done (Err (request_redirect request (error_new ServerError))))
         | Some code \<Rightarrow>
             pbind (store_op (st_put_code (srv_store srv) (code_record_of (srv_config srv) approval authn n code))) (\<lambda>r.
             case r of
               Inl _ \<Rightarrow>
                 pbind (hooks_record (srv_hooks srv) a Failed) (\<lambda>_.
                 Done (Err (request_redirect request (error_new ServerError))))
             | Inr _ \<Rightarrow>
                 pbind (hooks_record (srv_hooks srv) a Succeeded) (\<lambda>_.
                 Done (Ok \<lparr>az_code = code, az_state = val_state request, az_iss = val_issuer request\<rparr>)))))))"

definition issue_authorization_code_with_authentication ::
  "'s server \<Rightarrow> user_approval \<Rightarrow> authentication_requirement \<Rightarrow> authentication option \<Rightarrow>
     ('s, authorization_error + authorization_response) prog" where
  "issue_authorization_code_with_authentication srv approval requirement authn =
     pbind (now srv) (\<lambda>n.
     case satisfied_by requirement authn n of
       Inl failure \<Rightarrow> Done (Err (request_redirect (ua_request approval) (step_up_error failure)))
     | Inr _ \<Rightarrow> issue_authorization_code_inner srv approval authn)"

definition issue_authorization_code ::
  "'s server \<Rightarrow> user_approval \<Rightarrow> ('s, authorization_error + authorization_response) prog" where
  "issue_authorization_code srv approval =
     issue_authorization_code_with_authentication srv approval (val_requirement (ua_request approval)) None"

section \<open>Transitions\<close>

context server_core_steps
begin

lemma keeps_validate_inner: "steps T (validate_direct_authorization_request_inner srv request)"
  unfolding validate_direct_authorization_request_inner_def by (auto intro!: keeps_rules)

lemma keeps_validate_authorization_request: "steps T (validate_authorization_request srv request)"
  unfolding validate_authorization_request_def validate_direct_authorization_request_def Let_def
  by (auto intro!: keeps_rules keeps_validate_inner)

end

context server_code_steps
begin

lemma keeps_issue_authorization_code_inner: "steps T (issue_authorization_code_inner srv approval authn)"
  unfolding issue_authorization_code_inner_def Let_def
  by (auto split: option.split sum.split intro!: keeps_code_rules)

lemma keeps_issue_authorization_code_with_authentication:
  "steps T (issue_authorization_code_with_authentication srv approval requirement authn)"
  unfolding issue_authorization_code_with_authentication_def
  by (auto split: sum.split intro!: keeps_rules keeps_issue_authorization_code_inner)

end

section \<open>What a validated request is\<close>

text \<open>
  What the rest of the flow relies on: the redirect URI is registered for the client (or is a
  loopback variant of a registered one of a public client), PKCE with S256 is present and well
  formed, the client may use the grant, and resources and scope passed their checks.
\<close>

definition request_admissible :: "'s server \<Rightarrow> client \<Rightarrow> authorization_request \<Rightarrow> validated_request \<Rightarrow> bool" where
  "request_admissible srv c request v \<longleftrightarrow>
     val_client_id v = cl_client_id c \<and>
     list_ex (\<lambda>registered. registered = val_redirect_uri v \<or>
       (cl_auth c = Public \<and> loopback_redirect_matches registered (val_redirect_uri v))) (cl_redirect_uris c) \<and>
     (case ar_redirect_uri request of
        Some u \<Rightarrow> val_redirect_uri v = u \<and> val_redirect_uri_was_explicit v
      | None \<Rightarrow> cl_redirect_uris c = [val_redirect_uri v] \<and> \<not> val_redirect_uri_was_explicit v) \<and>
     allows_grant c AuthorizationCode \<and> ar_response_type request = Some ''code'' \<and>
     ar_code_challenge_method request = Some ''S256'' \<and> ar_code_challenge request = Some (val_code_challenge v) \<and>
     challenge_is_well_formed (val_code_challenge v) \<and>
     request_scope c (ar_scope request) = Ok (val_scope v) \<and>
     validate_resources srv (ar_resource request) = Ok (val_resource v) \<and>
     request_details srv (ar_authorization_details request) = Ok (val_authorization_details v) \<and>
     requirement_from_request request = Ok (val_requirement v) \<and>
     val_state v = ar_state request \<and> val_dpop_jkt v = ar_dpop_jkt request \<and> val_issuer v = issuer_identifier srv"

end
