(* ===== verification/Par_Endpoint.thy ===== *)
theory Par_Endpoint
  imports Authorization_Endpoint Token_Issue
begin

text \<open>
  Pushed authorization requests (RFC 9126) and signed request objects (RFC 9101) at the server
  (\<^verbatim>\<open>par.rs\<close>, the \<^verbatim>\<open>impl AuthorizationServer\<close>): pushing a request, redeeming its \<^verbatim>\<open>request_uri\<close> once,
  and validating a request that arrives as a signed object.
\<close>

section \<open>Request objects\<close>

definition verified_request_object ::
  "'s server \<Rightarrow> client_id \<Rightarrow> string \<Rightarrow> ('s, error_response + authorization_request) prog" where
  "verified_request_object srv cid request_object =
     (case cfg_jar (srv_config srv) of
        None \<Rightarrow> Done (Err (fail_with RequestNotSupported ''this server does not accept signed request objects''))
      | Some jar \<Rightarrow>
          if MAX_REQUEST_OBJECT_BYTES < length request_object
          then Done (Err (object_error ''the request object exceeds the maximum accepted size''))
          else
            pure_try (ok_or (object_error ''no request object verification keys are installed'')
              (hk_request_object_keys (srv_hooks srv))) (\<lambda>keys.
            pure_try (ok_or (object_error ''the client registered no request object key'') (keys cid)) (\<lambda>registered.
            pure_try (ok_or (object_error ''no verifier is installed for the registered algorithm'')
              (jws_verifier srv (rok_alg registered))) (\<lambda>verifier.
            pure_try (authentic_claims (srv_lib srv) registered verifier (issuer_identifier srv) (cid_str cid)
              request_object) (\<lambda>claims.
            pbind (now srv) (\<lambda>n.
            pure_try (object_times (srv_float srv) (jarc_max_lifetime jar) n claims) (\<lambda>_.
            pure_try (claims_request (srv_lib srv) (cid_str cid) claims) (\<lambda>request.
            Done (Ok request)))))))))"

definition err_par_required :: authorization_error where
  "err_par_required =
     direct InvalidRequest ''this server accepts authorization request data only via PAR (RFC 9126 s4)''"

definition validate_signed_authorization_request ::
  "'s server \<Rightarrow> string \<Rightarrow> string \<Rightarrow> ('s, authorization_error + validated_request) prog" where
  "validate_signed_authorization_request srv client_id request_object =
     (if (case cfg_par (srv_config srv) of Some par \<Rightarrow> parc_require_pushed par | None \<Rightarrow> False) then
        Done (Err err_par_required)
      else ptry_map Direct (verified_request_object srv (ClientId client_id) request_object) (\<lambda>request.
        validate_direct_authorization_request srv request))"

section \<open>Pushing\<close>

record pushed_response =
  pr_request_uri :: string
  pr_expires_in :: nat

definition pushed_http_status :: nat where
  "pushed_http_status = 201"

definition MIN_REQUEST_URI_TTL :: duration where
  "MIN_REQUEST_URI_TTL = from_secs 1"

definition REQUEST_URI_PREFIX :: string where
  "REQUEST_URI_PREFIX = ''urn:ietf:params:oauth:request_uri:''"

definition REQUEST_URI_ENTROPY_BYTES :: nat where
  "REQUEST_URI_ENTROPY_BYTES = 32"

definition par_endpoint :: "par_config \<Rightarrow> string \<Rightarrow> string" where
  "par_endpoint par issuer =
     (case parc_endpoint par of Some url \<Rightarrow> url | None \<Rightarrow> trim_end_slashes issuer @ ''/par'')"

definition err_par_dpop_jkt :: error_response where
  "err_par_dpop_jkt = fail_with InvalidDpopProof
     (''the dpop_jkt parameter does not match the key of the DPoP proof presented at '' @
      ''the PAR endpoint (RFC 9449 s10.1)'')"

text \<open>A proof at the endpoint binds the request to its key; the \<^verbatim>\<open>expect\<close> on the thumbprint cannot fail.\<close>

definition bind_par_dpop ::
  "'s server \<Rightarrow> authorization_request \<Rightarrow> string option \<Rightarrow> ('s, error_response + authorization_request) prog" where
  "bind_par_dpop srv request dpop_proof =
     (case dpop_proof of
        None \<Rightarrow> Done (Ok request)
      | Some prf \<Rightarrow>
          (case cfg_par (srv_config srv) of
             None \<Rightarrow> Done (Err (error_new ServerError))
           | Some par \<Rightarrow>
               ptry (verify_dpop_inner srv (Some prf) ''POST'' (par_endpoint par (issuer_identifier srv))) (\<lambda>verified.
               case verified of
                 None \<Rightarrow> Done (Err (error_new ServerError))
               | Some jkt \<Rightarrow>
                   if (case ar_dpop_jkt request of Some param \<Rightarrow> param \<noteq> jkt | None \<Rightarrow> False)
                   then Done (Err err_par_dpop_jkt)
                   else Done (Ok (request\<lparr>ar_dpop_jkt := Some jkt\<rparr>)))))"

definition pushed_record ::
  "client_id \<Rightarrow> authorization_request \<Rightarrow> system_time \<Rightarrow> string \<Rightarrow> system_time \<Rightarrow> pushed_request" where
  "pushed_record authenticated request pushed_at request_uri expires_at =
     \<lparr>par_request_uri = request_uri, par_client_id = authenticated,
      par_response_type = ar_response_type request, par_redirect_uri = ar_redirect_uri request,
      par_scope = ar_scope request, par_state = ar_state request,
      par_code_challenge = ar_code_challenge request,
      par_code_challenge_method = ar_code_challenge_method request, par_resource = ar_resource request,
      par_authorization_details = ar_authorization_details request, par_acr_values = ar_acr_values request,
      par_max_age = ar_max_age request, par_dpop_jkt = ar_dpop_jkt request,
      par_pushed_at = pushed_at, par_expires_at = expires_at\<rparr>"

definition authorization_error_response :: "authorization_error \<Rightarrow> error_response" where
  "authorization_error_response e = (case e of Direct er \<Rightarrow> er | Redirect r \<Rightarrow> er_error r)"

definition err_par_not_offered :: error_response where
  "err_par_not_offered =
     fail_with InvalidRequest ''this server does not offer pushed authorization requests''"

definition err_par_redirect_uri :: error_response where
  "err_par_redirect_uri = fail_with InvalidRequest
     ''redirect_uri is required in a pushed authorization request (FAPI 2.0 s5.3.2.2-6)''"

definition err_par_client_deleted :: error_response where
  "err_par_client_deleted =
     fail_with InvalidClient ''this client was deleted while its request was being pushed''"

definition pushed_client_matches :: "client_id \<Rightarrow> authorization_request \<Rightarrow> error_response + unit" where
  "pushed_client_matches authenticated request =
     (case ar_client_id request of
        Some pushed \<Rightarrow>
          ensure (pushed = cid_str authenticated)
            (fail_with InvalidRequest ''client_id does not match the authenticated client (RFC 9126 s2.1)'')
      | None \<Rightarrow> Err (fail_with InvalidRequest ''client_id is required (RFC 9126 s2.1)''))"

definition store_pushed_request ::
  "'s server \<Rightarrow> client_id \<Rightarrow> authorization_request \<Rightarrow> system_time \<Rightarrow>
     ('s, error_response + pushed_response) prog" where
  "store_pushed_request srv authenticated request pushed_at =
     pure_try (pushed_client_matches authenticated request) (\<lambda>_.
     if (case cfg_par (srv_config srv) of Some par \<Rightarrow> parc_require_redirect_uri par | None \<Rightarrow> False) \<and>
        ar_redirect_uri request = None
     then Done (Err err_par_redirect_uri)
     else ptry_map authorization_error_response (validate_direct_authorization_request srv request) (\<lambda>_.
     pure_try (ok_or err_par_not_offered (cfg_par (srv_config srv))) (\<lambda>par.
     let ttl = max (parc_request_uri_ttl par) MIN_REQUEST_URI_TTL in
     pbind (now srv) (\<lambda>n.
     pbind (try_random_hex srv REQUEST_URI_ENTROPY_BYTES) (\<lambda>drawn.
     pure_try (ok_or (error_new ServerError) drawn) (\<lambda>hex.
     let request_uri = REQUEST_URI_PREFIX @ hex;
         expires_at = saturating_deadline n ttl
     in stored (st_put_pushed (srv_store srv) (pushed_record authenticated request pushed_at request_uri expires_at)) (\<lambda>outcome.
        if is_refused outcome then Done (Err err_par_client_deleted)
        else Done (Ok \<lparr>pr_request_uri = request_uri,
          pr_expires_in = (if n \<le> expires_at then seconds_between n expires_at
                           else MIN_REQUEST_URI_TTL div nanos_per_sec)\<rparr>))))))))"

definition err_request_uri_pushed :: error_response where
  "err_request_uri_pushed = fail_with InvalidRequest ''request_uri must not be pushed (RFC 9126 s2.1)''"

definition err_unsigned_push :: error_response where
  "err_unsigned_push = fail_with InvalidRequest
     (''this server acts only on signed request objects (RFC 9101 s10.5), and this push '' @ ''carried none'')"

definition pushed_authorization_request_inner ::
  "'s server \<Rightarrow> client_id \<Rightarrow> client_credential \<Rightarrow> (string \<times> string) list \<Rightarrow> string option \<Rightarrow>
     ('s, error_response + pushed_response) prog" where
  "pushed_authorization_request_inner srv cid cred parameters dpop_proof =
     (if cfg_par (srv_config srv) = None then Done (Err err_par_not_offered)
      else pbind (now srv) (\<lambda>pushed_at.
      ptry (authenticate_client srv cid cred) (\<lambda>c.
      if map_of parameters ''request_uri'' \<noteq> None then Done (Err err_request_uri_pushed)
      else case map_of parameters ''request'' of
        Some object \<Rightarrow>
          ptry (verified_request_object srv (cl_client_id c) object) (\<lambda>request.
          ptry (bind_par_dpop srv request dpop_proof) (\<lambda>request.
          store_pushed_request srv (cl_client_id c) request pushed_at))
      | None \<Rightarrow>
          if (case cfg_jar (srv_config srv) of Some jar \<Rightarrow> jarc_require_signed jar | None \<Rightarrow> False)
          then Done (Err err_unsigned_push)
          else ptry (bind_par_dpop srv (request_from_pairs parameters) dpop_proof) (\<lambda>request.
            store_pushed_request srv (cl_client_id c) request pushed_at))))"

definition pushed_authorization_request_with_credential ::
  "'s server \<Rightarrow> client_id \<Rightarrow> client_credential \<Rightarrow> (string \<times> string) list \<Rightarrow>
     ('s, error_response + pushed_response) prog" where
  "pushed_authorization_request_with_credential srv cid cred parameters =
     pushed_authorization_request_inner srv cid cred parameters None"

definition pushed_authorization_request ::
  "'s server \<Rightarrow> client_id \<Rightarrow> string option \<Rightarrow> (string \<times> string) list \<Rightarrow>
     ('s, error_response + pushed_response) prog" where
  "pushed_authorization_request srv cid client_secret parameters =
     pushed_authorization_request_with_credential srv cid (credential_secret client_secret) parameters"

section \<open>Redeeming a request URI\<close>

definition validate_pushed_authorization_request ::
  "'s server \<Rightarrow> string \<Rightarrow> string \<Rightarrow> ('s, authorization_error + validated_request) prog" where
  "validate_pushed_authorization_request srv client_id request_uri =
     ptry_map (\<lambda>_. Direct (error_new ServerError)) (store_op (st_take_pushed (srv_store srv) request_uri)) (\<lambda>found.
     pure_try (ok_or (direct InvalidRequestUri ''unknown, expired or already used request_uri'') found) (\<lambda>record.
     if cid_str (par_client_id record) \<noteq> client_id then
       ptry_map (\<lambda>_. Direct (error_new ServerError)) (store_op (st_put_pushed (srv_store srv) record)) (\<lambda>_.
       Done (Err (direct InvalidRequestUri ''request_uri was not issued to this client'')))
     else pbind (now srv) (\<lambda>n.
       if par_expires_at record \<le> n then Done (Err (direct InvalidRequestUri ''request_uri has expired''))
       else validate_direct_authorization_request srv (as_request record))))"

section \<open>Transitions\<close>

context server_core_steps
begin

lemma keeps_validate_direct: "steps T (validate_direct_authorization_request srv request)"
  unfolding validate_direct_authorization_request_def Let_def
  by (auto intro!: keeps_rules keeps_validate_inner)

lemma keeps_verified_request_object: "steps T (verified_request_object srv cid object)"
  unfolding verified_request_object_def by (auto split: option.split intro!: keeps_rules)

lemma keeps_validate_signed: "steps T (validate_signed_authorization_request srv client_id object)"
  unfolding validate_signed_authorization_request_def
  by (auto intro!: keeps_rules keeps_verified_request_object keeps_validate_direct)

lemma keeps_bind_par_dpop: "steps T (bind_par_dpop srv request prf)"
  unfolding bind_par_dpop_def by (auto split: option.split intro!: keeps_rules keeps_verify_dpop_inner)

end

context server_pushed_steps
begin

lemma keeps_store_pushed_request: "steps T (store_pushed_request srv cid request t)"
  unfolding store_pushed_request_def Let_def
  by (auto intro!: keeps_pushed_rules keeps_validate_direct)

lemma keeps_pushed_authorization_request: "steps T (pushed_authorization_request_inner srv cid cred ps prf)"
  unfolding pushed_authorization_request_inner_def
  by (auto split: option.split intro!: keeps_pushed_rules keeps_authenticate_client
      keeps_verified_request_object keeps_bind_par_dpop keeps_store_pushed_request)

lemma keeps_validate_pushed: "steps T (validate_pushed_authorization_request srv client_id uri)"
  unfolding validate_pushed_authorization_request_def
  by (auto intro!: keeps_pushed_rules keeps_validate_direct)

end

end
