(* ===== verification/Revocation_Endpoint.thy ===== *)
theory Revocation_Endpoint
  imports Token_Issue
begin

text \<open>
  Introspection, revocation and remembered consents (\<^verbatim>\<open>server.rs\<close>:
  \<^verbatim>\<open>introspection_response_with_credential\<close>, \<^verbatim>\<open>revoke_with_credential\<close>, \<^verbatim>\<open>record_consent\<close>,
  \<^verbatim>\<open>withdraw_consent\<close>).
\<close>

section \<open>Introspection\<close>

datatype introspection_view = OwningClient | ResourceServer "string list"

definition detail_for_resource_server ::
  "string list \<Rightarrow> authorization_detail \<Rightarrow> authorization_detail option" where
  "detail_for_resource_server mine d =
     (if ad_locations d = [] then Some d
      else
        let locations = filter (\<lambda>l. l \<in> set mine) (ad_locations d)
        in if locations = [] then None else Some (d\<lparr>ad_locations := locations\<rparr>))"

definition details_for_resource_server ::
  "authorization_details \<Rightarrow> string list \<Rightarrow> authorization_details" where
  "details_for_resource_server ds mine = List.map_filter (detail_for_resource_server mine) ds"

primrec push_new :: "string list \<Rightarrow> string list \<Rightarrow> string list" where
  "push_new out [] = out"
| "push_new out (x # xs) = push_new (if x \<in> set out then out else out @ [x]) xs"

definition introspection_view :: "'s server \<Rightarrow> client \<Rightarrow> issued_token \<Rightarrow> introspection_view option" where
  "introspection_view srv c token =
     (if tok_client_id token = cl_client_id c then Some OwningClient
      else
        let registered = (case cfg_resource_servers (srv_config srv) of None \<Rightarrow> [] | Some rs \<Rightarrow> rs);
            mine = push_new [] (filter (\<lambda>i. i \<in> set (tok_resource token))
              (concat (map rs_resources (filter (\<lambda>rs. rs_client_id rs = cl_client_id c) registered))))
        in if mine = [] then None else Some (ResourceServer mine))"

definition active_response :: "'s server \<Rightarrow> issued_token \<Rightarrow> introspection_view \<Rightarrow> introspection_response" where
  "active_response srv t view =
     (let cnf = \<lparr>cnf_jkt = tok_jkt t, cnf_x5t_s256 = tok_x5t_s256 t\<rparr> in
      \<lparr>intro_active = True, intro_scope = scope_param (tok_scope t),
       intro_client_id = Some (cid_str (tok_client_id t)), intro_sub = tok_subject t,
       intro_token_type = Some (case tok_jkt t of Some _ \<Rightarrow> Dpop | None \<Rightarrow> Bearer),
       intro_exp = unix_seconds (tok_expires_at t), intro_iat = unix_seconds (tok_issued_at t),
       intro_iss = Some (issuer_identifier srv),
       intro_aud = (case view of
           OwningClient \<Rightarrow> if tok_resource t = [] then None else Some (tok_resource t)
         | ResourceServer mine \<Rightarrow> Some mine),
       intro_auth_time = Option.bind (tok_authentication t) (\<lambda>a. unix_seconds (auth_time a)),
       intro_acr = Option.bind (tok_authentication t) auth_acr,
       intro_authorization_details = (case view of
           OwningClient \<Rightarrow> tok_authorization_details t
         | ResourceServer mine \<Rightarrow> details_for_resource_server (tok_authorization_details t) mine),
       intro_cnf = (if confirmation_is_empty cnf then None else Some cnf), intro_act = tok_act t\<rparr>)"

definition introspection_response_with_credential ::
  "'s server \<Rightarrow> client_id \<Rightarrow> client_credential \<Rightarrow> string \<Rightarrow> ('s, error_response + introspection_response) prog" where
  "introspection_response_with_credential srv cid cred token =
     ptry (authenticate_client srv cid cred) (\<lambda>c.
     if cl_auth c = Public then
       pbind (emit (srv_hooks srv) (EvClientAuthenticationFailed (cid_str cid) NotConfidential)) (\<lambda>_.
       Done (Err (error_new InvalidClient)))
     else ptry_map to_wire (introspect srv token) (\<lambda>record.
       Done (Ok (case record of
           None \<Rightarrow> inactive
         | Some t \<Rightarrow>
             (case introspection_view srv c t of None \<Rightarrow> inactive | Some view \<Rightarrow> active_response srv t view)))))"

section \<open>Revocation\<close>

definition try_refresh :: "'s server \<Rightarrow> client \<Rightarrow> string \<Rightarrow> ('s, error_response + bool) prog" where
  "try_refresh srv c token =
     stored (st_get_refresh (srv_store srv) token) (\<lambda>found.
     case found of
       None \<Rightarrow> Done (Ok False)
     | Some record \<Rightarrow>
         if rt_client_id record \<noteq> cl_client_id c then Done (Ok False)
         else pbind (revocation_window srv) (\<lambda>w.
           pbind (store_op (st_revoke_family (srv_store srv) (rt_family_id record) w)) (\<lambda>r.
           stored (st_take_refresh (srv_store srv) token) (\<lambda>_.
           pbind (emit (srv_hooks srv) (EvTokenRevoked (cid_str (cl_client_id c)) HintRefreshToken
             (case r of Inl _ \<Rightarrow> True | Inr _ \<Rightarrow> False))) (\<lambda>_.
           Done (Ok True))))))"

definition try_access :: "'s server \<Rightarrow> client \<Rightarrow> string \<Rightarrow> ('s, error_response + bool) prog" where
  "try_access srv c token =
     stored (st_get_token (srv_store srv) token) (\<lambda>found.
     case found of
       None \<Rightarrow> Done (Ok False)
     | Some t \<Rightarrow>
         if tok_client_id t \<noteq> cl_client_id c then Done (Ok False)
         else stored (st_delete_token (srv_store srv) token) (\<lambda>_.
           pbind (emit (srv_hooks srv) (EvTokenRevoked (cid_str (cl_client_id c)) HintAccessToken False)) (\<lambda>_.
           Done (Ok True))))"

definition revoke_with_credential ::
  "'s server \<Rightarrow> client_id \<Rightarrow> client_credential \<Rightarrow> string \<Rightarrow> token_type_hint option \<Rightarrow> ('s, error_response + unit) prog" where
  "revoke_with_credential srv cid cred token hint =
     ptry (authenticate_client srv cid cred) (\<lambda>c.
     case hint of
       Some HintAccessToken \<Rightarrow>
         ptry (try_access srv c token) (\<lambda>done.
         if done then Done (Ok ()) else ptry (try_refresh srv c token) (\<lambda>_. Done (Ok ())))
     | _ \<Rightarrow>
         ptry (try_refresh srv c token) (\<lambda>done.
         if done then Done (Ok ()) else ptry (try_access srv c token) (\<lambda>_. Done (Ok ()))))"

section \<open>Remembered consents\<close>

definition err_consent_subject :: storage_error where
  "err_consent_subject = StorageError ''a consent must name a subject; an empty subject cannot be withdrawn''"

definition err_consent_withdrawn :: storage_error where
  "err_consent_withdrawn = StorageError ''the consent was withdrawn while it was being recorded''"

definition err_consent_randomness :: storage_error where
  "err_consent_randomness = StorageError ''the OS would not provide randomness for a consent id''"

definition err_consent_contended :: storage_error where
  "err_consent_contended = StorageError ''consent record changed concurrently twice; not recorded''"

text \<open>
  One round of the loop of \<^verbatim>\<open>record_consent\<close>; \<open>started\<close> is \<^verbatim>\<open>started_as_widen\<close> before the round and \<open>n\<close>
  the number of rounds after this one.
\<close>

primrec record_consent_loop ::
  "'s server \<Rightarrow> client_id \<Rightarrow> string \<Rightarrow> scope_set \<Rightarrow> string list \<Rightarrow> authentication option \<Rightarrow> system_time \<Rightarrow>
     nat \<Rightarrow> bool option \<Rightarrow> ('s, storage_error + consent_record) prog" where
  "record_consent_loop srv cid subject scope resource authn t 0 started = Done (Err err_consent_contended)"
| "record_consent_loop srv cid subject scope resource authn t (Suc n) started =
     ptry (store_op (st_find_consent (srv_store srv) cid subject)) (\<lambda>expected.
     if started = Some True \<and> expected = None then Done (Err err_consent_withdrawn)
     else ptry (case expected of
          Some existing \<Rightarrow> Done (Ok existing)
        | None \<Rightarrow>
            pbind (try_random_hex srv 16) (\<lambda>drawn.
            pure_try (ok_or err_consent_randomness drawn) (\<lambda>consent_id.
            Done (Ok \<lparr>cons_consent_id = consent_id, cons_client_id = cid, cons_subject = subject,
              cons_scope = scope_empty, cons_resource = [], cons_granted_at = t,
              cons_authentication = None\<rparr>)))) (\<lambda>base.
       let extended = consent_extend base scope resource;
           record = (case authn of None \<Rightarrow> extended | Some a \<Rightarrow> extended\<lparr>cons_authentication := Some a\<rparr>)
       in ptry (store_op (st_cas_consent (srv_store srv) expected record)) (\<lambda>swapped.
          if swapped then Done (Ok record)
          else record_consent_loop srv cid subject scope resource authn t n
            (case started of None \<Rightarrow> Some (expected \<noteq> None) | Some b \<Rightarrow> Some b))))"

definition record_consent ::
  "'s server \<Rightarrow> client_id \<Rightarrow> string \<Rightarrow> scope_set \<Rightarrow> string list \<Rightarrow> authentication option \<Rightarrow>
     ('s, storage_error + consent_record) prog" where
  "record_consent srv cid subject scope resource authn =
     (if subject = [] then Done (Err err_consent_subject)
      else pbind (now srv) (\<lambda>t. record_consent_loop srv cid subject scope resource authn t 2 None))"

definition remembered_consent ::
  "'s server \<Rightarrow> client_id \<Rightarrow> string \<Rightarrow> ('s, storage_error + consent_record option) prog" where
  "remembered_consent srv cid subject = store_op (st_find_consent (srv_store srv) cid subject)"

definition consents_for_subject :: "'s server \<Rightarrow> string \<Rightarrow> ('s, storage_error + consent_record list) prog" where
  "consents_for_subject srv subject = store_op (st_consents_for_subject (srv_store srv) subject)"

definition withdraw_consent :: "'s server \<Rightarrow> string \<Rightarrow> ('s, storage_error + nat) prog" where
  "withdraw_consent srv consent_id =
     ptry (store_op (st_get_consent (srv_store srv) consent_id)) (\<lambda>record.
     pbind (revocation_window srv) (\<lambda>w.
     ptry (store_op (st_revoke_consent (srv_store srv) consent_id w)) (\<lambda>records_revoked.
     case record of
       None \<Rightarrow> Done (Ok records_revoked)
     | Some r \<Rightarrow>
         pbind (emit (srv_hooks srv) (EvConsentWithdrawn (cid_str (cons_client_id r)) (cons_subject r) records_revoked)) (\<lambda>_.
         Done (Ok records_revoked)))))"

section \<open>Transitions\<close>

context server_core_steps
begin

lemma keeps_introspection_response: "steps T (introspection_response_with_credential srv cid cred tok)"
  unfolding introspection_response_with_credential_def
  by (auto intro!: keeps_rules keeps_authenticate_client keeps_introspect)

lemma keeps_try_refresh: "steps T (try_refresh srv c tok)"
  unfolding try_refresh_def by (auto split: option.split intro!: keeps_rules)

lemma keeps_try_access: "steps T (try_access srv c tok)"
  unfolding try_access_def by (auto split: option.split intro!: keeps_rules)

lemma keeps_revoke: "steps T (revoke_with_credential srv cid cred tok hint)"
  unfolding revoke_with_credential_def
  by (auto split: option.split token_type_hint.split
      intro!: keeps_rules keeps_authenticate_client keeps_try_access keeps_try_refresh)

lemma keeps_record_consent: "steps T (record_consent srv cid subject scope resource authn)"
proof -
  have "steps T (record_consent_loop srv cid subject scope resource authn t n started)" for t n started
    by (induction n arbitrary: started) (auto simp: Let_def split: option.split intro!: keeps_rules)
  then show ?thesis unfolding record_consent_def by (auto intro!: keeps_rules)
qed

lemma keeps_withdraw_consent: "steps T (withdraw_consent srv k)"
  unfolding withdraw_consent_def by (auto split: option.split intro!: keeps_rules)

end

section \<open>What introspection discloses\<close>

lemma set_push_new [simp]: "set (push_new out xs) = set out \<union> set xs"
  by (induction xs arbitrary: out) auto

lemma details_for_resource_server_locations:
  "(\<Union>d \<in> set (details_for_resource_server ds mine). set (ad_locations d)) \<subseteq> set mine"
  by (auto simp: details_for_resource_server_def detail_for_resource_server_def List.map_filter_def Let_def
      split: if_splits)

lemma introspection_view_ResourceServer:
  assumes "introspection_view srv c t = Some (ResourceServer mine)"
  shows "mine \<noteq> []" and "set mine \<subseteq> set (tok_resource t)"
    and "\<exists>rss. cfg_resource_servers (srv_config srv) = Some rss \<and>
      set mine \<subseteq> (\<Union>rs \<in> {rs \<in> set rss. rs_client_id rs = cl_client_id c}. set (rs_resources rs))"
  using assms by (auto simp: introspection_view_def Let_def split: if_splits option.splits)

lemma introspection_view_OwningClient:
  "introspection_view srv c t = Some OwningClient \<Longrightarrow> tok_client_id t = cl_client_id c"
  by (auto simp: introspection_view_def Let_def split: if_splits)

definition disclosed :: "'s server \<Rightarrow> client \<Rightarrow> introspection_response \<Rightarrow> bool" where
  "disclosed srv c resp \<longleftrightarrow>
     (\<exists>t. tok_client_id t = cl_client_id c \<and> resp = active_response srv t OwningClient \<or>
       (\<exists>mine. resp = active_response srv t (ResourceServer mine) \<and> mine \<noteq> [] \<and>
          set mine \<subseteq> set (tok_resource t) \<and>
          (\<exists>rss. cfg_resource_servers (srv_config srv) = Some rss \<and>
             set mine \<subseteq> (\<Union>rs \<in> {rs \<in> set rss. rs_client_id rs = cl_client_id c}. set (rs_resources rs))) \<and>
          (\<Union>d \<in> set (intro_authorization_details resp). set (ad_locations d)) \<subseteq> set mine))"

lemma active_response_disclosed:
  assumes "introspection_view srv c t = Some view"
  shows "disclosed srv c (active_response srv t view)"
proof (cases view)
  case OwningClient
  then show ?thesis
    using assms introspection_view_OwningClient unfolding disclosed_def by blast
next
  case (ResourceServer mine)
  note facts = introspection_view_ResourceServer [OF assms [unfolded ResourceServer]]
  have "(\<Union>d \<in> set (intro_authorization_details (active_response srv t view)). set (ad_locations d)) \<subseteq> set mine"
    using details_for_resource_server_locations by (simp add: active_response_def ResourceServer Let_def)
  then show ?thesis using facts unfolding disclosed_def ResourceServer by blast
qed


end
