(* ===== verification/Registration.thy ===== *)
theory Registration
  imports Client_Auth
begin

text \<open>
  Dynamic client registration and its management, RFC 7591 and 7592 (\<^verbatim>\<open>registration.rs\<close>): the handlers.
  The host's registration policy is a trait object; it is one atomic call on the host's state.
\<close>

definition registration_config_of :: "'s server \<Rightarrow> registration_failure + registration_config" where
  "registration_config_of srv = ok_or RegDisabled (cfg_registration (srv_config srv))"

definition registration_endpoint :: "registration_config \<Rightarrow> string \<Rightarrow> string" where
  "registration_endpoint cfg issuer =
     (case rc_registration_endpoint cfg of
        Some url \<Rightarrow> url
      | None \<Rightarrow> trim_end_slashes issuer @ ''/register'')"

definition registration_client_uri :: "registration_config \<Rightarrow> server_config \<Rightarrow> string \<Rightarrow> string" where
  "registration_client_uri cfg server client_id =
     registration_endpoint cfg (cfg_issuer server) @ ''/'' @ percent_encode client_id"

definition policy_decision :: "'s server \<Rightarrow> registration_attempt \<Rightarrow> ('s, registration_decision) prog" where
  "policy_decision srv attempt =
     (case hk_registration_policy (srv_hooks srv) of None \<Rightarrow> Done RegDeny | Some policy \<Rightarrow> act (policy attempt))"

section \<open>Registering\<close>

definition admit_registration :: "'s server \<Rightarrow> ('s, registration_failure + unit) prog" where
  "admit_registration srv =
     pure_try (registration_config_of srv) (\<lambda>_.
     pbind (hooks_check (srv_hooks srv) AtClientRegistration) (\<lambda>d.
     if d = Deny then Done (Err RegUnauthorized) else Done (Ok ())))"

definition secret_deadline :: "registration_config \<Rightarrow> nat option \<Rightarrow> nat" where
  "secret_deadline cfg at =
     (case rc_client_secret_ttl cfg of
        None \<Rightarrow> 0
      | Some ttl \<Rightarrow> min ((case at of Some n \<Rightarrow> n | None \<Rightarrow> 0) + ttl div nanos_per_sec) (2 ^ 64 - 1))"

definition random_artifact :: "'s server \<Rightarrow> nat \<Rightarrow> ('s, registration_failure + string) prog" where
  "random_artifact srv n = pbind (try_random_hex srv n) (\<lambda>r. Done (ok_or randomness_failure r))"

definition new_secret :: "'s server \<Rightarrow> bool \<Rightarrow> ('s, registration_failure + string option) prog" where
  "new_secret srv wanted =
     (if wanted then ptry (random_artifact srv 32) (\<lambda>s. Done (Ok (Some s))) else Done (Ok None))"

definition registered_client ::
  "'z crates_scheme \<Rightarrow> registered_terms \<Rightarrow> client_id \<Rightarrow> string option \<Rightarrow> string \<Rightarrow> nat option \<Rightarrow> nat option \<Rightarrow> client" where
  "registered_client lib t cid secret access_token at secret_expires_at =
     \<lparr>cl_client_id = cid,
      cl_auth = (case secret of None \<Rightarrow> Public | Some s \<Rightarrow> ConfidentialSecretHash (secret_sha256 lib s)),
      cl_grant_types = rg_grant_types t, cl_redirect_uris = rg_redirect_uris t,
      cl_allowed_scopes = rg_scope t, cl_default_scopes = rg_scope t, cl_name = rg_client_name t,
      cl_registration = Some \<lparr>registration_access_token_hash = secret_sha256 lib access_token,
        client_id_issued_at = at, client_secret_expires_at = secret_expires_at,
        token_endpoint_auth_method = rg_auth_method t\<rparr>\<rparr>"

definition write_registration ::
  "'s server \<Rightarrow> registration_config \<Rightarrow> registered_terms \<Rightarrow> ('s, registration_failure + client_information) prog" where
  "write_registration srv cfg t =
     pbind (now srv) (\<lambda>n.
     let at = unix_seconds n in
     ptry (random_artifact srv 16) (\<lambda>cid.
     ptry (new_secret srv (rg_auth_method t \<noteq> AUTH_METHOD_NONE)) (\<lambda>secret.
     let expires_at = map_option (\<lambda>_. secret_deadline cfg at) secret in
     ptry (random_artifact srv 32) (\<lambda>access_token.
     ptry_map RegStorage (store_op (st_put_client (srv_store srv)
       (registered_client (srv_lib srv) t (ClientId cid) secret access_token at expires_at))) (\<lambda>_.
     pbind (emit (srv_hooks srv) (EvClientRegistered cid)) (\<lambda>_.
     pbind (hooks_record (srv_hooks srv) AtClientRegistration Succeeded) (\<lambda>_.
     Done (Ok \<lparr>ci_client_id = cid, ci_client_secret = secret, ci_client_id_issued_at = at,
       ci_client_secret_expires_at = expires_at,
       ci_registration_access_token = (if rc_management_enabled cfg then Some access_token else None),
       ci_registration_client_uri =
         (if rc_management_enabled cfg then Some (registration_client_uri cfg (srv_config srv) cid) else None),
       ci_metadata = terms_metadata t\<rparr>))))))))"

definition register_admitted_client ::
  "'s server \<Rightarrow> client_metadata \<Rightarrow> string option \<Rightarrow> ('s, registration_failure + client_information) prog" where
  "register_admitted_client srv metadata initial_access_token =
     pure_try (registration_config_of srv) (\<lambda>cfg.
     pbind (policy_decision srv \<lparr>ra_initial_access_token = initial_access_token, ra_metadata = metadata\<rparr>) (\<lambda>d.
     if d \<noteq> RegAllow then
       pbind (emit (srv_hooks srv) (EvClientRegistrationRefusedByPolicy None)) (\<lambda>_.
       pbind (hooks_record (srv_hooks srv) AtClientRegistration Failed) (\<lambda>_.
       Done (Err RegUnauthorized)))
     else case validate_registration metadata cfg of
       Inl refusal \<Rightarrow> pbind (hooks_record (srv_hooks srv) AtClientRegistration Failed) (\<lambda>_. Done (Err refusal))
     | Inr t \<Rightarrow> write_registration srv cfg t))"

definition register_dynamic_client ::
  "'s server \<Rightarrow> client_metadata \<Rightarrow> string option \<Rightarrow> ('s, registration_failure + client_information) prog" where
  "register_dynamic_client srv metadata initial_access_token =
     ptry (admit_registration srv) (\<lambda>_. register_admitted_client srv metadata initial_access_token)"

section \<open>Managing\<close>

definition registration_auth_failed ::
  "'s server \<Rightarrow> client_id \<Rightarrow> client_auth_failure \<Rightarrow> bool \<Rightarrow> ('s, registration_failure) prog" where
  "registration_auth_failed srv cid failure attempted =
     pbind (emit (srv_hooks srv) (EvClientRegistrationAuthenticationFailed (cid_str cid) failure)) (\<lambda>_.
     pbind (if attempted then hooks_record (srv_hooks srv) (AtClientAuthentication (cid_str cid)) Failed else Done ())
       (\<lambda>_. Done RegUnauthorized))"

definition authenticate_registration ::
  "'s server \<Rightarrow> client_id \<Rightarrow> string \<Rightarrow> ('s, registration_failure + client \<times> dynamic_registration) prog" where
  "authenticate_registration srv cid access_token =
     pure_try (registration_config_of srv) (\<lambda>cfg.
     if \<not> rc_management_enabled cfg then Done (Err RegDisabled)
     else pbind (hooks_check (srv_hooks srv) (AtClientAuthentication (cid_str cid))) (\<lambda>d.
     if d = Deny then
       pbind (registration_auth_failed srv cid RateLimited False) (\<lambda>e. Done (Err e))
     else ptry_map RegStorage (store_op (st_get_client (srv_store srv) cid)) (\<lambda>found.
     case found of
       None \<Rightarrow> pbind (registration_auth_failed srv cid UnknownClient True) (\<lambda>e. Done (Err e))
     | Some c \<Rightarrow>
         (case cl_registration c of
            None \<Rightarrow> pbind (registration_auth_failed srv cid NoDynamicRegistration True) (\<lambda>e. Done (Err e))
          | Some registration \<Rightarrow>
              if \<not> secret_verify (srv_lib srv) (registration_access_token_hash registration) access_token
                     (hk_secret_verifier (srv_hooks srv)) then
                pbind (registration_auth_failed srv cid SecretMismatch True) (\<lambda>e. Done (Err e))
              else
                pbind (hooks_record (srv_hooks srv) (AtClientAuthentication (cid_str cid)) Succeeded) (\<lambda>_.
                Done (Ok (c, registration)))))))"

definition read_registration ::
  "'s server \<Rightarrow> client_id \<Rightarrow> string \<Rightarrow> ('s, registration_failure + client_information) prog" where
  "read_registration srv cid access_token =
     ptry (authenticate_registration srv cid access_token) (\<lambda>(c, registration).
     pure_try (registration_config_of srv) (\<lambda>cfg.
     Done (Ok \<lparr>ci_client_id = cid_str (cl_client_id c), ci_client_secret = None,
       ci_client_id_issued_at = client_id_issued_at registration,
       ci_client_secret_expires_at = client_secret_expires_at registration,
       ci_registration_access_token = None,
       ci_registration_client_uri = Some (registration_client_uri cfg (srv_config srv) (cid_str (cl_client_id c))),
       ci_metadata = registered_metadata c registration\<rparr>)))"

definition updated_client ::
  "'z crates_scheme \<Rightarrow> client \<Rightarrow> dynamic_registration \<Rightarrow> registered_terms \<Rightarrow> string option \<Rightarrow> nat \<Rightarrow> client" where
  "updated_client lib c registration t secret new_deadline =
     (let wants_secret = (rg_auth_method t \<noteq> AUTH_METHOD_NONE) in
      \<lparr>cl_client_id = cl_client_id c,
       cl_auth = (case secret of
           Some s \<Rightarrow> ConfidentialSecretHash (secret_sha256 lib s)
         | None \<Rightarrow> if wants_secret then cl_auth c else Public),
       cl_grant_types = rg_grant_types t, cl_redirect_uris = rg_redirect_uris t,
       cl_allowed_scopes = rg_scope t, cl_default_scopes = rg_scope t, cl_name = rg_client_name t,
       cl_registration = Some \<lparr>
         registration_access_token_hash = registration_access_token_hash registration,
         client_id_issued_at = client_id_issued_at registration,
         client_secret_expires_at = (case secret of
             Some _ \<Rightarrow> Some new_deadline
           | None \<Rightarrow> if wants_secret then client_secret_expires_at registration else None),
         token_endpoint_auth_method = rg_auth_method t\<rparr>\<rparr>)"

text \<open>The clock is read only when a secret is minted for a limited time.\<close>

definition minted_deadline :: "'s server \<Rightarrow> registration_config \<Rightarrow> string option \<Rightarrow> ('s, nat) prog" where
  "minted_deadline srv cfg secret =
     (if secret \<noteq> None \<and> rc_client_secret_ttl cfg \<noteq> None
      then pbind (now srv) (\<lambda>n. Done (secret_deadline cfg (unix_seconds n))) else Done 0)"

definition update_registration ::
  "'s server \<Rightarrow> client_id \<Rightarrow> string \<Rightarrow> client_metadata \<Rightarrow> ('s, registration_failure + client_information) prog" where
  "update_registration srv cid access_token metadata =
     ptry (authenticate_registration srv cid access_token) (\<lambda>(c, registration).
     pure_try (registration_config_of srv) (\<lambda>cfg.
     pbind (policy_decision srv \<lparr>ra_initial_access_token = None, ra_metadata = metadata\<rparr>) (\<lambda>d.
     if d \<noteq> RegAllow then
       pbind (emit (srv_hooks srv) (EvClientRegistrationRefusedByPolicy (Some (cid_str cid)))) (\<lambda>_.
       Done (Err RegUnauthorized))
     else pure_try (validate_registration metadata cfg) (\<lambda>t.
     ptry (new_secret srv (rg_auth_method t \<noteq> AUTH_METHOD_NONE \<and> \<not> is_confidential (cl_auth c))) (\<lambda>secret.
     pbind (minted_deadline srv cfg secret) (\<lambda>deadline.
     let updated = updated_client (srv_lib srv) c registration t secret deadline in
     ptry_map RegStorage (store_op (st_cas_client (srv_store srv) c updated)) (\<lambda>applied.
     if \<not> applied then Done (Err RegUnauthorized)
     else pbind (emit (srv_hooks srv) (EvClientRegistrationUpdated (cid_str cid))) (\<lambda>_.
     let registration' = the (cl_registration updated) in
     Done (Ok \<lparr>ci_client_id = cid_str cid, ci_client_secret = secret,
       ci_client_id_issued_at = client_id_issued_at registration',
       ci_client_secret_expires_at = client_secret_expires_at registration',
       ci_registration_access_token = None,
       ci_registration_client_uri = Some (registration_client_uri cfg (srv_config srv) (cid_str cid)),
       ci_metadata = registered_metadata updated registration'\<rparr>)))))))))"

definition delete_registration :: "'s server \<Rightarrow> client_id \<Rightarrow> string \<Rightarrow> ('s, registration_failure + unit) prog" where
  "delete_registration srv cid access_token =
     ptry (authenticate_registration srv cid access_token) (\<lambda>_.
     pbind (revocation_window srv) (\<lambda>window.
     ptry_map RegStorage (store_op (st_delete_client (srv_store srv) cid window)) (\<lambda>_.
     pbind (emit (srv_hooks srv) (EvClientRegistrationDeleted (cid_str cid))) (\<lambda>_.
     Done (Ok ())))))"

section \<open>Transitions\<close>

context server_auth_steps
begin

lemma keeps_authenticate_registration: "steps T (authenticate_registration srv cid tok)"
  unfolding authenticate_registration_def registration_auth_failed_def
  by (auto split: option.split intro!: keeps_auth_rules)

end

text \<open>What reading and updating a registration needs of a host: it never puts a client into the store.\<close>

locale registration_steps = server_auth_steps srv T
  for srv :: "'s server" and T :: "'s \<Rightarrow> 's \<Rightarrow> bool" +
  assumes draws: "T s (snd (srv_random srv n s))"
    and decides: "hk_registration_policy (srv_hooks srv) = Some p \<Longrightarrow> T s (snd (p attempt s))"
    and swaps: "T s (snd (st_cas_client (srv_store srv) c d s))"
begin

lemma keeps_policy: "steps T (policy_decision srv attempt)"
  unfolding policy_decision_def by (auto split: option.split intro!: steps_Done steps_act decides)

lemma keeps_artifacts: "steps T (random_artifact srv n)" "steps T (new_secret srv wanted)"
    "steps T (minted_deadline srv cfg secret)"
  unfolding new_secret_def random_artifact_def minted_deadline_def try_random_hex_def
  by (auto intro!: keeps_auth_rules draws)

lemma keeps_read_registration: "steps T (read_registration srv cid tok)"
  unfolding read_registration_def
  by (auto split: prod.split intro!: keeps_auth_rules keeps_authenticate_registration)

lemma keeps_update_registration: "steps T (update_registration srv cid tok md)"
  unfolding update_registration_def Let_def
  by (auto split: prod.split
      intro!: keeps_auth_rules keeps_store_op swaps keeps_policy keeps_artifacts keeps_authenticate_registration)

end

sublocale server_core_steps \<subseteq> registration_steps srv T
  by unfold_locales (simp_all add: random policy cas_client)

context server_core_steps
begin

lemma keeps_register_dynamic_client: "steps T (register_dynamic_client srv md iat)"
  unfolding register_dynamic_client_def admit_registration_def register_admitted_client_def write_registration_def Let_def
  by (auto split: sum.split intro!: keeps_rules keeps_policy keeps_artifacts)

lemma keeps_delete_registration: "steps T (delete_registration srv cid tok)"
  unfolding delete_registration_def
  by (auto intro!: keeps_rules keeps_authenticate_registration)

end

end
