(* ===== verification/Accounting.thy ===== *)
theory Accounting
  imports Program
begin

text \<open>
  Counting under interleaving. A state holds an amount \<open>R\<close> of some one-shot resource (an unredeemed
  code, an untaken grant); a handler in flight holds a credit; a result has a cost, negative when it
  announces a resource that was created. \<open>spends I R C c p\<close>: with credit \<open>c\<close> the handler \<open>p\<close> pays for
  its result, and every one of its calls conserves the sum of the state's amount and the credit, in
  every state that satisfies the invariant \<open>I\<close>, whatever other handlers did before. The pool then
  conserves the sum over all handlers, so the results cannot cost more than the start had.
\<close>

inductive spends ::
  "('s \<Rightarrow> bool) \<Rightarrow> ('s \<Rightarrow> int) \<Rightarrow> ('a \<Rightarrow> int) \<Rightarrow> int \<Rightarrow> ('s, 'a) prog \<Rightarrow> bool"
  for I :: "'s \<Rightarrow> bool" and R :: "'s \<Rightarrow> int" and C :: "'a \<Rightarrow> int" where
  spends_Done: "C a \<le> c \<Longrightarrow> spends I R C c (Done a)"
| spends_Step:
    "(\<And>s. I s \<Longrightarrow> I (snd (f s)) \<and> (\<exists>c'. R (snd (f s)) + c' \<le> R s + c \<and> spends I R C c' (fst (f s)))) \<Longrightarrow>
     spends I R C c (Step f)"

inductive_cases spends_StepE: "spends I R C c (Step f)"

inductive_simps spends_Done_iff [simp]: "spends I R C c (Done a)"

lemma spends_more:
  assumes "spends I R C c p" and "c \<le> d"
  shows "spends I R C d p"
  using assms
proof cases
  case (spends_Step f)
  then have "spends I R C d (Step f)"
    using assms(2) by (intro spends.spends_Step) (meson add_left_mono order_trans)
  then show ?thesis using spends_Step by simp
qed simp

lemma spends_act:
  assumes "\<And>s. I s \<Longrightarrow> I (snd (f s)) \<and> R (snd (f s)) + C (fst (f s)) \<le> R s + c"
  shows "spends I R C c (act f)"
  unfolding act_def
proof (rule spends_Step)
  fix s assume "I s"
  with assms [of s] show "I (snd (case f s of (a, s') \<Rightarrow> (Done a, s'))) \<and>
      (\<exists>c'. R (snd (case f s of (a, s') \<Rightarrow> (Done a, s'))) + c' \<le> R s + c \<and>
        spends I R C c' (fst (case f s of (a, s') \<Rightarrow> (Done a, s'))))"
    by (cases "f s") auto
qed

lemma spends_pbind:
  assumes "spends I R C' c p" and "\<And>a. spends I R C (C' a) (k a)"
  shows "spends I R C c (pbind p k)"
  using assms(1)
proof induction
  case (spends_Done a c)
  then show ?case using assms(2) by (auto intro: spends_more)
next
  case (spends_Step f c)
  have "I (snd (map_prod (\<lambda>p. pbind p k) id (f s))) \<and>
      (\<exists>c'. R (snd (map_prod (\<lambda>p. pbind p k) id (f s))) + c' \<le> R s + c \<and>
        spends I R C c' (fst (map_prod (\<lambda>p. pbind p k) id (f s))))" if "I s" for s
    using spends_Step [OF that] by (cases "f s") auto
  then show ?case by (simp add: spends.spends_Step)
qed

text \<open>Calls that create nothing are free, and leave the credit for what follows.\<close>

abbreviation conserves :: "('s \<Rightarrow> bool) \<Rightarrow> ('s \<Rightarrow> int) \<Rightarrow> 's \<Rightarrow> 's \<Rightarrow> bool" where
  "conserves I R s s' \<equiv> I s \<longrightarrow> I s' \<and> R s' \<le> R s"

lemma spends_steps:
  assumes "steps (conserves I R) p"
  shows "spends I R (\<lambda>_. c) c p"
  using assms
proof induction
  case (steps_Step f)
  then show ?case by (intro spends_Step) (metis add_right_mono)
qed simp

lemma spends_after:
  "steps (conserves I R) p \<Longrightarrow> (\<And>a. spends I R C c (k a)) \<Longrightarrow> spends I R C c (pbind p k)"
  by (rule spends_pbind [OF spends_steps])

lemma spends_ptry:
  assumes "steps (conserves I R) p" and "\<And>a. spends I R C c (k a)" and "\<And>e. C (Inl e) \<le> c"
  shows "spends I R C c (ptry p k)"
  unfolding ptry_def using assms by (intro spends_after) (auto split: sum.split)

lemma spends_ptry_map:
  assumes "steps (conserves I R) p" and "\<And>a. spends I R C c (k a)" and "\<And>e. C (Inl e) \<le> c"
  shows "spends I R C c (ptry_map h p k)"
  unfolding ptry_map_def using assms by (intro spends_after) (auto split: sum.split)

lemma spends_pure_try:
  assumes "\<And>a. r = Inr a \<Longrightarrow> spends I R C c (k a)" and "\<And>e. C (Inl e) \<le> c"
  shows "spends I R C c (pure_try r k)"
  using assms by (auto simp: pure_try_def split: sum.split)

section \<open>The pool\<close>

lemma sum_list_update_int:
  "i < length cs \<Longrightarrow> sum_list (cs[i := c]) = sum_list cs + c - cs ! i" for cs :: "int list"
  by (induction cs arbitrary: i) (auto split: nat.split)

lemma pool_step_spends:
  assumes "pool_step P (ps, s) (qs, t)" and "\<forall>p \<in> P. spends I R C 0 p"
    and "list_all2 (spends I R C) cs ps" and "I s"
  shows "I t \<and> (\<exists>ds. list_all2 (spends I R C) ds qs \<and> sum_list ds + R t \<le> sum_list cs + R s)"
  using assms(1)
proof cases
  case (pool_call i f p')
  then have "spends I R C (cs ! i) (Step f)"
    using list_all2_nthD2 [OF assms(3), of i] by simp
  then obtain c' where I: "I t" and c': "R t + c' \<le> R s + cs ! i" "spends I R C c' p'"
    using assms(4) pool_call by (metis fst_conv snd_conv spends_StepE)
  have "list_all2 (spends I R C) (cs[i := c']) qs"
    using pool_call c'(2) assms(3) by (simp add: list_all2_update_cong)
  moreover have "sum_list (cs[i := c']) + R t \<le> sum_list cs + R s"
    using pool_call c'(1) list_all2_lengthD [OF assms(3)] by (simp add: sum_list_update_int)
  ultimately show ?thesis using I by blast
next
  case (pool_spawn p)
  then have "list_all2 (spends I R C) (cs @ [0]) qs"
    using assms(2,3) by (simp add: list_all2_appendI)
  then show ?thesis using pool_spawn assms(4) by (intro conjI exI) auto
qed

lemma pool_spends:
  assumes "pool_run P ([], s) (qs, t)" and "\<forall>p \<in> P. spends I R C 0 p" and "I s"
  shows "I t \<and> (\<exists>ds. list_all2 (spends I R C) ds qs \<and> sum_list ds + R t \<le> R s)"
  using assms
proof (induction "(qs, t)" arbitrary: qs t rule: rtranclp_induct)
  case base
  then show ?case by (intro conjI exI [of _ "[]"]) simp_all
next
  case (step c)
  obtain ps u where c: "c = (ps, u)" by (cases c)
  from step(3) [OF c step(4,5)] obtain ds where ds: "list_all2 (spends I R C) ds ps"
    "sum_list ds + R u \<le> R s" and u: "I u" by blast
  show ?case
    using pool_step_spends [OF step(2) [unfolded c] step(4) ds(1) u] ds(2) by (meson order_trans)
qed

text \<open>The results of the handlers that have finished.\<close>

fun answers :: "('s, 'a) prog list \<Rightarrow> 'a list" where
  "answers [] = []"
| "answers (Done a # ps) = a # answers ps"
| "answers (Step f # ps) = answers ps"

definition all_answered :: "('s, 'a) prog list \<Rightarrow> bool" where
  "all_answered ps \<longleftrightarrow> list_all (\<lambda>p. case p of Done _ \<Rightarrow> True | Step _ \<Rightarrow> False) ps"

lemma answers_cost:
  "list_all2 (spends I R C) ds ps \<Longrightarrow> all_answered ps \<Longrightarrow> sum_list (map C (answers ps)) \<le> sum_list ds"
proof (induction ds ps rule: list_all2_induct)
  case (Cons d ds p ps)
  then show ?case by (cases p) (auto simp: all_answered_def)
qed simp

theorem pool_pays:
  assumes "pool_run P ([], s) (qs, t)" and "\<forall>p \<in> P. spends I R C 0 p" and "I s" and "all_answered qs"
  shows "sum_list (map C (answers qs)) + R t \<le> R s"
  using pool_spends [OF assms(1-3)] answers_cost [OF _ assms(4)] by (meson add_right_mono order_trans)

end
