(* ===== verification/Requests.thy ===== *)
theory Requests
  imports Token_Exchange Par_Endpoint Revocation_Endpoint Registration Accounting
begin

text \<open>
  All endpoints of the server as one family of handlers: what can arrive, what is answered, and the
  pool in which any number of them runs beside the host's sweeps while the clock moves on.
\<close>

datatype endpoint_request =
    RqToken token_request token_context
  | RqDeviceAuthorization client_id client_credential "scope_set option"
  | RqApproveDevice string string
  | RqDenyDevice string
  | RqAuthorize authorization_request
  | RqIssueCode user_approval authentication_requirement "authentication option"
  | RqIntrospect client_id client_credential string
  | RqRevoke client_id client_credential string "token_type_hint option"
  | RqRecordConsent client_id string scope_set "string list" "authentication option"
  | RqWithdrawConsent string
  | RqRegisterClient client
  | RqPush client_id client_credential "(string \<times> string) list" "string option"
  | RqAuthorizePushed string string
  | RqAuthorizeSigned string string
  | RqExchange exchange_request
  | RqRegisterDynamic client_metadata "string option"
  | RqReadRegistration client_id string
  | RqUpdateRegistration client_id string client_metadata
  | RqDeleteRegistration client_id string

text \<open>Each answer carries what its request named, so that the answers of a pool tell their requests.\<close>

datatype endpoint_answer =
    AnToken token_request "error_response + token_response"
  | AnDeviceAuthorization "error_response + device_authorization_response"
  | AnDeviceDecision "device_approval_error + unit"
  | AnAuthorize "authorization_error + validated_request"
  | AnIssueCode "authorization_error + authorization_response"
  | AnIntrospect "error_response + introspection_response"
  | AnRevoke "error_response + unit"
  | AnRecordConsent "storage_error + consent_record"
  | AnWithdrawConsent "storage_error + nat"
  | AnRegisterClient "storage_error + unit"
  | AnPush "error_response + pushed_response"
  | AnAuthorizePushed string "authorization_error + validated_request"
  | AnExchange "error_response + exchanged_token"
  | AnRegistration "registration_failure + client_information"
  | AnDeleteRegistration "registration_failure + unit"
  | AnHost

definition answering :: "('s, 'a) prog \<Rightarrow> ('a \<Rightarrow> 'b) \<Rightarrow> ('s, 'b) prog" where
  "answering p tag = pbind p (\<lambda>a. Done (tag a))"

fun handle :: "'s server \<Rightarrow> endpoint_request \<Rightarrow> ('s, endpoint_answer) prog" where
  "handle srv (RqToken request ctx) = answering (token_with_context srv request ctx) (AnToken request)"
| "handle srv (RqDeviceAuthorization cid cred sc) =
     answering (device_authorization_with_credential srv cid cred sc) AnDeviceAuthorization"
| "handle srv (RqApproveDevice entered subject) = answering (approve_device srv entered subject) AnDeviceDecision"
| "handle srv (RqDenyDevice entered) = answering (deny_device srv entered) AnDeviceDecision"
| "handle srv (RqAuthorize request) = answering (validate_authorization_request srv request) AnAuthorize"
| "handle srv (RqIssueCode approval requirement authn) =
     answering (issue_authorization_code_with_authentication srv approval requirement authn) AnIssueCode"
| "handle srv (RqIntrospect cid cred tok) =
     answering (introspection_response_with_credential srv cid cred tok) AnIntrospect"
| "handle srv (RqRevoke cid cred tok hint) = answering (revoke_with_credential srv cid cred tok hint) AnRevoke"
| "handle srv (RqRecordConsent cid subject scope resource authn) =
     answering (record_consent srv cid subject scope resource authn) AnRecordConsent"
| "handle srv (RqWithdrawConsent k) = answering (withdraw_consent srv k) AnWithdrawConsent"
| "handle srv (RqRegisterClient c) = answering (register_client srv c) AnRegisterClient"
| "handle srv (RqPush cid cred parameters prf) =
     answering (pushed_authorization_request_inner srv cid cred parameters prf) AnPush"
| "handle srv (RqAuthorizePushed client_id uri) =
     answering (validate_pushed_authorization_request srv client_id uri) (AnAuthorizePushed uri)"
| "handle srv (RqAuthorizeSigned client_id object) =
     answering (validate_signed_authorization_request srv client_id object) AnAuthorize"
| "handle srv (RqExchange request) = answering (exchange_token srv request) AnExchange"
| "handle srv (RqRegisterDynamic metadata iat) = answering (register_dynamic_client srv metadata iat) AnRegistration"
| "handle srv (RqReadRegistration cid tok) = answering (read_registration srv cid tok) AnRegistration"
| "handle srv (RqUpdateRegistration cid tok metadata) =
     answering (update_registration srv cid tok metadata) AnRegistration"
| "handle srv (RqDeleteRegistration cid tok) = answering (delete_registration srv cid tok) AnDeleteRegistration"

lemma steps_answering: "steps T p \<Longrightarrow> steps T (answering p tag)"
  unfolding answering_def by (intro steps_pbind steps_Done)

context server_steps
begin

lemma keeps_handle: "steps T (handle srv r)"
  by (cases r)
    (simp_all add: steps_answering keeps_token_with_context keeps_device_authorization keeps_approve_device
      keeps_deny_device keeps_validate_authorization_request
      keeps_issue_authorization_code_with_authentication keeps_introspection_response keeps_revoke
      keeps_record_consent keeps_withdraw_consent keeps_register_client keeps_pushed_authorization_request
      keeps_validate_pushed keeps_validate_signed keeps_exchange_token keeps_register_dynamic_client
      keeps_read_registration keeps_update_registration keeps_delete_registration)

end

section \<open>The host's own activity\<close>

text \<open>
  The host's timer sweeps beside the requests, and the world moves on: the clock is set to any time,
  also an earlier one, the random source yields any bytes, and the monotonic clock advances.
\<close>

definition sweep_job :: "'s server \<Rightarrow> system_time \<Rightarrow> ('s, endpoint_answer) prog" where
  "sweep_job srv t = answering (store_op (st_sweep_expired (srv_store srv) t)) (\<lambda>_. AnHost)"

fun world_job :: "system_time \<times> byte list \<Rightarrow> (world, endpoint_answer) prog" where
  "world_job (t, bytes) = act (\<lambda>w. (AnHost, w\<lparr>w_time := t, w_entropy := bytes\<rparr>))"

definition instant_job :: "instant \<Rightarrow> (world, endpoint_answer) prog" where
  "instant_job t = act (\<lambda>w. (AnHost, w\<lparr>w_instant := max t (w_instant w)\<rparr>))"

definition jobs_at :: "world server \<Rightarrow> system_time set \<Rightarrow> instant set \<Rightarrow> (world, endpoint_answer) prog set" where
  "jobs_at srv sweeps instants =
     range (handle srv) \<union> sweep_job srv ` sweeps \<union> range world_job \<union> instant_job ` instants"

definition jobs :: "world server \<Rightarrow> system_time set \<Rightarrow> (world, endpoint_answer) prog set" where
  "jobs srv sweeps = jobs_at srv sweeps UNIV"

lemma steps_sweep_job:
  assumes "\<And>m. T m (snd (mem_sweep_expired t m))"
  shows "steps (on_mem T) (sweep_job (host pf) t)"
  unfolding sweep_job_def store_op_def
  by (intro steps_answering steps_act) (simp add: lift_storage_def mem_storage_def assms)

lemma steps_world_job:
  assumes "\<And>m. T m m"
  shows "steps (on_mem T) (world_job x)"
  by (cases x) (simp add: steps_act assms)

lemma steps_instant_job:
  assumes "\<And>m. T m m"
  shows "steps (on_mem T) (instant_job t)"
  unfolding instant_job_def by (simp add: steps_act assms)

lemma jobs_steps:
  assumes "\<And>r. steps (on_mem T) (handle (host pf) r)"
    and "\<And>t m. t \<in> sweeps \<Longrightarrow> T m (snd (mem_sweep_expired t m))" and "\<And>m. T m m"
  shows "\<forall>p \<in> jobs (host pf) sweeps. steps (on_mem T) p"
proof -
  have "steps (on_mem T) (sweep_job (host pf) t)" if "t \<in> sweeps" for t
    by (rule steps_sweep_job) (rule assms(2) [OF that])
  then show ?thesis using assms(1) steps_world_job [of T, OF assms(3)] steps_instant_job [of T, OF assms(3)]
    by (auto simp: jobs_def jobs_at_def)
qed

text \<open>An invariant of the store that all jobs keep holds after any run, from any pool they can leave.\<close>

lemma pool_keeps:
  assumes steps: "\<forall>p \<in> P. steps (on_mem (\<lambda>m m'. I m \<longrightarrow> I m')) p"
    and "pool_run P ([], w0) (ps, w)" and "pool_run P (ps, w1) (qs, w2)" and "I (w_mem w1)"
  shows "I (w_mem w2)"
proof -
  let ?I = "\<lambda>w. I (w_mem w)"
  have "\<forall>p \<in> set ps. steps (on_mem (\<lambda>m m'. I m \<longrightarrow> I m')) p"
    using pool_steps [OF assms(2) steps] by simp
  then have "\<forall>p \<in> set ps. keeps ?I p" by (auto intro: steps_keeps)
  moreover have "\<forall>p \<in> P. keeps ?I p" using steps by (auto intro: steps_keeps)
  ultimately show ?thesis using pool_invariant [OF assms(3), of ?I] assms(4) by blast
qed

lemma pool_runs_one_call:
  assumes "p \<in> P" and "p = Step f"
  shows "pool_run P ([], s) ([fst (f s)], snd (f s))"
proof -
  have "pool_step P ([], s) ([Step f], s)"
    using pool_spawn [of p P "[]" s] assms by simp
  moreover have "pool_step P ([Step f], s) ([fst (f s)], snd (f s))"
    using pool_call [of 0 "[Step f]" f s "fst (f s)" "snd (f s)" P] by simp
  ultimately show ?thesis by (meson r_into_rtranclp rtranclp.rtrancl_into_rtrancl)
qed

lemma pool_runs_handler:
  "\<exists>qs w2. pool_run (jobs srv sweeps) ([], w) (qs, w2) \<and> qs \<noteq> []"
proof -
  let ?r = "RqWithdrawConsent ''consent''"
  obtain f where "handle srv ?r = Step f"
    by (simp add: answering_def withdraw_consent_def ptry_def store_op_def act_def)
  moreover have "handle srv ?r \<in> jobs srv sweeps" unfolding jobs_def jobs_at_def by (intro UnI1 rangeI)
  ultimately have "pool_run (jobs srv sweeps) ([], w) ([fst (f w)], snd (f w))"
    by (rule pool_runs_one_call [rotated])
  moreover have "[fst (f w)] \<noteq> []" by (rule list.distinct(2))
  ultimately show ?thesis by (intro exI conjI)
qed

text \<open>Requests served one after the other, each to its end: one of the runs of a pool.\<close>

fun serve :: "platform \<Rightarrow> endpoint_request list \<Rightarrow> world \<Rightarrow> endpoint_answer list \<times> world" where
  "serve pf [] w = ([], w)"
| "serve pf (r # rs) w =
     (case run (handle (host pf) r) w of
        (a, w') \<Rightarrow> (case serve pf rs w' of (as, w'') \<Rightarrow> (a # as, w'')))"

lemma pool_runs_serve_from:
  assumes "range (handle (host pf)) \<subseteq> P"
  shows "pool_run P (qs, w) (qs @ map Done (fst (serve pf rs w)), snd (serve pf rs w))"
proof (induction rs arbitrary: qs w)
  case (Cons r rs)
  let ?run = "run (handle (host pf) r) w"
  have "handle (host pf) r \<in> P" using assms by blast
  from pool_runs_alone [OF this, of qs w]
  have "pool_run P (qs, w) (qs @ [Done (fst ?run)], snd ?run)" .
  also note Cons.IH [of "qs @ [Done (fst ?run)]" "snd ?run"]
  finally show ?case by (simp add: split_beta)
qed simp

lemmas pool_runs_serve = pool_runs_serve_from [where qs = "[]", simplified]

lemma answers_map_Done [simp]: "answers (map Done as) = as"
  by (induction as) simp_all

lemma all_answered_map_Done [simp]: "all_answered (map Done as)"
  by (simp add: all_answered_def list_all_iff)

lemma serve_is_a_run:
  obtains qs w2 where "pool_run (jobs (host pf) sweeps) ([], w) (qs, w2)" and "all_answered qs"
    and "answers qs = fst (serve pf rs w)"
proof
  show "pool_run (jobs (host pf) sweeps) ([], w) (map Done (fst (serve pf rs w)), snd (serve pf rs w))"
    by (rule pool_runs_serve) (simp add: jobs_def jobs_at_def image_subset_iff)
qed simp_all

end
