(* ===== verification/Throttling.thy ===== *)
theory Throttling
  imports Requests
begin

text \<open>
  The endpoints and the limiter together: how many user codes can be tried within one window, under
  every interleaving of the requests.
\<close>

lemma lift_op_limits [simp]:
  "w_limits (snd (lift_op f w)) = w_limits w" "w_instant (snd (lift_op f w)) = w_instant w"
  by (simp_all add: lift_op_def split: prod.split)

text \<open>Only the limiter's own calls touch its counters.\<close>

lemma host_limit_steps:
  assumes refl: "\<And>x. T x x"
    and check: "\<And>l a t st. pf_limiter pf = Some l \<Longrightarrow> T (st, t) (snd (limiter_check l t a st), t)"
    and recorded: "\<And>l a out t st. pf_limiter pf = Some l \<Longrightarrow> T (st, t) (limiter_record l t a out st, t)"
  shows "server_steps (host pf) (\<lambda>w w'. T (w_limits w, w_instant w) (w_limits w', w_instant w'))"
  by unfold_locales
    (auto simp: host_def host_limiter_def lift_storage_def draw_def refl recorded split_beta intro: check)

section \<open>The user code budget of one window\<close>

abbreviation entry_window :: "fixed_window_rate_limiter \<Rightarrow> instant \<Rightarrow> u64" where
  "entry_window l \<equiv> window_index (frl_config l) (frl_base l)"

definition entries_ok :: "fixed_window_rate_limiter \<Rightarrow> u64 \<Rightarrow> window \<times> instant \<Rightarrow> bool" where
  "entries_ok l i = (\<lambda>(st, t). entry_window l t = i \<and>
     unat (win_device_user_code (roll_to i st)) \<le> unat (device_user_code_capacity (frl_config l)))"

definition entries_left :: "fixed_window_rate_limiter \<Rightarrow> u64 \<Rightarrow> window \<times> instant \<Rightarrow> int" where
  "entries_left l i = (\<lambda>(st, t). int (unat (device_user_code_capacity (frl_config l)) -
     unat (win_device_user_code (roll_to i st))))"

lemma check_spends_entry:
  assumes "entries_ok l i (st, t)" and "limiter_check l t AtDeviceUserCodeEntry st = (d, st')"
  shows "entries_ok l i (st', t)"
    and "entries_left l i (st', t) + (if d = Allow then 1 else 0) = entries_left l i (st, t)"
proof -
  let ?cap = "device_user_code_capacity (frl_config l)" and ?st = "roll_to i st"
  obtain n where c: "charge (win_device_user_code ?st) ?cap ATTEMPT_COST = (d, n)"
      and st': "st' = ?st\<lparr>win_device_user_code := n\<rparr>"
    using assms by (auto simp: limiter_check_def check_at_def entries_ok_def split: prod.splits)
  have full: "unat (win_device_user_code ?st) = min (unat ?cap) (unat (win_device_user_code ?st))"
    using assms(1) by (simp add: entries_ok_def)
  note counts = charge_counts [OF full c]
  have "roll_to i st' = st'" by (simp add: st')
  then show "entries_ok l i (st', t)"
    and "entries_left l i (st', t) + (if d = Allow then 1 else 0) = entries_left l i (st, t)"
    using counts assms(1) by (auto simp: entries_ok_def entries_left_def st')
qed

text \<open>The other attempts have budgets of their own, and a failed entry only takes from what is left.\<close>

lemma check_keeps_entries:
  "a \<noteq> AtDeviceUserCodeEntry \<Longrightarrow>
   win_device_user_code (snd (check_in_window cfg a st)) = win_device_user_code st"
  by (cases a) (auto simp: check_in_window.simps client_counter_def authorization_counter_def
      set_client_budget_def set_authorization_budget_def Let_def split: prod.splits if_splits)

lemma record_keeps_entries:
  "a \<noteq> AtDeviceUserCodeEntry \<Longrightarrow>
   win_device_user_code (record_in_window cfg a st) = win_device_user_code st"
  by (cases a) (auto simp: record_in_window.simps client_counter_def authorization_counter_def
      set_client_budget_def set_authorization_budget_def Let_def split: prod.splits if_splits)

lemma check_conserves_entries:
  "conserves (entries_ok l i) (entries_left l i) (st, t) (snd (limiter_check l t a st), t)"
proof (cases "a = AtDeviceUserCodeEntry")
  case True
  then show ?thesis
    using check_spends_entry [of l i st t "fst (limiter_check l t a st)" "snd (limiter_check l t a st)"]
    by (auto split: if_splits)
next
  case False
  have "win_index (snd (check_in_window cfg a (roll_to i st))) = i" for cfg by (simp add: check_keeps_index)
  then show ?thesis
    using False by (auto simp: entries_ok_def entries_left_def limiter_check_def check_at_def check_keeps_entries)
qed

lemma record_conserves_entries:
  "conserves (entries_ok l i) (entries_left l i) (st, t) (limiter_record l t a out st, t)"
proof -
  have "win_index (record_in_window cfg a (roll_to i st)) = i" for cfg by (simp add: record_keeps_index)
  then show ?thesis
    by (cases "a = AtDeviceUserCodeEntry"; cases out)
      (auto simp: entries_ok_def entries_left_def limiter_record_def record_at_def record_keeps_entries unat_penalise
        simp del: of_nat_diff)
qed

section \<open>The handlers\<close>

lemma spends_always:
  assumes "steps (conserves I R) p" and "always Q p" and "\<And>a. Q a \<Longrightarrow> C a \<le> c"
  shows "spends I R C c p"
  using assms(1,2)
proof induction
  case (steps_Step f)
  have "I (snd (f s)) \<and> (\<exists>c'. R (snd (f s)) + c' \<le> R s + c \<and> spends I R C c' (fst (f s)))" if "I s" for s
  proof -
    have "always Q (fst (f s))" using steps_Step.prems by (auto elim: safe_StepE)
    then have "spends I R C c (fst (f s))" using steps_Step.IH [of s] by blast
    then show ?thesis using steps_Step.IH [of s] that by (intro conjI exI [of _ c]) auto
  qed
  then show ?case by (rule spends_Step)
qed (simp add: assms(3))

lemma always_answering: "(\<And>a. Q (tag a)) \<Longrightarrow> always Q (answering p tag)"
  unfolding answering_def by (rule always_pbind) (simp add: safe_Done)

abbreviation entries_of :: "world \<Rightarrow> window \<times> instant" where
  "entries_of w \<equiv> (w_limits w, w_instant w)"

lemma host_entries:
  assumes "pf_limiter pf = Some l"
  shows "server_steps (host pf)
    (\<lambda>w w'. conserves (entries_ok l i) (entries_left l i) (entries_of w) (entries_of w'))"
  using assms by (intro host_limit_steps) (auto simp: check_conserves_entries record_conserves_entries)

fun entry_cost :: "endpoint_answer \<Rightarrow> int" where
  "entry_cost (AnDeviceDecision (Inl DaRateLimited)) = 0"
| "entry_cost (AnDeviceDecision _) = 1"
| "entry_cost _ = 0"

abbreviation entry_spends ::
  "fixed_window_rate_limiter \<Rightarrow> u64 \<Rightarrow> ('a \<Rightarrow> int) \<Rightarrow> int \<Rightarrow> (world, 'a) prog \<Rightarrow> bool" where
  "entry_spends l i \<equiv>
     spends (\<lambda>w. entries_ok l i (entries_of w)) (\<lambda>w. entries_left l i (entries_of w))"

definition pending_cost :: "device_approval_error + 'a \<Rightarrow> int" where
  "pending_cost r = (case r of Inl DaRateLimited \<Rightarrow> 0 | _ \<Rightarrow> 1)"

lemma pending_cost_le: "pending_cost r \<le> 1"
  by (simp add: pending_cost_def split: sum.split device_approval_error.split)

lemma entry_check_spends:
  assumes "pf_limiter pf = Some l"
  shows "entry_spends l i (\<lambda>d. if d = Allow then 1 else 0) 0
    (hooks_check (srv_hooks (host pf)) AtDeviceUserCodeEntry)"
proof -
  have "hooks_check (srv_hooks (host pf)) AtDeviceUserCodeEntry = act (rl_check (host_limiter l) AtDeviceUserCodeEntry)"
    by (simp add: hooks_check_def host_def assms)
  moreover have "entry_spends l i (\<lambda>d. if d = Allow then 1 else 0) 0
      (act (rl_check (host_limiter l) AtDeviceUserCodeEntry))"
    using check_spends_entry [of l i]
    by (intro spends_act) (fastforce simp: host_limiter_def split: prod.split)
  ultimately show ?thesis by simp
qed

definition entered_grant :: "'s server \<Rightarrow> string \<Rightarrow> ('s, device_approval_error + device_grant) prog" where
  "entered_grant srv entered =
     pbind (lookup_pending_grant_by_user_code srv entered) (\<lambda>outcome.
       pbind (hooks_record (srv_hooks srv) AtDeviceUserCodeEntry
         (case outcome of Inr _ \<Rightarrow> Succeeded | Inl _ \<Rightarrow> Failed)) (\<lambda>_. Done outcome))"

context server_steps
begin

lemma keeps_entered_grant: "steps T (entered_grant srv entered)"
  unfolding entered_grant_def lookup_pending_grant_by_user_code_def by (auto intro!: keeps_rules)

lemma keeps_decided: "steps T (ptry_map e (store_op (st_cas_device_grant (srv_store srv) Pending g)) (\<lambda>swapped.
     if \<not> swapped then Done (Err x) else pbind (emit (srv_hooks srv) ev) (\<lambda>_. Done (Ok ()))))"
  by (auto intro!: keeps_rules)

end

text \<open>Everything a handler does besides entering a code is free.\<close>

lemma entry_free:
  assumes "pf_limiter pf = Some l"
    and "steps (\<lambda>w w'. conserves (entries_ok l i) (entries_left l i) (entries_of w) (entries_of w')) p"
    and "\<And>a. C a \<le> c"
  shows "entry_spends l i C c p"
proof -
  have "entry_spends l i (\<lambda>_. c) c p" by (rule spends_steps) (rule assms(2))
  then have "entry_spends l i C c (pbind p Done)" by (rule spends_pbind) (simp add: assms(3))
  then show ?thesis by simp
qed

lemma pending_grant_spends:
  assumes "pf_limiter pf = Some l"
  shows "entry_spends l i pending_cost 0 (pending_grant_by_user_code (host pf) entered)"
proof -
  have rest: "entry_spends l i pending_cost 1 (entered_grant (host pf) entered)"
    by (rule entry_free [OF assms server_steps.keeps_entered_grant [OF host_entries [OF assms]] pending_cost_le])
  have "entry_spends l i pending_cost (if d = Allow then 1 else 0)
      (if d = Deny then Done (Err DaRateLimited) else entered_grant (host pf) entered)" for d
    using rest by (cases d) (simp_all add: pending_cost_def)
  then show ?thesis
    unfolding pending_grant_by_user_code_def entered_grant_def [symmetric]
    by (rule spends_pbind [OF entry_check_spends [OF assms]])
qed

lemma entry_cost_decision: "entry_cost (AnDeviceDecision r) = pending_cost r"
  by (cases "AnDeviceDecision r" rule: entry_cost.cases)
    (auto simp: pending_cost_def split: sum.split device_approval_error.split)

text \<open>A decision after the code was entered: refusals cost what the entry cost.\<close>

lemma decision_spends:
  assumes "pf_limiter pf = Some l"
    and "\<And>grant. steps (\<lambda>w w'. conserves (entries_ok l i) (entries_left l i) (entries_of w) (entries_of w')) (k grant)"
  shows "entry_spends l i entry_cost 0
    (answering (ptry (pending_grant_by_user_code (host pf) entered) k) AnDeviceDecision)"
proof -
  have "entry_spends l i pending_cost (pending_cost r) (case r of Inl e \<Rightarrow> Done (Inl e) | Inr grant \<Rightarrow> k grant)" for r
  proof (cases r)
    case (Inr grant)
    then show ?thesis
      using entry_free [where C = pending_cost and p = "k grant", OF assms(1,2) pending_cost_le]
      by (simp add: pending_cost_def)
  qed (simp add: pending_cost_def)
  then have "entry_spends l i pending_cost 0 (ptry (pending_grant_by_user_code (host pf) entered) k)"
    unfolding ptry_def by (rule spends_pbind [OF pending_grant_spends [OF assms(1)]])
  then show ?thesis
    unfolding answering_def by (rule spends_pbind) (simp add: entry_cost_decision)
qed

lemma handle_spends_entries:
  assumes "pf_limiter pf = Some l"
  shows "entry_spends l i entry_cost 0 (handle (host pf) r)"
proof -
  note decided = decision_spends [OF assms] server_steps.keeps_decided [OF host_entries [OF assms]]
  have "entry_spends l i entry_cost 0 (handle (host pf) (RqApproveDevice entered subject))" for entered subject
    unfolding handle.simps approve_device_def by (intro decided)
  moreover have "entry_spends l i entry_cost 0 (handle (host pf) (RqDenyDevice entered))" for entered
    unfolding handle.simps deny_device_def by (intro decided)
  moreover have "entry_spends l i entry_cost 0 (handle (host pf) r)"
    if "always (\<lambda>a. entry_cost a \<le> 0) (handle (host pf) r)"
    by (rule spends_always [OF server_steps.keeps_handle [OF host_entries [OF assms]] that])
  ultimately show ?thesis by (cases r) (auto simp: always_answering simp del: host_sel)
qed

section \<open>The pool\<close>

lemma window_between:
  assumes "window_index cfg base t = i" and "window_index cfg base t' = i"
  shows "window_index cfg base (max t t') = i"
  using assms by (simp add: max_def)

lemma entry_jobs_spend:
  assumes "pf_limiter pf = Some l"
  shows "\<forall>p \<in> jobs_at (host pf) sweeps {t. entry_window l t = i}. entry_spends l i entry_cost 0 p"
proof -
  have "entry_spends l i entry_cost 0 (sweep_job (host pf) t)" for t
    by (rule spends_always [where Q = "\<lambda>a. entry_cost a \<le> 0"])
      (auto simp: sweep_job_def always_answering store_op_def lift_storage_def intro!: steps_answering steps_act)
  moreover have "entry_spends l i entry_cost 0 (world_job x)" for x
    by (cases x) (auto intro!: spends_act)
  moreover have "entry_spends l i entry_cost 0 (instant_job t)" if "entry_window l t = i" for t
    unfolding instant_job_def using that
    by (auto intro!: spends_act window_between simp: entries_ok_def entries_left_def)
  ultimately show ?thesis using handle_spends_entries [OF assms] by (auto simp: jobs_at_def)
qed

definition entry_admitted :: "endpoint_answer \<Rightarrow> bool" where
  "entry_admitted a \<longleftrightarrow> (\<exists>r. a = AnDeviceDecision r \<and> r \<noteq> Inl DaRateLimited)"

lemma entry_cost_admitted: "entry_cost a = (if entry_admitted a then 1 else 0)"
  by (cases a rule: entry_cost.cases) (auto simp: entry_admitted_def)

text \<open>
  C17. In one window of the bundled limiter, at most the configured capacity of user codes is looked up,
  whatever requests run beside each other and however their calls interleave: every other entry is
  refused as rate limited before the store is asked.
\<close>
theorem device_entries_bounded:
  assumes "pf_limiter pf = Some l" and "entry_window l (w_instant w) = i" and "window_ok (frl_config l) (w_limits w)"
    and "pool_run (jobs_at (host pf) sweeps {t. entry_window l t = i}) ([], w) (qs, w')" and "all_answered qs"
  shows "length (filter entry_admitted (answers qs)) \<le> unat (device_user_code_capacity (frl_config l))"
proof -
  have ok: "entries_ok l i (entries_of w)"
    using assms(2) roll_to_ok [OF assms(3), of i] by (simp add: entries_ok_def window_ok_def)
  have "sum_list (map entry_cost (answers qs)) + entries_left l i (entries_of w') \<le> entries_left l i (entries_of w)"
    using pool_pays [OF assms(4) entry_jobs_spend [OF assms(1)] ok assms(5)] .
  moreover have "sum_list (map entry_cost as) = int (length (filter entry_admitted as))" for as
    by (induction as) (simp_all add: entry_cost_admitted)
  ultimately show ?thesis by (simp add: entries_left_def split_beta del: of_nat_diff)
qed

definition entry_limiter :: fixed_window_rate_limiter where
  "entry_limiter = \<lparr>frl_config = with_device_user_code_budget 1 0 rate_limit_config_default, frl_base = 0\<rparr>"

theorem device_entries_bounded_witness:
  "\<exists>qs w'. pool_run (jobs_at (host (sample_platform\<lparr>pf_limiter := Some entry_limiter\<rparr>)) UNIV
       {t. entry_window entry_limiter t = 0}) ([], sample_world) (qs, w') \<and> all_answered qs \<and>
     answers qs = [AnDeviceDecision (Inl DaUnknownUserCode), AnDeviceDecision (Inl DaRateLimited)] \<and>
     length (filter entry_admitted (answers qs)) \<le> 1"
proof -
  let ?pf = "sample_platform\<lparr>pf_limiter := Some entry_limiter\<rparr>"
  let ?rs = "[RqDenyDevice ''BBBB'', RqDenyDevice ''CCCC'']"
  let ?jobs = "jobs_at (host ?pf) UNIV {t. entry_window entry_limiter t = 0}"
  let ?qs = "map Done (fst (serve ?pf ?rs sample_world)) :: (world, endpoint_answer) prog list" and ?w = "snd (serve ?pf ?rs sample_world)"
  have answers: "fst (serve ?pf ?rs sample_world) =
      [AnDeviceDecision (Inl DaUnknownUserCode), AnDeviceDecision (Inl DaRateLimited)]" by code_simp
  have run: "pool_run ?jobs ([], sample_world) (?qs, ?w)"
    by (rule pool_runs_serve) (simp add: jobs_at_def image_subset_iff)
  have pf: "pf_limiter ?pf = Some entry_limiter" by simp
  have start: "entry_window entry_limiter (w_instant sample_world) = 0"
    by (simp add: sample_world_def entry_limiter_def window_index_def)
  have fresh: "window_ok (frl_config entry_limiter) (w_limits sample_world)"
    by (simp add: sample_world_def window_ok_fresh)
  have "length (filter entry_admitted (answers ?qs)) \<le> unat (device_user_code_capacity (frl_config entry_limiter))"
    by (rule device_entries_bounded [OF pf start fresh run all_answered_map_Done])
  then have "length (filter entry_admitted (answers ?qs)) \<le> 1"
    by (simp add: entry_limiter_def with_device_user_code_budget_def)
  moreover have "answers ?qs = [AnDeviceDecision (Inl DaUnknownUserCode), AnDeviceDecision (Inl DaRateLimited)]"
    by (simp only: answers_map_Done answers)
  ultimately show ?thesis using run all_answered_map_Done by blast
qed

end
