(* ===== verification/Liveness.thy ===== *)
theory Liveness
  imports Requests
begin

text \<open>
  Progress. A handler is a finite tree of calls, so a fair scheduler drives every request to its
  answer, whatever the other requests and the clock do in between.
\<close>

abbreviation waiting :: "('s, 'a) prog list \<times> 's \<Rightarrow> nat \<Rightarrow> bool" where
  "waiting c i \<equiv> i < length (fst c) \<and> (\<exists>f. fst c ! i = Step f)"

text \<open>The step from \<open>c\<close> to \<open>d\<close> is a call of handler \<open>i\<close>.\<close>

definition calls :: "nat \<Rightarrow> ('s, 'a) prog list \<times> 's \<Rightarrow> ('s, 'a) prog list \<times> 's \<Rightarrow> bool" where
  "calls i c d \<longleftrightarrow> (\<exists>f. i < length (fst c) \<and> fst c ! i = Step f \<and>
     d = ((fst c)[i := fst (f (snd c))], snd (f (snd c))))"

definition schedule :: "('s, 'a) prog set \<Rightarrow> (nat \<Rightarrow> ('s, 'a) prog list \<times> 's) \<Rightarrow> bool" where
  "schedule P c \<longleftrightarrow> (\<forall>n. pool_step P (c n) (c (Suc n)))"

definition fair :: "(nat \<Rightarrow> ('s, 'a) prog list \<times> 's) \<Rightarrow> bool" where
  "fair c \<longleftrightarrow> (\<forall>n i. waiting (c n) i \<longrightarrow> (\<exists>m \<ge> n. calls i (c m) (c (Suc m))))"

lemma pool_step_handler:
  assumes "pool_step P c d" and "i < length (fst c)"
  shows "i < length (fst d)" and "fst d ! i = fst c ! i \<or> calls i c d"
  using assms
  by (auto elim!: pool_step.cases simp: calls_def nth_list_update nth_append)

text \<open>Until its next call a handler stays as it is.\<close>

lemma schedule_next_call:
  assumes "schedule P c" and "i < length (fst (c n))" and "calls i (c m) (c (Suc m))" and "n \<le> m"
  shows "\<exists>k \<ge> n. calls i (c k) (c (Suc k)) \<and> fst (c k) ! i = fst (c n) ! i \<and> i < length (fst (c k))"
  using assms(4,2,3)
proof (induction "m - n" arbitrary: n)
  case (Suc x)
  have step: "pool_step P (c n) (c (Suc n))" using assms(1) by (simp add: schedule_def)
  show ?case
  proof (cases "calls i (c n) (c (Suc n))")
    case True
    then show ?thesis using Suc.prems(2) by blast
  next
    case False
    then have same: "fst (c (Suc n)) ! i = fst (c n) ! i" "i < length (fst (c (Suc n)))"
      using pool_step_handler [OF step Suc.prems(2)] by auto
    have "x = m - Suc n" "Suc n \<le> m" using Suc.hyps(2) by simp_all
    from Suc.hyps(1) [OF this same(2) Suc.prems(3)] same(1) show ?thesis by (metis Suc_leD)
  qed
qed (auto intro: exI [of _ n])

lemma fair_answered:
  assumes "schedule P c" and "fair c" and "i < length (fst (c n))" and "fst (c n) ! i = p"
  shows "\<exists>m \<ge> n. \<exists>a. fst (c m) ! i = Done a"
  using assms(3,4)
proof (induction p arbitrary: n)
  case (Done a)
  then show ?case by blast
next
  case (Step f)
  then have "waiting (c n) i" by simp
  then obtain m where "n \<le> m" "calls i (c m) (c (Suc m))" using assms(2) unfolding fair_def by blast
  with schedule_next_call [OF assms(1) Step.prems(1)] obtain k
    where k: "n \<le> k" "calls i (c k) (c (Suc k))" "fst (c k) ! i = Step f" "i < length (fst (c k))"
    using Step.prems(2) by metis
  have "fst (c (Suc k)) ! i = fst (f (snd (c k)))" "i < length (fst (c (Suc k)))"
    using k by (auto simp: calls_def)
  then have "\<exists>m \<ge> Suc k. \<exists>a. fst (c m) ! i = Done a"
    by (intro Step.IH)
  then show ?case using k(1) by (meson Suc_leD order_trans)
qed


text \<open>
  A schedule that drives the first handler and then only starts requests that are refused at once:
  pushes to a server that offers no push endpoint.
\<close>

definition refused_push :: endpoint_request where
  "refused_push = RqPush (ClientId ''c1'') (credential_secret None) [] None"

fun drive :: "(world, endpoint_answer) prog list \<times> world \<Rightarrow> (world, endpoint_answer) prog list \<times> world" where
  "drive (Step f # ps, w) = (fst (f w) # ps, snd (f w))"
| "drive (ps, w) = (ps @ [handle (host sample_platform) refused_push], w)"

lemma refused_push_done: "handle (host sample_platform) refused_push = Done (AnPush (Inl err_par_not_offered))"
  by (simp add: refused_push_def answering_def pushed_authorization_request_inner_def sample_platform_def config_new_def)

definition driven :: "(world, endpoint_answer) prog list \<times> world \<Rightarrow> bool" where
  "driven c \<longleftrightarrow> (\<exists>p ps. fst c = p # ps \<and> (\<forall>q \<in> set ps. \<exists>a. q = Done a))"

lemma drive_driven: "driven c \<Longrightarrow> driven (drive c)"
  by (cases c rule: drive.cases) (auto simp: driven_def refused_push_done)

lemma drive_step:
  assumes "driven c"
  shows "pool_step (jobs (host sample_platform) sweeps) c (drive c)" and "waiting c i \<Longrightarrow> calls i c (drive c)"
proof -
  obtain p ps w where c: "c = (p # ps, w)" and ps: "\<forall>q \<in> set ps. \<exists>a. q = Done a"
    using assms by (cases c) (auto simp: driven_def)
  show "pool_step (jobs (host sample_platform) sweeps) c (drive c)"
  proof (cases p)
    case (Done a)
    have "handle (host sample_platform) refused_push \<in> jobs (host sample_platform) sweeps"
      by (simp add: jobs_def jobs_at_def)
    from pool_spawn [OF this, of "p # ps" w] Done show ?thesis by (simp add: c)
  next
    case (Step f)
    then show ?thesis using pool_call [of 0 "p # ps" f w "fst (f w)" "snd (f w)"] by (simp add: c)
  qed
  show "calls i c (drive c)" if "waiting c i"
    using that ps by (cases i) (auto simp: c calls_def, metis nth_mem prog.distinct(1))
qed

lemma driven_schedule:
  assumes "driven c"
  shows "schedule (jobs (host sample_platform) sweeps) (\<lambda>n. (drive ^^ n) c)" and "fair (\<lambda>n. (drive ^^ n) c)"
proof -
  have driven: "driven ((drive ^^ n) c)" for n by (induction n) (simp_all add: assms drive_driven)
  then show "schedule (jobs (host sample_platform) sweeps) (\<lambda>n. (drive ^^ n) c)"
    by (simp add: schedule_def drive_step)
  show "fair (\<lambda>n. (drive ^^ n) c)"
    unfolding fair_def using drive_step(2) [OF driven] by (auto intro!: exI)
qed


end
