(* ===== verification/Memory_Resources.thy ===== *)
theory Memory_Resources
  imports Memory_Props Accounting
begin

text \<open>
  What the in-memory store holds at most one of per key: an unredeemed authorization code, a device
  grant, a pushed request, the right to claim a replay id. Every operation but the one that creates
  it leaves the amount or lowers it.
\<close>

definition codes_keyed :: "memory \<Rightarrow> bool" where
  "codes_keyed m \<longleftrightarrow> (\<forall>k r. fmlookup (m_codes m) k = Some r \<longrightarrow> code_code r = k)"

definition unredeemed :: "string \<Rightarrow> memory \<Rightarrow> int" where
  "unredeemed k m =
     (case fmlookup (m_codes m) k of None \<Rightarrow> 0 | Some r \<Rightarrow> if code_state r = Issued then 1 else 0)"

definition device_pending :: "string \<Rightarrow> memory \<Rightarrow> int" where
  "device_pending k m = (case fmlookup (m_device_by_code m) k of None \<Rightarrow> 0 | Some _ \<Rightarrow> 1)"

definition pushed_keyed :: "memory \<Rightarrow> bool" where
  "pushed_keyed m \<longleftrightarrow> (\<forall>k r. fmlookup (m_pushed m) k = Some r \<longrightarrow> par_request_uri r = k)"

definition pushed_waiting :: "string \<Rightarrow> memory \<Rightarrow> int" where
  "pushed_waiting k m = (case fmlookup (m_pushed m) k of None \<Rightarrow> 0 | Some _ \<Rightarrow> 1)"

definition replay_claimable :: "string \<Rightarrow> memory \<Rightarrow> int" where
  "replay_claimable k m = (case fmlookup (m_replay_ids m) k of None \<Rightarrow> 1 | Some _ \<Rightarrow> 0)"

abbreviation always_true :: "memory \<Rightarrow> bool" where
  "always_true \<equiv> \<lambda>_. True"

section \<open>Tables that only lose entries\<close>

definition shrinks :: "('k, 'v) table \<Rightarrow> ('k, 'v) table \<Rightarrow> bool" where
  "shrinks a b \<longleftrightarrow> (\<forall>k v. fmlookup b k = Some v \<longrightarrow> fmlookup a k = Some v)"

lemma shrinks_refl [simp]: "shrinks a a"
  and shrinks_fmdrop [simp]: "shrinks a (fmdrop k a)"
  and shrinks_retain [simp]: "shrinks a (retain P a)"
  by (auto simp: shrinks_def split: option.splits if_splits)

lemma codes_conserved:
  assumes "shrinks (m_codes m) (m_codes m')"
  shows "conserves codes_keyed (unredeemed k) m m'"
proof (intro impI conjI)
  show "unredeemed k m' \<le> unredeemed k m"
    using assms by (auto simp: unredeemed_def shrinks_def split: option.splits)
qed (use assms in \<open>auto simp: codes_keyed_def shrinks_def\<close>)

lemma devices_conserved:
  "shrinks (m_device_by_code m) (m_device_by_code m') \<Longrightarrow> conserves always_true (device_pending k) m m'"
  by (auto simp: device_pending_def shrinks_def split: option.splits)

lemma pushed_conserved:
  assumes "shrinks (m_pushed m) (m_pushed m')"
  shows "conserves pushed_keyed (pushed_waiting k) m m'"
proof (intro impI conjI)
  show "pushed_waiting k m' \<le> pushed_waiting k m"
    using assms by (auto simp: pushed_waiting_def shrinks_def split: option.splits)
qed (use assms in \<open>auto simp: pushed_keyed_def shrinks_def\<close>)

section \<open>The store as a keeper of resources\<close>

lemma index_grant_tables:
  "m_codes (snd (index_grant a d m)) = m_codes m" "m_pushed (snd (index_grant a d m)) = m_pushed m"
  "m_replay_ids (snd (index_grant a d m)) = m_replay_ids m"
  by (simp_all add: index_grant_def Let_def split: option.split)

lemma prune_index_tables [simp]:
  "m_codes (prune_index m) = m_codes m" "m_pushed (prune_index m) = m_pushed m"
  "m_device_by_code (prune_index m) = m_device_by_code m" "m_replay_ids (prune_index m) = m_replay_ids m"
  by (simp_all add: prune_index_def)

lemmas mem_defs_no_device = mem_get_client_def mem_put_client_def mem_cas_client_def
  mem_get_device_grant_def mem_find_device_grant_def mem_put_pushed_def mem_put_token_def mem_get_token_def
  mem_delete_token_def mem_put_refresh_def mem_get_refresh_def mem_rotate_refresh_def
  mem_take_refresh_def mem_revoke_family_def mem_put_consent_def mem_cas_consent_def
  mem_get_consent_def mem_find_consent_def mem_consents_for_subject_def

lemma delete_client_shrinks:
  "shrinks (m_codes m) (m_codes (snd (mem_delete_client c w m)))"
  "shrinks (m_device_by_code m) (m_device_by_code (snd (mem_delete_client c w m)))"
  "shrinks (m_pushed m) (m_pushed (snd (mem_delete_client c w m)))"
  "m_replay_ids (snd (mem_delete_client c w m)) = m_replay_ids m"
  by (simp_all add: mem_delete_client_def Let_def split: sum.split)

lemma revoke_consent_shrinks:
  "shrinks (m_codes m) (m_codes (snd (mem_revoke_consent k w m)))"
  "shrinks (m_device_by_code m) (m_device_by_code (snd (mem_revoke_consent k w m)))"
  "shrinks (m_pushed m) (m_pushed (snd (mem_revoke_consent k w m)))"
  "m_replay_ids (snd (mem_revoke_consent k w m)) = m_replay_ids m"
  by (simp_all add: mem_revoke_consent_def Let_def split: option.split sum.split)

lemma revoke_family_tables:
  "m_codes (snd (mem_revoke_family k w m)) = m_codes m"
  "m_device_by_code (snd (mem_revoke_family k w m)) = m_device_by_code m"
  "m_pushed (snd (mem_revoke_family k w m)) = m_pushed m"
  "m_replay_ids (snd (mem_revoke_family k w m)) = m_replay_ids m"
  by (simp_all add: mem_revoke_family_def Let_def split: sum.split)

lemma rotate_refresh_tables:
  "m_codes (snd (mem_rotate_refresh e sp ac n m)) = m_codes m"
  "m_device_by_code (snd (mem_rotate_refresh e sp ac n m)) = m_device_by_code m"
  "m_pushed (snd (mem_rotate_refresh e sp ac n m)) = m_pushed m"
  "m_replay_ids (snd (mem_rotate_refresh e sp ac n m)) = m_replay_ids m"
  by (simp_all add: mem_rotate_refresh_def Let_def)

lemma take_device_grant_shrinks:
  "m_codes (snd (mem_take_device_grant k m)) = m_codes m"
  "shrinks (m_device_by_code m) (m_device_by_code (snd (mem_take_device_grant k m)))"
  "m_pushed (snd (mem_take_device_grant k m)) = m_pushed m"
  "m_replay_ids (snd (mem_take_device_grant k m)) = m_replay_ids m"
  by (simp_all add: mem_take_device_grant_def Let_def split: option.split)

lemmas op_shrinks = delete_client_shrinks revoke_consent_shrinks revoke_family_tables
  rotate_refresh_tables take_device_grant_shrinks

lemma cas_device_pending: "device_pending k (snd (mem_cas_device_grant q d m)) = device_pending k m"
  by (auto simp: mem_cas_device_grant_def index_grant_def Let_def device_pending_def split: option.split)

interpretation code_amount: storage_device_steps mem_storage "conserves codes_keyed (unredeemed k)" for k
  by unfold_locales
    (rule codes_conserved, simp add: mem_storage_def op_shrinks;
     auto simp: mem_defs_no_device mem_take_code_def mem_take_pushed_def mem_claim_replay_id_def
       mem_cas_device_grant_def mem_put_device_grant_def index_grant_tables split: option.split)+

interpretation code_amount_pushed: storage_pushed_steps mem_storage "conserves codes_keyed (unredeemed k)" for k
  by unfold_locales (rule codes_conserved, simp add: mem_storage_def mem_put_pushed_def)

interpretation device_amount: storage_code_steps mem_storage "conserves always_true (device_pending k)" for k
  by unfold_locales
    ((simp add: mem_storage_def cas_device_pending; fail) |
     (rule devices_conserved, simp add: mem_storage_def op_shrinks;
     auto simp: mem_defs_no_device mem_take_code_def mem_put_code_def mem_cas_code_def mem_take_pushed_def
       mem_claim_replay_id_def split: option.split))+

interpretation device_amount_pushed:
  storage_pushed_steps mem_storage "conserves always_true (device_pending k)" for k
  by unfold_locales (rule devices_conserved, simp add: mem_storage_def mem_put_pushed_def)

interpretation pushed_amount: storage_code_steps mem_storage "conserves pushed_keyed (pushed_waiting k)" for k
  by unfold_locales
    (rule pushed_conserved, simp add: mem_storage_def op_shrinks;
     auto simp: mem_defs_no_device mem_take_code_def mem_put_code_def mem_cas_code_def mem_take_pushed_def
       mem_claim_replay_id_def mem_cas_device_grant_def index_grant_tables split: option.split)+

interpretation pushed_amount_device:
  storage_device_steps mem_storage "conserves pushed_keyed (pushed_waiting k)" for k
  by unfold_locales
    (rule pushed_conserved, simp add: mem_storage_def mem_put_device_grant_def index_grant_tables)

lemma replay_conserved:
  "shrinks (m_replay_ids m') (m_replay_ids m) \<Longrightarrow> conserves always_true (replay_claimable k) m m'"
  by (auto simp: replay_claimable_def shrinks_def split: option.splits)

interpretation replay_amount: storage_steps mem_storage "conserves always_true (replay_claimable k)" for k
  by unfold_locales
    (rule replay_conserved, simp add: mem_storage_def op_shrinks;
     auto simp: mem_defs_no_device mem_take_code_def mem_put_code_def mem_cas_code_def mem_take_pushed_def
       mem_claim_replay_id_def mem_cas_device_grant_def mem_put_device_grant_def index_grant_tables shrinks_def
       split: option.split)+

section \<open>Creating and taking\<close>

lemma put_code_amount:
  "unredeemed k (snd (mem_put_code r m)) =
     (if code_code r = k then if code_state r = Issued then 1 else 0 else unredeemed k m)"
  by (simp add: mem_put_code_def unredeemed_def)

lemma put_code_keyed: "codes_keyed m \<Longrightarrow> codes_keyed (snd (mem_put_code r m))"
  by (simp add: mem_put_code_def codes_keyed_def)

lemma cas_code_keyed: "codes_keyed m \<Longrightarrow> codes_keyed (snd (mem_cas_code q r m))"
  by (auto simp: mem_cas_code_def codes_keyed_def split: option.split)

lemma cas_code_amount: "code_state r \<noteq> Issued \<Longrightarrow> unredeemed k (snd (mem_cas_code q r m)) \<le> unredeemed k m"
  by (auto simp: mem_cas_code_def unredeemed_def split: option.splits)

lemma take_code_amount:
  assumes "codes_keyed m"
  shows "unredeemed k (snd (mem_take_code j m)) +
     (case fst (mem_take_code j m) of
        Inr (Some r) \<Rightarrow> if code_code r = k \<and> code_state r = Issued then 1 else 0 | _ \<Rightarrow> 0) = unredeemed k m"
  using assms by (auto simp: mem_take_code_def unredeemed_def codes_keyed_def split: option.splits)

lemma take_code_key: "codes_keyed m \<Longrightarrow> fst (mem_take_code j m) = Inr (Some r) \<Longrightarrow> code_code r = j"
  by (auto simp: mem_take_code_def codes_keyed_def)

lemma amounts_nonneg [simp]:
  "0 \<le> unredeemed k m" "0 \<le> device_pending k m" "0 \<le> pushed_waiting k m" "0 \<le> replay_claimable k m"
  by (simp_all add: unredeemed_def device_pending_def pushed_waiting_def replay_claimable_def split: option.split)

lemma put_device_amount:
  "device_pending k (snd (mem_put_device_grant d m)) \<le>
     device_pending k m + (case fst (mem_put_device_grant d m) of
        Inr _ \<Rightarrow> if dg_device_code d = k then 1 else 0 | Inl _ \<Rightarrow> 0)"
  by (auto simp: mem_put_device_grant_def index_grant_def Let_def device_pending_def split: option.split)

lemma take_device_amount:
  "device_pending k (snd (mem_take_device_grant j m)) +
     (case fst (mem_take_device_grant j m) of Inr (Some d) \<Rightarrow> if j = k then 1 else 0 | _ \<Rightarrow> 0) =
   device_pending k m"
  by (auto simp: mem_take_device_grant_def Let_def device_pending_def split: option.splits)

lemma put_pushed_amount:
  "pushed_waiting k (snd (mem_put_pushed p m)) \<le>
     pushed_waiting k m + (if par_request_uri p = k \<and> fst (mem_put_pushed p m) = Ok Applied then 1 else 0)"
  by (simp add: mem_put_pushed_def pushed_waiting_def split: option.split)

lemma put_pushed_keyed: "pushed_keyed m \<Longrightarrow> pushed_keyed (snd (mem_put_pushed p m))"
  by (simp add: mem_put_pushed_def pushed_keyed_def)

lemma take_pushed_amount:
  "pushed_waiting k (snd (mem_take_pushed j m)) +
     (case fst (mem_take_pushed j m) of Inr (Some d) \<Rightarrow> if j = k then 1 else 0 | _ \<Rightarrow> 0) =
   pushed_waiting k m"
  by (auto simp: mem_take_pushed_def pushed_waiting_def split: option.splits)

lemma take_pushed_keyed:
  assumes "pushed_keyed m"
  shows "pushed_keyed (snd (mem_take_pushed j m))"
    and "fst (mem_take_pushed j m) = Inr (Some r) \<Longrightarrow> par_request_uri r = j"
  using assms by (auto simp: mem_take_pushed_def pushed_keyed_def)

lemma claim_replay_amount:
  "replay_claimable k (snd (mem_claim_replay_id j t m)) +
     (if fst (mem_claim_replay_id j t m) = Ok True \<and> j = k then 1 else 0) = replay_claimable k m"
  by (auto simp: mem_claim_replay_id_def replay_claimable_def split: option.split)

end
