(* ===== verification/Token_Props.thy ===== *)
theory Token_Props
  imports Token_Endpoint
begin

text \<open>
  What the token endpoint guarantees when it answers with tokens, read off complete runs over the
  in-memory store.
\<close>

section \<open>Authentication in a run\<close>

text \<open>Authenticating a client touches the replay cache, the event log and the limiter, and nothing else.\<close>

definition auth_frame :: "world \<Rightarrow> world \<Rightarrow> bool" where
  "auth_frame w w' \<longleftrightarrow>
     (\<exists>ids events limits. w' = w\<lparr>w_mem := (w_mem w)\<lparr>m_replay_ids := ids\<rparr>, w_events := events,
        w_limits := limits\<rparr>)"

lemma auth_frame_refl: "auth_frame w w"
proof -
  have "w = w\<lparr>w_mem := (w_mem w)\<lparr>m_replay_ids := m_replay_ids (w_mem w)\<rparr>, w_events := w_events w,
      w_limits := w_limits w\<rparr>" by simp
  then show ?thesis unfolding auth_frame_def by blast
qed

lemma auth_frame_trans: "auth_frame w v \<Longrightarrow> auth_frame v u \<Longrightarrow> auth_frame w u"
  unfolding auth_frame_def by (elim exE) (simp, blast)

lemma auth_frame_sel:
  assumes "auth_frame w w'"
  shows "w_time w' = w_time w" "w_entropy w' = w_entropy w" "m_codes (w_mem w') = m_codes (w_mem w)"
    "m_tokens (w_mem w') = m_tokens (w_mem w)" "m_refresh (w_mem w') = m_refresh (w_mem w)"
    "m_clients (w_mem w') = m_clients (w_mem w)" "m_barriers (w_mem w') = m_barriers (w_mem w)"
    "m_device_by_code (w_mem w') = m_device_by_code (w_mem w)" "m_pushed (w_mem w') = m_pushed (w_mem w)"
  using assms by (auto simp: auth_frame_def)

lemma auth_frame_update:
  "auth_frame w (w\<lparr>w_mem := (w_mem w)\<lparr>m_replay_ids := ids\<rparr>\<rparr>)" "auth_frame w (w\<lparr>w_events := evs\<rparr>)"
  "auth_frame w (w\<lparr>w_limits := lim\<rparr>)"
proof -
  have "w\<lparr>w_mem := (w_mem w)\<lparr>m_replay_ids := ids\<rparr>\<rparr> =
      w\<lparr>w_mem := (w_mem w)\<lparr>m_replay_ids := ids\<rparr>, w_events := w_events w, w_limits := w_limits w\<rparr>"
    and "w\<lparr>w_events := evs\<rparr> =
      w\<lparr>w_mem := (w_mem w)\<lparr>m_replay_ids := m_replay_ids (w_mem w)\<rparr>, w_events := evs, w_limits := w_limits w\<rparr>"
    and "w\<lparr>w_limits := lim\<rparr> =
      w\<lparr>w_mem := (w_mem w)\<lparr>m_replay_ids := m_replay_ids (w_mem w)\<rparr>, w_events := w_events w, w_limits := lim\<rparr>"
    by simp_all
  then show "auth_frame w (w\<lparr>w_mem := (w_mem w)\<lparr>m_replay_ids := ids\<rparr>\<rparr>)" "auth_frame w (w\<lparr>w_events := evs\<rparr>)"
      "auth_frame w (w\<lparr>w_limits := lim\<rparr>)"
    unfolding auth_frame_def by blast+
qed

interpretation frame: server_auth_steps "host pf" auth_frame for pf
proof unfold_locales
  show "auth_frame s (snd (st_claim_replay_id (srv_store (host pf)) k t0 s))" for s k t0
    by (auto simp: host_ops lift_op_def mem_claim_replay_id_def auth_frame_update auth_frame_refl)
qed (auto simp: host_def host_limiter_def host_ops lift_op_def mem_get_client_def auth_frame_refl auth_frame_update
    split: prod.split)

lemma frame_run: "steps auth_frame p \<Longrightarrow> auth_frame w (snd (run p w))"
  by (rule steps_run) (auto intro: auth_frame_refl auth_frame_trans)

abbreviation registered_as :: "client_id \<Rightarrow> client option \<Rightarrow> world \<Rightarrow> bool" where
  "registered_as cid x w \<equiv> fmlookup (m_clients (w_mem w)) (cid_str cid) = x"

fun names_registered :: "client option \<Rightarrow> 'e + client_auth_verdict \<times> credential_cost \<Rightarrow> bool" where
  "names_registered x (Inr (Authenticated c, _)) \<longleftrightarrow> x = Some c"
| "names_registered x _ \<longleftrightarrow> True"

lemma safe_framed:
  assumes "steps auth_frame p" and "\<And>a. safe (registered_as cid x) Q (k a)"
  shows "safe (registered_as cid x) Q (pbind p k)"
proof -
  have "keeps (registered_as cid x) p"
    by (rule steps_keeps, rule steps_mono [OF assms(1)]) (simp add: auth_frame_sel)
  then show ?thesis by (rule safe_pbind) (rule assms(2))
qed

lemma classify_finds_registered:
  "safe (registered_as cid x) (names_registered x) (classify_client_credential (host pf) cid cred paid)"
proof -
  have get: "safe (registered_as cid x) (\<lambda>r. r = Inr x) (store_op (st_get_client (srv_store (host pf)) cid))"
    unfolding store_op_def by (rule safe_act) (simp add: host_ops lift_op_def mem_get_client_def)
  show ?thesis
    unfolding classify_client_credential_def Let_def
    by (rule safe_ptry_map [OF get])
      (auto simp: pbind_assoc split: option.split client_auth.split sum.split
        intro!: safe_framed frame.keeps_secret_expired frame.keeps_authenticate_by_assertion)
qed

lemma authenticate_finds_registered:
  "safe (registered_as cid x) (\<lambda>r. case r of Inr c \<Rightarrow> x = Some c | _ \<Rightarrow> True)
     (authenticate_client (host pf) cid cred)"
proof -
  have verdict: "safe (registered_as cid x) (\<lambda>r. case r of Inr c \<Rightarrow> x = Some c | _ \<Rightarrow> True)
      (case v of
         Authenticated c \<Rightarrow> pbind (hooks_record (srv_hooks (host pf)) a Succeeded) (\<lambda>_. Done (Ok c))
       | Refused failure \<Rightarrow>
           pbind (hooks_record (srv_hooks (host pf)) a Failed) (\<lambda>_.
           pbind (emit (srv_hooks (host pf)) (e failure)) (\<lambda>_. Done (Err (error_new InvalidClient)))))"
    if "names_registered x (Inr (v, paid))" for v paid a e
    using that by (cases v) (auto intro!: safe_framed frame.keeps_record frame.keeps_emit)
  have admit: "keeps (registered_as cid x) (admit_client_authentication (host pf) a cid)" for a
    by (rule steps_keeps, rule steps_mono [OF frame.keeps_admit]) (simp add: auth_frame_sel)
  show ?thesis
    unfolding authenticate_client_def Let_def
    by (rule safe_ptry [OF admit])
      (auto intro!: safe_ptry [OF classify_finds_registered] verdict)
qed

lemma authenticate_run:
  assumes "run (authenticate_client (host pf) cid cred) w = (Inr c, w')"
  shows "registered_as cid (Some c) w" and "credential_proves (host pf) c cred" and "auth_frame w w'"
proof -
  show "registered_as cid (Some c) w"
    using safe_run [OF authenticate_finds_registered [of cid "fmlookup (m_clients (w_mem w)) (cid_str cid)" pf cred], of w]
      assms by simp
  show "credential_proves (host pf) c cred"
    using always_run [OF authenticate_client_results [of "host pf" cred cid], of w] assms by simp
  show "auth_frame w w'"
    using frame_run [OF frame.keeps_authenticate_client [of pf cid cred], of w] assms by simp
qed

section \<open>Issuing in a run\<close>

text \<open>The tokens and refresh records after an issuance, and what it leaves alone.\<close>

definition issued_world ::
  "server_config \<Rightarrow> issuance \<Rightarrow> string \<Rightarrow> world \<Rightarrow> world \<Rightarrow> bool" where
  "issued_world cfg q tok w w' \<longleftrightarrow>
     (let entropy = take 80 (w_entropy w);
          access = access_record cfg q entropy (w_time w) tok
      in m_tokens (w_mem w') = fmupd tok access (m_tokens (w_mem w)) \<and>
         m_refresh (w_mem w') =
           (case refresh_record cfg q entropy (w_time w) of
              None \<Rightarrow> m_refresh (w_mem w)
            | Some r \<Rightarrow> fmupd (rt_refresh_token r) r (m_refresh (w_mem w))) \<and>
         m_codes (w_mem w') = m_codes (w_mem w) \<and> w_time w' = w_time w \<and>
         m_barriers (w_mem w') = m_barriers (w_mem w) \<and> m_clients (w_mem w') = m_clients (w_mem w))"

lemma host_calls [simp]:
  "srv_clock (host pf) w = (w_time w, w)"
  "srv_random (host pf) n w = draw n w"
  "srv_sign (host pf) key msg w = (pf_sign pf key msg, w)"
  "run (emit (srv_hooks (host pf)) e) w = ((), w\<lparr>w_events := w_events w @ [e]\<rparr>)"
  by (simp_all add: emit_def host_def)

lemma now_run [simp]: "run (now (host pf)) w = (w_time w, w)"
  by (simp add: now_def)

lemma mint_run: "\<exists>r. run (mint_access_token (host pf) q n entropy) w = (r, w)"
  by (auto simp: mint_access_token_def finish_signing_def split: sum.split prod.split)

lemma commit_run:
  assumes "run (commit_issue (host pf) q access refresh response) w = (Inr resp, w')"
    and "Option.bind (is_chain q) ch_retry = None"
  shows "resp = response \<and>
     m_tokens (w_mem w') = fmupd (tok_access_token access) access (m_tokens (w_mem w)) \<and>
     m_refresh (w_mem w') = (case refresh of
         None \<Rightarrow> m_refresh (w_mem w) | Some r \<Rightarrow> fmupd (rt_refresh_token r) r (m_refresh (w_mem w))) \<and>
     m_codes (w_mem w') = m_codes (w_mem w) \<and> w_time w' = w_time w \<and>
     m_barriers (w_mem w') = m_barriers (w_mem w) \<and> m_clients (w_mem w') = m_clients (w_mem w)"
  using assms
  by (auto simp: commit_issue_def issue_audit_def host_ops mem_put_token_def mem_put_refresh_def is_refused_def
      split: option.splits if_splits prod.splits)

lemma issue_run:
  assumes "run (issue (host pf) q) w = (Inr resp, w')" and "Option.bind (is_chain q) ch_retry = None"
  shows "\<exists>tok. issued_world (pf_config pf) q tok w w' \<and>
     resp = issue_response q (w_time w) (access_record (pf_config pf) q (take 80 (w_entropy w)) (w_time w) tok)
       (refresh_record (pf_config pf) q (take 80 (w_entropy w)) (w_time w))"
proof -
  let ?e = "take 80 (w_entropy w)" and ?w = "w\<lparr>w_entropy := drop 80 (w_entropy w)\<rparr>"
  obtain r where r: "run (mint_access_token (host pf) q (w_time w) ?e) ?w = (r, ?w)"
    using mint_run by blast
  with assms(1) obtain tok where tok: "r = Inr tok"
    by (cases r) (auto simp: issue_def Let_def draw_def ok_or_def split: if_splits)
  have "run (commit_issue (host pf) q (access_record (pf_config pf) q ?e (w_time w) tok)
      (refresh_record (pf_config pf) q ?e (w_time w))
      (issue_response q (w_time w) (access_record (pf_config pf) q ?e (w_time w) tok)
        (refresh_record (pf_config pf) q ?e (w_time w)))) ?w = (Inr resp, w')"
    using assms(1) r tok by (auto simp: issue_def Let_def draw_def ok_or_def split: if_splits)
  from commit_run [OF this assms(2)] show ?thesis
    by (intro exI [of _ tok]) (simp add: issued_world_def Let_def access_record_def cong: option.case_cong)
qed

section \<open>Redeeming an authorization code\<close>

text \<open>What the redemption of a code demands of the record, and what it leaves in the store.\<close>

definition redeemable ::
  "platform \<Rightarrow> client \<Rightarrow> bound \<Rightarrow> string option \<Rightarrow> string option \<Rightarrow> system_time \<Rightarrow> code_record \<Rightarrow> bool" where
  "redeemable pf c b uri cv n r \<longleftrightarrow>
     allows_grant c AuthorizationCode \<and> code_state r = Issued \<and> code_client_id r = cl_client_id c \<and>
     n < code_expires_at r \<and> redirect_uri_matches r uri \<and> pkce_verified (pf_lib pf) r cv \<and>
     (case code_dpop_jkt r of Some j \<Rightarrow> bd_jkt b = Some j | None \<Rightarrow> True)"

definition token_from_code :: "code_record \<Rightarrow> bound \<Rightarrow> issued_token \<Rightarrow> bool" where
  "token_from_code r b t \<longleftrightarrow>
     tok_client_id t = code_client_id r \<and> tok_subject t = Some (code_subject r) \<and> tok_scope t = code_scope r \<and>
     set (tok_resource t) \<subseteq> set (code_resource r) \<and> tok_jkt t = bd_jkt b \<and>
     tok_x5t_s256 t = bound_thumbprint b \<and> tok_grant_established_at t = code_issued_at r \<and>
     tok_authentication t = code_authentication r"

lemma minted_None [simp]: "minted s = None \<longleftrightarrow> s = Issued"
  by (cases s) simp_all

lemma redeem_code_run:
  assumes "run (redeem_code (host pf) c b r resource details) w = (Inr resp, w')"
    and "code_client_id r = cl_client_id c" and "set resource \<subseteq> set (code_resource r)"
  shows "(\<exists>t. fmlookup (m_tokens (w_mem w')) (resp_access_token resp) = Some t \<and> token_from_code r b t) \<and>
     fmlookup (m_codes (w_mem w')) (code_code r) =
       Some (r\<lparr>code_state := Consumed (Some (resp_access_token resp)) (resp_refresh_token resp)\<rparr>)"
proof -
  let ?q = "code_issuance c b r resource details"
  let ?w = "w\<lparr>w_mem := snd (mem_put_code (r\<lparr>code_state := Consumed None None\<rparr>) (w_mem w))\<rparr>"
  obtain issued u where issue: "run (issue (host pf) ?q) ?w = (Inr issued, u)"
    and cas: "resp = issued" "w_mem w' = snd (mem_cas_code (Consumed None None)
        (r\<lparr>code_state := Consumed (Some (resp_access_token issued)) (resp_refresh_token issued)\<rparr>) (w_mem u))"
      "fst (mem_cas_code (Consumed None None)
        (r\<lparr>code_state := Consumed (Some (resp_access_token issued)) (resp_refresh_token issued)\<rparr>) (w_mem u)) = Ok True"
    using assms(1)
    by (auto simp: redeem_code_def Let_def ignoring_def host_ops mem_put_code_def
        split: prod.splits sum.splits option.splits if_splits)
  obtain tok where tok: "issued_world (pf_config pf) ?q tok ?w u"
    and resp: "issued = issue_response ?q (w_time ?w)
        (access_record (pf_config pf) ?q (take 80 (w_entropy ?w)) (w_time ?w) tok)
        (refresh_record (pf_config pf) ?q (take 80 (w_entropy ?w)) (w_time ?w))"
    using issue_run [OF issue] by auto
  have at: "resp_access_token issued = tok" by (simp add: resp issue_response_def access_record_def)
  have "fmlookup (m_tokens (w_mem w')) tok =
      Some (access_record (pf_config pf) ?q (take 80 (w_entropy ?w)) (w_time ?w) tok)"
    using tok cas(2) by (auto simp: issued_world_def Let_def mem_cas_code_def split: option.splits)
  moreover have "fmlookup (m_codes (w_mem w')) (code_code r) =
      Some (r\<lparr>code_state := Consumed (Some (resp_access_token issued)) (resp_refresh_token issued)\<rparr>)"
    using cas(2,3) by (auto simp: mem_cas_code_def split: option.splits if_splits)
  ultimately show ?thesis
    using at assms(2,3) cas(1)
    by (auto simp: token_from_code_def access_record_def code_issuance_def)
qed

lemma narrow_grant_resources:
  assumes "narrow_grant srv granted gd requested rd = Inr (resource, details)"
  shows "set resource \<subseteq> set granted"
  using assms
  by (cases "requested = []")
    (auto simp: narrow_grant_def narrow_and_permit_def narrow_resources_Ok Let_def split: if_splits)

lemma redeem_taken_code_run:
  assumes "run (redeem_taken_code (host pf) c b r uri cv rs ds) w = (Inr resp, w')"
    and "allows_grant c AuthorizationCode"
  shows "redeemable pf c b uri cv (w_time w) r"
    and "\<exists>t. fmlookup (m_tokens (w_mem w')) (resp_access_token resp) = Some t \<and> token_from_code r b t"
    and "fmlookup (m_codes (w_mem w')) (code_code r) =
       Some (r\<lparr>code_state := Consumed (Some (resp_access_token resp)) (resp_refresh_token resp)\<rparr>)"
proof -
  have client: "code_client_id r = cl_client_id c"
    using assms(1) by (auto simp: redeem_taken_code_def split: if_splits prod.splits sum.splits)
  have issued: "code_state r = Issued"
  proof (cases "minted (code_state r)")
    case (Some x)
    then show ?thesis
      using assms(1) client
      by (auto simp: redeem_taken_code_def replay_detected_def split: prod.splits)
  qed simp
  have ok: "redeemable pf c b uri cv (w_time w) r \<and>
      (\<exists>resource details. narrow_grant (host pf) (code_resource r) (code_authorization_details r) rs ds = Inr (resource, details) \<and>
        run (redeem_code (host pf) c b r resource details) w = (Inr resp, w'))"
    using assms client issued
    by (auto simp: redeem_taken_code_def redeemable_def ignoring_def not_le
        split: if_splits sum.splits prod.splits option.splits)
  then show "redeemable pf c b uri cv (w_time w) r" by blast
  from ok obtain resource details
    where ng: "narrow_grant (host pf) (code_resource r) (code_authorization_details r) rs ds = Inr (resource, details)"
      and run: "run (redeem_code (host pf) c b r resource details) w = (Inr resp, w')" by blast
  note redeemed = redeem_code_run [OF run client narrow_grant_resources [OF ng]]
  then show "\<exists>t. fmlookup (m_tokens (w_mem w')) (resp_access_token resp) = Some t \<and> token_from_code r b t"
    and "fmlookup (m_codes (w_mem w')) (code_code r) =
       Some (r\<lparr>code_state := Consumed (Some (resp_access_token resp)) (resp_refresh_token resp)\<rparr>)"
    by blast+
qed


section \<open>Refreshing\<close>

definition family_dead :: "platform \<Rightarrow> refresh_token_record \<Rightarrow> world \<Rightarrow> bool" where
  "family_dead pf r w \<longleftrightarrow>
     scope_dead (BTokenFamily (rt_family_id r)) (w_time w)
       (saturating_deadline (w_time w) (longest_lifetime (pf_config pf))) (w_mem w)"

lemma reuse_detected_run:
  assumes "rt_family_id r \<noteq> []"
  shows "\<exists>w'. run (reuse_detected (host pf) c r) w = (Err err_reuse_detected, w') \<and> w_time w' = w_time w \<and>
     family_dead pf r w'"
proof -
  let ?win = "\<lparr>win_recorded_at = w_time w, win_until = saturating_deadline (w_time w) (longest_lifetime (pf_config pf))\<rparr>"
  have "\<exists>n. fst (mem_revoke_family (rt_family_id r) ?win (w_mem w)) = Inr n"
    using assms by (simp add: mem_revoke_family_def Let_def)
  moreover have "scope_dead (BTokenFamily (rt_family_id r)) (win_recorded_at ?win) (win_until ?win)
      (snd (mem_revoke_family (rt_family_id r) ?win (w_mem w)))"
    using assms by (rule revoke_family_dead)
  ultimately show ?thesis
    by (auto simp: reuse_detected_def revocation_window_def Let_def host_ops family_dead_def)
qed

text \<open>
  C6. Replaying a rotated refresh token ends its family: when rotation is on and a client presents a
  refresh token that was already exchanged (and no retry of that exchange is still pending), the
  answer is the reuse error, and every access and refresh token of the family is out of the store and
  barred from it for the longest lifetime the server configures.
\<close>
theorem refresh_reuse_revokes_family:
  assumes "cfg_refresh_rotation (pf_config pf) \<noteq> Reuse" and "cfg_refresh_retry_window (pf_config pf) = 0"
    and "fst (run (authenticate_client (host pf) cid (bd_cred b)) w) = Ok c" and "allows_grant c RefreshToken"
    and "fmlookup (m_refresh (w_mem w)) presented = Some r" and "rt_client_id r = cl_client_id c"
    and "rt_state r = Spent" and "rt_family_id r \<noteq> []"
  shows "\<exists>w'. run (refresh_token (host pf) cid b presented sc rs ds) w = (Err err_reuse_detected, w') \<and>
     w_time w' = w_time w \<and> family_dead pf r w'"
proof -
  obtain w1 where auth: "run (authenticate_client (host pf) cid (bd_cred b)) w = (Inr c, w1)"
    using assms(3) by (cases "run (authenticate_client (host pf) cid (bd_cred b)) w") auto
  note fr = auth_frame_sel [OF authenticate_run(3) [OF auth]]
  let ?w2 = "w1\<lparr>w_mem := snd (mem_take_refresh presented (w_mem w1))\<rparr>"
  have found: "fst (mem_take_refresh presented (w_mem w1)) = Inr (Some r)"
    using assms(5) by (simp add: mem_take_refresh_def fr)
  have "run (refresh_token (host pf) cid b presented sc rs ds) w = run (reuse_detected (host pf) c r) ?w2"
    unfolding refresh_token_def Let_def
    using assms auth found by (simp add: host_ops ok_or_def)
  with reuse_detected_run [OF assms(8), of pf c ?w2] fr show ?thesis by simp
qed

text \<open>What a refresh demands of the record, whatever the rotation policy.\<close>

definition refreshable :: "platform \<Rightarrow> client \<Rightarrow> bound \<Rightarrow> system_time \<Rightarrow> refresh_token_record \<Rightarrow> bool" where
  "refreshable pf c b n r \<longleftrightarrow>
     rt_client_id r = cl_client_id c \<and>
     (cfg_refresh_rotation (pf_config pf) \<noteq> Reuse \<longrightarrow> rt_state r = Active) \<and>
     \<not> dpop_binding_violation c r b \<and> rt_x5t_s256 r = bound_thumbprint b \<and>
     (case rt_expires_at r of Some e \<Rightarrow> n < e | None \<Rightarrow> True) \<and> is_subset (rt_scope r) (cl_allowed_scopes c)"

definition token_from_refresh :: "refresh_token_record \<Rightarrow> bound \<Rightarrow> issued_token \<Rightarrow> bool" where
  "token_from_refresh r b t \<longleftrightarrow>
     tok_client_id t = rt_client_id r \<and> tok_subject t = rt_subject r \<and>
     (tok_scope t = rt_scope r \<or> is_subset (tok_scope t) (rt_scope r)) \<and>
     set (tok_resource t) \<subseteq> set (rt_resource r) \<and> tok_jkt t = bd_jkt b \<and>
     tok_family_id t = Some (rt_family_id r) \<and> tok_grant_established_at t = rt_grant_established_at r"

lemma refresh_issue_run:
  assumes "run (issue (host pf) (refresh_issuance c b r scope resource details None allow)) w = (Inr resp, w')"
    and "rt_client_id r = cl_client_id c" and "scope = rt_scope r \<or> is_subset scope (rt_scope r)"
    and "set resource \<subseteq> set (rt_resource r)"
  shows "\<exists>t. fmlookup (m_tokens (w_mem w')) (resp_access_token resp) = Some t \<and> token_from_refresh r b t"
    and "resp_refresh_token resp \<noteq> Some k \<Longrightarrow> fmlookup (m_refresh (w_mem w')) k = fmlookup (m_refresh (w_mem w)) k"
proof -
  let ?q = "refresh_issuance c b r scope resource details None allow"
  have "Option.bind (is_chain ?q) ch_retry = None" by (simp add: refresh_issuance_def)
  from issue_run [OF assms(1) this] obtain tok where tok: "issued_world (pf_config pf) ?q tok w w'"
    and resp: "resp = issue_response ?q (w_time w)
        (access_record (pf_config pf) ?q (take 80 (w_entropy w)) (w_time w) tok)
        (refresh_record (pf_config pf) ?q (take 80 (w_entropy w)) (w_time w))" by blast
  show "\<exists>t. fmlookup (m_tokens (w_mem w')) (resp_access_token resp) = Some t \<and> token_from_refresh r b t"
    using tok assms(2-4)
    by (auto simp: resp issue_response_def issued_world_def Let_def access_record_def token_from_refresh_def
        refresh_issuance_def issue_family_id_def)
  show "fmlookup (m_refresh (w_mem w')) k = fmlookup (m_refresh (w_mem w)) k" if "resp_refresh_token resp \<noteq> Some k"
    using tok that by (auto simp: resp issue_response_def issued_world_def Let_def split: option.splits)
qed

lemma rotate_refresh_run:
  assumes "run (rotate_refresh_token (host pf) c b presented r scope resource details) w = (Inr resp, w')"
    and "cfg_refresh_rotation (pf_config pf) = Reuse \<or> cfg_refresh_retry_window (pf_config pf) = 0"
    and "rt_client_id r = cl_client_id c" and "scope = rt_scope r \<or> is_subset scope (rt_scope r)"
    and "set resource \<subseteq> set (rt_resource r)"
  shows "\<exists>t. fmlookup (m_tokens (w_mem w')) (resp_access_token resp) = Some t \<and> token_from_refresh r b t"
    and "cfg_refresh_rotation (pf_config pf) \<noteq> Reuse \<Longrightarrow> resp_refresh_token resp \<noteq> Some (rt_refresh_token r) \<Longrightarrow>
      \<exists>s. fmlookup (m_refresh (w_mem w')) (rt_refresh_token r) = Some s \<and> rt_state s = Spent \<and>
        rt_family_id s = rt_family_id r"
proof -
  let ?iss = "\<lambda>allow. issue (host pf) (refresh_issuance c b r scope resource details None allow)"
  have cases: "(\<exists>resp0. cfg_refresh_rotation (pf_config pf) = Reuse \<and> run (?iss False) w = (Inr resp0, w') \<and>
        resp_access_token resp = resp_access_token resp0) \<or>
     (\<exists>n. cfg_refresh_rotation (pf_config pf) \<noteq> Reuse \<and>
        run (?iss True) (w\<lparr>w_mem := (w_mem w)\<lparr>m_refresh := fmupd (rt_refresh_token r)
          (spent_record (pf_config pf) n r) (m_refresh (w_mem w))\<rparr>\<rparr>) = (Inr resp, w'))"
    using assms(1,2)
    by (auto simp: rotate_refresh_token_def Let_def host_ops mem_put_refresh_def is_refused_def spent_record_def
        split: if_splits option.splits prod.splits sum.splits)
  from cases show "\<exists>t. fmlookup (m_tokens (w_mem w')) (resp_access_token resp) = Some t \<and> token_from_refresh r b t"
    using refresh_issue_run(1) [OF _ assms(3-5)] by fastforce
  assume rot: "cfg_refresh_rotation (pf_config pf) \<noteq> Reuse"
    and new: "resp_refresh_token resp \<noteq> Some (rt_refresh_token r)"
  with cases obtain n where "run (?iss True) (w\<lparr>w_mem := (w_mem w)\<lparr>m_refresh := fmupd (rt_refresh_token r)
          (spent_record (pf_config pf) n r) (m_refresh (w_mem w))\<rparr>\<rparr>) = (Inr resp, w')" by blast
  from refresh_issue_run(2) [OF this assms(3-5) new]
  show "\<exists>s. fmlookup (m_refresh (w_mem w')) (rt_refresh_token r) = Some s \<and> rt_state s = Spent \<and>
        rt_family_id s = rt_family_id r"
    by (simp add: spent_record_def)
qed

lemma refused_restoring_run: "run (refused_restoring (host pf) r e) w \<noteq> (Inr resp, w')"
  by (auto simp: refused_restoring_def restore_refresh_token_def split: prod.splits sum.splits)

lemma refresh_checked_run:
  assumes "run (refresh_checked (host pf) c b presented r sc rs ds) w = (Inr resp, w')"
    and "rt_client_id r = cl_client_id c"
    and "cfg_refresh_rotation (pf_config pf) \<noteq> Reuse \<longrightarrow> rt_state r = Active"
  obtains scope resource details where "refreshable pf c b (w_time w) r"
    and "scope = rt_scope r \<or> is_subset scope (rt_scope r)" and "set resource \<subseteq> set (rt_resource r)"
    and "run (rotate_refresh_token (host pf) c b presented r scope resource details) w = (Inr resp, w')"
proof -
  have bound: "\<not> dpop_binding_violation c r b" "rt_x5t_s256 r = bound_thumbprint b"
    using assms(1) by (auto simp: refresh_checked_def refused_restoring_run split: if_splits)
  have live: "case rt_expires_at r of Some e \<Rightarrow> w_time w < e | None \<Rightarrow> True"
    and scopes: "is_subset (rt_scope r) (cl_allowed_scopes c)"
    and rest: "\<exists>scope resource details. refresh_scope r sc = Some scope \<and>
      narrow_grant (host pf) (rt_resource r) (rt_authorization_details r) rs ds = Inr (resource, details) \<and>
      run (rotate_refresh_token (host pf) c b presented r scope resource details) w = (Inr resp, w')"
    using assms(1) bound
    by (auto simp: refresh_checked_def refused_restoring_run not_le split: if_splits option.splits sum.splits prod.splits)
  from rest obtain scope resource details where rs: "refresh_scope r sc = Some scope"
    and ng: "narrow_grant (host pf) (rt_resource r) (rt_authorization_details r) rs ds = Inr (resource, details)"
    and run: "run (rotate_refresh_token (host pf) c b presented r scope resource details) w = (Inr resp, w')"
    by blast
  show thesis
  proof (rule that [OF _ _ narrow_grant_resources [OF ng] run])
    show "refreshable pf c b (w_time w) r"
      using assms(2,3) bound live scopes by (simp add: refreshable_def)
    show "scope = rt_scope r \<or> is_subset scope (rt_scope r)"
      using rs by (auto simp: refresh_scope_def split: option.splits if_splits)
  qed
qed


definition sample_code_verifier :: string where
  "sample_code_verifier = replicate 43 CHR ''a''"

definition sample_code_record :: code_record where
  "sample_code_record = \<lparr>code_code = ''k'', code_client_id = ClientId ''c1'', code_redirect_uri = ''https://app/cb'',
     code_redirect_uri_was_explicit = True, code_scope = cl_default_scopes sample_client, code_subject = ''alice'',
     code_code_challenge = code_challenge_s256 sample_crates sample_code_verifier, code_code_challenge_method = S256,
     code_resource = [], code_authorization_details = [], code_issued_at = 1000 * 1000000000,
     code_expires_at = 1060 * 1000000000, code_state = Issued, code_authentication = None, code_dpop_jkt = None\<rparr>"

definition sample_coded_world :: world where
  "sample_coded_world = sample_world\<lparr>w_mem := snd (mem_put_code sample_code_record (w_mem sample_world))\<rparr>"

definition sample_bound :: bound where
  "sample_bound = \<lparr>bd_cred = credential_secret (Some ''s3cret''), bd_jkt = None\<rparr>"


definition sample_refresh :: "refresh_token_state \<Rightarrow> refresh_token_record" where
  "sample_refresh st = \<lparr>rt_refresh_token = ''rt1'', rt_client_id = ClientId ''c1'', rt_subject = Some ''alice'',
     rt_scope = cl_default_scopes sample_client, rt_resource = [], rt_authorization_details = [],
     rt_grant_established_at = 1000 * 1000000000, rt_expires_at = Some (5000 * 1000000000), rt_jkt = None,
     rt_x5t_s256 = None, rt_family_id = ''f1'', rt_state = st, rt_retry = None, rt_authentication = None\<rparr>"

definition refresh_world :: "refresh_token_state \<Rightarrow> world" where
  "refresh_world st = sample_world\<lparr>w_mem := snd (mem_put_refresh (sample_refresh st) (w_mem sample_world))\<rparr>"

definition strict_platform :: platform where
  "strict_platform = sample_platform\<lparr>pf_config := (pf_config sample_platform)
     \<lparr>cfg_refresh_rotation := Rotate, cfg_refresh_retry_window := 0\<rparr>\<rparr>"

lemma strict_platform_modes [simp]:
  "cfg_refresh_rotation (pf_config strict_platform) = Rotate"
  "cfg_refresh_retry_window (pf_config strict_platform) = 0"
  by (simp_all add: strict_platform_def)

lemma refresh_world_record: "fmlookup (m_refresh (w_mem (refresh_world st))) ''rt1'' = Some (sample_refresh st)"
  by (simp add: refresh_world_def mem_put_refresh_def is_revoked_def sample_world_def memory_new_def sample_refresh_def)


theorem refresh_reuse_revokes_family_witness:
  "\<exists>w'. run (refresh_token (host strict_platform) (ClientId ''c1'') sample_bound ''rt1'' None [] [])
       (refresh_world Spent) = (Err err_reuse_detected, w') \<and>
     family_dead strict_platform (sample_refresh Spent) w'"
proof -
  have "(case fst (run (authenticate_client (host strict_platform) (ClientId ''c1'') (bd_cred sample_bound))
      (refresh_world Spent)) of Inr c \<Rightarrow> allows_grant c RefreshToken \<and> cl_client_id c = ClientId ''c1'' | _ \<Rightarrow> False)"
    by code_simp
  then obtain c where "fst (run (authenticate_client (host strict_platform) (ClientId ''c1'') (bd_cred sample_bound))
      (refresh_world Spent)) = Ok c" "allows_grant c RefreshToken" "cl_client_id c = ClientId ''c1''"
    by (auto split: sum.splits)
  from refresh_reuse_revokes_family [OF _ _ this(1,2) refresh_world_record, of None "[]" "[]"] this(3) show ?thesis
    by (auto simp: sample_refresh_def)
qed

end
