(* ===== verification/Single_Use.thy ===== *)
theory Single_Use
  imports Requests Memory_Resources Token_Props
begin

text \<open>
  One-shot artefacts under interleaving. The accounting of \<open>Accounting\<close> is applied to the server over
  the in-memory store: a redeemed authorization code costs one unredeemed code, an issued code is one
  owed; likewise device codes. What a pool of requests answers is then bounded by what it issued.
\<close>

interpretation host_code_devices:
  server_device_steps "host pf" "on_mem (conserves codes_keyed (unredeemed k))" for pf k
  by (rule host_device_steps [OF code_amount.storage_device_steps_axioms]) simp

interpretation host_code_pushed:
  server_pushed_steps "host pf" "on_mem (conserves codes_keyed (unredeemed k))" for pf k
  by (rule host_pushed_steps [OF code_amount_pushed.storage_pushed_steps_axioms]) simp

interpretation host_device_codes:
  server_code_steps "host pf" "on_mem (conserves always_true (device_pending k))" for pf k
  by (rule host_code_steps [OF device_amount.storage_code_steps_axioms]) simp

interpretation host_device_pushed:
  server_pushed_steps "host pf" "on_mem (conserves always_true (device_pending k))" for pf k
  by (rule host_pushed_steps [OF device_amount_pushed.storage_pushed_steps_axioms]) simp

abbreviation code_spends :: "string \<Rightarrow> ('a \<Rightarrow> int) \<Rightarrow> int \<Rightarrow> (world, 'a) prog \<Rightarrow> bool" where
  "code_spends k \<equiv> spends (\<lambda>w. codes_keyed (w_mem w)) (\<lambda>w. unredeemed k (w_mem w))"

abbreviation device_spends :: "string \<Rightarrow> ('a \<Rightarrow> int) \<Rightarrow> int \<Rightarrow> (world, 'a) prog \<Rightarrow> bool" where
  "device_spends k \<equiv> spends (\<lambda>w. always_true (w_mem w)) (\<lambda>w. device_pending k (w_mem w))"

lemma spends_stored:
  assumes "spends I R C' c (store_op f)" and "\<And>a. spends I R C (C' (Inr a)) (k a)"
    and "\<And>e. C (Inl (to_wire e)) \<le> C' (Inl e)"
  shows "spends I R C c (stored f k)"
  unfolding ptry_map_def using assms by (intro spends_pbind) (auto split: sum.split)

lemma spends_answering:
  "spends I R (\<lambda>a. C (tag a)) c p \<Longrightarrow> spends I R C c (answering p tag)"
  unfolding answering_def by (rule spends_pbind, assumption) simp

section \<open>Authorization codes\<close>

definition live_code :: "string \<Rightarrow> code_record \<Rightarrow> int" where
  "live_code k r = (if code_code r = k \<and> code_state r = Issued then 1 else 0)"

lemma put_code_spends:
  "code_spends k (\<lambda>_. d - live_code k r) d (store_op (st_put_code (srv_store (host pf)) r))"
  unfolding store_op_def
  by (rule spends_act)
    (auto simp: lift_storage_def mem_storage_def put_code_keyed put_code_amount live_code_def)

lemma put_spent_code_steps:
  assumes "code_state r \<noteq> Issued"
  shows "steps (on_mem (conserves codes_keyed (unredeemed k))) (store_op (st_put_code (srv_store (host pf)) r))"
  unfolding store_op_def
  by (rule steps_act)
    (use assms in \<open>auto simp: lift_storage_def mem_storage_def put_code_keyed put_code_amount\<close>)

lemma cas_spent_code_steps:
  assumes "code_state r \<noteq> Issued"
  shows "steps (on_mem (conserves codes_keyed (unredeemed k))) (store_op (st_cas_code (srv_store (host pf)) q r))"
  unfolding store_op_def
  by (rule steps_act)
    (use assms in \<open>auto simp: lift_storage_def mem_storage_def cas_code_keyed cas_code_amount\<close>)

text \<open>
  What taking a code yields. A record found under another key than its own cannot be in the store; it
  is given a credit so that the rest needs no case for it.
\<close>

definition taken_credit :: "string \<Rightarrow> string \<Rightarrow> storage_error + code_record option \<Rightarrow> int" where
  "taken_credit k code found =
     (case found of
        Inr (Some r) \<Rightarrow> if code_code r \<noteq> code then 1 else live_code k r
      | _ \<Rightarrow> 0)"

lemma take_code_spends:
  "code_spends k (taken_credit k code) 0 (store_op (st_take_code (srv_store (host pf)) code))"
  unfolding store_op_def
proof (rule spends_act)
  fix w :: world assume keyed: "codes_keyed (w_mem w)"
  have "codes_keyed (snd (mem_take_code code (w_mem w)))"
    using keyed by (auto simp: mem_take_code_def codes_keyed_def)
  moreover have "unredeemed k (snd (mem_take_code code (w_mem w))) +
      taken_credit k code (fst (mem_take_code code (w_mem w))) \<le> unredeemed k (w_mem w)"
    using take_code_amount [OF keyed, of k code] take_code_key [OF keyed, of code]
    by (auto simp: taken_credit_def live_code_def split: sum.splits option.splits)
  ultimately show "codes_keyed (w_mem (snd (st_take_code (srv_store (host pf)) code w))) \<and>
      unredeemed k (w_mem (snd (st_take_code (srv_store (host pf)) code w))) +
        taken_credit k code (fst (st_take_code (srv_store (host pf)) code w)) \<le> unredeemed k (w_mem w) + 0"
    by (simp add: lift_storage_def mem_storage_def)
qed

definition redeems :: "bool \<Rightarrow> error_response + token_response \<Rightarrow> int" where
  "redeems mine r = (if mine \<and> (\<exists>a. r = Inr a) then 1 else 0)"

lemma redeems_simps [simp]: "redeems mine (Inl e) = 0" "redeems mine (Inr a) = (if mine then 1 else 0)"
  by (simp_all add: redeems_def)

lemma put_back_spends:
  assumes "live_code k record \<le> d"
  shows "code_spends k (redeems mine) d (ignoring (st_put_code (srv_store (host pf)) record) (Done (Err e)))"
  unfolding ignoring_def by (rule spends_pbind [OF put_code_spends [where d = d]]) (simp add: assms)

lemma redeem_code_spends:
  assumes "mine \<Longrightarrow> 1 \<le> d" and "0 \<le> d"
  shows "code_spends k (redeems mine) d (redeem_code (host pf) c b record resource details)"
proof -
  note cas = cas_spent_code_steps [of "record\<lparr>code_state := Consumed (Some x) y\<rparr>" for x y]
  show ?thesis
    unfolding redeem_code_def Let_def ignoring_def
    by (intro spends_ptry_map spends_ptry spends_after host_code_devices.keeps_issue
        host_code_devices.keeps_undo_issuance put_spent_code_steps)
      (use assms cas in \<open>auto simp del: host_sel split: option.split intro!: spends_after host_code_devices.keeps_rules
          host_code_devices.keeps_undo_issuance\<close>)
qed

lemma replay_detected_spends:
  assumes "0 \<le> d"
  shows "code_spends k (redeems mine) d (replay_detected (host pf) c record at rt)"
  unfolding replay_detected_def
  by (auto simp: assms simp del: host_sel split: option.split prod.split
      intro!: spends_after put_spent_code_steps host_code_devices.keeps_rules
        host_code_devices.keeps_contain_replay)

lemma redeem_taken_code_spends:
  assumes "live_code k r \<le> d" and "0 \<le> d" and "mine \<Longrightarrow> code_state r = Issued \<Longrightarrow> 1 \<le> d"
  shows "code_spends k (redeems mine) d (redeem_taken_code (host pf) c b r uri cv rs ds)"
proof -
  have "code_spends k (redeems mine) d
      (stored (st_put_code (srv_store (host pf)) r) (\<lambda>_. Done (Err (error_new InvalidGrant))))"
    by (rule spends_stored [OF put_code_spends [where d = d]]) (simp_all add: assms)
  then show ?thesis
    unfolding redeem_taken_code_def using assms
    by (auto simp del: host_sel split: option.split sum.split prod.split
        intro!: spends_after host_code_devices.keeps_now put_back_spends redeem_code_spends
          replay_detected_spends)
qed

lemma authorization_code_token_spends:
  "code_spends k (redeems (code = k)) 0
     (authorization_code_token (host pf) cid b code uri cv rs ds)"
proof -
  have rest: "code_spends k (redeems (code = k)) (taken_credit k code (Inr found))
     (pure_try (ok_or (error_new InvalidGrant) found) (\<lambda>r. redeem_taken_code (host pf) c b r uri cv rs ds))"
    for found c
  proof (cases found)
    case (Some r)
    have "live_code k r \<le> taken_credit k code (Inr (Some r))"
      and "0 \<le> taken_credit k code (Inr (Some r))"
      and "code = k \<Longrightarrow> code_state r = Issued \<Longrightarrow> 1 \<le> taken_credit k code (Inr (Some r))"
      by (auto simp: taken_credit_def live_code_def)
    then show ?thesis using Some by (simp add: pure_try_def ok_or_def redeem_taken_code_spends)
  qed (simp add: pure_try_def ok_or_def taken_credit_def)
  show ?thesis
    unfolding authorization_code_token_def
    by (intro spends_ptry host_code_devices.keeps_authenticate_client)
      (auto simp del: host_sel simp: taken_credit_def [of _ _ "Inl e" for e]
        intro!: spends_stored [OF take_code_spends] rest)
qed

fun code_redeemed :: "string \<Rightarrow> endpoint_answer \<Rightarrow> bool" where
  "code_redeemed k (AnToken (TrAuthorizationCode _ _ code _ _) (Inr _)) \<longleftrightarrow> code = k"
| "code_redeemed k _ \<longleftrightarrow> False"

fun code_issued :: "string \<Rightarrow> endpoint_answer \<Rightarrow> bool" where
  "code_issued k (AnIssueCode (Inr response)) \<longleftrightarrow> az_code response = k"
| "code_issued k _ \<longleftrightarrow> False"

definition balance :: "('a \<Rightarrow> bool) \<Rightarrow> ('a \<Rightarrow> bool) \<Rightarrow> 'a \<Rightarrow> int" where
  "balance used made a = (if used a then 1 else 0) - (if made a then 1 else 0)"

lemma sum_balance:
  "sum_list (map (balance used made) as) = int (length (filter used as)) - int (length (filter made as))"
  by (induction as) (auto simp: balance_def)

lemma emit_refusal_spends:
  assumes "spends I R (redeems mine) c p" and "\<And>e. steps (conserves I R) (emit (srv_hooks srv) e)"
  shows "spends I R (redeems mine) c (pbind p (emit_refusal srv cid gt))"
  by (rule spends_pbind [OF assms(1)]) (auto simp: emit_refusal_def split: sum.split intro!: spends_after assms(2))

lemma token_with_context_spends:
  "code_spends k (\<lambda>r. balance (code_redeemed k) (code_issued k) (AnToken request r)) 0
     (token_with_context (host pf) request ctx)"
proof (cases "\<exists>cid secret code uri cv. request = TrAuthorizationCode cid secret code uri cv")
  case True
  then obtain cid secret code uri cv where req: "request = TrAuthorizationCode cid secret code uri cv" by blast
  have cost: "balance (code_redeemed k) (code_issued k) (AnToken request r) = redeems (code = k) r" for r
    using req by (cases r) (auto simp: balance_def)
  show ?thesis
    unfolding cost unfolding req token_with_context_def Let_def
    by (intro spends_pure_try spends_ptry host_code_devices.keeps_verify_dpop)
      (auto simp del: host_sel intro!: emit_refusal_spends authorization_code_token_spends
        host_code_devices.keeps_emit)
next
  case False
  then have "steps (on_mem (conserves codes_keyed (unredeemed k))) (token_with_context (host pf) request ctx)"
    by (intro host_code_devices.keeps_token_without_code) blast
  moreover have "balance (code_redeemed k) (code_issued k) (AnToken request r) = 0" for r
    using False by (cases request; cases r) (auto simp: balance_def)
  ultimately show ?thesis by (simp add: spends_steps)
qed

lemma issue_code_spends:
  "code_spends k (\<lambda>r. balance (code_redeemed k) (code_issued k) (AnIssueCode r)) 0
     (issue_authorization_code_with_authentication (host pf) approval requirement authn)"
proof -
  have cost: "balance (code_redeemed k) (code_issued k) (AnIssueCode r) =
      (case r of Inl _ \<Rightarrow> 0 | Inr response \<Rightarrow> if az_code response = k then -1 else 0)" for r
    by (cases r) (simp_all add: balance_def)
  have put: "code_spends k (\<lambda>r. case r of Inl _ \<Rightarrow> 0 | Inr _ \<Rightarrow> if code = k then -1 else 0) 0
      (store_op (st_put_code (srv_store (host pf)) (code_record_of cfg approval authn n code)))" for cfg n code
    unfolding store_op_def
    by (rule spends_act)
      (auto simp: lift_storage_def mem_storage_def mem_put_code_def codes_keyed_def unredeemed_def
        code_record_of_def Let_def split: option.split)
  have rest: "code_spends k (\<lambda>r. case r of Inl _ \<Rightarrow> 0 | Inr response \<Rightarrow> if az_code response = k then -1 else 0)
      (case r of Inl _ \<Rightarrow> 0 | Inr _ \<Rightarrow> if code = k then -1 else 0)
      (case r of
         Inl _ \<Rightarrow> pbind (hooks_record (srv_hooks (host pf)) a Failed) (\<lambda>_. Done (Err e))
       | Inr _ \<Rightarrow> pbind (hooks_record (srv_hooks (host pf)) a Succeeded) (\<lambda>_.
           Done (Ok \<lparr>az_code = code, az_state = st, az_iss = iss\<rparr>)))" for r :: "storage_error + unit" and code a e st iss
    by (cases r) (auto intro!: spends_after host_code_devices.keeps_record)
  show ?thesis
    unfolding cost issue_authorization_code_with_authentication_def issue_authorization_code_inner_def Let_def
    by (auto simp del: host_sel split: sum.split option.split
        intro!: spends_after host_code_devices.keeps_host spends_pbind [OF put] rest)
qed

lemma spends_free:
  assumes "steps (conserves I R) p" and "\<And>a. C (tag a) = 0"
  shows "spends I R C 0 (answering p tag)"
  by (rule spends_answering) (simp add: assms(2) spends_steps [OF assms(1)])

lemma handle_code_spends: "code_spends k (balance (code_redeemed k) (code_issued k)) 0 (handle (host pf) r)"
proof (cases r)
  case (RqToken request ctx)
  then show ?thesis by (simp add: spends_answering token_with_context_spends)
next
  case (RqIssueCode approval requirement authn)
  then show ?thesis by (simp add: spends_answering issue_code_spends)
qed (auto simp: balance_def
      intro!: spends_free host_code_devices.keeps_device_authorization host_code_devices.keeps_approve_device
        host_code_devices.keeps_deny_device host_code_devices.keeps_validate_authorization_request
        host_code_devices.keeps_introspection_response host_code_devices.keeps_revoke
        host_code_devices.keeps_record_consent host_code_devices.keeps_withdraw_consent
        host_code_devices.keeps_register_client host_code_pushed.keeps_pushed_authorization_request
        host_code_pushed.keeps_validate_pushed host_code_devices.keeps_validate_signed
        host_code_devices.keeps_exchange_token host_code_devices.keeps_register_dynamic_client
        host_code_devices.keeps_read_registration host_code_devices.keeps_update_registration host_code_devices.keeps_delete_registration)

lemma sweep_shrinks:
  "shrinks (m_codes m) (m_codes (snd (mem_sweep_expired t m)))"
  "shrinks (m_device_by_code m) (m_device_by_code (snd (mem_sweep_expired t m)))"
  "shrinks (m_pushed m) (m_pushed (snd (mem_sweep_expired t m)))"
  by (simp_all add: mem_sweep_expired_def Let_def)

text \<open>The jobs of a pool pay when the handlers do and sweeping creates nothing.\<close>

lemma jobs_spend:
  assumes "\<And>r. spends (\<lambda>w. I (w_mem w)) (\<lambda>w. R (w_mem w)) C 0 (handle (host pf) r)"
    and "\<And>t m. conserves I R m (snd (mem_sweep_expired t m))" and "C AnHost = 0"
  shows "\<forall>p \<in> jobs (host pf) UNIV. spends (\<lambda>w. I (w_mem w)) (\<lambda>w. R (w_mem w)) C 0 p"
proof -
  have "spends (\<lambda>w. I (w_mem w)) (\<lambda>w. R (w_mem w)) C 0 (sweep_job (host pf) t)" for t
    unfolding sweep_job_def store_op_def
    by (intro spends_free steps_act) (simp_all add: lift_storage_def mem_storage_def assms(2,3))
  moreover have "spends (\<lambda>w. I (w_mem w)) (\<lambda>w. R (w_mem w)) C 0 (world_job x)" for x
    by (cases x) (auto intro!: spends_act simp: assms(3))
  moreover have "spends (\<lambda>w. I (w_mem w)) (\<lambda>w. R (w_mem w)) C 0 (instant_job t)" for t
    unfolding instant_job_def by (auto intro!: spends_act simp: assms(3))
  ultimately show ?thesis using assms(1) by (auto simp: jobs_def jobs_at_def)
qed

text \<open>
  C2. An authorization code is redeemed at most once per issue, under every interleaving: start from a
  store without codes and admit any requests in any order, with their calls, sweeps and clock changes
  interleaved in any way; when all of them have been answered, the token endpoint has answered the
  code \<open>k\<close> with tokens at most as often as the authorization endpoint handed \<open>k\<close> out. Two requests
  racing for one code can never both be given tokens.
\<close>
theorem code_redeemed_once:
  assumes "m_codes (w_mem w1) = fmempty" and "pool_run (jobs (host pf) UNIV) ([], w1) (qs, w2)"
    and "all_answered qs"
  shows "length (filter (code_redeemed k) (answers qs)) \<le> length (filter (code_issued k) (answers qs))"
proof -
  let ?C = "balance (code_redeemed k) (code_issued k)"
  have jobs: "\<forall>p \<in> jobs (host pf) UNIV. code_spends k ?C 0 p"
    by (rule jobs_spend [OF handle_code_spends codes_conserved [OF sweep_shrinks(1)]]) (simp add: balance_def)
  have "codes_keyed (w_mem w1)" and "unredeemed k (w_mem w1) = 0"
    using assms(1) by (simp_all add: codes_keyed_def unredeemed_def)
  then have "sum_list (map ?C (answers qs)) + unredeemed k (w_mem w2) \<le> 0"
    using pool_pays [OF assms(2) jobs _ assms(3)] by simp
  with amounts_nonneg(1) [of k "w_mem w2"] show ?thesis unfolding sum_balance by linarith
qed

section \<open>Device codes\<close>

fun device_redeemed :: "string \<Rightarrow> endpoint_answer \<Rightarrow> bool" where
  "device_redeemed k (AnToken (TrDeviceCode _ _ code) (Inr _)) \<longleftrightarrow> code = k"
| "device_redeemed k _ \<longleftrightarrow> False"

fun device_issued :: "string \<Rightarrow> endpoint_answer \<Rightarrow> bool" where
  "device_issued k (AnDeviceAuthorization (Inr response)) \<longleftrightarrow> dar_device_code response = k"
| "device_issued k _ \<longleftrightarrow> False"

lemma take_device_spends:
  "device_spends k (\<lambda>r. case r of Inr (Some _) \<Rightarrow> if code = k then 1 else 0 | _ \<Rightarrow> 0) 0
     (store_op (st_take_device_grant (srv_store (host pf)) code))"
  unfolding store_op_def
  by (rule spends_act)
    (use take_device_amount [of k code] in \<open>simp add: lift_storage_def mem_storage_def\<close>)

lemma put_device_spends:
  "device_spends k (\<lambda>r. case r of Inr _ \<Rightarrow> if dg_device_code d = k then -1 else 0 | Inl _ \<Rightarrow> 0) 0
     (store_op (st_put_device_grant (srv_store (host pf)) d))"
proof -
  have "device_pending k (snd (mem_put_device_grant d m)) +
      (case fst (mem_put_device_grant d m) of Inr _ \<Rightarrow> if dg_device_code d = k then -1 else 0 | Inl _ \<Rightarrow> 0) \<le>
      device_pending k m" for m
    using put_device_amount [of k d m] by (auto split: sum.splits)
  then show ?thesis
    unfolding store_op_def by (intro spends_act) (simp add: lift_storage_def mem_storage_def)
qed

lemma device_token_spends:
  "device_spends k (redeems (code = k)) 0 (device_token (host pf) cid b code)"
proof -
  have taken: "device_spends k (redeems (code = k)) (case Inr found of Inr (Some _) \<Rightarrow> if code = k then 1 else 0 | _ \<Rightarrow> 0)
      (pure_try (ok_or (error_new InvalidGrant) found) (\<lambda>taken. issue (host pf) (f taken)))"
    if "\<And>d. is_chain (f d) = None" for found :: "device_grant option" and f
  proof (cases found)
    case (Some d)
    have free: "device_spends k (\<lambda>_. if code = k then 1 else 0) (if code = k then 1 else 0) (issue (host pf) (f d))"
      by (rule spends_steps, rule host_device_codes.keeps_issue) (simp add: that)
    have "device_spends k (redeems (code = k)) (if code = k then 1 else 0) (pbind (issue (host pf) (f d)) Done)"
      by (rule spends_pbind [OF free]) (simp add: redeems_def)
    then show ?thesis using Some by (simp add: pure_try_def ok_or_def)
  qed (simp add: pure_try_def ok_or_def)
  show ?thesis
    unfolding device_token_def ignoring_def
    by (intro spends_ptry host_device_codes.keeps_authenticate_client)
      (auto simp del: host_sel split: device_grant_state.split
        intro!: spends_ptry_map spends_pure_try spends_after host_device_codes.keeps_code_rules
          spends_stored [OF take_device_spends] taken)
qed

lemma token_device_spends:
  "device_spends k (\<lambda>r. balance (device_redeemed k) (device_issued k) (AnToken request r)) 0
     (token_with_context (host pf) request ctx)"
proof (cases "\<exists>cid secret code. request = TrDeviceCode cid secret code")
  case True
  then obtain cid secret code where req: "request = TrDeviceCode cid secret code" by blast
  have cost: "balance (device_redeemed k) (device_issued k) (AnToken request r) = redeems (code = k) r" for r
    using req by (cases r) (auto simp: balance_def)
  show ?thesis
    unfolding cost unfolding req token_with_context_def Let_def
    by (intro spends_pure_try spends_ptry host_device_codes.keeps_verify_dpop)
      (auto simp del: host_sel intro!: emit_refusal_spends device_token_spends host_device_codes.keeps_emit)
next
  case False
  have "balance (device_redeemed k) (device_issued k) (AnToken request r) = 0" for r
    using False by (cases request; cases r) (auto simp: balance_def)
  then show ?thesis by (simp add: spends_steps [OF host_device_codes.keeps_token_with_context])
qed

lemma device_authorization_spends:
  "device_spends k (\<lambda>r. balance (device_redeemed k) (device_issued k) (AnDeviceAuthorization r)) 0
     (device_authorization_with_credential (host pf) cid cred sc)"
proof -
  have cost: "balance (device_redeemed k) (device_issued k) (AnDeviceAuthorization r) =
      (case r of Inl _ \<Rightarrow> 0 | Inr response \<Rightarrow> if dar_device_code response = k then -1 else 0)" for r
    by (cases r) (simp_all add: balance_def)
  show ?thesis
    unfolding cost device_authorization_with_credential_def Let_def
    by (intro spends_after spends_ptry host_device_codes.keeps_now host_device_codes.keeps_authenticate_client)
      (auto simp del: host_sel intro!: spends_after spends_ptry spends_pure_try host_device_codes.keeps_host
        host_device_codes.keeps_unique_user_code spends_stored [OF put_device_spends])
qed

lemma handle_device_spends:
  "device_spends k (balance (device_redeemed k) (device_issued k)) 0 (handle (host pf) r)"
proof (cases r)
  case (RqToken request ctx)
  then show ?thesis by (simp add: spends_answering token_device_spends)
next
  case (RqDeviceAuthorization cid cred sc)
  then show ?thesis by (simp add: spends_answering device_authorization_spends)
qed (auto simp: balance_def
      intro!: spends_free host_device_codes.keeps_approve_device
        host_device_codes.keeps_deny_device host_device_codes.keeps_validate_authorization_request
        host_device_codes.keeps_issue_authorization_code_with_authentication
        host_device_codes.keeps_introspection_response host_device_codes.keeps_revoke
        host_device_codes.keeps_record_consent host_device_codes.keeps_withdraw_consent
        host_device_codes.keeps_register_client host_device_pushed.keeps_pushed_authorization_request
        host_device_pushed.keeps_validate_pushed host_device_codes.keeps_validate_signed
        host_device_codes.keeps_exchange_token host_device_codes.keeps_register_dynamic_client
        host_device_codes.keeps_read_registration host_device_codes.keeps_update_registration host_device_codes.keeps_delete_registration)

text \<open>
  C14. A device code is exchanged for tokens at most once per issue, under every interleaving: a device
  that polls twice at once, or two parties that hold the same code, cannot both be given tokens.
\<close>
theorem device_code_redeemed_once:
  assumes "m_device_by_code (w_mem w1) = fmempty" and "pool_run (jobs (host pf) UNIV) ([], w1) (qs, w2)"
    and "all_answered qs"
  shows "length (filter (device_redeemed k) (answers qs)) \<le> length (filter (device_issued k) (answers qs))"
proof -
  let ?C = "balance (device_redeemed k) (device_issued k)"
  have jobs: "\<forall>p \<in> jobs (host pf) UNIV. device_spends k ?C 0 p"
    by (rule jobs_spend [OF handle_device_spends devices_conserved [OF sweep_shrinks(2)]]) (simp add: balance_def)
  have "device_pending k (w_mem w1) = 0" using assms(1) by (simp add: device_pending_def)
  then have "sum_list (map ?C (answers qs)) + device_pending k (w_mem w2) \<le> 0"
    using pool_pays [OF assms(2) jobs _ assms(3)] by simp
  with amounts_nonneg(2) [of k "w_mem w2"] show ?thesis unfolding sum_balance by linarith
qed

section \<open>Request URIs\<close>

interpretation host_pushed_codes:
  server_code_steps "host pf" "on_mem (conserves pushed_keyed (pushed_waiting k))" for pf k
  by (rule host_code_steps [OF pushed_amount.storage_code_steps_axioms]) simp

interpretation host_pushed_devices:
  server_device_steps "host pf" "on_mem (conserves pushed_keyed (pushed_waiting k))" for pf k
  by (rule host_device_steps [OF pushed_amount_device.storage_device_steps_axioms]) simp

abbreviation pushed_spends :: "string \<Rightarrow> ('a \<Rightarrow> int) \<Rightarrow> int \<Rightarrow> (world, 'a) prog \<Rightarrow> bool" where
  "pushed_spends k \<equiv> spends (\<lambda>w. pushed_keyed (w_mem w)) (\<lambda>w. pushed_waiting k (w_mem w))"

fun request_uri_used :: "string \<Rightarrow> endpoint_answer \<Rightarrow> bool" where
  "request_uri_used k (AnAuthorizePushed uri (Inr _)) \<longleftrightarrow> uri = k"
| "request_uri_used k _ \<longleftrightarrow> False"

fun request_uri_issued :: "string \<Rightarrow> endpoint_answer \<Rightarrow> bool" where
  "request_uri_issued k (AnPush (Inr response)) \<longleftrightarrow> pr_request_uri response = k"
| "request_uri_issued k _ \<longleftrightarrow> False"

definition taken_pushed_credit :: "string \<Rightarrow> string \<Rightarrow> storage_error + pushed_request option \<Rightarrow> int" where
  "taken_pushed_credit k uri found =
     (case found of
        Inr (Some r) \<Rightarrow> if par_request_uri r \<noteq> uri \<or> uri = k then 1 else 0
      | _ \<Rightarrow> 0)"

lemma take_pushed_spends:
  "pushed_spends k (taken_pushed_credit k uri) 0 (store_op (st_take_pushed (srv_store (host pf)) uri))"
  unfolding store_op_def
proof (rule spends_act)
  fix w :: world assume keyed: "pushed_keyed (w_mem w)"
  have "pushed_waiting k (snd (mem_take_pushed uri (w_mem w))) +
      taken_pushed_credit k uri (fst (mem_take_pushed uri (w_mem w))) \<le> pushed_waiting k (w_mem w)"
    using take_pushed_amount [of k uri "w_mem w"] take_pushed_keyed(2) [OF keyed, of uri]
    by (auto simp: taken_pushed_credit_def split: sum.splits option.splits)
  then show "pushed_keyed (w_mem (snd (st_take_pushed (srv_store (host pf)) uri w))) \<and>
      pushed_waiting k (w_mem (snd (st_take_pushed (srv_store (host pf)) uri w))) +
        taken_pushed_credit k uri (fst (st_take_pushed (srv_store (host pf)) uri w)) \<le> pushed_waiting k (w_mem w) + 0"
    by (simp add: lift_storage_def mem_storage_def take_pushed_keyed(1) [OF keyed])
qed

lemma put_pushed_spends:
  "pushed_spends k (\<lambda>r. d - (if par_request_uri p = k \<and> r = Ok Applied then 1 else 0)) d
     (store_op (st_put_pushed (srv_store (host pf)) p))"
proof -
  have "pushed_waiting k (snd (mem_put_pushed p m)) +
      (d - (if par_request_uri p = k \<and> fst (mem_put_pushed p m) = Ok Applied then 1 else 0)) \<le> pushed_waiting k m + d" for m
    using put_pushed_amount [of k p m] by auto
  then show ?thesis
    unfolding store_op_def
    by (intro spends_act) (simp add: lift_storage_def mem_storage_def put_pushed_keyed)
qed

lemma validate_pushed_spends:
  "pushed_spends k (\<lambda>r. balance (request_uri_used k) (request_uri_issued k) (AnAuthorizePushed uri r)) 0
     (validate_pushed_authorization_request (host pf) client_id uri)"
proof -
  let ?C = "\<lambda>r :: authorization_error + validated_request. if uri = k \<and> (\<exists>v. r = Inr v) then 1 else 0 :: int"
  have cost: "balance (request_uri_used k) (request_uri_issued k) (AnAuthorizePushed uri r) = ?C r" for r
    by (cases r) (simp_all add: balance_def)
  have direct: "pushed_spends k ?C d (validate_direct_authorization_request (host pf) request)"
    if "uri = k \<Longrightarrow> 1 \<le> d" "0 \<le> d" for d request
  proof -
    have "pushed_spends k ?C d (pbind (validate_direct_authorization_request (host pf) request) Done)"
      by (rule spends_after, rule host_pushed_codes.keeps_validate_direct) (use that in auto)
    then show ?thesis by simp
  qed
  have put_back: "pushed_spends k ?C d (ptry_map (\<lambda>_. Direct (error_new ServerError))
      (store_op (st_put_pushed (srv_store (host pf)) r)) (\<lambda>_. Done (Err e)))"
    if "par_request_uri r = k \<Longrightarrow> 1 \<le> d" "0 \<le> d" for d r e
    unfolding ptry_map_def
    by (rule spends_pbind [OF put_pushed_spends [where d = d]]) (use that in \<open>auto split: sum.split\<close>)
  have rest: "pushed_spends k ?C (taken_pushed_credit k uri (Inr found))
      (pure_try (ok_or e found) (\<lambda>r.
        if cid_str (par_client_id r) \<noteq> client_id then
          ptry_map (\<lambda>_. Direct (error_new ServerError)) (store_op (st_put_pushed (srv_store (host pf)) r)) (\<lambda>_. Done (Err e1))
        else pbind (now (host pf)) (\<lambda>n.
          if par_expires_at r \<le> n then Done (Err e2)
          else validate_direct_authorization_request (host pf) (as_request r))))" for found e e1 e2
  proof (cases found)
    case (Some r)
    have "uri = k \<Longrightarrow> 1 \<le> taken_pushed_credit k uri (Inr (Some r))"
      and "par_request_uri r = k \<Longrightarrow> 1 \<le> taken_pushed_credit k uri (Inr (Some r))"
      and "0 \<le> taken_pushed_credit k uri (Inr (Some r))"
      by (auto simp: taken_pushed_credit_def)
    then show ?thesis
      unfolding Some
      by (auto simp: pure_try_def ok_or_def simp del: host_sel
          intro!: put_back spends_after direct host_pushed_codes.keeps_now)
  qed (simp add: pure_try_def ok_or_def taken_pushed_credit_def)
  have "taken_pushed_credit k uri (Inl e) = 0" for e by (simp add: taken_pushed_credit_def)
  then show ?thesis
    unfolding cost validate_pushed_authorization_request_def
    unfolding ptry_map_def [of _ "store_op (st_take_pushed (srv_store (host pf)) uri)"]
    by (intro spends_pbind [OF take_pushed_spends]) (auto simp del: host_sel split: sum.split intro!: rest)
qed

lemma store_pushed_spends:
  "pushed_spends k (\<lambda>r. balance (request_uri_used k) (request_uri_issued k) (AnPush r)) 0
     (store_pushed_request (host pf) cid request t)"
proof -
  let ?C = "\<lambda>r :: error_response + pushed_response. case r of Inl _ \<Rightarrow> (0 :: int) | Inr p \<Rightarrow> if pr_request_uri p = k then -1 else 0"
  have cost: "balance (request_uri_used k) (request_uri_issued k) (AnPush r) = ?C r" for r
    by (cases r) (simp_all add: balance_def)
  have put: "pushed_spends k ?C 0 (stored (st_put_pushed (srv_store (host pf)) p) (\<lambda>outcome.
      if is_refused outcome then Done (Err e) else Done (Ok \<lparr>pr_request_uri = par_request_uri p, pr_expires_in = n\<rparr>)))"
    for p e n
    by (rule spends_stored [OF put_pushed_spends [where d = 0]]) (auto simp: is_refused_def elim: write_outcome.exhaust)
  have "par_request_uri (pushed_record cid request t uri x) = uri" for uri x by (simp add: pushed_record_def)
  note put' = put [of "pushed_record cid request t uri x" for uri x, unfolded this]
  show ?thesis
    unfolding cost store_pushed_request_def Let_def
    by (auto simp del: host_sel intro!: put' spends_pure_try spends_ptry_map spends_after host_pushed_codes.keeps_host
        host_pushed_codes.keeps_validate_direct)
qed

lemma push_spends:
  "pushed_spends k (\<lambda>r. balance (request_uri_used k) (request_uri_issued k) (AnPush r)) 0
     (pushed_authorization_request_inner (host pf) cid cred parameters prf)"
proof -
  have err: "balance (request_uri_used k) (request_uri_issued k) (AnPush (Inl e)) = 0" for e
    by (simp add: balance_def)
  show ?thesis
    unfolding pushed_authorization_request_inner_def
    by (auto simp: err simp del: host_sel split: option.split
        intro!: spends_after spends_ptry store_pushed_spends host_pushed_codes.keeps_now
          host_pushed_codes.keeps_authenticate_client host_pushed_codes.keeps_verified_request_object
          host_pushed_codes.keeps_bind_par_dpop)
qed

lemma handle_pushed_spends:
  "pushed_spends k (balance (request_uri_used k) (request_uri_issued k)) 0 (handle (host pf) r)"
proof (cases r)
  case (RqPush cid cred pairs prov)
  then show ?thesis by (simp add: spends_answering push_spends)
next
  case (RqAuthorizePushed client_id uri)
  then show ?thesis by (simp add: spends_answering validate_pushed_spends)
qed (auto simp: balance_def
      intro!: spends_free host_pushed_codes.keeps_approve_device host_pushed_codes.keeps_token_with_context
        host_pushed_devices.keeps_device_authorization
        host_pushed_codes.keeps_deny_device host_pushed_codes.keeps_validate_authorization_request
        host_pushed_codes.keeps_issue_authorization_code_with_authentication
        host_pushed_codes.keeps_introspection_response host_pushed_codes.keeps_revoke
        host_pushed_codes.keeps_record_consent host_pushed_codes.keeps_withdraw_consent
        host_pushed_codes.keeps_register_client host_pushed_codes.keeps_validate_signed
        host_pushed_codes.keeps_exchange_token host_pushed_codes.keeps_register_dynamic_client
        host_pushed_codes.keeps_read_registration host_pushed_codes.keeps_update_registration host_pushed_codes.keeps_delete_registration)

text \<open>
  C15. A pushed authorization request is used at most once per push, under every interleaving: its
  \<^verbatim>\<open>request_uri\<close> is accepted at the authorization endpoint at most as often as the push endpoint handed it
  out, also when other clients present it in between and it is put back.
\<close>
theorem request_uri_used_once:
  assumes "m_pushed (w_mem w1) = fmempty" and "pool_run (jobs (host pf) UNIV) ([], w1) (qs, w2)"
    and "all_answered qs"
  shows "length (filter (request_uri_used k) (answers qs)) \<le> length (filter (request_uri_issued k) (answers qs))"
proof -
  let ?C = "balance (request_uri_used k) (request_uri_issued k)"
  have jobs: "\<forall>p \<in> jobs (host pf) UNIV. pushed_spends k ?C 0 p"
    by (rule jobs_spend [OF handle_pushed_spends pushed_conserved [OF sweep_shrinks(3)]]) (simp add: balance_def)
  have "pushed_keyed (w_mem w1)" "pushed_waiting k (w_mem w1) = 0"
    using assms(1) by (simp_all add: pushed_keyed_def pushed_waiting_def)
  then have "sum_list (map ?C (answers qs)) + pushed_waiting k (w_mem w2) \<le> 0"
    using pool_pays [OF assms(2) jobs _ assms(3)] by simp
  with amounts_nonneg(3) [of k "w_mem w2"] show ?thesis unfolding sum_balance by linarith
qed

end
