(* ===== verification/Sample_Flows.thy ===== *)
theory Sample_Flows
  imports Single_Use
begin

text \<open>
  Complete flows over a concrete host, evaluated by the simplifier, and the single-use theorems at
  these runs: authorization code, device code, pushed request.
\<close>

text \<open>A host without a limiter, at a moment with entropy for one flow.\<close>

definition flow_platform :: platform where
  "flow_platform = sample_platform\<lparr>pf_limiter := None\<rparr>"

definition flow_world :: world where
  "flow_world = sample_world\<lparr>w_entropy := replicate 192 7\<rparr>"

text \<open>A whole flow: the code is issued to a client, which redeems it.\<close>

definition sample_validated :: validated_request where
  "sample_validated = validated_new (ClientId ''c1'') ''https://app/cb'' True (cl_default_scopes sample_client) None
     (code_challenge_s256 sample_crates sample_code_verifier) S256 ''https://as'' []"

definition sample_issue :: endpoint_request where
  "sample_issue = RqIssueCode (approval_granted sample_validated ''alice'') (val_requirement sample_validated) None"

definition sample_code :: string where
  "sample_code = hex_encode (replicate 32 7)"

definition sample_redeem :: endpoint_request where
  "sample_redeem = RqToken (TrAuthorizationCode (ClientId ''c1'') (Some ''s3cret'') sample_code
     (Some ''https://app/cb'') (Some sample_code_verifier)) (context_new (credential_secret None))"

definition sample_flow :: "endpoint_answer list" where
  "sample_flow = fst (serve flow_platform [sample_issue, sample_redeem] flow_world)"

lemma sample_flow_redeems:
  "list_ex (code_redeemed sample_code) sample_flow \<and> length (filter (code_issued sample_code) sample_flow) = 1"
  by code_simp

theorem code_redeemed_once_witness:
  "\<exists>qs w2. pool_run (jobs (host flow_platform) UNIV) ([], flow_world) (qs, w2) \<and> all_answered qs \<and>
     answers qs = sample_flow \<and> list_ex (code_redeemed sample_code) sample_flow \<and>
     length (filter (code_redeemed sample_code) sample_flow) \<le> 1"
proof -
  have empty: "m_codes (w_mem flow_world) = fmempty" by (simp add: flow_world_def sample_world_def memory_new_def)
  obtain qs w2 where run: "pool_run (jobs (host flow_platform) UNIV) ([], flow_world) (qs, w2)"
    and fin: "all_answered qs" and ans: "answers qs = sample_flow"
    unfolding sample_flow_def by (rule serve_is_a_run)
  have "length (filter (code_redeemed sample_code) sample_flow) \<le> 1"
    using code_redeemed_once [OF empty run fin, of sample_code] sample_flow_redeems by (simp add: ans)
  with run fin ans sample_flow_redeems show ?thesis by blast
qed

text \<open>A whole device flow: the device asks, the user approves the code it shows, the device polls.\<close>

definition sample_device_flow :: "endpoint_answer list" where
  "sample_device_flow = fst (serve flow_platform
     [RqDeviceAuthorization (ClientId ''c1'') (credential_secret (Some ''s3cret'')) None,
      RqApproveDevice ''kkkk kkkk'' ''alice'',
      RqToken (TrDeviceCode (ClientId ''c1'') (Some ''s3cret'') sample_code) (context_new (credential_secret None))]
     flow_world)"

lemma sample_device_flow_redeems:
  "list_ex (device_redeemed sample_code) sample_device_flow \<and>
   length (filter (device_issued sample_code) sample_device_flow) = 1"
  by code_simp

theorem device_code_redeemed_once_witness:
  "\<exists>qs w2. pool_run (jobs (host flow_platform) UNIV) ([], flow_world) (qs, w2) \<and> all_answered qs \<and>
     answers qs = sample_device_flow \<and> list_ex (device_redeemed sample_code) sample_device_flow \<and>
     length (filter (device_redeemed sample_code) sample_device_flow) \<le> 1"
proof -
  have empty: "m_device_by_code (w_mem flow_world) = fmempty" by (simp add: flow_world_def sample_world_def memory_new_def)
  obtain qs w2 where run: "pool_run (jobs (host flow_platform) UNIV) ([], flow_world) (qs, w2)"
    and fin: "all_answered qs" and ans: "answers qs = sample_device_flow"
    unfolding sample_device_flow_def by (rule serve_is_a_run)
  have "length (filter (device_redeemed sample_code) sample_device_flow) \<le> 1"
    using device_code_redeemed_once [OF empty run fin, of sample_code] sample_device_flow_redeems by (simp add: ans)
  with run fin ans sample_device_flow_redeems show ?thesis by blast
qed

text \<open>A pushed request: the client pushes it, the user's browser presents the request URI.\<close>

definition par_platform :: platform where
  "par_platform = flow_platform\<lparr>pf_config := (pf_config flow_platform)\<lparr>cfg_par := Some par_config_new\<rparr>\<rparr>"

definition sample_request_uri :: string where
  "sample_request_uri = REQUEST_URI_PREFIX @ hex_encode (replicate 32 7)"

definition sample_pushed_flow :: "endpoint_answer list" where
  "sample_pushed_flow = fst (serve par_platform
     [RqPush (ClientId ''c1'') (credential_secret (Some ''s3cret''))
        [(''client_id'', ''c1''), (''response_type'', ''code''), (''redirect_uri'', ''https://app/cb''),
         (''code_challenge_method'', ''S256''), (''code_challenge'', replicate 43 CHR ''a'')] None,
      RqAuthorizePushed ''c1'' sample_request_uri]
     flow_world)"

lemma sample_pushed_flow_uses:
  "list_ex (request_uri_used sample_request_uri) sample_pushed_flow \<and>
   length (filter (request_uri_issued sample_request_uri) sample_pushed_flow) = 1"
  by code_simp

theorem request_uri_used_once_witness:
  "\<exists>qs w2. pool_run (jobs (host par_platform) UNIV) ([], flow_world) (qs, w2) \<and> all_answered qs \<and>
     answers qs = sample_pushed_flow \<and> list_ex (request_uri_used sample_request_uri) sample_pushed_flow \<and>
     length (filter (request_uri_used sample_request_uri) sample_pushed_flow) \<le> 1"
proof -
  have empty: "m_pushed (w_mem flow_world) = fmempty" by (simp add: flow_world_def sample_world_def memory_new_def)
  obtain qs w2 where run: "pool_run (jobs (host par_platform) UNIV) ([], flow_world) (qs, w2)"
    and fin: "all_answered qs" and ans: "answers qs = sample_pushed_flow"
    unfolding sample_pushed_flow_def by (rule serve_is_a_run)
  have "length (filter (request_uri_used sample_request_uri) sample_pushed_flow) \<le> 1"
    using request_uri_used_once [OF empty run fin, of sample_request_uri] sample_pushed_flow_uses by (simp add: ans)
  with run fin ans sample_pushed_flow_uses show ?thesis by blast
qed

end
