(* ===== verification/Authorization_Props.thy ===== *)
theory Authorization_Props
  imports Authorization_Endpoint Host
begin

text \<open>
  What a validated authorization request is, as a specification against the request and the client's
  registration, and that the endpoint accepts exactly that; and where its errors may be sent.
\<close>

lemma redirect_uri_of_Ok:
  "redirect_uri_of c requested = Inr uri \<longleftrightarrow>
     list_ex (\<lambda>registered. registered = uri \<or>
       (cl_auth c = Public \<and> loopback_redirect_matches registered uri)) (cl_redirect_uris c) \<and>
     (case requested of Some u \<Rightarrow> uri = u | None \<Rightarrow> cl_redirect_uris c = [uri])"
  by (auto simp: redirect_uri_of_def direct_def split: option.split list.split)

lemma redirect_uri_of_Err: "redirect_uri_of c requested = Inl e \<Longrightarrow> \<exists>d. e = Direct d"
  by (auto simp: redirect_uri_of_def direct_def split: option.splits list.splits if_splits)

lemma response_type_ok_Ok [simp]: "response_type_ok rt = Inr u \<longleftrightarrow> rt = Some ''code''"
  by (auto simp: response_type_ok_def split: option.split)

lemma challenge_method_ok_Ok [simp]: "challenge_method_ok cm = Inr u \<longleftrightarrow> cm = Some ''S256''"
  by (auto simp: challenge_method_ok_def split: option.split)

lemma challenge_not_empty: "\<not> challenge_is_well_formed []"
  by (simp add: challenge_is_well_formed_def)

lemma validate_redirectable_Ok:
  assumes "redirect_uri_of c (ar_redirect_uri request) = Inr uri"
  shows "validate_redirectable srv c uri request = Inr v \<longleftrightarrow>
     request_admissible srv c request v \<and> val_redirect_uri v = uri"
proof -
  have "v = v' \<longleftrightarrow> val_client_id v = val_client_id v' \<and> val_redirect_uri v = val_redirect_uri v' \<and>
      val_redirect_uri_was_explicit v = val_redirect_uri_was_explicit v' \<and> val_scope v = val_scope v' \<and>
      val_state v = val_state v' \<and> val_code_challenge v = val_code_challenge v' \<and>
      val_code_challenge_method v = val_code_challenge_method v' \<and> val_issuer v = val_issuer v' \<and>
      val_resource v = val_resource v' \<and> val_authorization_details v = val_authorization_details v' \<and>
      val_requirement v = val_requirement v' \<and> val_dpop_jkt v = val_dpop_jkt v'" for v'
    by (cases v; cases v') auto
  note eq = this
  have m: "val_code_challenge_method v = S256" by (cases "val_code_challenge_method v")
  show ?thesis
    using assms challenge_not_empty m
    unfolding redirect_uri_of_Ok validate_redirectable_def request_admissible_def
    by (cases "ar_code_challenge request"; cases "ar_redirect_uri request")
      (auto simp: eq validated_new_def Let_def)
qed

lemma validate_redirectable_errors:
  "pure_try (map_err (to_redirect srv uri st) (validate_redirectable srv c uri request)) (\<lambda>v. Done (Ok v)) =
     Done (map_err (to_redirect srv uri st) (validate_redirectable srv c uri request))"
  by (simp add: pure_try_def map_err_def split: sum.split)

text \<open>Running the checks against the stored registration.\<close>

definition registered :: "world \<Rightarrow> authorization_request \<Rightarrow> client \<Rightarrow> bool" where
  "registered w request c \<longleftrightarrow>
     (\<exists>cid. ar_client_id request = Some cid \<and> cid \<noteq> [] \<and> fmlookup (m_clients (w_mem w)) cid = Some c)"

lemma validate_inner_registered:
  assumes "registered w request c"
  shows "run (validate_direct_authorization_request_inner (host pf) request) w =
     (case redirect_uri_of c (ar_redirect_uri request) of
        Inl e \<Rightarrow> Err e
      | Inr uri \<Rightarrow> map_err (to_redirect (host pf) uri (ar_state request))
          (validate_redirectable (host pf) c uri request), w)"
  using assms unfolding validate_direct_authorization_request_inner_def validate_redirectable_errors
  by (auto simp: ok_or_def host_ops mem_get_client_def registered_def split: sum.split)

lemma validate_inner_unregistered:
  assumes "\<And>c. \<not> registered w request c"
  shows "\<exists>e. run (validate_direct_authorization_request_inner (host pf) request) w = (Err (Direct e), w)"
  using assms unfolding validate_direct_authorization_request_inner_def
  by (cases "ar_client_id request"; cases "fmlookup (m_clients (w_mem w)) (the (ar_client_id request))")
    (auto simp: ok_or_def direct_def host_ops mem_get_client_def registered_def)

text \<open>Whether the limiter would admit an attempt now.\<close>

definition limiter_admits :: "platform \<Rightarrow> world \<Rightarrow> attempt \<Rightarrow> bool" where
  "limiter_admits pf w a \<longleftrightarrow>
     (case pf_limiter pf of None \<Rightarrow> True | Some l \<Rightarrow> fst (limiter_check l (w_instant w) a (w_limits w)) = Allow)"

lemma host_check_run:
  "\<exists>st. run (hooks_check (srv_hooks (host pf)) a) w =
     (if limiter_admits pf w a then Allow else Deny, w\<lparr>w_limits := st\<rparr>)"
proof (cases "pf_limiter pf")
  case None
  then have "run (hooks_check (srv_hooks (host pf)) a) w =
      (if limiter_admits pf w a then Allow else Deny, w\<lparr>w_limits := w_limits w\<rparr>)"
    by (simp add: hooks_check_def host_def limiter_admits_def)
  then show ?thesis by blast
next
  case (Some l)
  then show ?thesis
    by (cases "fst (limiter_check l (w_instant w) a (w_limits w))")
      (auto simp: hooks_check_def host_def host_limiter_def limiter_admits_def split_beta)
qed

definition direct_requests_allowed :: "platform \<Rightarrow> world \<Rightarrow> authorization_request \<Rightarrow> bool" where
  "direct_requests_allowed pf w request \<longleftrightarrow>
     (case cfg_par (pf_config pf) of Some par \<Rightarrow> \<not> parc_require_pushed par | None \<Rightarrow> True) \<and>
     (case cfg_jar (pf_config pf) of Some jar \<Rightarrow> \<not> jarc_require_signed jar | None \<Rightarrow> True) \<and>
     limiter_admits pf w (AtAuthorizationRequest (case ar_client_id request of Some s \<Rightarrow> s | None \<Rightarrow> []))"

text \<open>What the limiter counted does not change the outcome of the validation itself.\<close>

lemma validate_inner_limits:
  "fst (run (validate_direct_authorization_request_inner (host pf) request) (w\<lparr>w_limits := st\<rparr>)) =
   fst (run (validate_direct_authorization_request_inner (host pf) request) w)"
  unfolding validate_direct_authorization_request_inner_def validate_redirectable_errors
  by (cases "ar_client_id request"; cases "fmlookup (m_clients (w_mem w)) (the (ar_client_id request))")
    (auto simp: ok_or_def host_ops mem_get_client_def pure_try_def split: sum.split)

lemma validate_authorization_request_run:
  "fst (run (validate_authorization_request (host pf) request) w) =
     (if direct_requests_allowed pf w request
      then fst (run (validate_direct_authorization_request_inner (host pf) request) w)
      else Err (Direct (fail_with
        (if (case cfg_par (pf_config pf) of Some par \<Rightarrow> parc_require_pushed par | None \<Rightarrow> False) \<or>
            (case cfg_jar (pf_config pf) of Some jar \<Rightarrow> jarc_require_signed jar | None \<Rightarrow> False)
         then InvalidRequest else TemporarilyUnavailable)
        (if (case cfg_par (pf_config pf) of Some par \<Rightarrow> parc_require_pushed par | None \<Rightarrow> False)
         then ''this server accepts authorization request data only via PAR (RFC 9126 s4)''
         else if (case cfg_jar (pf_config pf) of Some jar \<Rightarrow> jarc_require_signed jar | None \<Rightarrow> False)
         then ''this server requires a signed request object (RFC 9101 s10.5)''
         else ''too many authorization requests; retry later''))))"
proof -
  let ?a = "AtAuthorizationRequest (case ar_client_id request of Some s \<Rightarrow> s | None \<Rightarrow> [])"
  obtain st where check: "run (hooks_check (srv_hooks (host pf)) ?a) w =
      (if limiter_admits pf w ?a then Allow else Deny, w\<lparr>w_limits := st\<rparr>)"
    using host_check_run by blast
  have "fst (run (validate_direct_authorization_request (host pf) request) w) =
      (if limiter_admits pf w ?a then fst (run (validate_direct_authorization_request_inner (host pf) request) w)
       else Err (Direct err_too_many))"
    unfolding validate_direct_authorization_request_def Let_def
    by (simp add: check validate_inner_limits split_beta)
  then show ?thesis
    unfolding validate_authorization_request_def direct_requests_allowed_def
    by (simp add: direct_def err_too_many_def split: option.split)
qed


text \<open>
  C13. No open redirector: an error of the authorization endpoint is sent to a redirect URI only when that
  URI belongs to the registered client that the request names, and then with the state of the request
  and the issuer of this server; every other error stays with the server.
\<close>
theorem authorization_errors_redirected_safely:
  assumes "fst (run (validate_authorization_request (host pf) request) w) = Err (Redirect er)"
  shows "\<exists>c. registered w request c \<and>
     list_ex (\<lambda>uri. uri = er_redirect_uri er \<or>
       (cl_auth c = Public \<and> loopback_redirect_matches uri (er_redirect_uri er))) (cl_redirect_uris c) \<and>
     er_state er = ar_state request \<and> er_iss er = issuer_identifier (host pf)"
proof -
  have allowed: "direct_requests_allowed pf w request"
    using assms by (auto simp: validate_authorization_request_run split: if_splits)
  obtain c where c: "registered w request c"
    using assms allowed validate_inner_unregistered [of w request pf]
    by (cases "\<exists>c. registered w request c") (auto simp: validate_authorization_request_run)
  from assms allowed obtain uri where uri: "redirect_uri_of c (ar_redirect_uri request) = Inr uri"
      and er: "er = \<lparr>er_redirect_uri = uri, er_error = er_error er, er_state = ar_state request,
        er_iss = issuer_identifier (host pf)\<rparr>"
    by (auto simp: validate_authorization_request_run validate_inner_registered [OF c] map_err_def to_redirect_def
        dest: redirect_uri_of_Err split: sum.splits)
  have "er_redirect_uri er = uri" "er_state er = ar_state request" "er_iss er = issuer_identifier (host pf)"
    by (subst er, simp)+
  with c uri show ?thesis by (auto simp: redirect_uri_of_Ok)
qed

definition sample_misdirected :: authorization_request where
  "sample_misdirected = request_default\<lparr>ar_client_id := Some ''c1'', ar_state := Some ''xyz'',
     ar_response_type := Some ''token''\<rparr>"

theorem authorization_errors_redirected_safely_witness:
  "\<exists>er. fst (run (validate_authorization_request (host sample_platform) sample_misdirected) sample_world) =
       Err (Redirect er) \<and>
     (\<exists>c. registered sample_world sample_misdirected c \<and> er_redirect_uri er \<in> set (cl_redirect_uris c)) \<and>
     er_state er = Some ''xyz''"
proof -
  let ?er = "\<lparr>er_redirect_uri = ''https://app/cb'',
     er_error = fail_with UnsupportedResponseType ''this server issues authorization codes only'',
     er_state = Some ''xyz'', er_iss = ''https://as''\<rparr>"
  have err: "fst (run (validate_authorization_request (host sample_platform) sample_misdirected) sample_world) =
      Err (Redirect ?er)" by code_simp
  from authorization_errors_redirected_safely [OF err] obtain c where c: "registered sample_world sample_misdirected c"
      and st: "er_state ?er = ar_state sample_misdirected"
    by blast
  have "c = sample_client"
    using c by (simp add: registered_def sample_misdirected_def sample_world_def)
  then have "er_redirect_uri ?er \<in> set (cl_redirect_uris c)" by (simp add: sample_client_def)
  with err c show ?thesis by (intro exI [of _ ?er] conjI exI [of _ c]) simp_all
qed

end
