(* ===== verification/Par_Props.thy ===== *)
theory Par_Props
  imports Par_Endpoint
begin

text \<open>What an accepted request object guarantees, whatever the host answers and whatever runs in between.\<close>

definition signed_by ::
  "'s server \<Rightarrow> request_object_key \<Rightarrow> string \<Rightarrow> (string \<times> json) list \<Rightarrow> bool" where
  "signed_by srv key request_object claims \<longleftrightarrow>
     (\<exists>verifier header_b64 payload_b64 signature_b64 sig payload_bytes.
        jws_verifier srv (rok_alg key) = Some verifier \<and>
        split_on CHR ''.'' request_object = [header_b64, payload_b64, signature_b64] \<and>
        b64url_decode (srv_lib srv) signature_b64 = Some sig \<and>
        ver_verify verifier (rok_key key) (as_bytes (header_b64 @ ''.'' @ payload_b64)) sig \<and>
        b64url_decode (srv_lib srv) payload_b64 = Some payload_bytes \<and>
        json_from_slice (srv_lib srv) payload_bytes = Some (JObject claims))"

definition addressed :: "string \<Rightarrow> string \<Rightarrow> (string \<times> json) list \<Rightarrow> bool" where
  "addressed issuer client_id claims \<longleftrightarrow>
     map_of claims ''client_id'' = Some (JString client_id) \<and> aud_addresses issuer claims \<and>
     map_of claims ''request'' = None \<and> map_of claims ''request_uri'' = None"

definition timely :: "(string \<Rightarrow> rat) \<Rightarrow> duration \<Rightarrow> system_time \<Rightarrow> (string \<times> json) list \<Rightarrow> bool" where
  "timely float max_lifetime n claims \<longleftrightarrow>
     (\<exists>secs e exp. unix_seconds n = Some secs \<and> map_of claims ''exp'' = Some e \<and>
        json_as_f64 float e = Some exp \<and> f64_of_nat secs < exp \<and>
        f64_sub exp (f64_of_nat secs) \<le> f64_of_nat (max_lifetime div nanos_per_sec))"

definition claim_is :: "(string \<times> json) list \<Rightarrow> string \<Rightarrow> string option \<Rightarrow> bool" where
  "claim_is claims name v \<longleftrightarrow> map_of claims name = map_option JString v"

lemma string_claim_Ok: "string_claim claims name = Inr v \<longleftrightarrow> claim_is claims name v"
  by (cases v) (auto simp: string_claim_def claim_is_def split: option.split json.split)

lemma split_on_three:
  assumes "split_on CHR ''.'' s = [a, b, c]"
  shows "take (length a + 1 + length b) s = a @ ''.'' @ b"
proof -
  have "s = join_with ''.'' [a, b, c]" using join_split_on [of "CHR ''.''" s] assms by simp
  then show ?thesis by simp
qed

lemma decode_segment_Ok [simp]: "decode_segment lib s why = Inr bytes \<longleftrightarrow> b64url_decode lib s = Some bytes"
  by (simp add: decode_segment_def ok_or_eq)

lemma json_as_object_Some [simp]: "json_as_object v = Some ms \<longleftrightarrow> v = JObject ms"
  by (cases v) auto

lemma authentic_claims_Ok:
  assumes "authentic_claims (srv_lib srv) key verifier issuer client_id object = Inr claims"
    and "jws_verifier srv (rok_alg key) = Some verifier"
  shows "signed_by srv key object claims" and "addressed issuer client_id claims"
proof -
  obtain h p s where split: "split_on CHR ''.'' object = [h, p, s]"
    using assms(1) by (auto simp: authentic_claims_def split: list.splits)
  note input = split_on_three [OF split]
  show "signed_by srv key object claims"
    using assms split input by (auto simp: authentic_claims_def signed_by_def ok_or_eq)
  show "addressed issuer client_id claims"
    using assms(1) split
    by (auto simp: authentic_claims_def addressed_def string_claim_Ok claim_is_def ok_or_eq)
qed

lemma object_times_Ok:
  assumes "object_times float max_lifetime n claims = Inr u"
  shows "timely float max_lifetime n claims"
  using assms
  by (auto simp: object_times_def timely_def numeric_date_def Let_def ok_or_eq not_le not_less split: option.splits)

definition request_states_claims :: "string \<Rightarrow> (string \<times> json) list \<Rightarrow> authorization_request \<Rightarrow> bool" where
  "request_states_claims client_id claims request \<longleftrightarrow>
     ar_client_id request = Some client_id \<and>
     claim_is claims ''response_type'' (ar_response_type request) \<and>
     claim_is claims ''redirect_uri'' (ar_redirect_uri request) \<and> claim_is claims ''scope'' (ar_scope request) \<and>
     claim_is claims ''state'' (ar_state request) \<and> claim_is claims ''code_challenge'' (ar_code_challenge request) \<and>
     claim_is claims ''code_challenge_method'' (ar_code_challenge_method request) \<and>
     claim_is claims ''acr_values'' (ar_acr_values request) \<and> claim_is claims ''dpop_jkt'' (ar_dpop_jkt request) \<and>
     resource_claim claims = Ok (ar_resource request)"

lemma claims_request_Ok:
  "claims_request lib client_id claims = Inr request \<Longrightarrow> request_states_claims client_id claims request"
  by (auto simp: claims_request_def request_states_claims_def string_claim_Ok)

definition object_backs ::
  "'s server \<Rightarrow> client_id \<Rightarrow> string \<Rightarrow> system_time \<Rightarrow> authorization_request \<Rightarrow> bool" where
  "object_backs srv cid object n request \<longleftrightarrow>
     (\<exists>jar keys key claims. cfg_jar (srv_config srv) = Some jar \<and>
        hk_request_object_keys (srv_hooks srv) = Some keys \<and> keys cid = Some key \<and>
        length object \<le> MAX_REQUEST_OBJECT_BYTES \<and> signed_by srv key object claims \<and>
        addressed (issuer_identifier srv) (cid_str cid) claims \<and>
        timely (srv_float srv) (jarc_max_lifetime jar) n claims \<and>
        request_states_claims (cid_str cid) claims request)"

lemma object_backsI:
  assumes "cfg_jar (srv_config srv) = Some jar" and "hk_request_object_keys (srv_hooks srv) = Some keys"
    and "keys cid = Some key" and "length object \<le> MAX_REQUEST_OBJECT_BYTES"
    and "jws_verifier srv (rok_alg key) = Some verifier"
    and "authentic_claims (srv_lib srv) key verifier (issuer_identifier srv) (cid_str cid) object = Inr claims"
    and "object_times (srv_float srv) (jarc_max_lifetime jar) n claims = Inr u"
    and "claims_request (srv_lib srv) (cid_str cid) claims = Inr request"
  shows "object_backs srv cid object n request"
  using assms authentic_claims_Ok [OF assms(6,5)] object_times_Ok [OF assms(7)] claims_request_Ok [OF assms(8)]
  unfolding object_backs_def by blast


end
