(* ===== verification/Exchange_Props.thy ===== *)
theory Exchange_Props
  imports Token_Exchange Token_Props
begin

text \<open>What an answered token exchange guarantees.\<close>

definition exchanged_from :: "client \<Rightarrow> issued_token \<Rightarrow> issued_token \<Rightarrow> bool" where
  "exchanged_from c s t \<longleftrightarrow>
     tok_client_id t = cl_client_id c \<and> tok_subject t = tok_subject s \<and>
     (tok_scope t = tok_scope s \<or> is_subset (tok_scope t) (tok_scope s)) \<and>
     is_subset (tok_scope t) (cl_allowed_scopes c) \<and> set (tok_resource t) \<subseteq> set (tok_resource s) \<and>
     tok_expires_at t \<le> tok_expires_at s \<and> tok_grant_established_at t = tok_grant_established_at s \<and>
     tok_authorization_details t = tok_authorization_details s \<and> tok_authentication t = None"

definition exchange_permitted :: "platform \<Rightarrow> client \<Rightarrow> issued_token \<Rightarrow> bool" where
  "exchange_permitted pf c s \<longleftrightarrow>
     is_confidential (cl_auth c) \<and> allows_grant c TokenExchange \<and>
     (tok_jkt s = None \<and> tok_x5t_s256 s = None \<or> cfg_allow_sender_constrained_exchange (pf_config pf)) \<and>
     (tok_authorization_details s = [] \<or> tok_client_id s = cl_client_id c \<or>
        cfg_allow_authorization_details_exchange (pf_config pf))"

text \<open>The actor recorded on the token: nobody, or the exchanging client before the subject token's actors.\<close>

definition actor_recorded :: "client \<Rightarrow> issued_token \<Rightarrow> exchanged_token \<Rightarrow> issued_token \<Rightarrow> bool" where
  "actor_recorded c s x t \<longleftrightarrow> tok_act t = xt_act x \<and>
     (case xt_semantics x of
        Impersonation \<Rightarrow> xt_act x = None
      | Delegation \<Rightarrow> \<exists>sub. xt_act x = Some (ActClaim sub (Some (cid_str (cl_client_id c))) (tok_act s)) \<and>
          act_links (ActClaim sub (Some (cid_str (cl_client_id c))) (tok_act s)) \<le> MAX_ACT_CHAIN_DEPTH)"

lemma introspect_run:
  "run (introspect (host pf) tok) w =
     (Ok (case fmlookup (m_tokens (w_mem w)) tok of
            None \<Rightarrow> None | Some t \<Rightarrow> if w_time w < tok_expires_at t then Some t else None), w)"
  by (simp add: introspect_def host_ops mem_get_token_def split: option.split)

lemma exchange_actor_run:
  assumes "run (exchange_actor (host pf) request c s) w = (Inr (sem, actor), w')"
  shows "w' = w" and "case sem of
        Impersonation \<Rightarrow> actor = None
      | Delegation \<Rightarrow> \<exists>sub. actor = Some (ActClaim sub (Some (cid_str (cl_client_id c))) (tok_act s)) \<and>
          act_links (ActClaim sub (Some (cid_str (cl_client_id c))) (tok_act s)) \<le> MAX_ACT_CHAIN_DEPTH"
proof -
  have deep: "\<not> MAX_ACT_CHAIN_DEPTH \<le> act_chain_depth a \<longleftrightarrow> Suc (act_links a) \<le> MAX_ACT_CHAIN_DEPTH" for a
    by (auto simp: act_chain_depth_links)
  have one: "1 \<le> MAX_ACT_CHAIN_DEPTH" by (simp add: MAX_ACT_CHAIN_DEPTH_def)
  show "w' = w"
    using assms by (auto simp: exchange_actor_def introspect_run ok_or_def split: option.splits if_splits)
  show "case sem of
        Impersonation \<Rightarrow> actor = None
      | Delegation \<Rightarrow> \<exists>sub. actor = Some (ActClaim sub (Some (cid_str (cl_client_id c))) (tok_act s)) \<and>
          act_links (ActClaim sub (Some (cid_str (cl_client_id c))) (tok_act s)) \<le> MAX_ACT_CHAIN_DEPTH"
    using assms one
    by (cases "tok_act s")
      (auto simp: exchange_actor_def introspect_run ok_or_def deep [simplified] split: option.splits if_splits)
qed

lemma exchange_scope_Ok:
  "exchange_scope request c s = Inr scope \<Longrightarrow>
     (scope = tok_scope s \<or> is_subset scope (tok_scope s)) \<and> is_subset scope (cl_allowed_scopes c)"
  by (auto simp: exchange_scope_def split: option.splits if_splits)

lemma narrow_and_permit_subset:
  assumes "narrow_and_permit srv granted requested = Inr resource"
  shows "set resource \<subseteq> set granted"
  using assms
  by (cases "requested = []") (auto simp: narrow_and_permit_def narrow_resources_Ok Let_def split: if_splits)

lemma exchange_subject_run:
  assumes "run (exchange_subject (host pf) request c s) w = (Inr x, w')"
    and "is_confidential (cl_auth c)" and "allows_grant c TokenExchange"
  shows "exchange_permitted pf c s"
    and "\<exists>t. fmlookup (m_tokens (w_mem w')) (xp_access_token (xt_response x)) = Some t \<and>
      exchanged_from c s t \<and> actor_recorded c s x t"
proof -
  show "exchange_permitted pf c s"
    using assms by (auto simp: exchange_subject_def Let_def exchange_permitted_def split: if_splits prod.splits sum.splits)
  have "run (ptry (exchange_actor (host pf) request c s) (\<lambda>(semantics, actor).
      pure_try (exchange_scope request c s) (\<lambda>scope.
      if tok_authorization_details s \<noteq> [] \<and> tok_client_id s \<noteq> cl_client_id c \<and>
         \<not> cfg_allow_authorization_details_exchange (pf_config pf) then Done (Err err_exchange_details)
      else pure_try (exchange_targets (host pf) request) (\<lambda>targets.
      pure_try (narrow_and_permit (host pf) (tok_resource s) targets) (\<lambda>resource.
      ptry (issue (host pf) (exchange_issuance c (exchange_bound request) s scope resource actor)) (\<lambda>issued.
      Done (Ok (exchange_answer issued semantics actor)))))))) w = (Inr x, w')"
    using assms(1) by (auto simp: exchange_subject_def Let_def split: if_splits)
  then obtain sem actor w1 where actor: "run (exchange_actor (host pf) request c s) w = (Inr (sem, actor), w1)"
    and rest: "run (pure_try (exchange_scope request c s) (\<lambda>scope.
      if tok_authorization_details s \<noteq> [] \<and> tok_client_id s \<noteq> cl_client_id c \<and>
         \<not> cfg_allow_authorization_details_exchange (pf_config pf) then Done (Err err_exchange_details)
      else pure_try (exchange_targets (host pf) request) (\<lambda>targets.
      pure_try (narrow_and_permit (host pf) (tok_resource s) targets) (\<lambda>resource.
      ptry (issue (host pf) (exchange_issuance c (exchange_bound request) s scope resource actor)) (\<lambda>issued.
      Done (Ok (exchange_answer issued sem actor))))))) w1 = (Inr x, w')"
    by (rule run_ptry_okE) (auto split: prod.splits)
  show "\<exists>t. fmlookup (m_tokens (w_mem w')) (xp_access_token (xt_response x)) = Some t \<and>
      exchanged_from c s t \<and> actor_recorded c s x t"
  proof -
    from rest obtain scope targets resource where scope: "exchange_scope request c s = Inr scope"
      and resource: "narrow_and_permit (host pf) (tok_resource s) targets = Inr resource"
      and issuing: "run (ptry (issue (host pf) (exchange_issuance c (exchange_bound request) s scope resource actor))
        (\<lambda>issued. Done (Ok (exchange_answer issued sem actor)))) w1 = (Inr x, w')"
      by (auto simp del: run_ptry split: sum.splits if_splits)
    let ?q = "exchange_issuance c (exchange_bound request) s scope resource actor"
    from issuing obtain issued where issue: "run (issue (host pf) ?q) w1 = (Inr issued, w')"
      and x: "x = exchange_answer issued sem actor" by (rule run_ptry_okE) auto
    have "Option.bind (is_chain ?q) ch_retry = None" by (simp add: exchange_issuance_def)
    from issue_run [OF issue this] obtain tok where tok: "issued_world (pf_config pf) ?q tok w1 w'"
      and resp: "issued = issue_response ?q (w_time w1)
        (access_record (pf_config pf) ?q (take 80 (w_entropy w1)) (w_time w1) tok)
        (refresh_record (pf_config pf) ?q (take 80 (w_entropy w1)) (w_time w1))" by blast
    let ?t = "access_record (pf_config pf) ?q (take 80 (w_entropy w1)) (w_time w1) tok"
    have "xp_access_token (xt_response x) = tok"
      by (simp add: x exchange_answer_def resp issue_response_def access_record_def)
    moreover have "fmlookup (m_tokens (w_mem w')) tok = Some ?t"
      using tok by (simp add: issued_world_def Let_def)
    moreover have "set resource \<subseteq> set (tok_resource s)"
      by (rule narrow_and_permit_subset [OF resource])
    then have "exchanged_from c s ?t"
      using exchange_scope_Ok [OF scope]
      by (auto simp: exchanged_from_def access_record_def exchange_issuance_def issue_expires_at_def Let_def)
    moreover have "actor_recorded c s x ?t"
      using exchange_actor_run(2) [OF actor]
      by (cases sem) (simp_all add: actor_recorded_def access_record_def exchange_issuance_def x exchange_answer_def)
    ultimately show ?thesis by auto
  qed
qed

text \<open>
  C30. A token exchange never widens: when it is answered, the exchanging client is registered, confidential,
  proved itself and may exchange; the subject token was stored and alive, and neither sender constrained
  nor carrying details for another client unless the configuration allows that; the new token is the
  exchanging client's, for the same subject and the same grant, with no scope beyond the subject token and
  none beyond the client's registration, no further resource, no later expiry and no authentication; no
  refresh token is given; and a delegation puts the actor before the subject token's own actors, at most
  eight in all.
\<close>
theorem exchange_token_sound:
  assumes "run (exchange_token (host pf) request) w = (Ok x, w')"
  shows "\<exists>c s t. registered_as (xr_client_id request) (Some c) w \<and>
     credential_proves (host pf) c (bd_cred (exchange_bound request)) \<and>
     fmlookup (m_tokens (w_mem w)) (xr_subject_token request) = Some s \<and> w_time w < tok_expires_at s \<and>
     exchange_permitted pf c s \<and>
     fmlookup (m_tokens (w_mem w')) (xp_access_token (xt_response x)) = Some t \<and>
     exchanged_from c s t \<and> actor_recorded c s x t \<and> xp_refresh_token (xt_response x) = None"
proof -
  let ?b = "exchange_bound request"
  have run: "run (exchange (host pf) request) w = (Inr x, w')"
    using assms by (auto simp: exchange_token_def split: sum.splits prod.splits)
  then have "run (ptry (authenticate_client (host pf) (xr_client_id request) (bd_cred ?b)) (\<lambda>c.
      if \<not> is_confidential (cl_auth c) then
        pbind (emit (srv_hooks (host pf)) (EvClientAuthenticationFailed (cid_str (xr_client_id request)) NotConfidential))
          (\<lambda>_. Done (Err (error_new InvalidClient)))
      else if \<not> allows_grant c TokenExchange then Done (Err err_exchange_grant)
      else if xr_subject_token_type request \<noteq> TtAccessToken then Done (Err err_subject_type)
      else ptry_map (\<lambda>_. error_new ServerError) (introspect (host pf) (xr_subject_token request)) (\<lambda>found.
      pure_try (ok_or err_subject_dead found) (exchange_subject (host pf) request c)))) w = (Inr x, w')"
    by (simp add: exchange_def split: if_splits)
  then obtain c w1 where auth: "run (authenticate_client (host pf) (xr_client_id request) (bd_cred ?b)) w = (Inr c, w1)"
    and rest: "run (if \<not> is_confidential (cl_auth c) then
        pbind (emit (srv_hooks (host pf)) (EvClientAuthenticationFailed (cid_str (xr_client_id request)) NotConfidential))
          (\<lambda>_. Done (Err (error_new InvalidClient)))
      else if \<not> allows_grant c TokenExchange then Done (Err err_exchange_grant)
      else if xr_subject_token_type request \<noteq> TtAccessToken then Done (Err err_subject_type)
      else ptry_map (\<lambda>_. error_new ServerError) (introspect (host pf) (xr_subject_token request)) (\<lambda>found.
      pure_try (ok_or err_subject_dead found) (exchange_subject (host pf) request c))) w1 = (Inr x, w')"
    by (rule run_ptry_okE)
  note authed = authenticate_run [OF auth]
  from rest obtain s where s: "fmlookup (m_tokens (w_mem w1)) (xr_subject_token request) = Some s"
      "w_time w1 < tok_expires_at s" and ok: "is_confidential (cl_auth c)" "allows_grant c TokenExchange"
      and subject: "run (exchange_subject (host pf) request c s) w1 = (Inr x, w')"
    by (auto simp: introspect_run ok_or_def split: if_splits option.splits)
  note exchanged = exchange_subject_run [OF subject ok]
  have "xp_refresh_token (xt_response x) = None"
    using subject by (auto simp: exchange_subject_def exchange_answer_def Let_def
        split: if_splits prod.splits sum.splits)
  then show ?thesis
    using authed(1,2) s exchanged auth_frame_sel [OF authed(3)] by auto
qed

definition sample_subject_token :: issued_token where
  "sample_subject_token = \<lparr>tok_access_token = ''at'', tok_client_id = ClientId ''c1'', tok_subject = Some ''alice'',
     tok_scope = cl_allowed_scopes sample_client, tok_resource = [], tok_authorization_details = [],
     tok_issued_at = 990 * 1000000000, tok_grant_established_at = 900 * 1000000000,
     tok_expires_at = 1060 * 1000000000, tok_jkt = None, tok_x5t_s256 = None, tok_family_id = None,
     tok_act = Some (ActClaim ''bob'' None None), tok_authentication = None\<rparr>"

definition sample_exchange_world :: world where
  "sample_exchange_world = sample_world\<lparr>w_mem := (w_mem sample_world)\<lparr>
     m_clients := fmupd ''c1'' (sample_client\<lparr>cl_grant_types := [TokenExchange]\<rparr>) fmempty,
     m_tokens := fmupd ''at'' sample_subject_token fmempty\<rparr>\<rparr>"

definition sample_exchange :: exchange_request where
  "sample_exchange = (exchange_request_new (ClientId ''c1'') ''at'' TtAccessToken)
     \<lparr>xr_client_secret := Some ''s3cret'', xr_actor_token := Some ''at'', xr_actor_token_type := Some TtAccessToken,
      xr_scope := Some (cl_default_scopes sample_client)\<rparr>"

theorem exchange_token_sound_witness:
  "\<exists>x w' t. run (exchange_token (host sample_platform) sample_exchange) sample_exchange_world = (Ok x, w') \<and>
     xt_semantics x = Delegation \<and>
     fmlookup (m_tokens (w_mem w')) (xp_access_token (xt_response x)) = Some t \<and>
     tok_subject t = Some ''alice'' \<and> tok_expires_at t \<le> 1060 * 1000000000 \<and>
     (\<exists>sub. tok_act t = Some (ActClaim sub (Some ''c1'') (Some (ActClaim ''bob'' None None))))"
proof -
  obtain r w' where run: "run (exchange_token (host sample_platform) sample_exchange) sample_exchange_world = (r, w')"
    by (cases "run (exchange_token (host sample_platform) sample_exchange) sample_exchange_world")
  have "(case fst (run (exchange_token (host sample_platform) sample_exchange) sample_exchange_world) of
      Inl _ \<Rightarrow> False | Inr x \<Rightarrow> xt_semantics x = Delegation)" by code_simp
  then obtain x where r: "r = Ok x" and deleg: "xt_semantics x = Delegation"
    by (auto simp: run split: sum.splits)
  from exchange_token_sound [OF run [unfolded r]] obtain c s t
    where c: "registered_as (xr_client_id sample_exchange) (Some c) sample_exchange_world"
      and s: "fmlookup (m_tokens (w_mem sample_exchange_world)) (xr_subject_token sample_exchange) = Some s"
      and t: "fmlookup (m_tokens (w_mem w')) (xp_access_token (xt_response x)) = Some t"
        "exchanged_from c s t" "actor_recorded c s x t" by blast
  have "s = sample_subject_token" "cl_client_id c = ClientId ''c1''"
    using s c by (auto simp: sample_exchange_world_def sample_exchange_def exchange_request_new_def sample_client_def)
  then show ?thesis
    using run r deleg t
    by (auto simp: exchanged_from_def actor_recorded_def sample_subject_token_def)
qed

end
