(* ===== verification/Registration_Props.thy ===== *)
theory Registration_Props
  imports Registration Token_Props
begin

text \<open>What the registration endpoints guarantee over the in-memory store.\<close>

section \<open>Handed out credentials work\<close>

lemma xor_acc_same [simp]: "xor_acc acc xs xs = acc"
  by (induction xs arbitrary: acc) simp_all

lemma sha256_verifies [simp]: "secret_verify lib (secret_sha256 lib s) s v"
  by (simp add: secret_verify_def secret_sha256_def verify_builtin_def constant_time_eq_def)

lemma random_artifact_run:
  "run (random_artifact (host pf) n) w =
     (if n \<le> length (w_entropy w) then Ok (hex_encode (take n (w_entropy w))) else Err randomness_failure,
      if n \<le> length (w_entropy w) then w\<lparr>w_entropy := drop n (w_entropy w)\<rparr> else w)"
  by (simp add: random_artifact_def try_random_hex_def draw_def ok_or_def)

lemma policy_run:
  "run (policy_decision (host pf) attempt) w =
     (case pf_registration_policy pf of None \<Rightarrow> RegDeny | Some p \<Rightarrow> p attempt, w)"
  by (simp add: policy_decision_def host_def split: option.split)

definition registered_with :: "platform \<Rightarrow> registered_terms \<Rightarrow> client_information \<Rightarrow> client \<Rightarrow> bool" where
  "registered_with pf t info c \<longleftrightarrow>
     cid_str (cl_client_id c) = ci_client_id info \<and> cl_grant_types c = rg_grant_types t \<and>
     cl_redirect_uris c = rg_redirect_uris t \<and> cl_allowed_scopes c = rg_scope t \<and>
     cl_default_scopes c = rg_scope t \<and> cl_name c = rg_client_name t \<and>
     (cl_auth c = Public \<longleftrightarrow> rg_auth_method t = AUTH_METHOD_NONE) \<and>
     verify_with (pf_lib pf) (cl_auth c) (ci_client_secret info) (pf_secret_verifier pf) \<and>
     (\<exists>r. cl_registration c = Some r \<and> token_endpoint_auth_method r = rg_auth_method t \<and>
        client_secret_expires_at r = ci_client_secret_expires_at info \<and>
        (\<forall>a. ci_registration_access_token info = Some a \<longrightarrow>
           secret_verify (pf_lib pf) (registration_access_token_hash r) a (pf_secret_verifier pf)))"

lemma registered_client_with:
  "registered_with pf t \<lparr>ci_client_id = cid, ci_client_secret = secret, ci_client_id_issued_at = at,
       ci_client_secret_expires_at = e, ci_registration_access_token = (if b then Some a else None),
       ci_registration_client_uri = u, ci_metadata = md\<rparr>
     (registered_client (pf_lib pf) t (ClientId cid) secret a at e)"
  if "secret = None \<longleftrightarrow> rg_auth_method t = AUTH_METHOD_NONE"
  using that by (cases secret) (simp_all add: registered_with_def registered_client_def verify_with_def)


section \<open>Registering\<close>

lemma record_run: "\<exists>lim. run (hooks_record (srv_hooks (host pf)) a out) w = ((), w\<lparr>w_limits := lim\<rparr>)"
proof (cases "pf_limiter pf")
  case None
  then show ?thesis by (intro exI [of _ "w_limits w"]) (simp add: hooks_record_def host_def)
qed (auto simp: hooks_record_def host_def host_limiter_def)

lemma new_secret_run:
  assumes "run (new_secret (host pf) wanted) w = (Inr secret, w')"
  shows "secret = None \<longleftrightarrow> \<not> wanted" and "w_mem w' = w_mem w"
  using assms by (auto simp: new_secret_def random_artifact_run split: if_splits)

lemma new_secret_mem: "w_mem (snd (run (new_secret (host pf) wanted) w)) = w_mem w"
  by (simp add: new_secret_def random_artifact_run)

lemma write_registration_run:
  assumes "run (write_registration (host pf) cfg t) w = (Inr info, w')"
  shows "\<exists>c. m_clients (w_mem w') = fmupd (ci_client_id info) c (m_clients (w_mem w)) \<and>
     registered_with pf t info c \<and> ci_metadata info = terms_metadata t"
proof -
  let ?wants = "rg_auth_method t \<noteq> AUTH_METHOD_NONE"
  obtain cid w1 where cid: "run (random_artifact (host pf) 16) w = (Inr cid, w1)"
    using assms by (auto simp: write_registration_def random_artifact_run Let_def split: if_splits)
  obtain secret w2 where secret: "run (new_secret (host pf) ?wants) w1 = (Inr secret, w2)"
    using assms cid by (cases "run (new_secret (host pf) ?wants) w1")
      (auto simp: write_registration_def Let_def split: sum.splits)
  obtain a w3 where a: "run (random_artifact (host pf) 32) w2 = (Inr a, w3)"
    using assms cid secret by (auto simp: write_registration_def random_artifact_run Let_def split: if_splits)
  have mem: "w_mem w3 = w_mem w"
    using cid a new_secret_run(2) [OF secret] by (auto simp: random_artifact_run split: if_splits)
  let ?at = "unix_seconds (w_time w)"
  let ?e = "map_option (\<lambda>_. secret_deadline cfg ?at) secret"
  let ?c = "registered_client (pf_lib pf) t (ClientId cid) secret a ?at ?e"
  obtain lim where rec: "run (hooks_record (srv_hooks (host pf)) AtClientRegistration Succeeded) w4 =
      ((), w4\<lparr>w_limits := lim w4\<rparr>)" for w4
    using record_run by metis
  have info: "info = \<lparr>ci_client_id = cid, ci_client_secret = secret, ci_client_id_issued_at = ?at,
       ci_client_secret_expires_at = ?e,
       ci_registration_access_token = (if rc_management_enabled cfg then Some a else None),
       ci_registration_client_uri =
         (if rc_management_enabled cfg then Some (registration_client_uri cfg (pf_config pf) cid) else None),
       ci_metadata = terms_metadata t\<rparr>"
    and w': "m_clients (w_mem w') = fmupd cid ?c (m_clients (w_mem w))"
    using assms cid secret a mem
    by (auto simp: write_registration_def Let_def rec host_ops mem_put_client_def registered_client_def)
  have "registered_with pf t info ?c"
    unfolding info by (rule registered_client_with) (use new_secret_run(1) [OF secret] in simp)
  with w' show ?thesis by (auto simp: info)
qed

text \<open>
  C32. A client is registered only on a deployment that offers registration, when the host's policy allowed
  this very attempt and the metadata passed validation. The answer describes the stored client: it carries
  the validated terms, it is public exactly when it registered without authentication, the secret and the
  registration access token handed out are accepted for it from then on, and no other client changes.
\<close>
theorem registration_sound:
  assumes "run (register_dynamic_client (host pf) md iat) w = (Ok info, w')"
  shows "\<exists>cfg p t c. cfg_registration (pf_config pf) = Some cfg \<and> pf_registration_policy pf = Some p \<and>
     p \<lparr>ra_initial_access_token = iat, ra_metadata = md\<rparr> = RegAllow \<and> validate_registration md cfg = Ok t \<and>
     m_clients (w_mem w') = fmupd (ci_client_id info) c (m_clients (w_mem w)) \<and>
     registered_with pf t info c \<and> ci_metadata info = terms_metadata t"
proof -
  from assms obtain w1 where admit: "run (admit_registration (host pf)) w = (Inr (), w1)"
    and reg: "run (register_admitted_client (host pf) md iat) w1 = (Inr info, w')"
    unfolding register_dynamic_client_def by (rule run_ptry_okE) simp
  have "steps auth_frame (admit_registration (host pf))"
    unfolding admit_registration_def by (auto intro!: frame.keeps_auth_rules)
  from frame_run [OF this, of w] have mem: "m_clients (w_mem w1) = m_clients (w_mem w)"
    by (simp add: admit auth_frame_sel)
  from reg obtain cfg where cfg: "cfg_registration (pf_config pf) = Some cfg"
    by (auto simp: register_admitted_client_def registration_config_of_def ok_or_def split: option.splits)
  with reg obtain p t where p: "pf_registration_policy pf = Some p"
      "p \<lparr>ra_initial_access_token = iat, ra_metadata = md\<rparr> = RegAllow"
    and t: "validate_registration md cfg = Ok t" and "run (write_registration (host pf) cfg t) w1 = (Inr info, w')"
    by (auto simp: register_admitted_client_def registration_config_of_def ok_or_def policy_run
        split: option.splits if_splits sum.splits prod.splits)
  from write_registration_run [OF this(4)] cfg p t show ?thesis by (auto simp: mem)
qed

section \<open>Managing\<close>

definition manages :: "platform \<Rightarrow> client_id \<Rightarrow> string \<Rightarrow> client \<Rightarrow> dynamic_registration \<Rightarrow> bool" where
  "manages pf cid tok c r \<longleftrightarrow>
     (\<exists>cfg. cfg_registration (pf_config pf) = Some cfg \<and> rc_management_enabled cfg) \<and>
     cl_registration c = Some r \<and>
     secret_verify (pf_lib pf) (registration_access_token_hash r) tok (pf_secret_verifier pf)"

lemma authenticate_registration_run:
  assumes "run (authenticate_registration (host pf) cid tok) w = (Inr (c, r), w')"
  shows "registered_as cid (Some c) w" and "manages pf cid tok c r" and "auth_frame w w'"
proof -
  show "auth_frame w w'"
    using frame_run [OF server_auth_steps.keeps_authenticate_registration [OF frame.server_auth_steps_axioms], of w pf cid tok]
      assms by simp
  obtain cfg where cfg: "cfg_registration (pf_config pf) = Some cfg" "rc_management_enabled cfg"
    using assms by (auto simp: authenticate_registration_def registration_config_of_def ok_or_def
        split: option.splits if_splits)
  obtain d w1 where check: "run (hooks_check (srv_hooks (host pf)) (AtClientAuthentication (cid_str cid))) w = (d, w1)"
    by fastforce
  with frame_run [OF frame.keeps_check, of w pf "AtClientAuthentication (cid_str cid)"]
  have "m_clients (w_mem w1) = m_clients (w_mem w)" by (simp add: auth_frame_sel)
  with assms cfg check show "registered_as cid (Some c) w" "manages pf cid tok c r"
    by (auto simp: authenticate_registration_def registration_config_of_def ok_or_def manages_def host_ops
        mem_get_client_def host_def registration_auth_failed_def
        split: option.splits if_splits prod.splits)
qed


lemma updated_client_id [simp]: "cl_client_id (updated_client lib c r t secret d) = cl_client_id c"
  by (simp add: updated_client_def Let_def)

lemma minted_deadline_run:
  "run (minted_deadline (host pf) cfg secret) w =
     (if secret \<noteq> None \<and> rc_client_secret_ttl cfg \<noteq> None then secret_deadline cfg (unix_seconds (w_time w)) else 0, w)"
  by (simp add: minted_deadline_def)


interpretation updates: registration_steps "host pf"
  "on_mem (\<lambda>m m'. fmlookup (m_clients m) k = None \<longrightarrow> fmlookup (m_clients m') k = None)" for pf k
proof -
  have "storage_auth_steps mem_storage (\<lambda>m m'. fmlookup (m_clients m) k = None \<longrightarrow> fmlookup (m_clients m') k = None)"
    by unfold_locales (auto simp: mem_storage_def mem_get_client_def mem_claim_replay_id_def)
  then have "server_auth_steps (host pf)
      (on_mem (\<lambda>m m'. fmlookup (m_clients m) k = None \<longrightarrow> fmlookup (m_clients m') k = None))"
    by (rule host_auth_steps) simp
  then show "registration_steps (host pf)
      (on_mem (\<lambda>m m'. fmlookup (m_clients m) k = None \<longrightarrow> fmlookup (m_clients m') k = None))"
    by (rule registration_steps.intro, unfold_locales)
      (auto simp: host_def draw_def host_ops mem_cas_client_def split: option.splits)
qed

text \<open>
  No update brings a deleted client back: whatever else runs between its calls, an update never puts a
  client into the store under an identifier that is not there.
\<close>
theorem update_never_resurrects:
  "steps (\<lambda>w w'. fmlookup (m_clients (w_mem w)) k = None \<longrightarrow> fmlookup (m_clients (w_mem w')) k = None)
     (update_registration (host pf) cid tok md)"
  by (rule updates.keeps_update_registration)

text \<open>
  C34. Deleting a registration needs the same token. Afterwards the client is gone, nothing issued to it before
  is left and, until the longest lifetime has passed, the store lets nothing of the kind back in.
\<close>
theorem delete_registration_sound:
  assumes "run (delete_registration (host pf) cid tok) w = (Ok (), w')"
  shows "(\<exists>c r. registered_as cid (Some c) w \<and> manages pf cid tok c r) \<and> registered_as cid None w' \<and>
    scope_dead (BClient cid) (w_time w) (saturating_deadline (w_time w) (longest_lifetime (pf_config pf))) (w_mem w')"
proof -
  from assms obtain c r w1 where auth: "run (authenticate_registration (host pf) cid tok) w = (Inr (c, r), w1)"
    unfolding delete_registration_def by (rule run_ptry_okE) auto
  note authed = authenticate_registration_run [OF auth]
  let ?win = "\<lparr>win_recorded_at = w_time w,
    win_until = saturating_deadline (w_time w) (longest_lifetime (pf_config pf))\<rparr>"
  have time: "w_time w1 = w_time w" using authed(3) by (simp add: auth_frame_sel)
  from assms auth time have nonempty: "cid_str cid \<noteq> []"
    and mem: "w_mem w' = snd (mem_delete_client cid ?win (w_mem w1))"
    by (auto simp: delete_registration_def revocation_window_def host_ops mem_delete_client_def reject_empty_scope_def
        split: if_splits)
  moreover have "registered_as cid None w'"
    using nonempty unfolding mem
    by (simp add: mem_delete_client_def reject_empty_scope_def prune_index_def Let_def)
  moreover have "scope_dead (BClient cid) (win_recorded_at ?win) (win_until ?win) (snd (mem_delete_client cid ?win (w_mem w1)))"
    by (rule delete_client_dead) (rule nonempty)
  ultimately show ?thesis using authed by auto
qed

section \<open>A registration, its update and its end\<close>

definition registering_platform :: platform where
  "registering_platform = sample_platform\<lparr>
     pf_config := (pf_config sample_platform)\<lparr>cfg_registration := Some registration_config_new\<rparr>,
     pf_registration_policy := Some (\<lambda>a. if length (md_redirect_uris (ra_metadata a)) \<le> 1 then RegAllow else RegDeny)\<rparr>"

definition sample_metadata :: client_metadata where
  "sample_metadata = \<lparr>md_redirect_uris = [''https://app/cb''], md_token_endpoint_auth_method = None,
     md_grant_types = None, md_response_types = None, md_client_name = None, md_scope = None,
     md_software_statement = None\<rparr>"

definition sample_registering :: "(registration_failure + client_information) \<times> world" where
  "sample_registering = run (register_dynamic_client (host registering_platform) sample_metadata None) sample_world"

definition sample_information :: client_information where
  "sample_information = (case fst sample_registering of Inr i \<Rightarrow> i | Inl _ \<Rightarrow> undefined)"

lemma sample_registering_ok: "sample_registering = (Ok sample_information, snd sample_registering)"
proof -
  have "case fst sample_registering of Inr _ \<Rightarrow> True | Inl _ \<Rightarrow> False" by code_simp
  then have "fst sample_registering = Ok sample_information"
    by (simp add: sample_information_def split: sum.splits)
  then show ?thesis by (metis prod.collapse)
qed

theorem registration_sound_witness:
  "\<exists>t c. validate_registration sample_metadata registration_config_new = Ok t \<and>
     fmlookup (m_clients (w_mem (snd sample_registering))) (ci_client_id sample_information) = Some c \<and>
     registered_with registering_platform t sample_information c"
  using registration_sound [OF sample_registering_ok [unfolded sample_registering_def]]
  by (auto simp: registering_platform_def sample_registering_def)

abbreviation sample_registered_id :: client_id where
  "sample_registered_id \<equiv> ClientId (ci_client_id sample_information)"

abbreviation sample_registration_token :: string where
  "sample_registration_token \<equiv> the (ci_registration_access_token sample_information)"

definition sample_updating :: "(registration_failure + client_information) \<times> world" where
  "sample_updating = run (update_registration (host registering_platform) sample_registered_id sample_registration_token
     (sample_metadata\<lparr>md_token_endpoint_auth_method := Some ''none''\<rparr>)) (snd sample_registering)"


definition sample_deleting :: "(registration_failure + unit) \<times> world" where
  "sample_deleting =
     run (delete_registration (host registering_platform) sample_registered_id sample_registration_token)
       (snd sample_registering)"

theorem delete_registration_sound_witness:
  "fst sample_deleting = Ok () \<and> registered_as sample_registered_id None (snd sample_deleting) \<and>
     registered_as sample_registered_id None (snd sample_registering) = False"
proof -
  have ok: "fst sample_deleting = Ok ()" by code_simp
  from delete_registration_sound [of registering_platform sample_registered_id sample_registration_token
      "snd sample_registering" "snd sample_deleting"]
  show ?thesis using ok by (auto simp: sample_deleting_def prod_eq_iff)
qed

theorem update_never_resurrects_witness:
  "registered_as sample_registered_id None
     (snd (run (update_registration (host registering_platform) sample_registered_id sample_registration_token
        sample_metadata) (snd sample_deleting)))"
proof -
  have gone: "registered_as sample_registered_id None (snd sample_deleting)" by code_simp
  show ?thesis
    by (rule steps_run [OF update_never_resurrects [of "cid_str sample_registered_id"], THEN mp])
      (use gone in auto)
qed

end
