(* ===== verification/Http_Text.thy ===== *)
theory Http_Text
  imports Authorization Device
begin

text \<open>
  The text layer of the HTTP service (\<^verbatim>\<open>http.rs\<close>): UTF-8 with replacement characters, percent decoding, form
  parameters, the normal form of route paths and the escaping of text in pages.
\<close>

section \<open>UTF-8\<close>

text \<open>
  One step of the standard library's lossy decoder: how many bytes it takes from a non-empty input and whether
  they are a character. Reading past the end reads zero.
\<close>

definition byte_at :: "string \<Rightarrow> nat \<Rightarrow> nat" where
  "byte_at s i = (if i < length s then of_ascii (s ! i) else 0)"

definition cont_at :: "string \<Rightarrow> nat \<Rightarrow> bool" where
  "cont_at s i \<longleftrightarrow> 128 \<le> byte_at s i \<and> byte_at s i < 192"

definition utf8_next :: "string \<Rightarrow> nat \<times> bool" where
  "utf8_next s =
     (let b = byte_at s 0; c = byte_at s 1 in
      if b < 128 then (1, True)
      else if 0xC2 \<le> b \<and> b \<le> 0xDF then (if cont_at s 1 then (2, True) else (1, False))
      else if 0xE0 \<le> b \<and> b \<le> 0xEF then
        (if \<not> ((if b = 0xE0 then 0xA0 else 0x80) \<le> c \<and> c \<le> (if b = 0xED then 0x9F else 0xBF)) then (1, False)
         else if \<not> cont_at s 2 then (2, False) else (3, True))
      else if 0xF0 \<le> b \<and> b \<le> 0xF4 then
        (if \<not> ((if b = 0xF0 then 0x90 else 0x80) \<le> c \<and> c \<le> (if b = 0xF4 then 0x8F else 0xBF)) then (1, False)
         else if \<not> cont_at s 2 then (2, False)
         else if \<not> cont_at s 3 then (3, False) else (4, True))
      else (1, False))"

lemma utf8_next_pos [simp]: "0 < fst (utf8_next s)"
  by (simp add: utf8_next_def Let_def)

definition replacement :: string where
  "replacement = map (char_of :: nat \<Rightarrow> char) [0xEF, 0xBF, 0xBD]"

function from_utf8_lossy :: "string \<Rightarrow> string" where
  "from_utf8_lossy [] = []"
| "from_utf8_lossy (c # cs) =
     (case utf8_next (c # cs) of (n, ok) \<Rightarrow>
        (if ok then take n (c # cs) else replacement) @ from_utf8_lossy (drop n (c # cs)))"
  by pat_completeness auto
termination
  by (relation "measure length") (use utf8_next_pos in \<open>auto simp: less_Suc_eq_le, metis fst_conv diff_le_self gr0_conv_Suc diff_Suc_Suc\<close>)

function valid_utf8 :: "string \<Rightarrow> bool" where
  "valid_utf8 [] = True"
| "valid_utf8 (c # cs) = (case utf8_next (c # cs) of (n, ok) \<Rightarrow> ok \<and> valid_utf8 (drop n (c # cs)))"
  by pat_completeness auto
termination
  by (relation "measure length") (use utf8_next_pos in \<open>auto simp: less_Suc_eq_le, metis fst_conv diff_le_self gr0_conv_Suc diff_Suc_Suc\<close>)

lemma from_utf8_valid: "valid_utf8 s \<Longrightarrow> from_utf8_lossy s = s"
proof (induction s rule: valid_utf8.induct)
  case (2 c cs)
  obtain n ok where n: "utf8_next (c # cs) = (n, ok)" by fastforce
  with 2 have "ok" "from_utf8_lossy (drop n (c # cs)) = drop n (c # cs)" by auto
  then show ?case unfolding from_utf8_lossy.simps n by simp
qed simp

lemma utf8_next_char:
  assumes "utf8_next s = (n, True)" and "s \<noteq> []"
  shows "n \<le> length s" and "utf8_next (take n s @ r) = (n, True)"
proof -
  have inside: "i < length s" if "byte_at s i \<noteq> 0" for i using that by (auto simp: byte_at_def split: if_splits)
  show le: "n \<le> length s"
    using assms inside [of 1] inside [of 2] inside [of 3]
    by (auto simp: utf8_next_def cont_at_def Let_def Suc_le_eq split: if_splits)
  have same: "byte_at (take n s @ r) i = byte_at s i" if "i < n" for i
    using that le by (simp add: byte_at_def nth_append)
  have "cont_at (take n s @ r) i = cont_at s i" if "i < n" for i
    using that same by (simp add: cont_at_def)
  note same' = same [of 0] same [of 1] this [of 1] this [of 2] this [of 3]
  consider "n = 1" | "n = 2" | "n = 3" | "n = 4"
    using assms(1) by (auto simp: utf8_next_def Let_def split: if_splits)
  then show "utf8_next (take n s @ r) = (n, True)"
    using assms(1) same' by cases (simp_all add: utf8_next_def Let_def split: if_splits)
qed

lemma valid_utf8_append_char:
  assumes "utf8_next s = (n, True)" and "s \<noteq> []" and "valid_utf8 r"
  shows "valid_utf8 (take n s @ r)"
proof -
  note char = utf8_next_char [OF assms(1,2)]
  have "0 < n" using utf8_next_pos [of s] assms(1) by simp
  with char(1) assms(2) obtain c cs where "take n s @ r = c # cs" by (cases "take n s @ r") auto
  moreover from this char(2) [of r] have "utf8_next (c # cs) = (n, True)" by simp
  moreover have "drop n (take n s @ r) = r" using char(1) by simp
  ultimately show ?thesis using assms(3) by simp
qed

lemma valid_replacement: "valid_utf8 r \<Longrightarrow> valid_utf8 (replacement @ r)"
proof -
  have "utf8_next replacement = (3, True)" by code_simp
  moreover have "length replacement = 3" by (simp add: replacement_def)
  ultimately show "valid_utf8 r \<Longrightarrow> valid_utf8 (replacement @ r)"
    using valid_utf8_append_char [of replacement 3 r] by (simp add: replacement_def)
qed

text \<open>Decoding always gives a string, and gives the text itself when it already is one.\<close>

lemma valid_lossy: "valid_utf8 (from_utf8_lossy s)"
proof (induction s rule: from_utf8_lossy.induct)
  case (2 c cs)
  obtain n ok where n: "utf8_next (c # cs) = (n, ok)" by fastforce
  with 2 have "valid_utf8 (from_utf8_lossy (drop n (c # cs)))" by simp
  then show ?case
    using n valid_utf8_append_char [of "c # cs" n] valid_replacement by simp
qed simp

section \<open>Percent decoding\<close>

definition http_hex_value :: "char \<Rightarrow> nat option" where
  "http_hex_value b =
     (let n = of_ascii b in
      if 48 \<le> n \<and> n \<le> 57 then Some (n - 48)
      else if 97 \<le> n \<and> n \<le> 102 then Some (n - 97 + 10)
      else if 65 \<le> n \<and> n \<le> 70 then Some (n - 65 + 10)
      else None)"

fun percent_bytes :: "bool \<Rightarrow> string \<Rightarrow> string" where
  "percent_bytes form [] = []"
| "percent_bytes form (c # cs) =
     (if c = CHR ''+'' \<and> form then CHR '' '' # percent_bytes form cs
      else case cs of
        h # l # rest \<Rightarrow>
          if c = CHR ''%'' then
            (case (http_hex_value h, http_hex_value l) of
               (Some a, Some b) \<Rightarrow> char_of (16 * a + b) # percent_bytes form rest
             | _ \<Rightarrow> CHR ''%'' # percent_bytes form cs)
          else c # percent_bytes form cs
      | _ \<Rightarrow> c # percent_bytes form cs)"

definition http_percent_decode :: "bool \<Rightarrow> string \<Rightarrow> string" where
  "http_percent_decode form raw =
     (if list_ex (\<lambda>b. b = CHR ''%'' \<or> form \<and> b = CHR ''+'') raw then from_utf8_lossy (percent_bytes form raw) else raw)"

definition decode_component :: "string \<Rightarrow> string" where
  "decode_component raw = http_percent_decode True raw"

definition decode_path_segment :: "string \<Rightarrow> string" where
  "decode_path_segment raw = http_percent_decode False raw"

lemma http_hex_value_upper: "k < 16 \<Longrightarrow> http_hex_value (HEX_UPPER ! k) = Some k"
proof -
  have "\<forall>k \<in> {0..<16}. http_hex_value (HEX_UPPER ! k) = Some k" by code_simp
  then show "k < 16 \<Longrightarrow> http_hex_value (HEX_UPPER ! k) = Some k" by simp
qed

lemma percent_bytes_plain:
  "c \<noteq> CHR ''%'' \<Longrightarrow> \<not> (form \<and> c = CHR ''+'') \<Longrightarrow> percent_bytes form (c # cs) = c # percent_bytes form cs"
  by (cases cs; cases "tl cs") auto

lemma percent_bytes_encode: "percent_bytes form (percent_encode v) = v"
proof (induction v)
  case (Cons c v)
  have c: "char_of (16 * (of_ascii c div 16) + of_ascii c mod 16) = c"
    by (simp add: of_ascii_def del: of_char_mod_256)
  have "\<not> unreserved CHR ''%''" "\<not> unreserved CHR ''+''" by code_simp+
  then have "unreserved c \<Longrightarrow> c \<noteq> CHR ''%'' \<and> c \<noteq> CHR ''+''" by auto
  then have plain: "percent_bytes form (c # cs) = c # percent_bytes form cs" if "unreserved c" for cs
    using that by (intro percent_bytes_plain) auto
  show ?case
    using Cons c plain by (cases "unreserved c")
      (simp_all add: percent_encode_def percent_byte_def http_hex_value_upper of_ascii_div_16)
qed (simp add: percent_encode_def)

lemma decode_encode:
  assumes "valid_utf8 v"
  shows "http_percent_decode form (percent_encode v) = v"
proof (cases "list_ex (\<lambda>b. b = CHR ''%'' \<or> form \<and> b = CHR ''+'') (percent_encode v)")
  case True
  then show ?thesis
    by (simp add: http_percent_decode_def percent_bytes_encode from_utf8_valid assms)
next
  case False
  have "percent_bytes form s = s" if "\<not> list_ex (\<lambda>b. b = CHR ''%'' \<or> form \<and> b = CHR ''+'') s" for s
    using that by (induction s) (simp_all add: percent_bytes_plain del: percent_bytes.simps(2))
  from this [OF False] False show ?thesis
    by (simp add: http_percent_decode_def percent_bytes_encode)
qed

section \<open>Form parameters\<close>

definition MAX_FORM_PARAMETERS :: nat where "MAX_FORM_PARAMETERS = 64"

type_synonym params = "(string \<times> string) list"

datatype too_many = TooManyParameters

definition parse_pair :: "string \<Rightarrow> string \<times> string" where
  "parse_pair part =
     (case split_once CHR ''='' part of
        Some (k, v) \<Rightarrow> (decode_component k, decode_component v)
      | None \<Rightarrow> (decode_component part, []))"

definition parse_pairs :: "string \<Rightarrow> too_many + params" where
  "parse_pairs input =
     (if MAX_FORM_PARAMETERS \<le> count_list input CHR ''&'' then Err TooManyParameters
      else Ok (map parse_pair (filter (\<lambda>part. part \<noteq> []) (split_on CHR ''&'' input))))"

definition param :: "params \<Rightarrow> string \<Rightarrow> string option" where
  "param pairs name = map_of pairs name"

definition missing_parameter :: "string \<Rightarrow> error_response" where
  "missing_parameter name = fail_with InvalidRequest (''missing required parameter '' @ name)"

definition required :: "params \<Rightarrow> string \<Rightarrow> error_response + string" where
  "required pairs name = ok_or (missing_parameter name) (param pairs name)"

definition values_of :: "string \<Rightarrow> params \<Rightarrow> string list" where
  "values_of name pairs = map snd (filter (\<lambda>kv. fst kv = name) pairs)"

definition resource_indicators :: "params \<Rightarrow> string list" where
  "resource_indicators pairs = values_of ''resource'' pairs"

definition refuse_authorization_details :: "params \<Rightarrow> error_response option" where
  "refuse_authorization_details pairs =
     map_option (\<lambda>_. fail_with InvalidAuthorizationDetails
       ''this server does not accept authorization_details on this grant'') (param pairs ''authorization_details'')"

definition optional_scope :: "params \<Rightarrow> error_response + scope_set option" where
  "optional_scope pairs =
     (case param pairs ''scope'' of
        None \<Rightarrow> Ok None
      | Some s \<Rightarrow>
          (case scope_parse s of
             Inr scope \<Rightarrow> Ok (Some scope)
           | Inl _ \<Rightarrow> Err (fail_with InvalidScope ''scope is not a space-delimited RFC 6749 s3.3 token list'')))"

lemma length_split_on: "length (split_on c s) = Suc (count_list s c)"
  by (induction s) (auto split: list.split simp: neq_Nil_conv dest!: arg_cong [of _ "[]" length])

text \<open>Whatever the input, at most 64 parameters come out of it.\<close>

lemma parse_pairs_bounded: "parse_pairs input = Inr ps \<Longrightarrow> length ps \<le> MAX_FORM_PARAMETERS"
  using length_filter_le [of "\<lambda>part. part \<noteq> []" "split_on CHR ''&'' input"]
  by (auto simp: parse_pairs_def length_split_on split: if_splits)

definition form_encode :: "params \<Rightarrow> string" where
  "form_encode kvs = join_with ''&'' (map (\<lambda>(k, v). percent_encode k @ ''='' @ percent_encode v) kvs)"

lemma count_join:
  "ws \<noteq> [] \<Longrightarrow> \<forall>w \<in> set ws. c \<notin> set w \<Longrightarrow> Suc (count_list (join_with [c] ws) c) = length ws"
  using split_on_join [of ws c] length_split_on [of c "join_with [c] ws"] by simp

lemma parse_form_encode:
  assumes "length kvs \<le> MAX_FORM_PARAMETERS" and "\<forall>(k, v) \<in> set kvs. valid_utf8 k \<and> valid_utf8 v"
  shows "parse_pairs (form_encode kvs) = Ok kvs"
proof (cases "kvs = []")
  case True
  then show ?thesis by (simp add: form_encode_def parse_pairs_def MAX_FORM_PARAMETERS_def)
next
  case False
  let ?ws = "map (\<lambda>(k, v). percent_encode k @ ''='' @ percent_encode v) kvs"
  have plain: "\<forall>w \<in> set ?ws. CHR ''&'' \<notin> set w"
    using percent_encode_no_delims(1) by auto
  have "parse_pair (percent_encode k @ ''='' @ percent_encode v) = (k, v)" if "(k, v) \<in> set kvs" for k v
  proof -
    have "split_once CHR ''='' (percent_encode k @ CHR ''='' # percent_encode v) = Some (percent_encode k, percent_encode v)"
      by (simp add: split_once_eq_Some percent_encode_no_delims(2))
    then show ?thesis using assms(2) that by (auto simp: parse_pair_def decode_component_def decode_encode)
  qed
  then have pairs: "map parse_pair ?ws = kvs" by (induction kvs) auto
  moreover have "filter (\<lambda>part. part \<noteq> []) ?ws = ?ws" by (auto simp: filter_id_conv)
  moreover have "split_on CHR ''&'' (form_encode kvs) = ?ws"
    unfolding form_encode_def by (rule split_on_join [OF plain]) (simp add: False)
  moreover have "Suc (count_list (form_encode kvs) CHR ''&'') = length kvs"
    using count_join [of ?ws "CHR ''&''"] plain False by (simp add: form_encode_def)
  ultimately show ?thesis using assms(1) by (simp add: parse_pairs_def)
qed

lemma valid_utf8_ascii: "list_all (\<lambda>c. of_ascii c < 128) s \<Longrightarrow> valid_utf8 s"
proof (induction s)
  case (Cons c cs)
  then have "utf8_next (c # cs) = (1, True)" by (simp add: utf8_next_def byte_at_def)
  with Cons show ?case by simp
qed simp

lemma percent_encode_ascii: "list_all (\<lambda>c. of_ascii c < 128) (percent_encode v)"
proof (induction v)
  case (Cons c v)
  have hex: "k < 16 \<Longrightarrow> of_ascii (HEX_UPPER ! k) < 128" for k
  proof -
    have "list_all (\<lambda>k. of_ascii (HEX_UPPER ! k) < 128) [0..<16]" by code_simp
    then show "k < 16 \<Longrightarrow> of_ascii (HEX_UPPER ! k) < 128" by (simp add: list_all_iff)
  qed
  have "unreserved c \<Longrightarrow> of_ascii c < 128"
    by (auto simp: unreserved_def is_ascii_alphanumeric_def is_ascii_digit_def is_ascii_uppercase_def is_ascii_lowercase_def,
        simp_all add: of_ascii_def)
  moreover have "of_ascii CHR ''%'' < 128" by code_simp
  ultimately show ?case using Cons hex [of "of_ascii c div 16"] hex [of "of_ascii c mod 16"]
    by (simp add: percent_encode_def percent_byte_def of_ascii_div_16)
qed (simp add: percent_encode_def)

lemma form_encode_ascii: "list_all (\<lambda>c. of_ascii c < 128) (form_encode kvs)"
proof -
  have joined: "list_all (\<lambda>c. of_ascii c < 128) (join_with ''&'' ws)" if "\<forall>w \<in> set ws. list_all (\<lambda>c. of_ascii c < 128) w" for ws
  proof -
    have "of_ascii CHR ''&'' < 128" by code_simp
    with that show ?thesis by (induction ws rule: induct_list012) simp_all
  qed
  have "of_ascii CHR ''='' < 128" by code_simp
  then show ?thesis unfolding form_encode_def by (intro joined) (auto simp: percent_encode_ascii)
qed

text \<open>
  C38. Every list of at most 64 parameters survives the form encoding: what a handler reads from the posted bytes
  are the names and values exactly, in their order, whatever characters they consist of.
\<close>
theorem form_roundtrip:
  assumes "length kvs \<le> MAX_FORM_PARAMETERS" and "\<forall>(k, v) \<in> set kvs. valid_utf8 k \<and> valid_utf8 v"
  shows "parse_pairs (from_utf8_lossy (form_encode kvs)) = Ok kvs"
  using assms by (simp add: from_utf8_valid valid_utf8_ascii form_encode_ascii parse_form_encode)

theorem form_roundtrip_witness:
  "parse_pairs (from_utf8_lossy (form_encode [(''scope'', ''read write''), (''state'', ''a&b=c''), (''x'', [])])) =
     Ok [(''scope'', ''read write''), (''state'', ''a&b=c''), (''x'', [])]"
proof (rule form_roundtrip)
  have "valid_utf8 ''scope''" "valid_utf8 ''read write''" "valid_utf8 ''state''" "valid_utf8 ''a&b=c''" "valid_utf8 ''x''"
    by code_simp+
  then show "\<forall>(k, v) \<in> set [(''scope'', ''read write''), (''state'', ''a&b=c''), (''x'', [])]. valid_utf8 k \<and> valid_utf8 v"
    by simp
qed (simp add: MAX_FORM_PARAMETERS_def)

section \<open>Route paths\<close>

definition is_escape :: "string \<Rightarrow> bool" where
  "is_escape s \<longleftrightarrow> (case s of
       p # h # l # _ \<Rightarrow> p = CHR ''%'' \<and> http_hex_value h \<noteq> None \<and> http_hex_value l \<noteq> None
     | _ \<Rightarrow> False)"

definition path_char :: "char \<Rightarrow> bool" where
  "path_char b \<longleftrightarrow> is_ascii_alphanumeric b \<or> b \<in> set ''-._~!$&()*+,;=:@/%'' \<or> of_ascii b = 39"

function encode_route_path :: "string \<Rightarrow> string" where
  "encode_route_path [] = []"
| "encode_route_path (b # bs) =
     (if is_escape (b # bs)
      then CHR ''%'' # to_ascii_uppercase (bs ! 0) # to_ascii_uppercase (bs ! 1) # encode_route_path (drop 2 bs)
      else if path_char b then b # encode_route_path bs
      else percent_byte b @ encode_route_path bs)"
  by pat_completeness auto
termination
  by (relation "measure length") (auto simp: less_Suc_eq_le)

fun needs_uppercase :: "string \<Rightarrow> bool" where
  "needs_uppercase [] = False"
| "needs_uppercase (b # bs) =
     (is_escape (b # bs) \<and> (is_ascii_lowercase (bs ! 0) \<or> is_ascii_lowercase (bs ! 1)) \<or> needs_uppercase bs)"

function uppercase_loop :: "string \<Rightarrow> string" where
  "uppercase_loop [] = []"
| "uppercase_loop (b # bs) =
     (if is_escape (b # bs)
      then CHR ''%'' # to_ascii_uppercase (bs ! 0) # to_ascii_uppercase (bs ! 1) # uppercase_loop (drop 2 bs)
      else b # takeWhile (\<lambda>c. c \<noteq> CHR ''%'') bs @ uppercase_loop (dropWhile (\<lambda>c. c \<noteq> CHR ''%'') bs))"
  by pat_completeness auto
termination
  by (relation "measure length") (auto simp: less_Suc_eq_le length_dropWhile_le)

definition uppercase_escapes :: "string \<Rightarrow> string" where
  "uppercase_escapes path = (if needs_uppercase path then uppercase_loop path else path)"

lemma is_escapeD:
  assumes "is_escape (b # bs)"
  obtains h l rest where "bs = h # l # rest" "b = CHR ''%''" "http_hex_value h \<noteq> None" "http_hex_value l \<noteq> None"
  using assms by (auto simp: is_escape_def split: list.splits)

lemma uppercase_loop_run:
  "uppercase_loop bs = takeWhile (\<lambda>c. c \<noteq> CHR ''%'') bs @ uppercase_loop (dropWhile (\<lambda>c. c \<noteq> CHR ''%'') bs)"
proof (cases bs)
  case (Cons d ds)
  have "\<not> is_escape (d # ds)" if "d \<noteq> CHR ''%''" using that by (auto elim: is_escapeD)
  with Cons show ?thesis by (cases "d = CHR ''%''") auto
qed simp

lemma uppercase_loop_plain: "\<not> is_escape (b # bs) \<Longrightarrow> uppercase_loop (b # bs) = b # uppercase_loop bs"
  using uppercase_loop_run [of bs] by simp

lemma uppercase_code:
  "of_ascii (to_ascii_uppercase h) = (if 97 \<le> of_ascii h \<and> of_ascii h \<le> 122 then of_ascii h - 32 else of_ascii h)"
  by (auto simp: to_ascii_uppercase_def is_ascii_lowercase_def of_ascii_def)

lemma http_hex_value_uppercase: "http_hex_value (to_ascii_uppercase h) = http_hex_value h"
  unfolding http_hex_value_def Let_def uppercase_code
  by (cases "97 \<le> of_ascii h \<and> of_ascii h \<le> 122") (auto split: if_split)

lemma not_lowercase_uppercase: "\<not> is_ascii_lowercase c \<Longrightarrow> to_ascii_uppercase c = c"
  by (simp add: to_ascii_uppercase_def)

lemma uppercase_idem [simp]: "to_ascii_uppercase (to_ascii_uppercase c) = to_ascii_uppercase c"
  by (auto simp: to_ascii_uppercase_def is_ascii_lowercase_def of_ascii_def)

lemma uppercase_loop_unneeded: "\<not> needs_uppercase path \<Longrightarrow> uppercase_loop path = path"
proof (induction path rule: length_induct)
  case (1 path)
  show ?case
  proof (cases path)
    case (Cons b bs)
    show ?thesis
    proof (cases "is_escape (b # bs)")
      case True
      then obtain h l rest where bs: "bs = h # l # rest" and b: "b = CHR ''%''" by (rule is_escapeD)
      with 1(2) Cons True have "\<not> needs_uppercase rest" "\<not> is_ascii_lowercase h" "\<not> is_ascii_lowercase l" by auto
      with 1(1) Cons bs b True show ?thesis by (simp add: not_lowercase_uppercase)
    next
      case False
      with 1 Cons show ?thesis by (simp add: uppercase_loop_plain del: uppercase_loop.simps(2))
    qed
  qed simp
qed

lemma uppercase_escapes_eq: "uppercase_escapes path = uppercase_loop path"
  by (simp add: uppercase_escapes_def uppercase_loop_unneeded)

lemma encode_is_uppercase: "list_all path_char q \<Longrightarrow> encode_route_path q = uppercase_loop q"
proof (induction q rule: encode_route_path.induct)
  case (2 b bs)
  show ?case
  proof (cases "is_escape (b # bs)")
    case True
    then obtain h l rest where bs: "bs = h # l # rest" by (rule is_escapeD)
    with 2 True show ?thesis by simp
  next
    case False
    with 2 show ?thesis by (simp add: uppercase_loop_plain del: uppercase_loop.simps(2))
  qed
qed simp

lemma uppercase_hex_digit: "k < 16 \<Longrightarrow> to_ascii_uppercase (HEX_UPPER ! k) = HEX_UPPER ! k"
proof -
  have "list_all (\<lambda>n. to_ascii_uppercase (HEX_UPPER ! n) = HEX_UPPER ! n) [0..<16]" by code_simp
  then show "k < 16 \<Longrightarrow> to_ascii_uppercase (HEX_UPPER ! k) = HEX_UPPER ! k" by (simp add: list_all_iff)
qed

lemma path_char_hex: "path_char CHR ''%''" "k < 16 \<Longrightarrow> path_char (HEX_UPPER ! k)"
  "http_hex_value h \<noteq> None \<Longrightarrow> path_char (to_ascii_uppercase h)"
proof -
  show "path_char CHR ''%''" by code_simp
  have "list_all (\<lambda>n. path_char (HEX_UPPER ! n)) [0..<16]" by code_simp
  then show "k < 16 \<Longrightarrow> path_char (HEX_UPPER ! k)" by (simp add: list_all_iff)
  show "http_hex_value h \<noteq> None \<Longrightarrow> path_char (to_ascii_uppercase h)"
    by (auto simp: http_hex_value_def Let_def path_char_def is_ascii_alphanumeric_def is_ascii_digit_def
        is_ascii_uppercase_def uppercase_code split: if_splits)
qed

lemma encode_path_chars: "list_all path_char (encode_route_path p)"
proof (induction p rule: encode_route_path.induct)
  case (2 b bs)
  show ?case
  proof (cases "is_escape (b # bs)")
    case True
    then obtain h l rest where "bs = h # l # rest" "http_hex_value h \<noteq> None" "http_hex_value l \<noteq> None" by (rule is_escapeD)
    with 2 True path_char_hex show ?thesis by simp
  next
    case False
    have "unreserved b \<Longrightarrow> path_char b" by (auto simp: unreserved_def path_char_def)
    with False 2 path_char_hex show ?thesis by (simp add: percent_byte_def of_ascii_div_16)
  qed
qed simp

lemma hd_escape: "is_escape (b # bs) \<Longrightarrow> b = CHR ''%''"
  by (auto elim: is_escapeD)

lemma escape_upper: "is_escape (CHR ''%'' # to_ascii_uppercase h # to_ascii_uppercase l # r) \<longleftrightarrow> http_hex_value h \<noteq> None \<and> http_hex_value l \<noteq> None"
  by (simp add: is_escape_def http_hex_value_uppercase)

text \<open>A hex digit at the front of an encoded path was there before, so no new escape appears.\<close>

lemma encode_hex_front:
  assumes "encode_route_path bs = h # r" and "http_hex_value h \<noteq> None"
  obtains cs where "bs = h # cs" "encode_route_path cs = r"
proof -
  have no: "http_hex_value CHR ''%'' = None" by code_simp
  from assms(1) obtain c cs where bs: "bs = c # cs" by (cases bs) auto
  have "\<not> is_escape (c # cs)" using assms bs no by auto
  moreover have "path_char c" using assms bs no calculation
    by (auto simp: percent_byte_def unreserved_def path_char_def split: if_splits)
  ultimately show ?thesis using assms(1) bs that by simp
qed

lemma encode_no_new_escape:
  assumes "is_escape (b # encode_route_path bs)"
  shows "is_escape (b # bs)"
proof -
  from assms obtain h l r where b: "b = CHR ''%''" and up: "encode_route_path bs = h # l # r"
    and h: "http_hex_value h \<noteq> None" and l: "http_hex_value l \<noteq> None"
    by (rule is_escapeD)
  from up h obtain cs where "bs = h # cs" "encode_route_path cs = l # r" by (rule encode_hex_front)
  moreover from this(2) l obtain ds where "cs = l # ds" by (rule encode_hex_front)
  ultimately show ?thesis using b h l by (simp add: is_escape_def)
qed

lemma route_normal: "uppercase_loop (encode_route_path p) = encode_route_path p"
proof (induction p rule: encode_route_path.induct)
  case (2 b bs)
  show ?case
  proof (cases "is_escape (b # bs)")
    case True
    then obtain h l rest where "bs = h # l # rest" "http_hex_value h \<noteq> None" "http_hex_value l \<noteq> None" by (rule is_escapeD)
    with 2 True show ?thesis by (simp add: escape_upper)
  next
    case False
    have hex: "is_escape (CHR ''%'' # HEX_UPPER ! (of_ascii b div 16) # HEX_UPPER ! (of_ascii b mod 16) # r)" for r
      by (simp add: is_escape_def http_hex_value_upper of_ascii_div_16)
    show ?thesis
    proof (cases "path_char b")
      case True
      have "\<not> is_escape (b # encode_route_path bs)" using False encode_no_new_escape by blast
      with 2 False True show ?thesis by (simp add: uppercase_loop_plain del: uppercase_loop.simps(2))
    next
      case np: False
      then have "percent_byte b = CHR ''%'' # HEX_UPPER ! (of_ascii b div 16) # [HEX_UPPER ! (of_ascii b mod 16)]"
        by (auto simp: percent_byte_def unreserved_def path_char_def)
      with 2 False np hex show ?thesis by (simp add: uppercase_hex_digit of_ascii_div_16)
    qed
  qed
qed simp

text \<open>
  Every spelling of a request path meets the route it names: for a path of URI characters, comparing its normal
  form with a registered route is comparing both paths in the encoding routes are registered under,
  and that encoding is a normal form.
\<close>
theorem route_paths_agree:
  "uppercase_escapes (encode_route_path p) = encode_route_path p
   \<and> encode_route_path (encode_route_path p) = encode_route_path p
   \<and> (list_all path_char q \<longrightarrow> (uppercase_escapes q = encode_route_path p \<longleftrightarrow> encode_route_path q = encode_route_path p))"
  using encode_is_uppercase [of q] encode_is_uppercase [OF encode_path_chars [of p]] route_normal [of p]
  by (simp add: uppercase_escapes_eq)

theorem route_paths_agree_witness:
  "uppercase_escapes ''/t/%c3%A9'' = encode_route_path ''/t/%C3%a9''"
proof -
  have "encode_route_path ''/t/%c3%A9'' = encode_route_path ''/t/%C3%a9''" "list_all path_char ''/t/%c3%A9''"
    by code_simp+
  with route_paths_agree [of "''/t/%C3%a9''" "''/t/%c3%A9''"] show ?thesis by simp
qed

end
