(* ===== verification/Http_Page.thy ===== *)
theory Http_Page
  imports Http_Text
begin

text \<open>
  The pages of the HTTP service (\<^verbatim>\<open>http.rs\<close>): the device verification page and the messages around it, with the
  escaping of everything that comes from outside.
\<close>

section \<open>Escaping\<close>

definition QUOTE :: char where "QUOTE = char_of (34 :: nat)"
definition APOSTROPHE :: char where "APOSTROPHE = char_of (39 :: nat)"
definition BACKSLASH :: char where "BACKSLASH = char_of (92 :: nat)"

definition escape_quoted_string :: "string \<Rightarrow> string" where
  "escape_quoted_string s =
     (if \<not> list_ex (\<lambda>c. c = QUOTE \<or> c = BACKSLASH) s then s
      else concat (map (\<lambda>c. if c = QUOTE \<or> c = BACKSLASH then [BACKSLASH, c] else [c]) s))"

definition escape_html_char :: "char \<Rightarrow> string" where
  "escape_html_char c =
     (if c = CHR ''&'' then ''&amp;''
      else if c = CHR ''<'' then ''&lt;''
      else if c = CHR ''>'' then ''&gt;''
      else if c = QUOTE then ''&quot;''
      else if c = APOSTROPHE then ''&#x27;''
      else [c])"

definition escape_html :: "string \<Rightarrow> string" where
  "escape_html s = concat (map escape_html_char s)"

section \<open>Pages\<close>

text \<open>The source's string literals write their quotation marks as \<^verbatim>\<open>\"\<close>; here a backquote stands for one.\<close>

definition html :: "string \<Rightarrow> string" where
  "html = map (\<lambda>c. if c = CHR ''`'' then QUOTE else c)"

definition PAGE_HEAD :: string where
  "PAGE_HEAD = html (''<!DOCTYPE html><html lang=`en`><head><meta charset=`utf-8`>'' @
     ''<meta name=`viewport` content=`width=device-width,initial-scale=1`>'' @
     ''<title>Device authorization</title></head><body><h1>Device authorization</h1>'')"

definition page_message :: "string option \<Rightarrow> string" where
  "page_message message =
     (case message of None \<Rightarrow> [] | Some m \<Rightarrow> ''<p>'' @ escape_html m @ ''</p>'')"

definition page_csrf :: "string option \<Rightarrow> string" where
  "page_csrf csrf =
     (case csrf of None \<Rightarrow> []
      | Some t \<Rightarrow> html ''<input type=`hidden` name=`csrf_token` value=`'' @ escape_html t @ html ''`>'')"

definition page_entry :: "string \<Rightarrow> string" where
  "page_entry prefill =
     html (''<label for=`user_code`>Code shown on your device</label>'' @
       ''<input id=`user_code` name=`user_code` autocomplete=`off` '' @ ''spellcheck=`false` value=`'') @
     escape_html prefill @ html ''`><button type=`submit`>Continue</button>''"

definition page_grant :: "device_grant \<Rightarrow> string option \<Rightarrow> string" where
  "page_grant grant name =
     (let cid = cid_str (dg_client_id grant); scope = scope_display (dg_scope grant) in
      ''<p>The application <strong>'' @ escape_html (case name of Some n \<Rightarrow> n | None \<Rightarrow> cid) @
      ''</strong> (<code>'' @ escape_html cid @
      ''</code>) is asking to access your account.</p><p>It will be allowed: '' @
      (if scope = [] then ''no scopes'' else escape_html scope) @
      ''</p><p>Code on your device: <code>'' @ escape_html (dg_user_code grant) @
      html ''</code></p><input type=`hidden` name=`user_code` value=`'' @ escape_html (dg_user_code grant) @
      html (''`><button type=`submit` name=`action` value=`approve`>Approve</button>'' @
        ''<button type=`submit` name=`action` value=`deny`>Deny</button>''))"

definition verification_page ::
  "string \<Rightarrow> string option \<Rightarrow> (device_grant \<times> string option) option \<Rightarrow> string option \<Rightarrow> string" where
  "verification_page prefill message grant csrf =
     PAGE_HEAD @ page_message message @ html ''<form method=`post`>'' @ page_csrf csrf @
     (case grant of None \<Rightarrow> page_entry prefill | Some (g, name) \<Rightarrow> page_grant g name) @
     ''</form></body></html>''"

definition verification_message :: "string \<Rightarrow> string" where
  "verification_message message =
     html (''<!DOCTYPE html><html lang=`en`><head><meta charset=`utf-8`>'' @
       ''<title>Device authorization</title></head><body><p>'') @ escape_html message @ ''</p></body></html>''"

section \<open>Nothing from outside becomes markup\<close>

definition is_markup :: "char \<Rightarrow> bool" where
  "is_markup c \<longleftrightarrow> c \<in> {CHR ''<'', CHR ''>'', QUOTE, APOSTROPHE}"

definition markup :: "string \<Rightarrow> string" where
  "markup = filter is_markup"

lemma markup_append [simp]: "markup (a @ b) = markup a @ markup b"
  by (simp add: markup_def)

lemma markup_Nil [simp]: "markup [] = []"
  by (simp add: markup_def)

lemma markup_escape_char: "markup (escape_html_char c) = []"
proof -
  have "markup ''&amp;'' = []" "markup ''&lt;'' = []" "markup ''&gt;'' = []" "markup ''&quot;'' = []" "markup ''&#x27;'' = []"
    by code_simp+
  then show ?thesis by (auto simp: escape_html_char_def) (simp add: markup_def is_markup_def)
qed

lemma markup_escape [simp]: "markup (escape_html s) = []"
  unfolding escape_html_def by (induction s) (simp_all add: markup_escape_char)

fun unescape_html :: "string \<Rightarrow> string" where
  "unescape_html [] = []"
| "unescape_html (c # cs) =
     (if starts_with ''&amp;'' (c # cs) then CHR ''&'' # unescape_html (drop 4 cs)
      else if starts_with ''&lt;'' (c # cs) then CHR ''<'' # unescape_html (drop 3 cs)
      else if starts_with ''&gt;'' (c # cs) then CHR ''>'' # unescape_html (drop 3 cs)
      else if starts_with ''&quot;'' (c # cs) then QUOTE # unescape_html (drop 5 cs)
      else if starts_with ''&#x27;'' (c # cs) then APOSTROPHE # unescape_html (drop 5 cs)
      else c # unescape_html cs)"

lemma unescape_escape: "unescape_html (escape_html s) = s"
proof (induction s)
  case (Cons c s)
  have "unescape_html (escape_html_char c @ r) = c # unescape_html r" for r
    by (auto simp: escape_html_char_def starts_with_iff)
  with Cons show ?case by (simp add: escape_html_def)
qed (simp add: escape_html_def)

definition blank_grant :: "device_grant \<Rightarrow> device_grant" where
  "blank_grant g = g\<lparr>dg_client_id := ClientId [], dg_scope := scope_empty, dg_user_code := []\<rparr>"

lemma no_scopes_markup: "markup ''no scopes'' = []"
  by code_simp

lemma page_grant_markup: "markup (page_grant g name) = markup (page_grant (blank_grant g) None)"
proof -
  have "markup (if b then ''no scopes'' else escape_html s) = []" for b s by (simp add: no_scopes_markup)
  then show ?thesis unfolding page_grant_def Let_def by (simp only: markup_append markup_escape)
qed

lemma page_parts_markup:
  "markup (page_entry prefill) = markup (page_entry [])"
  "markup (page_message message) = markup (page_message (map_option (\<lambda>_. []) message))"
  "markup (page_csrf csrf) = markup (page_csrf (map_option (\<lambda>_. []) csrf))"
  by (cases message; cases csrf; simp only: page_entry_def page_message_def page_csrf_def option.simps
      markup_append markup_escape)+

text \<open>
  C39. The tags, attributes and quotation marks of the verification page are those of the page with every value from
  outside left blank, whatever code was typed and whatever the client called itself; and a browser
  that decodes the escaped text reads exactly the value.
\<close>
theorem page_shows_values_as_text:
  "markup (verification_page prefill message grant csrf) =
     markup (verification_page [] (map_option (\<lambda>_. []) message)
       (map_option (\<lambda>(g, _). (blank_grant g, None)) grant) (map_option (\<lambda>_. []) csrf))
   \<and> markup (verification_message m) = markup (verification_message [])
   \<and> unescape_html (escape_html v) = v"
proof -
  have "markup (case grant of None \<Rightarrow> page_entry prefill | Some (g, name) \<Rightarrow> page_grant g name) =
      markup (case map_option (\<lambda>(g, _). (blank_grant g, None)) grant of
        None \<Rightarrow> page_entry [] | Some (g, name) \<Rightarrow> page_grant g name)"
    using page_parts_markup(1) [of prefill] page_grant_markup
    by (cases grant) (auto split: prod.split)
  with page_parts_markup(2,3) show ?thesis
    unfolding verification_page_def verification_message_def
    by (simp only: markup_append markup_escape unescape_escape simp_thms)
qed

end
