(* ===== verification/Metadata.thy ===== *)
theory Metadata
  imports Par_Endpoint Registration
begin

text \<open>
  Discovery documents (\<^verbatim>\<open>metadata.rs\<close>, \<^verbatim>\<open>resource_metadata.rs\<close>): the authorization server metadata a server
  publishes about itself and the metadata of a protected resource, with their well-known paths.
\<close>

section \<open>Well-known paths\<close>

definition WELL_KNOWN_PATH :: string where "WELL_KNOWN_PATH = ''/.well-known/oauth-authorization-server''"

text \<open>\<^verbatim>\<open>str::find\<close> of a substring: the text after its first occurrence.\<close>

fun after_first :: "string \<Rightarrow> string \<Rightarrow> string option" where
  "after_first pat [] = (if pat = [] then Some [] else None)"
| "after_first pat (c # cs) =
     (if starts_with pat (c # cs) then Some (drop (length pat) (c # cs)) else after_first pat cs)"

definition issuer_path :: "string \<Rightarrow> string" where
  "issuer_path issuer =
     (let authority = (case after_first ''://'' issuer of Some rest \<Rightarrow> rest | None \<Rightarrow> issuer)
      in trim_end_slashes (dropWhile (\<lambda>c. c \<noteq> CHR ''/'') authority))"

definition well_known_path :: "string \<Rightarrow> string" where
  "well_known_path issuer = WELL_KNOWN_PATH @ issuer_path issuer"

section \<open>Authorization server metadata\<close>

record authorization_server_metadata =
  am_issuer :: string
  am_authorization_endpoint :: string
  am_token_endpoint :: string
  am_device_authorization_endpoint :: string
  am_introspection_endpoint :: "string option"
  am_revocation_endpoint :: "string option"
  am_registration_endpoint :: "string option"
  am_jwks_uri :: "string option"
  am_scopes_supported :: "string list option"
  am_pushed_authorization_request_endpoint :: "string option"
  am_require_pushed_authorization_requests :: "bool option"
  am_request_object_algs :: "string list option"
  am_require_signed_request_object :: "bool option"
  am_response_types_supported :: "string list"
  am_response_modes_supported :: "string list"
  am_grant_types_supported :: "string list"
  am_auth_methods :: "string list"
  am_auth_algs :: "string list option"
  am_dpop_algs :: "string list option"
  am_code_challenge_methods_supported :: "string list"
  am_service_documentation :: "string option"
  am_protected_resources :: "string list option"
  am_authorization_details_types_supported :: "string list option"
  am_client_id_metadata_document_supported :: bool
  am_iss_parameter_supported :: bool
  am_tls_bound_access_tokens :: bool

definition under_issuer :: "string \<Rightarrow> string \<Rightarrow> string" where
  "under_issuer issuer path = trim_end_slashes issuer @ path"

definition advertised_jwks_uri :: "server_config \<Rightarrow> string option" where
  "advertised_jwks_uri cfg =
     (case cfg_access_token_format cfg of
        Opaque \<Rightarrow> None
      | FormatJwt jwt \<Rightarrow> (case jwt_jwks_uri jwt of Some u \<Rightarrow> Some u | None \<Rightarrow> cfg_jwks_uri cfg))"

definition baseline_algs :: "string list \<Rightarrow> alg_allow_list \<Rightarrow> string list" where
  "baseline_algs names allow =
     filter (\<lambda>name. case classify_alg name of None \<Rightarrow> True | Some alg \<Rightarrow> is_allowed allow alg) names"

definition ASSERTION_SIGNING_ALGS :: "string list" where "ASSERTION_SIGNING_ALGS = [''HS256'', ''ES256'']"
definition DPOP_SIGNING_ALG_VALUES_SUPPORTED :: "string list" where "DPOP_SIGNING_ALG_VALUES_SUPPORTED = [''ES256'']"
definition REQUEST_OBJECT_SIGNING_ALGS :: "string list" where "REQUEST_OBJECT_SIGNING_ALGS = [''ES256'']"
definition CLIENT_SECRET_JWT :: string where "CLIENT_SECRET_JWT = ''client_secret_jwt''"
definition PRIVATE_KEY_JWT :: string where "PRIVATE_KEY_JWT = ''private_key_jwt''"
definition TLS_CLIENT_AUTH :: string where "TLS_CLIENT_AUTH = ''tls_client_auth''"
definition SELF_SIGNED_TLS_CLIENT_AUTH :: string where "SELF_SIGNED_TLS_CLIENT_AUTH = ''self_signed_tls_client_auth''"

definition metadata_from_config :: "server_config \<Rightarrow> authorization_server_metadata" where
  "metadata_from_config cfg =
     (let iss = trim_end_slashes (cfg_issuer cfg);
          endpoint = (\<lambda>override path. case override of Some u \<Rightarrow> u | None \<Rightarrow> under_issuer iss path);
          allow = cfg_jws_alg_allow_list cfg
      in \<lparr>am_issuer = iss,
          am_authorization_endpoint = endpoint (cfg_authorization_endpoint cfg) ''/authorize'',
          am_token_endpoint = endpoint (cfg_token_endpoint cfg) ''/token'',
          am_device_authorization_endpoint = endpoint (cfg_device_authorization_endpoint cfg) ''/device_authorization'',
          am_introspection_endpoint = cfg_introspection_endpoint cfg,
          am_revocation_endpoint = Some (endpoint (cfg_revocation_endpoint cfg) ''/revoke''),
          am_registration_endpoint =
            map_option (\<lambda>r. endpoint (rc_registration_endpoint r) ''/register'') (cfg_registration cfg),
          am_jwks_uri = advertised_jwks_uri cfg, am_scopes_supported = cfg_scopes_supported cfg,
          am_pushed_authorization_request_endpoint = map_option (\<lambda>par. par_endpoint par iss) (cfg_par cfg),
          am_require_pushed_authorization_requests = map_option parc_require_pushed (cfg_par cfg),
          am_request_object_algs = map_option (\<lambda>_. baseline_algs REQUEST_OBJECT_SIGNING_ALGS allow) (cfg_jar cfg),
          am_require_signed_request_object = map_option jarc_require_signed (cfg_jar cfg),
          am_response_types_supported = [''code''], am_response_modes_supported = [''query''],
          am_grant_types_supported =
            [''authorization_code''] @ (if cfg_issue_refresh_tokens cfg then [''refresh_token''] else []) @
            [''client_credentials'', DEVICE_CODE_GRANT_URN, TOKEN_EXCHANGE_GRANT_URN],
          am_auth_methods = [''client_secret_basic'', ''client_secret_post'', ''none'', CLIENT_SECRET_JWT,
            PRIVATE_KEY_JWT, TLS_CLIENT_AUTH, SELF_SIGNED_TLS_CLIENT_AUTH],
          am_auth_algs = Some (baseline_algs ASSERTION_SIGNING_ALGS allow),
          am_dpop_algs = Some (baseline_algs DPOP_SIGNING_ALG_VALUES_SUPPORTED allow),
          am_code_challenge_methods_supported = [''S256''],
          am_service_documentation = cfg_service_documentation cfg,
          am_protected_resources = cfg_protected_resources cfg,
          am_authorization_details_types_supported = cfg_authorization_details_types_supported cfg,
          am_client_id_metadata_document_supported = (cfg_cimd cfg \<noteq> None),
          am_iss_parameter_supported = True, am_tls_bound_access_tokens = True\<rparr>)"

definition push_once :: "string \<Rightarrow> string list \<Rightarrow> string list" where
  "push_once x xs = (if x \<in> set xs then xs else xs @ [x])"

definition insert_alg :: "string \<Rightarrow> string list option \<Rightarrow> string list option" where
  "insert_alg name algs = Some (push_once name (case algs of Some xs \<Rightarrow> xs | None \<Rightarrow> []))"

definition mark_alg_verifiable ::
  "jws_alg \<Rightarrow> authorization_server_metadata \<Rightarrow> authorization_server_metadata" where
  "mark_alg_verifiable alg meta =
     (let name = jose_name alg in
      meta\<lparr>am_auth_methods := push_once PRIVATE_KEY_JWT (am_auth_methods meta),
           am_auth_algs := insert_alg name (am_auth_algs meta),
           am_request_object_algs :=
             (if am_require_signed_request_object meta \<noteq> None then insert_alg name (am_request_object_algs meta)
              else am_request_object_algs meta),
           am_dpop_algs := insert_alg name (am_dpop_algs meta)\<rparr>)"

definition server_metadata :: "'s server \<Rightarrow> authorization_server_metadata" where
  "server_metadata srv =
     fold (\<lambda>alg meta. if jws_verifier srv alg \<noteq> None then mark_alg_verifiable alg meta else meta) ALL_ALGS
       (metadata_from_config (srv_config srv))"

definition server_jwks :: "'s server \<Rightarrow> jwk list option" where
  "server_jwks srv =
     (case cfg_access_token_format (srv_config srv) of Opaque \<Rightarrow> None | FormatJwt jwt \<Rightarrow> Some (jwks jwt))"

section \<open>Protected resource metadata\<close>

definition PROTECTED_RESOURCE_WELL_KNOWN_PATH :: string where
  "PROTECTED_RESOURCE_WELL_KNOWN_PATH = ''/.well-known/oauth-protected-resource''"

definition resource_path :: "string \<Rightarrow> string" where
  "resource_path resource =
     (let path = issuer_path resource
      in if path \<noteq> [] then (if starts_with ''/?'' path then tl path else path)
         else dropWhile (\<lambda>c. c \<noteq> CHR ''?'') resource)"

definition resource_well_known_path :: "string \<Rightarrow> string" where
  "resource_well_known_path resource = PROTECTED_RESOURCE_WELL_KNOWN_PATH @ resource_path resource"

datatype bearer_method = BearerHeader | BearerBody | BearerQuery

record protected_resource_config =
  prc_resource :: string
  prc_authorization_servers :: "string list"
  prc_jwks_uri :: "string option"
  prc_scopes_supported :: "string list option"
  prc_bearer_methods_supported :: "bearer_method list"
  prc_resource_signing_algs :: "string list"
  prc_resource_name :: "string option"
  prc_resource_documentation :: "string option"
  prc_resource_policy_uri :: "string option"
  prc_resource_tos_uri :: "string option"
  prc_tls_bound :: bool
  prc_dpop_required :: bool
  prc_dpop_algs :: "string list"
  prc_details_types :: "string list"
  prc_signed_metadata :: "string option"

definition protected_resource_config_new :: "string \<Rightarrow> string \<Rightarrow> protected_resource_config" where
  "protected_resource_config_new resource authorization_server =
     \<lparr>prc_resource = resource, prc_authorization_servers = [authorization_server], prc_jwks_uri = None,
      prc_scopes_supported = None, prc_bearer_methods_supported = [BearerHeader], prc_resource_signing_algs = [],
      prc_resource_name = None, prc_resource_documentation = None, prc_resource_policy_uri = None,
      prc_resource_tos_uri = None, prc_tls_bound = False, prc_dpop_required = False, prc_dpop_algs = [],
      prc_details_types = [], prc_signed_metadata = None\<rparr>"

record protected_resource_metadata =
  prm_resource :: string
  prm_authorization_servers :: "string list option"
  prm_jwks_uri :: "string option"
  prm_scopes_supported :: "string list option"
  prm_bearer_methods_supported :: "bearer_method list option"
  prm_resource_signing_algs :: "string list option"
  prm_resource_name :: "string option"
  prm_resource_documentation :: "string option"
  prm_resource_policy_uri :: "string option"
  prm_resource_tos_uri :: "string option"
  prm_tls_bound :: "bool option"
  prm_details_types :: "string list option"
  prm_dpop_algs :: "string list option"
  prm_dpop_required :: "bool option"
  prm_signed_metadata :: "string option"

definition some_unless_empty :: "'a list \<Rightarrow> 'a list option" where
  "some_unless_empty xs = (if xs = [] then None else Some xs)"

definition protected_resource_from_config :: "protected_resource_config \<Rightarrow> protected_resource_metadata" where
  "protected_resource_from_config cfg =
     (let flag = (\<lambda>b. if b then Some True else None) in
      \<lparr>prm_resource = trim_end_slashes (prc_resource cfg),
       prm_authorization_servers = some_unless_empty (prc_authorization_servers cfg),
       prm_jwks_uri = prc_jwks_uri cfg, prm_scopes_supported = prc_scopes_supported cfg,
       prm_bearer_methods_supported = some_unless_empty (prc_bearer_methods_supported cfg),
       prm_resource_signing_algs = some_unless_empty (prc_resource_signing_algs cfg),
       prm_resource_name = prc_resource_name cfg, prm_resource_documentation = prc_resource_documentation cfg,
       prm_resource_policy_uri = prc_resource_policy_uri cfg, prm_resource_tos_uri = prc_resource_tos_uri cfg,
       prm_tls_bound = flag (prc_tls_bound cfg), prm_details_types = some_unless_empty (prc_details_types cfg),
       prm_dpop_algs = some_unless_empty (prc_dpop_algs cfg), prm_dpop_required = flag (prc_dpop_required cfg),
       prm_signed_metadata = prc_signed_metadata cfg\<rparr>)"

definition resource_metadata_well_known_path :: "protected_resource_metadata \<Rightarrow> string" where
  "resource_metadata_well_known_path meta = resource_well_known_path (prm_resource meta)"

section \<open>What is advertised is what is done\<close>

lemma push_once_mem [simp]: "y \<in> set (push_once x xs) \<longleftrightarrow> y = x \<or> y \<in> set xs"
  by (auto simp: push_once_def)

definition alg_names :: "string list option \<Rightarrow> string set" where
  "alg_names algs = (case algs of Some xs \<Rightarrow> set xs | None \<Rightarrow> {})"

lemma insert_alg_names [simp]: "alg_names (insert_alg x algs) = insert x (alg_names algs)"
  "insert_alg x algs \<noteq> None"
  by (auto simp: alg_names_def insert_alg_def split: option.split)

abbreviation mark_all :: "(jws_alg \<Rightarrow> bool) \<Rightarrow> jws_alg list \<Rightarrow> authorization_server_metadata \<Rightarrow> authorization_server_metadata" where
  "mark_all P algs \<equiv> fold (\<lambda>alg meta. if P alg then mark_alg_verifiable alg meta else meta) algs"

lemma mark_alg_frame:
  "am_issuer (mark_alg_verifiable alg m) = am_issuer m"
  "am_token_endpoint (mark_alg_verifiable alg m) = am_token_endpoint m"
  "am_pushed_authorization_request_endpoint (mark_alg_verifiable alg m) = am_pushed_authorization_request_endpoint m"
  "am_registration_endpoint (mark_alg_verifiable alg m) = am_registration_endpoint m"
  "am_grant_types_supported (mark_alg_verifiable alg m) = am_grant_types_supported m"
  "am_require_signed_request_object (mark_alg_verifiable alg m) = am_require_signed_request_object m"
  by (simp_all add: mark_alg_verifiable_def Let_def)

lemma mark_all_frame:
  "am_issuer (mark_all P algs m) = am_issuer m"
  "am_token_endpoint (mark_all P algs m) = am_token_endpoint m"
  "am_pushed_authorization_request_endpoint (mark_all P algs m) = am_pushed_authorization_request_endpoint m"
  "am_registration_endpoint (mark_all P algs m) = am_registration_endpoint m"
  "am_grant_types_supported (mark_all P algs m) = am_grant_types_supported m"
  "am_require_signed_request_object (mark_all P algs m) = am_require_signed_request_object m"
  by (induction algs arbitrary: m) (simp_all add: mark_alg_frame)

lemma mark_all_algs:
  "alg_names (am_dpop_algs (mark_all P algs m)) = alg_names (am_dpop_algs m) \<union> jose_name ` {a \<in> set algs. P a}"
  "alg_names (am_auth_algs (mark_all P algs m)) = alg_names (am_auth_algs m) \<union> jose_name ` {a \<in> set algs. P a}"
  "alg_names (am_request_object_algs (mark_all P algs m)) = alg_names (am_request_object_algs m) \<union>
     (if am_require_signed_request_object m = None then {} else jose_name ` {a \<in> set algs. P a})"
  by (induction algs arbitrary: m)
    (auto simp: mark_alg_frame, auto simp: mark_alg_verifiable_def Let_def)

lemma jws_verifier_allowed: "jws_verifier srv alg \<noteq> None \<longleftrightarrow> is_allowed (cfg_jws_alg_allow_list (srv_config srv)) alg"
  by (auto simp: jws_verifier_def split: option.splits)

lemma jose_names:
  "jose_name a = ''ES256'' \<longleftrightarrow> a = Es256" "''ES256'' = jose_name a \<longleftrightarrow> a = Es256" "jose_name a \<noteq> ''HS256''"
  "jose_name ` {a \<in> set ALL_ALGS. P a} = {n. \<exists>a. n = jose_name a \<and> P a}"
proof -
  have "a \<in> set ALL_ALGS" for a by (cases a) (simp_all add: ALL_ALGS_def)
  then show "jose_name ` {a \<in> set ALL_ALGS. P a} = {n. \<exists>a. n = jose_name a \<and> P a}" by auto
qed (cases a; simp)+


end
