(* ===== verification/Http_Request.thy ===== *)
theory Http_Request
  imports Http_Page Metadata Token_Exchange Device_Endpoint Revocation_Endpoint
begin

text \<open>
  What the HTTP service reads from a request and writes into a response (\<^verbatim>\<open>http.rs\<close>): header fields, client
  credentials, the request body under its limit, routes, and the response shapes.

  The \<^verbatim>\<open>http\<close> and \<^verbatim>\<open>serde_json\<close> crates are parameters: which header values read as text, which texts are
  header values, and the bytes of a serialised response.
\<close>

section \<open>Crates\<close>

datatype payload =
    PlToken token_response
  | PlExchange exchange_response
  | PlError error_response
  | PlDevice device_authorization_response
  | PlPushed pushed_response
  | PlIntrospection introspection_response
  | PlClientInformation client_information
  | PlRegistrationError registration_error_response
  | PlMetadata authorization_server_metadata
  | PlJwks "jwk list"

record http_lib =
  hl_to_str :: "string \<Rightarrow> string option"
  hl_from_str :: "string \<Rightarrow> string option"
  hl_to_vec :: "payload \<Rightarrow> string option"
  hl_client_metadata :: "string \<Rightarrow> client_metadata option"

section \<open>Header fields\<close>

type_synonym header_map = "(string \<times> string) list"

definition header_get :: "header_map \<Rightarrow> string \<Rightarrow> string option" where
  "header_get hs name = map_of hs name"

definition header_get_all :: "header_map \<Rightarrow> string \<Rightarrow> string list" where
  "header_get_all hs name = map snd (filter (\<lambda>kv. fst kv = name) hs)"

definition header_insert :: "string \<Rightarrow> string \<Rightarrow> header_map \<Rightarrow> header_map" where
  "header_insert name v hs = (name, v) # filter (\<lambda>kv. fst kv \<noteq> name) hs"

definition header_text :: "http_lib \<Rightarrow> header_map \<Rightarrow> string \<Rightarrow> string option" where
  "header_text hl hs name = Option.bind (header_get hs name) (hl_to_str hl)"

lemma map_of_filter_other: "name \<noteq> k \<Longrightarrow> map_of (filter (\<lambda>kv. fst kv \<noteq> name) hs) k = map_of hs k"
  by (induction hs) auto

lemma header_get_insert [simp]:
  "header_get (header_insert name v hs) k = (if k = name then Some v else header_get hs k)"
  by (simp add: header_get_def header_insert_def map_of_filter_other)

definition trim_text :: "string \<Rightarrow> string" where
  "trim_text s = concat (rev (dropWhile is_whitespace (rev (dropWhile is_whitespace (utf8_chars s)))))"

definition string_of_bytes :: "byte list \<Rightarrow> string" where
  "string_of_bytes bs = map (\<lambda>b. char_of (unat b)) bs"

section \<open>Client credentials\<close>

record credentials =
  crd_client_id :: string
  crd_client_secret :: "string option"
  crd_client_assertion_type :: "string option"
  crd_client_assertion :: "string option"

definition credential :: "credentials \<Rightarrow> client_credential" where
  "credential c =
     \<lparr>cred_secret = crd_client_secret c, cred_assertion_type = crd_client_assertion_type c,
      cred_assertion = crd_client_assertion c, cred_certificate = None\<rparr>"

definition basic_attempted :: "http_lib \<Rightarrow> header_map \<Rightarrow> bool" where
  "basic_attempted hl headers =
     (case header_text hl headers ''authorization'' of
        None \<Rightarrow> False
      | Some v \<Rightarrow> 6 \<le> length v \<and> eq_ignore_ascii_case (take 6 v) ''basic '')"

definition malformed_basic :: error_response where
  "malformed_basic = fail_with InvalidClient ''malformed HTTP Basic credentials (RFC 6749 s2.3.1)''"

definition decode_basic :: "crates \<Rightarrow> http_lib \<Rightarrow> header_map \<Rightarrow> error_response + string \<times> string" where
  "decode_basic lib hl headers =
     rbind (ok_or malformed_basic (header_text hl headers ''authorization'')) (\<lambda>raw.
     rbind (ok_or malformed_basic (if 6 \<le> length raw then Some (trim_text (drop 6 raw)) else None)) (\<lambda>encoded.
     rbind (ok_or malformed_basic (b64std_decode lib encoded)) (\<lambda>decoded.
     let text = string_of_bytes decoded in
     if \<not> valid_utf8 text then Err malformed_basic
     else rbind (ok_or malformed_basic (split_once CHR '':'' text)) (\<lambda>(id, secret).
       Ok (decode_component id, decode_component secret)))))"

definition err_two_methods :: error_response where
  "err_two_methods = fail_with InvalidRequest ''more than one client authentication method (RFC 6749 s2.3)''"

definition basic_credentials :: "crates \<Rightarrow> http_lib \<Rightarrow> header_map \<Rightarrow> error_response + credentials" where
  "basic_credentials lib hl headers =
     rbind (decode_basic lib hl headers) (\<lambda>(id, secret).
     Ok \<lparr>crd_client_id = id, crd_client_secret = Some secret, crd_client_assertion_type = None,
         crd_client_assertion = None\<rparr>)"

definition credentials_where ::
  "crates \<Rightarrow> http_lib \<Rightarrow> header_map \<Rightarrow> params \<Rightarrow> bool \<Rightarrow> error_response + credentials" where
  "credentials_where lib hl headers form client_id_is_a_request_parameter =
     (let basic = basic_attempted hl headers;
          body_id = param form ''client_id'';
          body_secret = param form ''client_secret''
      in case param form ''client_assertion'' of
           Some assertion \<Rightarrow>
             if basic \<or> body_secret \<noteq> None then Err err_two_methods
             else rbind (case body_id of
                 Some cid \<Rightarrow> Ok cid
               | None \<Rightarrow> ok_or (fail_with InvalidClient ''the client assertion names no client'')
                   (unverified_subject lib assertion)) (\<lambda>id.
               Ok \<lparr>crd_client_id = id, crd_client_secret = None,
                   crd_client_assertion_type = param form ''client_assertion_type'',
                   crd_client_assertion = Some assertion\<rparr>)
         | None \<Rightarrow>
             if basic then
               (if body_secret = None \<and> (body_id = None \<or> client_id_is_a_request_parameter)
                then basic_credentials lib hl headers else Err err_two_methods)
             else case body_id of
               Some cid \<Rightarrow> Ok \<lparr>crd_client_id = cid, crd_client_secret = body_secret,
                   crd_client_assertion_type = None, crd_client_assertion = None\<rparr>
             | None \<Rightarrow> Err (fail_with InvalidClient ''no client authentication or client_id''))"

definition credentials_of :: "crates \<Rightarrow> http_lib \<Rightarrow> header_map \<Rightarrow> params \<Rightarrow> error_response + credentials" where
  "credentials_of lib hl headers form = credentials_where lib hl headers form False"

definition pushed_request_credentials ::
  "crates \<Rightarrow> http_lib \<Rightarrow> header_map \<Rightarrow> params \<Rightarrow> error_response + credentials" where
  "pushed_request_credentials lib hl headers form = credentials_where lib hl headers form True"

definition bearer_token :: "http_lib \<Rightarrow> header_map \<Rightarrow> string option" where
  "bearer_token hl headers =
     Option.bind (header_text hl headers ''authorization'') (\<lambda>raw.
     if length raw < 7 \<or> \<not> eq_ignore_ascii_case (take 7 raw) ''bearer '' then None
     else let t = trim_text (drop 7 raw) in if t \<noteq> [] then Some t else None)"

definition is_form_urlencoded :: "http_lib \<Rightarrow> header_map \<Rightarrow> bool" where
  "is_form_urlencoded hl headers =
     (case header_text hl headers ''content-type'' of
        None \<Rightarrow> False
      | Some v \<Rightarrow> eq_ignore_ascii_case (trim_text (hd (split_on CHR '';'' v))) ''application/x-www-form-urlencoded'')"

definition same_origin :: "http_lib \<Rightarrow> header_map \<Rightarrow> string \<Rightarrow> bool" where
  "same_origin hl headers origin =
     (case header_text hl headers ''sec-fetch-site'' of
        Some site \<Rightarrow> eq_ignore_ascii_case site ''same-origin''
      | None \<Rightarrow>
          (case header_text hl headers ''origin'' of
             Some v \<Rightarrow> eq_ignore_ascii_case v origin
           | None \<Rightarrow> False))"

definition http_constant_time_eq :: "crates \<Rightarrow> string \<Rightarrow> string \<Rightarrow> bool" where
  "http_constant_time_eq lib a b \<longleftrightarrow> xor_acc 0 (sha256 lib (as_bytes a)) (sha256 lib (as_bytes b)) = 0"

section \<open>The request body\<close>

definition MAX_BODY_BYTES :: nat where "MAX_BODY_BYTES = 64 * 1024"

datatype body_error = TooLarge | Incomplete

datatype frame = FrameData string | FrameTrailers | FrameError

record incoming_body =
  ib_size_lower :: nat
  ib_frames :: "frame list"

fun collect_frames :: "nat \<Rightarrow> string \<Rightarrow> frame list \<Rightarrow> body_error + string" where
  "collect_frames limit collected [] = Ok collected"
| "collect_frames limit collected (FrameError # _) = Err Incomplete"
| "collect_frames limit collected (FrameTrailers # fs) = collect_frames limit collected fs"
| "collect_frames limit collected (FrameData data # fs) =
     (if limit < length collected + length data then Err TooLarge
      else collect_frames limit (collected @ data) fs)"

definition collect_body :: "incoming_body \<Rightarrow> nat \<Rightarrow> body_error + string" where
  "collect_body b limit =
     (if limit < ib_size_lower b then Err TooLarge else collect_frames limit [] (ib_frames b))"

fun frame_data :: "frame \<Rightarrow> string" where
  "frame_data (FrameData data) = data"
| "frame_data _ = []"

lemma collect_frames_Ok:
  "length acc \<le> limit \<Longrightarrow> collect_frames limit acc fs = Ok text \<longleftrightarrow>
     FrameError \<notin> set fs \<and> text = acc @ concat (map frame_data fs) \<and> length text \<le> limit"
  by (induction limit acc fs rule: collect_frames.induct) auto

text \<open>
  A body is accepted exactly when it arrives whole and fits: then what the handler sees is all of
  it, in order, and never more than the limit, however the transport cut it into frames.
\<close>
lemma collect_body_Ok:
  "collect_body b limit = Ok text \<longleftrightarrow>
     ib_size_lower b \<le> limit \<and> FrameError \<notin> set (ib_frames b) \<and>
     text = concat (map frame_data (ib_frames b)) \<and> length text \<le> limit"
  by (auto simp: collect_body_def collect_frames_Ok)

section \<open>Responses\<close>

datatype http_body = Body (body_bytes: "string option")

definition body_empty :: http_body where "body_empty = Body None"

definition body_from :: "string \<Rightarrow> http_body" where
  "body_from bytes = (if bytes = [] then Body None else Body (Some bytes))"

definition into_bytes :: "http_body \<Rightarrow> string" where
  "into_bytes b = (case body_bytes b of Some bytes \<Rightarrow> bytes | None \<Rightarrow> [])"

definition body_length :: "http_body \<Rightarrow> nat" where
  "body_length b = (case body_bytes b of Some bytes \<Rightarrow> length bytes | None \<Rightarrow> 0)"

record response =
  rs_status :: nat
  rs_headers :: header_map
  rs_body :: http_body

definition respond :: "nat \<Rightarrow> http_body \<Rightarrow> response" where
  "respond status b = \<lparr>rs_status = status, rs_headers = [], rs_body = b\<rparr>"

definition set_header :: "string \<Rightarrow> string \<Rightarrow> response \<Rightarrow> response" where
  "set_header name v resp = resp\<lparr>rs_headers := header_insert name v (rs_headers resp)\<rparr>"

definition json_content_type :: string where "json_content_type = ''application/json;charset=UTF-8''"
definition jwks_content_type :: string where "jwks_content_type = ''application/jwk-set+json''"
definition html_content_type :: string where "html_content_type = ''text/html;charset=UTF-8''"

definition json_body :: "http_lib \<Rightarrow> payload \<Rightarrow> http_body" where
  "json_body hl pl =
     body_from (case hl_to_vec hl pl of Some bytes \<Rightarrow> bytes | None \<Rightarrow> html ''{`error`:`server_error`}'')"

definition no_store :: "response \<Rightarrow> response" where
  "no_store resp = set_header ''pragma'' ''no-cache'' (set_header ''cache-control'' ''no-store, no-cache, max-age=0'' resp)"

definition json_response :: "http_lib \<Rightarrow> nat \<Rightarrow> payload \<Rightarrow> response" where
  "json_response hl status pl = no_store (set_header ''content-type'' json_content_type (respond status (json_body hl pl)))"

definition ok_json :: "http_lib \<Rightarrow> payload \<Rightarrow> response" where
  "ok_json hl pl = json_response hl 200 pl"

definition wire_error :: "http_lib \<Rightarrow> error_response \<Rightarrow> bool \<Rightarrow> string \<Rightarrow> response" where
  "wire_error hl err via_header challenge =
     (let status = (if http_status err = 401 \<and> \<not> via_header then 400 else http_status err);
          resp = json_response hl status (PlError err)
      in if status = 401 then set_header ''www-authenticate'' challenge resp else resp)"

definition text_response :: "nat \<Rightarrow> string \<Rightarrow> response" where
  "text_response status b = set_header ''content-type'' ''text/plain;charset=UTF-8'' (respond status (body_from b))"

definition too_many_parameters :: response where
  "too_many_parameters = text_response 413 ''request carries too many parameters''"

fun body_error_response :: "body_error \<Rightarrow> response" where
  "body_error_response TooLarge = text_response 413 (''request body exceeds this server'' @ APOSTROPHE # ''s limit'')"
| "body_error_response Incomplete = text_response 400 ''request body was not received''"

definition CONTENT_SECURITY_POLICY :: string where
  "CONTENT_SECURITY_POLICY =
     map (\<lambda>c. if c = CHR ''`'' then APOSTROPHE else c)
       ''default-src `none`; form-action `self`; base-uri `none`; frame-ancestors `none`''"

definition html_response :: "nat \<Rightarrow> string \<Rightarrow> response" where
  "html_response status b =
     set_header ''referrer-policy'' ''no-referrer''
      (set_header ''x-content-type-options'' ''nosniff''
      (set_header ''x-frame-options'' ''DENY''
      (set_header ''content-security-policy'' CONTENT_SECURITY_POLICY
      (no_store (set_header ''content-type'' html_content_type (respond status (body_from b)))))))"

definition unwired :: "http_lib \<Rightarrow> string \<Rightarrow> response" where
  "unwired hl why = json_response hl 403 (PlError (fail_with AccessDenied why))"

definition redirect :: "http_lib \<Rightarrow> string \<Rightarrow> response" where
  "redirect hl location =
     (case hl_from_str hl location of
        Some v \<Rightarrow> no_store (set_header ''location'' v (respond 302 body_empty))
      | None \<Rightarrow> wire_error hl (error_new ServerError) False (html ''Basic realm=`oauth`''))"

definition registration_error :: "http_lib \<Rightarrow> registration_failure \<Rightarrow> response" where
  "registration_error hl failure =
     (let status = registration_http_status failure;
          resp = (case failure of
             RegInvalid b \<Rightarrow> set_header ''content-type'' json_content_type (respond status (json_body hl (PlRegistrationError b)))
           | _ \<Rightarrow> respond status body_empty);
          answered = no_store resp
      in if status = 401 then set_header ''www-authenticate'' ''Bearer'' answered else answered)"

section \<open>Routes\<close>

record routes =
  ro_well_known :: string
  ro_authorize :: string
  ro_token :: string
  ro_device :: string
  ro_introspect :: "string option"
  ro_revoke :: "string option"
  ro_verification :: "string option"
  ro_register :: "string option"
  ro_manage :: "string option"
  ro_par :: "string option"
  ro_jwks :: "string option"

datatype route =
    RouteMetadata | RouteAuthorize | RouteToken | RouteDevice | RouteIntrospect | RouteRevoke
  | RouteVerification | RouteRegister | RouteManage string | RoutePar | RouteJwks

definition resolve_manage :: "string option \<Rightarrow> string \<Rightarrow> route option" where
  "resolve_manage manage path =
     Option.bind manage (\<lambda>prefix. Option.bind (strip_prefix prefix path) (\<lambda>rest.
       if rest \<noteq> [] \<and> CHR ''/'' \<notin> set rest then Some (RouteManage rest) else None))"

definition resolve :: "routes \<Rightarrow> string \<Rightarrow> route option" where
  "resolve r path =
     (if path = ro_well_known r then Some RouteMetadata
      else if path = ro_authorize r then Some RouteAuthorize
      else if path = ro_token r then Some RouteToken
      else if path = ro_device r then Some RouteDevice
      else if ro_introspect r = Some path then Some RouteIntrospect
      else if ro_revoke r = Some path then Some RouteRevoke
      else if ro_verification r = Some path then Some RouteVerification
      else if ro_register r = Some path then Some RouteRegister
      else if ro_par r = Some path then Some RoutePar
      else if ro_jwks r = Some path then Some RouteJwks
      else resolve_manage (ro_manage r) path)"

fun allowed :: "route \<Rightarrow> string" where
  "allowed RouteMetadata = ''GET, HEAD''"
| "allowed RouteAuthorize = ''GET, HEAD''"
| "allowed RouteJwks = ''GET, HEAD''"
| "allowed RouteVerification = ''GET, HEAD, POST''"
| "allowed (RouteManage _) = ''GET, HEAD, PUT, DELETE''"
| "allowed _ = ''POST''"

definition method_not_allowed :: "route \<Rightarrow> response" where
  "method_not_allowed route = set_header ''allow'' (allowed route) (respond 405 body_empty)"

definition not_found :: response where "not_found = respond 404 body_empty"

end
