(* ===== verification/Http_Service.thy ===== *)
theory Http_Service
  imports Http_Request
begin

text \<open>
  The HTTP service (\<^verbatim>\<open>http.rs\<close>): one handler per endpoint over the server's operations, the host's callbacks for
  the signed-in user, the approval step and the tokens of the verification form, and the dispatch of
  a request to its handler.
\<close>

section \<open>The service and the host's callbacks\<close>

record uri =
  uri_path :: string
  uri_query :: "string option"

datatype approval_decision = AdApprove | AdDeny | AdApproveAndRemember | AdRespond response

record approval_request =
  apr_headers :: header_map
  apr_subject :: string
  apr_client_id :: client_id
  apr_scope :: scope_set
  apr_redirect_uri :: string
  apr_state :: "string option"
  apr_resource :: "string list"
  apr_authorization_details :: authorization_details
  apr_uri :: uri
  apr_remembered :: "consent_record option"

type_synonym ('s, 'r) callback = "header_map \<Rightarrow> 's \<Rightarrow> 'r option \<times> 's"

datatype 's verification_protection =
  VpUnwired | VpTokens "('s, string) callback" "('s, string) callback" | VpDisabled

fun is_protected :: "'s verification_protection \<Rightarrow> bool" where
  "is_protected VpDisabled = False"
| "is_protected _ = True"

record 's service =
  sv_server :: "'s server"
  sv_metadata :: string
  sv_jwks :: "string option"
  sv_challenge :: string
  sv_origin :: string
  sv_subject :: "('s, string) callback option"
  sv_approval :: "(approval_request \<Rightarrow> 's \<Rightarrow> approval_decision \<times> 's) option"
  sv_authentication :: "('s, authentication) callback option"
  sv_verification :: "'s verification_protection"
  sv_routes :: routes
  sv_http :: http_lib

definition subject_of :: "'s service \<Rightarrow> header_map \<Rightarrow> ('s, string option) prog" where
  "subject_of sv headers = (case sv_subject sv of None \<Rightarrow> Done None | Some f \<Rightarrow> act (f headers))"

definition authentication_of :: "'s service \<Rightarrow> header_map \<Rightarrow> ('s, authentication option) prog" where
  "authentication_of sv headers = (case sv_authentication sv of None \<Rightarrow> Done None | Some f \<Rightarrow> act (f headers))"

abbreviation sv_lib :: "'s service \<Rightarrow> crates" where "sv_lib sv \<equiv> srv_lib (sv_server sv)"

definition refuse :: "'s service \<Rightarrow> bool \<Rightarrow> error_response \<Rightarrow> response" where
  "refuse sv via_header e = wire_error (sv_http sv) e via_header (sv_challenge sv)"

text \<open>A fallible step whose failure is at once the response, and the answer of a server operation.\<close>

definition or_respond :: "('e \<Rightarrow> response) \<Rightarrow> 'e + 'a \<Rightarrow> ('a \<Rightarrow> ('s, response) prog) \<Rightarrow> ('s, response) prog" where
  "or_respond f r k = (case r of Inl e \<Rightarrow> Done (f e) | Inr a \<Rightarrow> k a)"

definition answer :: "('e \<Rightarrow> response) \<Rightarrow> ('a \<Rightarrow> response) \<Rightarrow> ('s, 'e + 'a) prog \<Rightarrow> ('s, response) prog" where
  "answer f g p = pbind p (\<lambda>r. Done (case r of Inl e \<Rightarrow> f e | Inr a \<Rightarrow> g a))"

definition with_form :: "string \<Rightarrow> (params \<Rightarrow> ('s, response) prog) \<Rightarrow> ('s, response) prog" where
  "with_form body k = or_respond (\<lambda>_. too_many_parameters) (parse_pairs (from_utf8_lossy body)) k"

section \<open>Documents\<close>

definition metadata_handler :: "'s service \<Rightarrow> response" where
  "metadata_handler sv = set_header ''content-type'' json_content_type (respond 200 (body_from (sv_metadata sv)))"

definition jwks_handler :: "'s service \<Rightarrow> response" where
  "jwks_handler sv =
     (case sv_jwks sv of
        Some bytes \<Rightarrow> set_header ''content-type'' jwks_content_type (respond 200 (body_from bytes))
      | None \<Rightarrow> respond 404 body_empty)"

section \<open>The token endpoint\<close>

definition DPOP_HEADER :: string where "DPOP_HEADER = ''DPoP''"

definition refuse_dpop_header :: "'s service \<Rightarrow> bool \<Rightarrow> string \<Rightarrow> ('s, response + string option) prog" where
  "refuse_dpop_header sv via_header why =
     pbind (emit (srv_hooks (sv_server sv)) (EvDpopProofRefused DfMalformed)) (\<lambda>_.
     Done (Err (refuse sv via_header (fail_with InvalidDpopProof why))))"

definition dpop_proof_header :: "'s service \<Rightarrow> header_map \<Rightarrow> bool \<Rightarrow> ('s, response + string option) prog" where
  "dpop_proof_header sv headers via_header =
     (case header_get_all headers (map to_ascii_lowercase DPOP_HEADER) of
        [] \<Rightarrow> Done (Ok None)
      | [v] \<Rightarrow>
          (case hl_to_str (sv_http sv) v of
             Some proof_text \<Rightarrow> Done (Ok (Some proof_text))
           | None \<Rightarrow> refuse_dpop_header sv via_header ''the DPoP header is not a compact JWS'')
      | _ \<Rightarrow> refuse_dpop_header sv via_header ''more than one DPoP header (RFC 9449 s4.3)'')"

definition form_grant :: "params \<Rightarrow> error_response + grant_type" where
  "form_grant form =
     (case param form ''grant_type'' of
        None \<Rightarrow> Err (fail_with InvalidRequest ''missing required parameter grant_type'')
      | Some v \<Rightarrow> ok_or (fail_with UnsupportedGrantType ''this server does not implement the requested grant'')
          (grant_parse v))"

definition form_token_request :: "params \<Rightarrow> client_id \<Rightarrow> grant_type \<Rightarrow> error_response + token_request option" where
  "form_token_request form cid grant =
     (case grant of
        AuthorizationCode \<Rightarrow>
          rbind (required form ''code'') (\<lambda>code.
          Ok (Some (TrAuthorizationCode cid None code (param form ''redirect_uri'') (param form ''code_verifier''))))
      | ClientCredentials \<Rightarrow>
          rbind (optional_scope form) (\<lambda>scope. Ok (Some (TrClientCredentials cid None scope)))
      | DeviceCode \<Rightarrow>
          rbind (required form ''device_code'') (\<lambda>device_code. Ok (Some (TrDeviceCode cid None device_code)))
      | RefreshToken \<Rightarrow>
          rbind (required form ''refresh_token'') (\<lambda>presented.
          rbind (optional_scope form) (\<lambda>scope. Ok (Some (TrRefreshToken cid None presented scope))))
      | TokenExchange \<Rightarrow> Ok None)"

definition exchange_token_type :: "string \<Rightarrow> string \<Rightarrow> error_response + token_type_identifier" where
  "exchange_token_type refusal v = ok_or (fail_with InvalidRequest refusal) (token_type_parse v)"

definition optional_token_type :: "params \<Rightarrow> string \<Rightarrow> string \<Rightarrow> error_response + token_type_identifier option" where
  "optional_token_type form name refusal =
     (case param form name of
        None \<Rightarrow> Ok None
      | Some v \<Rightarrow> rbind (exchange_token_type refusal v) (\<lambda>t. Ok (Some t)))"

definition form_exchange_request :: "params \<Rightarrow> client_id \<Rightarrow> credentials \<Rightarrow> error_response + exchange_request" where
  "form_exchange_request form cid creds =
     rbind (case refuse_authorization_details form of Some e \<Rightarrow> Err e | None \<Rightarrow> Ok ()) (\<lambda>_.
     rbind (required form ''subject_token'') (\<lambda>subject_token.
     rbind (rbind (required form ''subject_token_type'')
       (exchange_token_type ''subject_token_type is not a token type RFC 8693 s3 registers'')) (\<lambda>subject_token_type.
     rbind (optional_token_type form ''actor_token_type''
       ''actor_token_type is not a token type RFC 8693 s3 registers'') (\<lambda>actor_token_type.
     rbind (optional_token_type form ''requested_token_type''
       ''requested_token_type is not a token type RFC 8693 s3 registers'') (\<lambda>requested_token_type.
     rbind (optional_scope form) (\<lambda>scope.
     Ok \<lparr>xr_client_id = cid, xr_client_secret = crd_client_secret creds,
         xr_client_assertion_type = crd_client_assertion_type creds, xr_client_assertion = crd_client_assertion creds,
         xr_subject_token = subject_token, xr_subject_token_type = subject_token_type,
         xr_actor_token = param form ''actor_token'', xr_actor_token_type = actor_token_type,
         xr_resource = resource_indicators form, xr_audience = values_of ''audience'' form,
         xr_scope = scope, xr_requested_token_type = requested_token_type\<rparr>))))))"

definition token_exchange_response ::
  "'s service \<Rightarrow> params \<Rightarrow> client_id \<Rightarrow> credentials \<Rightarrow> bool \<Rightarrow> ('s, response) prog" where
  "token_exchange_response sv form cid creds via_header =
     or_respond (refuse sv via_header) (form_exchange_request form cid creds) (\<lambda>request.
     answer (refuse sv via_header) (\<lambda>exchanged. ok_json (sv_http sv) (PlExchange (xt_response exchanged)))
       (exchange_token (sv_server sv) request))"

definition form_context :: "params \<Rightarrow> credentials \<Rightarrow> string option \<Rightarrow> token_context" where
  "form_context form creds proof_text =
     \<lparr>tc_credential = credential creds, tc_resources = resource_indicators form,
      tc_authorization_details = param form ''authorization_details'', tc_dpop_proof = proof_text\<rparr>"

definition token_handler :: "'s service \<Rightarrow> header_map \<Rightarrow> string \<Rightarrow> ('s, response) prog" where
  "token_handler sv headers body =
     (let via_header = basic_attempted (sv_http sv) headers in
      with_form body (\<lambda>form.
      or_respond (refuse sv via_header) (form_grant form) (\<lambda>grant.
      or_respond (refuse sv via_header) (credentials_of (sv_lib sv) (sv_http sv) headers form) (\<lambda>creds.
      pbind (dpop_proof_header sv headers via_header) (\<lambda>proof_header.
      or_respond (\<lambda>resp. resp) proof_header (\<lambda>proof_text.
      or_respond (refuse sv via_header) (form_token_request form (ClientId (crd_client_id creds)) grant) (\<lambda>request.
      case request of
        None \<Rightarrow>
          if proof_text \<noteq> None then
            pbind (emit (srv_hooks (sv_server sv)) (EvDpopProofRefused DfNotAcceptedHere)) (\<lambda>_.
            Done (refuse sv via_header (fail_with InvalidDpopProof
              ''this server does not issue sender-constrained tokens through RFC 8693 token exchange'')))
          else token_exchange_response sv form (ClientId (crd_client_id creds)) creds via_header
      | Some request \<Rightarrow>
          answer (refuse sv via_header) (\<lambda>resp. ok_json (sv_http sv) (PlToken resp))
            (token_with_context (sv_server sv) request (form_context form creds proof_text)))))))))"

section \<open>The other client endpoints\<close>

definition device_authorization_handler :: "'s service \<Rightarrow> header_map \<Rightarrow> string \<Rightarrow> ('s, response) prog" where
  "device_authorization_handler sv headers body =
     (let via_header = basic_attempted (sv_http sv) headers in
      with_form body (\<lambda>form.
      or_respond (refuse sv via_header) (case refuse_authorization_details form of Some e \<Rightarrow> Err e | None \<Rightarrow> Ok ()) (\<lambda>_.
      or_respond (refuse sv via_header) (credentials_of (sv_lib sv) (sv_http sv) headers form) (\<lambda>creds.
      or_respond (refuse sv via_header) (optional_scope form) (\<lambda>scope.
      answer (refuse sv via_header) (\<lambda>resp. ok_json (sv_http sv) (PlDevice resp))
        (device_authorization_with_credential (sv_server sv) (ClientId (crd_client_id creds)) (credential creds) scope))))))"

definition pushed_authorization_handler :: "'s service \<Rightarrow> header_map \<Rightarrow> string \<Rightarrow> ('s, response) prog" where
  "pushed_authorization_handler sv headers body =
     (let via_header = basic_attempted (sv_http sv) headers in
      with_form body (\<lambda>form.
      or_respond (refuse sv via_header) (pushed_request_credentials (sv_lib sv) (sv_http sv) headers form) (\<lambda>creds.
      pbind (dpop_proof_header sv headers via_header) (\<lambda>proof_header.
      or_respond (\<lambda>resp. resp) proof_header (\<lambda>proof_text.
      answer (refuse sv via_header) (\<lambda>resp. json_response (sv_http sv) pushed_http_status (PlPushed resp))
        (pushed_authorization_request_inner (sv_server sv) (ClientId (crd_client_id creds)) (credential creds)
          form proof_text))))))"

definition introspect_handler :: "'s service \<Rightarrow> header_map \<Rightarrow> string \<Rightarrow> ('s, response) prog" where
  "introspect_handler sv headers body =
     (let via_header = basic_attempted (sv_http sv) headers in
      with_form body (\<lambda>form.
      or_respond (refuse sv via_header) (credentials_of (sv_lib sv) (sv_http sv) headers form) (\<lambda>creds.
      or_respond (refuse sv via_header) (required form ''token'') (\<lambda>presented.
      answer (refuse sv via_header) (\<lambda>resp. ok_json (sv_http sv) (PlIntrospection resp))
        (introspection_response_with_credential (sv_server sv) (ClientId (crd_client_id creds)) (credential creds)
          presented)))))"

definition revoke_handler :: "'s service \<Rightarrow> header_map \<Rightarrow> string \<Rightarrow> ('s, response) prog" where
  "revoke_handler sv headers body =
     (let via_header = basic_attempted (sv_http sv) headers in
      with_form body (\<lambda>form.
      or_respond (refuse sv via_header) (credentials_of (sv_lib sv) (sv_http sv) headers form) (\<lambda>creds.
      or_respond (refuse sv via_header) (required form ''token'') (\<lambda>presented.
      answer (refuse sv via_header) (\<lambda>_. no_store (respond 200 body_empty))
        (revoke_with_credential (sv_server sv) (ClientId (crd_client_id creds)) (credential creds) presented
          (Option.bind (param form ''token_type_hint'')
            (\<lambda>h. case hint_from_str h of Inr hint \<Rightarrow> Some hint | Inl _ \<Rightarrow> None)))))))"

section \<open>Dynamic registration\<close>

definition body_metadata :: "http_lib \<Rightarrow> string \<Rightarrow> response + client_metadata" where
  "body_metadata hl body =
     ok_or (registration_error hl (RegInvalid (registration_error_new InvalidClientMetadata
       ''the request body is not an RFC 7591 s2 client metadata JSON object''))) (hl_client_metadata hl body)"

definition register_handler :: "'s service \<Rightarrow> header_map \<Rightarrow> string \<Rightarrow> ('s, response) prog" where
  "register_handler sv headers body =
     (let hl = sv_http sv in
      pbind (admit_registration (sv_server sv)) (\<lambda>admitted.
      or_respond (registration_error hl) admitted (\<lambda>_.
      or_respond (\<lambda>resp. resp) (body_metadata hl body) (\<lambda>metadata.
      answer (registration_error hl) (\<lambda>info. json_response hl 201 (PlClientInformation info))
        (register_admitted_client (sv_server sv) metadata (bearer_token hl headers))))))"

definition management_token :: "http_lib \<Rightarrow> header_map \<Rightarrow> string" where
  "management_token hl headers = (case bearer_token hl headers of Some t \<Rightarrow> t | None \<Rightarrow> [])"

definition read_registration_handler :: "'s service \<Rightarrow> header_map \<Rightarrow> string \<Rightarrow> ('s, response) prog" where
  "read_registration_handler sv headers client_id =
     answer (registration_error (sv_http sv)) (\<lambda>info. ok_json (sv_http sv) (PlClientInformation info))
       (read_registration (sv_server sv) (ClientId client_id) (management_token (sv_http sv) headers))"

definition update_registration_handler ::
  "'s service \<Rightarrow> header_map \<Rightarrow> string \<Rightarrow> string \<Rightarrow> ('s, response) prog" where
  "update_registration_handler sv headers client_id body =
     (let hl = sv_http sv; tok = management_token hl headers in
      pbind (authenticate_registration (sv_server sv) (ClientId client_id) tok) (\<lambda>authenticated.
      or_respond (registration_error hl) authenticated (\<lambda>_.
      or_respond (\<lambda>resp. resp) (body_metadata hl body) (\<lambda>metadata.
      answer (registration_error hl) (\<lambda>info. ok_json hl (PlClientInformation info))
        (update_registration (sv_server sv) (ClientId client_id) tok metadata)))))"

definition delete_registration_handler :: "'s service \<Rightarrow> header_map \<Rightarrow> string \<Rightarrow> ('s, response) prog" where
  "delete_registration_handler sv headers client_id =
     answer (registration_error (sv_http sv)) (\<lambda>_. no_store (respond 204 body_empty))
       (delete_registration (sv_server sv) (ClientId client_id) (management_token (sv_http sv) headers))"

section \<open>The authorization endpoint\<close>

definition resolve_authorization_request ::
  "'s service \<Rightarrow> params \<Rightarrow> ('s, authorization_error + validated_request) prog" where
  "resolve_authorization_request sv pairs =
     (let by_reference = param pairs ''request_uri''; by_value = param pairs ''request'' in
      if by_reference \<noteq> None \<and> by_value \<noteq> None then
        Done (Err (direct InvalidRequest ''request and request_uri must not both be sent (RFC 9101 s5)''))
      else if by_reference \<noteq> None \<or> by_value \<noteq> None then
        (case param pairs ''client_id'' of
           None \<Rightarrow> Done (Err (direct InvalidRequest ''client_id is required (RFC 9126 s4, RFC 9101 s5)''))
         | Some client_id \<Rightarrow>
             (case (by_reference, by_value) of
                (Some request_uri, _) \<Rightarrow> validate_pushed_authorization_request (sv_server sv) client_id request_uri
              | (None, Some request_object) \<Rightarrow>
                  validate_signed_authorization_request (sv_server sv) client_id request_object
              | (None, None) \<Rightarrow> validate_authorization_request (sv_server sv) (request_from_pairs pairs)))
      else validate_authorization_request (sv_server sv) (request_from_pairs pairs))"

fun authorization_failure :: "'s service \<Rightarrow> authorization_error \<Rightarrow> response" where
  "authorization_failure sv (Direct e) = refuse sv False e"
| "authorization_failure sv (Redirect r) = redirect (sv_http sv) (error_location r)"

definition ask_approval ::
  "'s service \<Rightarrow> header_map \<Rightarrow> uri \<Rightarrow> string \<Rightarrow> validated_request \<Rightarrow> consent_record option \<Rightarrow>
     ('s, approval_decision option) prog" where
  "ask_approval sv headers u subject validated remembered =
     (case sv_approval sv of
        None \<Rightarrow> Done None
      | Some resolver \<Rightarrow>
          pbind (act (resolver \<lparr>apr_headers = headers, apr_subject = subject,
            apr_client_id = val_client_id validated, apr_scope = val_scope validated,
            apr_redirect_uri = val_redirect_uri validated, apr_state = val_state validated,
            apr_resource = val_resource validated, apr_authorization_details = val_authorization_details validated,
            apr_uri = u, apr_remembered = remembered\<rparr>)) (\<lambda>d. Done (Some d)))"

definition approved ::
  "'s service \<Rightarrow> header_map \<Rightarrow> system_time \<Rightarrow> string \<Rightarrow> validated_request \<Rightarrow> bool \<Rightarrow> ('s, response) prog" where
  "approved sv headers received_at subject validated remember =
     pbind (authentication_of sv headers) (\<lambda>authentication.
     pbind (issue_authorization_code_with_authentication (sv_server sv)
       (approval_granted_at validated subject received_at) (val_requirement validated) authentication) (\<lambda>issued.
     pbind (if remember \<and> \<not> isl issued
            then pbind (record_consent (sv_server sv) (val_client_id validated) subject (val_scope validated)
              (val_resource validated) authentication) (\<lambda>_. Done ())
            else Done ()) (\<lambda>_.
     Done (case issued of
       Inl e \<Rightarrow> authorization_failure sv e
     | Inr resp \<Rightarrow> redirect (sv_http sv) (response_location resp (val_redirect_uri validated))))))"

definition authorize_handler :: "'s service \<Rightarrow> header_map \<Rightarrow> uri \<Rightarrow> ('s, response) prog" where
  "authorize_handler sv headers u =
     (let hl = sv_http sv in
      pbind (now (sv_server sv)) (\<lambda>received_at.
      or_respond (\<lambda>_. too_many_parameters) (parse_pairs (case uri_query u of Some q \<Rightarrow> q | None \<Rightarrow> [])) (\<lambda>pairs.
      pbind (resolve_authorization_request sv pairs) (\<lambda>resolved.
      or_respond (authorization_failure sv) resolved (\<lambda>validated.
      pbind (subject_of sv headers) (\<lambda>signed_in.
      case signed_in of
        None \<Rightarrow> Done (unwired hl (if sv_subject sv \<noteq> None
          then ''no authenticated resource owner: nobody is signed in for this request''
          else ''no authenticated resource owner; the host must supply a subject resolver''))
      | Some subject \<Rightarrow>
          pbind (remembered_consent (sv_server sv) (val_client_id validated) subject) (\<lambda>found.
          pbind (ask_approval sv headers u subject validated (case found of Inr r \<Rightarrow> r | Inl _ \<Rightarrow> None)) (\<lambda>decision.
          case decision of
            None \<Rightarrow> Done (unwired hl
              ''no approval step is configured; the host must supply an approval resolver (RFC 6749 s10.12)'')
          | Some AdDeny \<Rightarrow> Done (redirect hl (error_location (denied validated)))
          | Some (AdRespond resp) \<Rightarrow> Done resp
          | Some AdApprove \<Rightarrow> approved sv headers received_at subject validated False
          | Some AdApproveAndRemember \<Rightarrow> approved sv headers received_at subject validated True))))))))"

section \<open>The verification page\<close>

datatype code_entry = CeUncharged | CeAlreadyCharged | CeRefused

datatype throttled = Throttled

definition http_pending_grant ::
  "'s service \<Rightarrow> string \<Rightarrow> code_entry \<Rightarrow> ('s, throttled + (device_grant \<times> string option) option) prog" where
  "http_pending_grant sv entered entry =
     (let srv = sv_server sv; hooks = srv_hooks srv in
      pbind (case entry of
          CeRefused \<Rightarrow> Done False
        | CeUncharged \<Rightarrow> pbind (hooks_check hooks AtDeviceUserCodeEntry) (\<lambda>d. Done (d \<noteq> Deny))
        | CeAlreadyCharged \<Rightarrow> Done True) (\<lambda>admitted.
      if \<not> admitted then Done (Err Throttled)
      else pbind (store_op (st_find_device_grant (srv_store srv) (normalize_user_code entered))) (\<lambda>found.
        let grant = (case found of Inr (Some g) \<Rightarrow> if dg_state g = Pending then Some g else None | _ \<Rightarrow> None) in
        pbind (if entry = CeUncharged
               then hooks_record hooks AtDeviceUserCodeEntry (if grant \<noteq> None then Succeeded else Failed)
               else Done ()) (\<lambda>_.
        case grant of
          None \<Rightarrow> Done (Ok None)
        | Some g \<Rightarrow>
            pbind (store_op (st_get_client (srv_store srv) (dg_client_id g))) (\<lambda>c.
            Done (Ok (Some (g, case c of Inr (Some cl) \<Rightarrow> cl_name cl | _ \<Rightarrow> None))))))))"

definition THROTTLED_MESSAGE :: string where
  "THROTTLED_MESSAGE = ''Too many attempts. Wait and try again.''"

definition not_configured :: response where
  "not_configured = html_response 500 (verification_message
     ''This server is not configured to accept device approvals. The host must supply CSRF tokens (RFC 6749 s10.12).'')"

definition not_signed_in :: response where
  "not_signed_in = html_response 403 (verification_message ''You are not signed in.'')"

definition page_outcome ::
  "nat \<Rightarrow> string option \<Rightarrow> string \<Rightarrow> throttled + (device_grant \<times> string option) option \<Rightarrow> nat \<times> string option" where
  "page_outcome status message entered looked_up =
     (case (message, looked_up) of
        (Some m, _) \<Rightarrow> (status, Some m)
      | (None, Inl Throttled) \<Rightarrow> (429, Some THROTTLED_MESSAGE)
      | (None, Inr None) \<Rightarrow>
          if entered \<noteq> [] then (status, Some ''That code was not recognised.'') else (status, None)
      | (None, Inr (Some _)) \<Rightarrow> (status, None))"

definition render_with ::
  "'s service \<Rightarrow> string \<Rightarrow> nat \<Rightarrow> string option \<Rightarrow> code_entry \<Rightarrow> string option \<Rightarrow> ('s, response) prog" where
  "render_with sv entered status message entry csrf =
     pbind (if entered = [] then Done (Ok None) else http_pending_grant sv entered entry) (\<lambda>looked_up.
     case page_outcome status message entered looked_up of (status', message') \<Rightarrow>
       Done (html_response status' (verification_page entered message'
         (case looked_up of Inr g \<Rightarrow> g | Inl _ \<Rightarrow> None) csrf)))"

definition render_verification ::
  "'s service \<Rightarrow> header_map \<Rightarrow> string \<Rightarrow> nat \<Rightarrow> string option \<Rightarrow> code_entry \<Rightarrow> ('s, response) prog" where
  "render_verification sv headers entered status message entry =
     (case sv_verification sv of
        VpUnwired \<Rightarrow> Done not_configured
      | VpTokens issue_token _ \<Rightarrow>
          pbind (act (issue_token headers)) (\<lambda>issued.
          case issued of
            None \<Rightarrow> Done not_signed_in
          | Some t \<Rightarrow> render_with sv entered status message entry (Some t))
      | VpDisabled \<Rightarrow> render_with sv entered status message entry None)"

definition verification_page_handler :: "'s service \<Rightarrow> header_map \<Rightarrow> uri \<Rightarrow> ('s, response) prog" where
  "verification_page_handler sv headers u =
     or_respond (\<lambda>_. too_many_parameters) (parse_pairs (case uri_query u of Some q \<Rightarrow> q | None \<Rightarrow> [])) (\<lambda>pairs.
     render_verification sv headers (case param pairs ''user_code'' of Some c \<Rightarrow> c | None \<Rightarrow> []) 200 None CeUncharged)"

fun approval_failure_message :: "device_approval_error \<Rightarrow> string" where
  "approval_failure_message DaUnknownUserCode = ''That code was not recognised.''"
| "approval_failure_message DaExpired = ''That code has expired. Start again on the device.''"
| "approval_failure_message DaNotPending = ''That code has already been used.''"
| "approval_failure_message (DaStorage _) = ''Something went wrong. Try again.''"
| "approval_failure_message DaRateLimited = THROTTLED_MESSAGE"

fun approval_failure_status :: "device_approval_error \<Rightarrow> nat" where
  "approval_failure_status (DaStorage _) = 500"
| "approval_failure_status DaRateLimited = 429"
| "approval_failure_status _ = 400"

definition csrf_gate :: "'s service \<Rightarrow> header_map \<Rightarrow> params \<Rightarrow> ('s, response + unit) prog" where
  "csrf_gate sv headers form =
     (let expired = html_response 403 (verification_message ''That form has expired. Start again.'');
          foreign = html_response 403 (verification_message ''That request did not come from this site.'');
          presented = (case param form ''csrf_token'' of Some t \<Rightarrow> t | None \<Rightarrow> [])
      in case sv_verification sv of
           VpDisabled \<Rightarrow> Done (Ok ())
         | VpUnwired \<Rightarrow>
             if \<not> same_origin (sv_http sv) headers (sv_origin sv) then Done (Err foreign) else Done (Err not_configured)
         | VpTokens _ consume \<Rightarrow>
             if \<not> same_origin (sv_http sv) headers (sv_origin sv) then Done (Err foreign)
             else pbind (act (consume headers)) (\<lambda>expected.
               Done (if (case expected of Some e \<Rightarrow> http_constant_time_eq (sv_lib sv) e presented | None \<Rightarrow> False)
                     then Ok () else Err expired)))"

definition decide_device ::
  "'s service \<Rightarrow> header_map \<Rightarrow> string \<Rightarrow> bool \<Rightarrow> string \<Rightarrow> ('s, response) prog" where
  "decide_device sv headers user_code deny_it subject =
     pbind (if deny_it then deny_device (sv_server sv) user_code
            else approve_device (sv_server sv) user_code subject) (\<lambda>outcome.
     case outcome of
       Inr _ \<Rightarrow> Done (html_response 200 (verification_message
         (if deny_it then ''Request denied.'' else ''Approved. You can return to your device.'')))
     | Inl e \<Rightarrow> render_verification sv headers user_code (approval_failure_status e)
         (Some (approval_failure_message e)) (if e = DaRateLimited then CeRefused else CeAlreadyCharged))"

definition submitted :: "'s service \<Rightarrow> header_map \<Rightarrow> params \<Rightarrow> ('s, response) prog" where
  "submitted sv headers form =
     (let user_code = (case param form ''user_code'' of Some c \<Rightarrow> c | None \<Rightarrow> []);
          action = (case param form ''action'' of Some x \<Rightarrow> x | None \<Rightarrow> []);
          deny_it = (action = ''deny'');
          protected = is_protected (sv_verification sv)
      in if user_code = [] then
           render_verification sv headers [] 400 (Some ''Enter the code shown on your device.'') CeUncharged
         else if \<not> deny_it \<and> \<not> (action = ''approve'' \<or> \<not> protected) then
           render_verification sv headers user_code 200 None CeUncharged
         else pbind (subject_of sv headers) (\<lambda>signed_in.
           case signed_in of
             None \<Rightarrow> Done not_signed_in
           | Some subject \<Rightarrow> decide_device sv headers user_code deny_it subject))"

definition verification_submit_handler :: "'s service \<Rightarrow> header_map \<Rightarrow> string \<Rightarrow> ('s, response) prog" where
  "verification_submit_handler sv headers body =
     (if \<not> is_form_urlencoded (sv_http sv) headers then
        Done (html_response 415 (verification_message ''Expected an application/x-www-form-urlencoded submission.''))
      else with_form body (\<lambda>form.
        pbind (csrf_gate sv headers form) (\<lambda>gate.
        or_respond (\<lambda>resp. resp) gate (\<lambda>_. submitted sv headers form))))"

section \<open>Dispatch\<close>

record http_request =
  rq_method :: string
  rq_headers :: header_map
  rq_uri :: uri
  rq_body :: incoming_body

definition with_body :: "incoming_body \<Rightarrow> (string \<Rightarrow> ('s, response) prog) \<Rightarrow> ('s, response) prog" where
  "with_body b k = or_respond body_error_response (collect_body b MAX_BODY_BYTES) k"

definition dispatch :: "'s service \<Rightarrow> route \<Rightarrow> string \<Rightarrow> http_request \<Rightarrow> ('s, response) prog" where
  "dispatch sv route method rq =
     (let headers = rq_headers rq; u = rq_uri rq; b = rq_body rq in
      if method = ''GET'' then
        (case route of
           RouteMetadata \<Rightarrow> Done (metadata_handler sv)
         | RouteJwks \<Rightarrow> Done (jwks_handler sv)
         | RouteAuthorize \<Rightarrow> authorize_handler sv headers u
         | RouteVerification \<Rightarrow> verification_page_handler sv headers u
         | RouteManage cid \<Rightarrow> read_registration_handler sv headers (decode_path_segment cid)
         | _ \<Rightarrow> Done (method_not_allowed route))
      else if method = ''POST'' then
        (case route of
           RouteToken \<Rightarrow> with_body b (token_handler sv headers)
         | RouteDevice \<Rightarrow> with_body b (device_authorization_handler sv headers)
         | RouteIntrospect \<Rightarrow> with_body b (introspect_handler sv headers)
         | RouteRevoke \<Rightarrow> with_body b (revoke_handler sv headers)
         | RoutePar \<Rightarrow> with_body b (pushed_authorization_handler sv headers)
         | RouteVerification \<Rightarrow> with_body b (verification_submit_handler sv headers)
         | RouteRegister \<Rightarrow> with_body b (register_handler sv headers)
         | _ \<Rightarrow> Done (method_not_allowed route))
      else case route of
        RouteManage cid \<Rightarrow>
          if method = ''PUT'' then with_body b (update_registration_handler sv headers (decode_path_segment cid))
          else if method = ''DELETE'' then delete_registration_handler sv headers (decode_path_segment cid)
          else Done (method_not_allowed route)
      | _ \<Rightarrow> Done (method_not_allowed route))"

definition head_response :: "response \<Rightarrow> response" where
  "head_response resp =
     set_header ''content-length'' (show_nat (body_length (rs_body resp))) (resp\<lparr>rs_body := body_empty\<rparr>)"

definition service_handle :: "'s service \<Rightarrow> http_request \<Rightarrow> ('s, response) prog" where
  "service_handle sv rq =
     (case resolve (sv_routes sv) (uppercase_escapes (uri_path (rq_uri rq))) of
        None \<Rightarrow> Done not_found
      | Some route \<Rightarrow>
          (let head = (rq_method rq = ''HEAD'') in
           pbind (dispatch sv route (if head then ''GET'' else rq_method rq) rq) (\<lambda>resp.
           Done (if head then head_response resp else resp))))"

section \<open>Transitions\<close>

lemma steps_or_respond: "(\<And>a. r = Inr a \<Longrightarrow> steps T (k a)) \<Longrightarrow> steps T (or_respond f r k)"
  by (auto simp: or_respond_def split: sum.split intro: steps_Done)

lemma steps_answer: "steps T p \<Longrightarrow> steps T (answer f g p)"
  unfolding answer_def by (intro steps_pbind steps_Done)

lemma steps_with_form: "(\<And>form. steps T (k form)) \<Longrightarrow> steps T (with_form body k)"
  unfolding with_form_def by (intro steps_or_respond)

lemma steps_with_body: "(\<And>body. steps T (k body)) \<Longrightarrow> steps T (with_body b k)"
  unfolding with_body_def by (intro steps_or_respond)

lemmas service_intros = steps_or_respond steps_answer steps_with_form steps_with_body

text \<open>
  What the service needs of its host besides the server's own contract: each callback makes a transition
  too. Then every call of every request does.
\<close>

locale service_steps = server_steps "sv_server sv" T
  for sv :: "'s service" and T :: "'s \<Rightarrow> 's \<Rightarrow> bool" +
  assumes subject_callback: "sv_subject sv = Some f \<Longrightarrow> T s (snd (f h s))"
    and approval_callback: "sv_approval sv = Some g \<Longrightarrow> T s (snd (g request s))"
    and authentication_callback: "sv_authentication sv = Some r \<Longrightarrow> T s (snd (r h s))"
    and csrf_callbacks: "sv_verification sv = VpTokens c d \<Longrightarrow> T s (snd (c h s)) \<and> T s (snd (d h s))"
begin

lemma keeps_callbacks:
  "steps T (subject_of sv h)" "steps T (authentication_of sv h)"
  "steps T (ask_approval sv h u subject validated remembered)"
  unfolding subject_of_def authentication_of_def ask_approval_def
  by (auto split: option.split intro!: keeps_intros subject_callback authentication_callback approval_callback)

lemma keeps_dpop_proof_header: "steps T (dpop_proof_header sv h via)"
  unfolding dpop_proof_header_def refuse_dpop_header_def
  by (auto split: option.split list.split intro!: keeps_rules)

lemma keeps_token_handler: "steps T (token_handler sv h body)"
  unfolding token_handler_def token_exchange_response_def Let_def
  by (auto split: option.split intro!: service_intros keeps_rules keeps_dpop_proof_header keeps_token_with_context
      keeps_exchange_token)

lemma keeps_client_handlers:
  "steps T (device_authorization_handler sv h body)" "steps T (pushed_authorization_handler sv h body)"
  "steps T (introspect_handler sv h body)" "steps T (revoke_handler sv h body)"
  unfolding device_authorization_handler_def pushed_authorization_handler_def introspect_handler_def
    revoke_handler_def Let_def
  by (intro service_intros keeps_rules keeps_dpop_proof_header keeps_device_authorization
      keeps_pushed_authorization_request keeps_introspection_response keeps_revoke)+

lemma keeps_admit_registration: "steps T (admit_registration (sv_server sv))"
  unfolding admit_registration_def by (auto intro!: keeps_rules)

lemma keeps_register_admitted_client: "steps T (register_admitted_client (sv_server sv) md iat)"
  unfolding register_admitted_client_def write_registration_def Let_def
  by (auto split: sum.split intro!: keeps_rules keeps_policy keeps_artifacts)

lemma keeps_registration_handlers:
  "steps T (register_handler sv h body)" "steps T (read_registration_handler sv h cid)"
  "steps T (update_registration_handler sv h cid body)" "steps T (delete_registration_handler sv h cid)"
  unfolding register_handler_def read_registration_handler_def update_registration_handler_def
    delete_registration_handler_def Let_def
  by (intro service_intros keeps_rules keeps_admit_registration keeps_register_admitted_client
      keeps_read_registration keeps_authenticate_registration keeps_update_registration keeps_delete_registration)+

lemma keeps_resolve_authorization_request: "steps T (resolve_authorization_request sv pairs)"
  unfolding resolve_authorization_request_def Let_def
  by (auto split: option.split intro!: keeps_rules keeps_validate_pushed keeps_validate_signed
      keeps_validate_authorization_request)

lemma keeps_approved: "steps T (approved sv h at subject validated remember)"
  unfolding approved_def
  by (auto split: sum.split intro!: keeps_rules keeps_callbacks keeps_issue_authorization_code_with_authentication
      keeps_record_consent)

lemma keeps_authorize_handler: "steps T (authorize_handler sv h u)"
  unfolding authorize_handler_def Let_def remembered_consent_def
  by (auto split: option.split approval_decision.split
      intro!: service_intros keeps_rules keeps_resolve_authorization_request keeps_callbacks keeps_approved)

lemma keeps_http_pending_grant: "steps T (http_pending_grant sv entered entry)"
  unfolding http_pending_grant_def Let_def
  by (auto split: option.split code_entry.split intro!: keeps_rules)

lemma keeps_render_verification: "steps T (render_verification sv h entered status message entry)"
  unfolding render_verification_def render_with_def
  by (auto split: verification_protection.split option.split prod.split
      intro!: keeps_rules keeps_http_pending_grant csrf_callbacks [THEN conjunct1])

lemma keeps_verification_handlers:
  "steps T (verification_page_handler sv h u)" "steps T (verification_submit_handler sv h body)"
proof -
  show "steps T (verification_page_handler sv h u)"
    unfolding verification_page_handler_def by (intro service_intros keeps_render_verification)
  have "steps T (csrf_gate sv h form)" for form
    unfolding csrf_gate_def Let_def
    by (auto split: verification_protection.split intro!: keeps_rules csrf_callbacks [THEN conjunct2])
  moreover have "steps T (submitted sv h form)" for form
  proof -
    have "steps T (decide_device sv h code deny_it subject)" for code deny_it subject
      unfolding decide_device_def
      by (intro steps_pbind) (auto split: sum.split
          intro!: keeps_intros keeps_render_verification keeps_approve_device keeps_deny_device)
    then have "steps T (case x of None \<Rightarrow> Done not_signed_in | Some subject \<Rightarrow> decide_device sv h code deny_it subject)"
      for x code deny_it by (simp add: steps_Done split: option.split)
    then show ?thesis
      unfolding submitted_def Let_def by (simp only: if_split steps_pbind keeps_render_verification keeps_callbacks simp_thms)
  qed
  ultimately show "steps T (verification_submit_handler sv h body)"
    unfolding verification_submit_handler_def by (auto intro!: service_intros keeps_rules)
qed

lemma keeps_dispatch: "steps T (dispatch sv route m rq)"
  unfolding dispatch_def Let_def
  by (auto split: route.split
      intro!: service_intros keeps_intros keeps_authorize_handler keeps_verification_handlers
        keeps_registration_handlers keeps_token_handler keeps_client_handlers)

lemma keeps_service_handle: "steps T (service_handle sv rq)"
  unfolding service_handle_def Let_def by (auto split: option.split intro!: keeps_intros keeps_dispatch)

end

end
