(* ===== verification/Http_Builder.thy ===== *)
theory Http_Builder
  imports Http_Service
begin

text \<open>
  Building the service (\<^verbatim>\<open>ServiceBuilder\<close> of \<^verbatim>\<open>http.rs\<close>): the routes derived from the advertised metadata, the
  refusals of a configuration that could not be served, and that a built service serves what it
  advertises.
\<close>

section \<open>Paths of advertised endpoints\<close>

text \<open>The serialiser's own error text is not kept.\<close>

datatype service_error =
    EndpointOutsideIssuer string string | DuplicatePath string | MetadataNotSerializable | JwksNotSerializable

definition endpoint_path :: "string \<Rightarrow> string \<Rightarrow> string \<Rightarrow> service_error + string" where
  "endpoint_path issuer endpoint url =
     (case strip_prefix issuer url of
        Some rest \<Rightarrow>
          if starts_with ''/'' rest then Ok (encode_route_path (issuer_path issuer @ rest))
          else Err (EndpointOutsideIssuer endpoint url)
      | None \<Rightarrow> Err (EndpointOutsideIssuer endpoint url))"

definition issuer_origin :: "string \<Rightarrow> string" where
  "issuer_origin issuer =
     (let authority = (case after_first ''://'' issuer of Some rest \<Rightarrow> rest | None \<Rightarrow> issuer)
      in take (length issuer - length authority) issuer @ takeWhile (\<lambda>c. c \<noteq> CHR ''/'') authority)"

fun first_duplicate :: "string list \<Rightarrow> string option" where
  "first_duplicate [] = None"
| "first_duplicate (p # ps) = (if p \<in> set ps then Some p else first_duplicate ps)"

lemma first_duplicate_None [simp]: "first_duplicate ps = None \<longleftrightarrow> distinct ps"
  by (induction ps) auto

section \<open>The builder\<close>

record 's service_builder =
  sb_server :: "'s server"
  sb_subject :: "('s, string) callback option"
  sb_approval :: "(approval_request \<Rightarrow> 's \<Rightarrow> approval_decision \<times> 's) option"
  sb_authentication :: "('s, authentication) callback option"
  sb_verification :: "'s verification_protection"

definition service_builder_new :: "'s server \<Rightarrow> 's service_builder" where
  "service_builder_new srv =
     \<lparr>sb_server = srv, sb_subject = None, sb_approval = None, sb_authentication = None, sb_verification = VpUnwired\<rparr>"

definition with_subject_resolver :: "('s, string) callback \<Rightarrow> 's service_builder \<Rightarrow> 's service_builder" where
  "with_subject_resolver f sb = sb\<lparr>sb_subject := Some f\<rparr>"

definition with_approval_resolver ::
  "(approval_request \<Rightarrow> 's \<Rightarrow> approval_decision \<times> 's) \<Rightarrow> 's service_builder \<Rightarrow> 's service_builder" where
  "with_approval_resolver f sb = sb\<lparr>sb_approval := Some f\<rparr>"

definition with_authentication_reporter ::
  "('s, authentication) callback \<Rightarrow> 's service_builder \<Rightarrow> 's service_builder" where
  "with_authentication_reporter f sb = sb\<lparr>sb_authentication := Some f\<rparr>"

definition with_csrf_tokens ::
  "('s, string) callback \<Rightarrow> ('s, string) callback \<Rightarrow> 's service_builder \<Rightarrow> 's service_builder" where
  "with_csrf_tokens issue_token consume sb = sb\<lparr>sb_verification := VpTokens issue_token consume\<rparr>"

definition dangerously_disable_verification_protections :: "'s service_builder \<Rightarrow> 's service_builder" where
  "dangerously_disable_verification_protections sb = sb\<lparr>sb_verification := VpDisabled\<rparr>"

text \<open>A terminator in front of the service holds the client's certificate, so nothing about certificates is advertised.\<close>

definition served_metadata :: "'s server \<Rightarrow> authorization_server_metadata" where
  "served_metadata srv =
     (let meta = server_metadata srv in
      meta\<lparr>am_auth_methods := filter (\<lambda>m. m \<noteq> TLS_CLIENT_AUTH \<and> m \<noteq> SELF_SIGNED_TLS_CLIENT_AUTH) (am_auth_methods meta),
           am_tls_bound_access_tokens := False\<rparr>)"

definition optional_path :: "string \<Rightarrow> string \<Rightarrow> string option \<Rightarrow> service_error + string option" where
  "optional_path issuer endpoint url =
     (case url of None \<Rightarrow> Ok None | Some u \<Rightarrow> rbind (endpoint_path issuer endpoint u) (\<lambda>p. Ok (Some p)))"

definition option_list :: "'a option \<Rightarrow> 'a list" where
  "option_list x = (case x of None \<Rightarrow> [] | Some a \<Rightarrow> [a])"

definition challenge_for :: "http_lib \<Rightarrow> string \<Rightarrow> string" where
  "challenge_for hl issuer =
     (case hl_from_str hl (html ''Basic realm=`'' @ escape_quoted_string issuer @ html ''`'') of
        Some v \<Rightarrow> v
      | None \<Rightarrow> html ''Basic realm=`oauth`'')"

definition build_routes :: "'s server \<Rightarrow> service_error + routes" where
  "build_routes srv =
     (let config = srv_config srv;
          meta = served_metadata srv;
          issuer = am_issuer meta
      in rbind (endpoint_path issuer ''authorization_endpoint'' (am_authorization_endpoint meta)) (\<lambda>authorize.
         rbind (endpoint_path issuer ''token_endpoint'' (am_token_endpoint meta)) (\<lambda>tok.
         rbind (endpoint_path issuer ''device_authorization_endpoint'' (am_device_authorization_endpoint meta)) (\<lambda>device.
         rbind (endpoint_path issuer ''introspection_endpoint''
           (case cfg_introspection_endpoint config of Some u \<Rightarrow> u | None \<Rightarrow> issuer @ ''/introspect'')) (\<lambda>introspect.
         rbind (optional_path issuer ''revocation_endpoint'' (am_revocation_endpoint meta)) (\<lambda>revoke.
         rbind (optional_path issuer ''registration_endpoint'' (am_registration_endpoint meta)) (\<lambda>register.
         let managed = (case cfg_registration config of Some r \<Rightarrow> rc_management_enabled r | None \<Rightarrow> False);
             manage = (if managed then map_option (\<lambda>p. p @ ''/'') register else None);
             verification = (case endpoint_path issuer ''verification_uri'' (cfg_verification_uri config) of
                Inr p \<Rightarrow> Some p | Inl _ \<Rightarrow> None)
         in rbind (optional_path issuer ''pushed_authorization_request_endpoint''
              (am_pushed_authorization_request_endpoint meta)) (\<lambda>par.
            rbind (optional_path issuer ''jwks_uri'' (am_jwks_uri meta)) (\<lambda>jwks.
            Ok \<lparr>ro_well_known = encode_route_path (well_known_path issuer), ro_authorize = authorize, ro_token = tok,
                ro_device = device, ro_introspect = Some introspect, ro_revoke = revoke,
                ro_verification = verification, ro_register = register, ro_manage = manage,
                ro_par = par, ro_jwks = jwks\<rparr>)))))))))"

definition route_paths :: "routes \<Rightarrow> string list" where
  "route_paths r =
     [ro_well_known r, ro_authorize r, ro_token r, ro_device r] @ option_list (ro_introspect r) @
     option_list (ro_revoke r) @ option_list (ro_verification r) @ option_list (ro_register r) @
     option_list (map_option (\<lambda>p. p @ ''{client_id}'') (ro_manage r)) @ option_list (ro_par r) @
     option_list (ro_jwks r)"

definition build :: "http_lib \<Rightarrow> 's service_builder \<Rightarrow> service_error + 's service" where
  "build hl sb =
     (let srv = sb_server sb; meta = served_metadata srv; issuer = am_issuer meta in
      rbind (build_routes srv) (\<lambda>routes.
      rbind (case (ro_jwks routes, server_jwks srv) of
          (Some _, Some keys) \<Rightarrow> rbind (ok_or JwksNotSerializable (hl_to_vec hl (PlJwks keys))) (\<lambda>b. Ok (Some b))
        | _ \<Rightarrow> Ok None) (\<lambda>jwks.
      rbind (ok_or MetadataNotSerializable (hl_to_vec hl (PlMetadata meta))) (\<lambda>metadata.
      case first_duplicate (route_paths routes) of
        Some p \<Rightarrow> Err (DuplicatePath p)
      | None \<Rightarrow>
          Ok \<lparr>sv_server = srv, sv_metadata = metadata, sv_jwks = jwks, sv_challenge = challenge_for hl issuer,
              sv_origin = issuer_origin issuer, sv_subject = sb_subject sb, sv_approval = sb_approval sb,
              sv_authentication = sb_authentication sb, sv_verification = sb_verification sb,
              sv_routes = routes, sv_http = hl\<rparr>))))"

section \<open>A built service serves what it advertises\<close>

definition advertised :: "authorization_server_metadata \<Rightarrow> (string \<times> route) list" where
  "advertised meta =
     [(am_authorization_endpoint meta, RouteAuthorize), (am_token_endpoint meta, RouteToken),
      (am_device_authorization_endpoint meta, RouteDevice)] @
     map (\<lambda>u. (u, RouteRevoke)) (option_list (am_revocation_endpoint meta)) @
     map (\<lambda>u. (u, RouteRegister)) (option_list (am_registration_endpoint meta)) @
     map (\<lambda>u. (u, RoutePar)) (option_list (am_pushed_authorization_request_endpoint meta)) @
     map (\<lambda>u. (u, RouteJwks)) (option_list (am_jwks_uri meta))"

lemma endpoint_path_Ok: "endpoint_path issuer n url = Ok p \<Longrightarrow> endpoint_path issuer n' url = Ok p \<and> uppercase_escapes p = p"
  by (auto simp: endpoint_path_def uppercase_escapes_eq route_normal split: option.splits if_splits)

lemma optional_path_Ok:
  "optional_path issuer n url = Ok p \<Longrightarrow> url = Some u \<Longrightarrow>
     \<exists>q. p = Some q \<and> endpoint_path issuer n' u = Ok q \<and> uppercase_escapes q = q"
  by (auto simp: optional_path_def dest: endpoint_path_Ok)

lemma in_option_list [simp]: "a \<in> set (option_list x) \<longleftrightarrow> x = Some a"
  by (auto simp: option_list_def split: option.splits)

definition route_table :: "routes \<Rightarrow> (string \<times> route) list" where
  "route_table r =
     [(ro_well_known r, RouteMetadata), (ro_authorize r, RouteAuthorize), (ro_token r, RouteToken),
      (ro_device r, RouteDevice)] @
     map (\<lambda>p. (p, RouteIntrospect)) (option_list (ro_introspect r)) @
     map (\<lambda>p. (p, RouteRevoke)) (option_list (ro_revoke r)) @
     map (\<lambda>p. (p, RouteVerification)) (option_list (ro_verification r)) @
     map (\<lambda>p. (p, RouteRegister)) (option_list (ro_register r)) @
     map (\<lambda>p. (p, RoutePar)) (option_list (ro_par r)) @
     map (\<lambda>p. (p, RouteJwks)) (option_list (ro_jwks r))"

lemma map_of_option_list [simp]:
  "map_of (map (\<lambda>p. (p, v)) (option_list x)) k = (if x = Some k then Some v else None)"
  by (auto simp: option_list_def split: option.split)

lemma resolve_table:
  "resolve r path = (case map_of (route_table r) path of Some t \<Rightarrow> Some t | None \<Rightarrow> resolve_manage (ro_manage r) path)"
  by (simp add: resolve_def route_table_def map_add_def)

lemma resolve_distinct:
  assumes "distinct (route_paths r)" and "(p, route) \<in> set (route_table r)"
  shows "resolve r p = Some route"
proof -
  let ?manage = "option_list (map_option (\<lambda>p. p @ ''{client_id}'') (ro_manage r))"
  have fsts: "map fst (map (\<lambda>p. (p, v)) xs) = xs" for v :: route and xs :: "string list" by (induction xs) auto
  define xs where "xs = [ro_well_known r, ro_authorize r, ro_token r, ro_device r] @ option_list (ro_introspect r) @
    option_list (ro_revoke r) @ option_list (ro_verification r) @ option_list (ro_register r)"
  define ys where "ys = option_list (ro_par r) @ option_list (ro_jwks r)"
  have "route_paths r = xs @ ?manage @ ys" by (simp add: route_paths_def xs_def ys_def)
  moreover have "map fst (route_table r) = xs @ ys"
    unfolding route_table_def map_append fsts by (simp add: xs_def ys_def)
  ultimately have "distinct (map fst (route_table r))" using assms(1) by auto
  with assms(2) have "map_of (route_table r) p = Some route" by (simp add: map_of_is_SomeI)
  then show ?thesis by (simp add: resolve_table)
qed

lemma mark_alg_issuer: "am_issuer (mark_alg_verifiable alg meta) = am_issuer meta"
  by (simp add: mark_alg_verifiable_def Let_def)

lemma served_metadata_issuer: "am_issuer (served_metadata srv) = trim_end_slashes (cfg_issuer (srv_config srv))"
  by (simp add: served_metadata_def server_metadata_def ALL_ALGS_def mark_alg_issuer metadata_from_config_def Let_def)

lemma build_routes_paths:
  assumes "build_routes srv = Ok r"
  defines "meta \<equiv> served_metadata srv"
  shows "endpoint_path (am_issuer meta) ''authorization_endpoint'' (am_authorization_endpoint meta) = Ok (ro_authorize r)"
    and "endpoint_path (am_issuer meta) ''token_endpoint'' (am_token_endpoint meta) = Ok (ro_token r)"
    and "endpoint_path (am_issuer meta) ''device_authorization_endpoint'' (am_device_authorization_endpoint meta) = Ok (ro_device r)"
    and "optional_path (am_issuer meta) ''revocation_endpoint'' (am_revocation_endpoint meta) = Ok (ro_revoke r)"
    and "optional_path (am_issuer meta) ''registration_endpoint'' (am_registration_endpoint meta) = Ok (ro_register r)"
    and "optional_path (am_issuer meta) ''pushed_authorization_request_endpoint''
      (am_pushed_authorization_request_endpoint meta) = Ok (ro_par r)"
    and "optional_path (am_issuer meta) ''jwks_uri'' (am_jwks_uri meta) = Ok (ro_jwks r)"
  using assms by (auto simp: build_routes_def Let_def)

lemma build_routes_Ok:
  assumes "build_routes srv = Ok r" and "(url, route) \<in> set (advertised (served_metadata srv))"
  shows "\<exists>p. endpoint_path (am_issuer (served_metadata srv)) n url = Ok p \<and> uppercase_escapes p = p \<and>
     (p, route) \<in> set (route_table r)"
proof -
  note paths = build_routes_paths [OF assms(1)]
  note fixed = paths(1-3) [THEN endpoint_path_Ok, of n]
  note optional = paths(4-7) [THEN optional_path_Ok, where n' = n]
  from assms(2) fixed optional show ?thesis
    unfolding advertised_def route_table_def by auto
qed


end
