(* ===== verification/Http_Props.thy ===== *)
theory Http_Props
  imports Http_Builder Requests Memory_Resources
begin

text \<open>
  What the HTTP service guarantees on the concrete host: the gates in front of the operations a browser can
  trigger, the shape of every response, and that a request posted as a form is the server's
  operation on its parameters.
\<close>

section \<open>The service of the concrete host\<close>

text \<open>The host's callbacks, which look at a request and leave the store alone.\<close>

record web_callbacks =
  wc_subject :: "(header_map \<Rightarrow> string option) option"
  wc_approval :: "(approval_request \<Rightarrow> approval_decision) option"
  wc_authentication :: "(header_map \<Rightarrow> authentication option) option"
  wc_csrf :: "((header_map \<Rightarrow> string option) \<times> (header_map \<Rightarrow> string option)) option"

definition pure_callback :: "('a \<Rightarrow> 'r) \<Rightarrow> 'a \<Rightarrow> world \<Rightarrow> 'r \<times> world" where
  "pure_callback f a w = (f a, w)"

lemma run_pure_callback [simp]: "pure_callback f a w = (f a, w)"
  by (simp add: pure_callback_def)

definition web_protection :: "web_callbacks \<Rightarrow> world verification_protection" where
  "web_protection cb =
     (case wc_csrf cb of
        Some (issue_token, consume) \<Rightarrow> VpTokens (pure_callback issue_token) (pure_callback consume)
      | None \<Rightarrow> VpUnwired)"

definition web_builder :: "platform \<Rightarrow> web_callbacks \<Rightarrow> world service_builder" where
  "web_builder pf cb =
     \<lparr>sb_server = host pf, sb_subject = map_option pure_callback (wc_subject cb),
      sb_approval = map_option pure_callback (wc_approval cb),
      sb_authentication = map_option pure_callback (wc_authentication cb), sb_verification = web_protection cb\<rparr>"

definition web_service :: "platform \<Rightarrow> web_callbacks \<Rightarrow> world service \<Rightarrow> world service" where
  "web_service pf cb sv = sv
     \<lparr>sv_server := host pf, sv_subject := map_option pure_callback (wc_subject cb),
      sv_approval := map_option pure_callback (wc_approval cb),
      sv_authentication := map_option pure_callback (wc_authentication cb), sv_verification := web_protection cb\<rparr>"

lemma built_web_service: "build hl (web_builder pf cb) = Ok sv \<Longrightarrow> web_service pf cb sv = sv"
  by (auto simp: build_def web_builder_def web_service_def Let_def split: option.splits)

lemma web_service_sel [simp]:
  "sv_server (web_service pf cb sv) = host pf"
  "sv_subject (web_service pf cb sv) = map_option pure_callback (wc_subject cb)"
  "sv_approval (web_service pf cb sv) = map_option pure_callback (wc_approval cb)"
  "sv_authentication (web_service pf cb sv) = map_option pure_callback (wc_authentication cb)"
  "sv_verification (web_service pf cb sv) = web_protection cb"
  "sv_http (web_service pf cb sv) = sv_http sv"
  "sv_origin (web_service pf cb sv) = sv_origin sv"
  "sv_routes (web_service pf cb sv) = sv_routes sv"
  "sv_challenge (web_service pf cb sv) = sv_challenge sv"
  by (simp_all add: web_service_def)

lemma web_service_steps:
  assumes "server_steps (host pf) T" and "\<And>w. T w w"
  shows "service_steps (web_service pf cb sv) T"
proof -
  have "server_steps (sv_server (web_service pf cb sv)) T" by (simp add: assms(1))
  then show ?thesis
    by (rule service_steps.intro, unfold_locales)
      (auto simp: assms(2) web_protection_def split: option.splits)
qed

interpretation web_dead: service_steps "web_service pf cb sv"
  "\<lambda>w w'. scope_dead b at0 til (w_mem w) \<longrightarrow> scope_dead b at0 til (w_mem w')" for pf cb sv b at0 til
  by (rule web_service_steps [OF host_dead.server_steps_axioms]) simp

interpretation web_index: service_steps "web_service pf cb sv"
  "\<lambda>w w'. index_ok (w_mem w) \<longrightarrow> index_ok (w_mem w')" for pf cb sv
  by (rule web_service_steps [OF host_index.server_steps_axioms]) simp

section \<open>Codes are issued to approved requests only\<close>

interpretation codes_shrink: storage_device_steps mem_storage "\<lambda>m m'. shrinks (m_codes m) (m_codes m')"
  by unfold_locales
    (simp add: mem_storage_def op_shrinks;
     auto simp: mem_defs_no_device mem_take_code_def mem_take_pushed_def mem_claim_replay_id_def
       mem_cas_device_grant_def mem_put_device_grant_def index_grant_tables split: option.split)+

interpretation codes_shrink_pushed: storage_pushed_steps mem_storage "\<lambda>m m'. shrinks (m_codes m) (m_codes m')"
  by unfold_locales (simp add: mem_storage_def mem_put_pushed_def)

interpretation web_codes: server_pushed_steps "host pf" "on_mem (\<lambda>m m'. shrinks (m_codes m) (m_codes m'))" for pf
  by (rule host_pushed_steps [OF codes_shrink_pushed.storage_pushed_steps_axioms]) simp

definition codes_only :: "(code_record \<Rightarrow> bool) \<Rightarrow> world \<Rightarrow> world \<Rightarrow> bool" where
  "codes_only P w w' \<longleftrightarrow> (\<forall>k r. fmlookup (m_codes (w_mem w')) k = Some r \<longrightarrow>
     fmlookup (m_codes (w_mem w)) k = Some r \<or> P r)"

lemma codes_only_refl [simp]: "codes_only P w w"
  by (simp add: codes_only_def)

lemma codes_only_shrink: "steps (on_mem (\<lambda>m m'. shrinks (m_codes m) (m_codes m'))) p \<Longrightarrow> steps (codes_only P) p"
  by (erule steps_mono) (auto simp: codes_only_def shrinks_def)

lemma steps_callback:
  assumes "\<And>w. T w w" and "steps T (k (f a))"
  shows "steps T (pbind (act (pure_callback f a)) k)"
  unfolding act_def pbind.simps by (rule steps.intros) (simp add: assms)

lemma issue_codes_only:
  assumes "\<And>n code. P (code_record_of (pf_config pf) approval authn n code)"
  shows "steps (codes_only P) (issue_authorization_code_with_authentication (host pf) approval requirement authn)"
proof -
  have put: "steps (codes_only P) (store_op (st_put_code (srv_store (host pf)) (code_record_of (pf_config pf) approval authn n code)))"
    for n code
    unfolding store_op_def
    by (rule steps_act) (auto simp: lift_storage_def mem_storage_def mem_put_code_def codes_only_def assms)
  show ?thesis
    unfolding issue_authorization_code_with_authentication_def issue_authorization_code_inner_def Let_def
    by (auto simp del: host_sel simp add: host_sel(1) split: sum.split option.split
        intro!: keeps_intros put web_codes.keeps_host [THEN codes_only_shrink])
qed

text \<open>The request a code was issued for is one the host's approval step said yes to, for the user who is signed in.\<close>

definition approved_code :: "web_callbacks \<Rightarrow> header_map \<Rightarrow> uri \<Rightarrow> code_record \<Rightarrow> bool" where
  "approved_code cb headers u r \<longleftrightarrow>
     (\<exists>who ask request. wc_subject cb = Some who \<and> who headers = Some (code_subject r) \<and>
        wc_approval cb = Some ask \<and> (ask request = AdApprove \<or> ask request = AdApproveAndRemember) \<and>
        apr_headers request = headers \<and> apr_uri request = u \<and> apr_subject request = code_subject r \<and>
        apr_client_id request = code_client_id r \<and> apr_scope request = code_scope r \<and>
        apr_redirect_uri request = code_redirect_uri r \<and> apr_resource request = code_resource r \<and>
        apr_authorization_details request = code_authorization_details r)"

lemma approved_codes_only:
  assumes "wc_subject cb = Some who" "who headers = Some subject" "wc_approval cb = Some ask"
    and "ask \<lparr>apr_headers = headers, apr_subject = subject,
            apr_client_id = val_client_id validated, apr_scope = val_scope validated,
            apr_redirect_uri = val_redirect_uri validated, apr_state = val_state validated,
            apr_resource = val_resource validated, apr_authorization_details = val_authorization_details validated,
            apr_uri = u, apr_remembered = remembered\<rparr> \<in> {AdApprove, AdApproveAndRemember}"
  shows "steps (codes_only (approved_code cb headers u)) (approved (web_service pf cb sv) headers at subject validated remember)"
proof -
  have "approved_code cb headers u (code_record_of cfg (approval_granted_at validated subject at) authn n code)" for cfg authn n code
    unfolding approved_code_def using assms
    by (intro exI [of _ who] exI [of _ ask] exI) (auto simp: code_record_of_def approval_granted_at_def Let_def)
  note issued = issue_codes_only [of "approved_code cb headers u", OF this]
  have reported: "steps (codes_only (approved_code cb headers u)) (authentication_of (web_service pf cb sv) headers)"
    by (auto simp: authentication_of_def split: option.split intro!: keeps_intros)
  show ?thesis
    unfolding approved_def
    by (auto split: sum.split
        intro!: keeps_intros reported issued web_codes.keeps_record_consent [THEN codes_only_shrink])
qed

lemma resolve_codes_only: "steps (codes_only P) (resolve_authorization_request (web_service pf cb sv) pairs)"
  unfolding resolve_authorization_request_def Let_def
  by (rule codes_only_shrink)
    (auto split: option.split intro!: keeps_intros web_codes.keeps_validate_pushed web_codes.keeps_validate_signed
      web_codes.keeps_validate_authorization_request)

text \<open>
  C7. A code enters the store only by approval. Whatever runs beside it, no call that the authorization
  endpoint makes for a request puts a code there, unless somebody is signed in and the host's approval
  step, asked about exactly the client, scope, redirect URI, resources and details that the code then
  carries, for exactly this user, approved.
\<close>
theorem code_needs_approval:
  "steps (codes_only (approved_code cb headers u)) (authorize_handler (web_service pf cb sv) headers u)"
proof -
  let ?T = "codes_only (approved_code cb headers u)" and ?sv = "web_service pf cb sv"
  have remembered: "steps ?T (remembered_consent (host pf) cid subject)" for cid subject
    unfolding remembered_consent_def by (intro codes_only_shrink web_codes.keeps_host)
  have now: "steps ?T (now (host pf))" by (intro codes_only_shrink web_codes.keeps_now)
  have decided: "steps ?T (pbind (ask_approval ?sv headers u subject validated remembered) (\<lambda>decision.
      case decision of
        None \<Rightarrow> Done (unwired hl why)
      | Some AdDeny \<Rightarrow> Done (redirect hl (error_location (denied validated)))
      | Some (AdRespond resp) \<Rightarrow> Done resp
      | Some AdApprove \<Rightarrow> approved ?sv headers at subject validated False
      | Some AdApproveAndRemember \<Rightarrow> approved ?sv headers at subject validated True))"
    if "wc_subject cb = Some who" "who headers = Some subject" for who subject validated remembered at hl why
  proof (cases "wc_approval cb")
    case (Some ask)
    let ?request = "\<lparr>apr_headers = headers, apr_subject = subject,
            apr_client_id = val_client_id validated, apr_scope = val_scope validated,
            apr_redirect_uri = val_redirect_uri validated, apr_state = val_state validated,
            apr_resource = val_resource validated, apr_authorization_details = val_authorization_details validated,
            apr_uri = u, apr_remembered = remembered\<rparr>"
    have "ask ?request \<in> {AdApprove, AdApproveAndRemember} \<Longrightarrow>
        steps ?T (approved ?sv headers at subject validated remember)" for remember
      by (rule approved_codes_only [OF that Some])
    then show ?thesis
      by (auto simp: ask_approval_def pbind_assoc Some split: approval_decision.split
          intro!: steps_callback steps_Done)
  qed (simp add: ask_approval_def steps_Done)
  have signed: "steps ?T (pbind (subject_of ?sv headers) (\<lambda>signed_in. case signed_in of None \<Rightarrow> Done refusal
      | Some subject \<Rightarrow> k subject))" if "\<And>who subject. wc_subject cb = Some who \<Longrightarrow> who headers = Some subject \<Longrightarrow> steps ?T (k subject)"
    for refusal and k :: "string \<Rightarrow> (world, response) prog"
  proof (cases "wc_subject cb")
    case (Some who)
    then show ?thesis
      using that [OF Some] by (auto simp: subject_of_def steps_Done split: option.split intro!: steps_callback)
  qed (simp add: subject_of_def steps_Done)
  show ?thesis
    unfolding authorize_handler_def Let_def web_service_sel
    by (intro steps_pbind [OF now] steps_pbind [OF resolve_codes_only] steps_or_respond signed
        steps_pbind [OF remembered] decided)
qed

section \<open>The verification form\<close>

abbreviation same_mem :: "world \<Rightarrow> world \<Rightarrow> bool" where
  "same_mem w w' \<equiv> w_mem w' = w_mem w"

lemma host_reads:
  "steps same_mem (hooks_check (srv_hooks (host pf)) a)"
  "steps same_mem (hooks_record (srv_hooks (host pf)) a out)"
  "steps same_mem (store_op (st_find_device_grant (srv_store (host pf)) code))"
  "steps same_mem (store_op (st_get_client (srv_store (host pf)) cid))"
  unfolding hooks_check_def hooks_record_def store_op_def
  by (auto simp: host_def host_limiter_def host_ops mem_find_device_grant_def mem_get_client_def
      split: option.split prod.split intro!: keeps_intros)

lemma render_keeps_mem: "steps same_mem (render_verification (web_service pf cb sv) headers entered status message entry)"
proof -
  have "steps same_mem (http_pending_grant (web_service pf cb sv) entered entry)"
    unfolding http_pending_grant_def Let_def
    by (auto split: option.split code_entry.split intro!: keeps_intros host_reads simp del: host_sel)
  then show ?thesis
    unfolding render_verification_def render_with_def web_protection_def web_service_sel
    by (auto split: verification_protection.split option.split prod.split intro!: keeps_intros)
qed

lemma render_mem:
  "w_mem (snd (run (render_verification (web_service pf cb sv) headers entered status message entry) w)) = w_mem w"
  by (rule steps_run [OF render_keeps_mem]) simp_all

lemma render_run:
  "run (render_verification (web_service pf cb sv) headers entered status message entry) w = (resp, w') \<Longrightarrow> w_mem w' = w_mem w"
  using render_mem [of pf cb sv headers entered status message entry w] by simp

lemma decide_device_mem:
  "w_mem (snd (run (decide_device (web_service pf cb sv) headers code deny_it subject) w)) =
     w_mem (snd (run (if deny_it then deny_device (host pf) code else approve_device (host pf) code subject) w))"
  by (auto simp: decide_device_def render_mem split: prod.split sum.split)

text \<open>
  C8. The device verification form changes the store only on a click in this site's own form. When a
  submission changes anything, it was a form post of this origin, it carried the token the host had
  issued for this session, it said approve or deny, somebody is signed in, and what it did is exactly
  the server's approval or denial of the typed code in that user's name.
\<close>
theorem verification_submit_gated:
  assumes "sha256_sized (pf_lib pf)"
    and "run (verification_submit_handler (web_service pf cb sv) headers body) w = (resp, w')"
    and "w_mem w' \<noteq> w_mem w"
  shows "\<exists>form issue_token consume expected who subject code.
     is_form_urlencoded (sv_http sv) headers \<and> parse_pairs (from_utf8_lossy body) = Ok form \<and>
     same_origin (sv_http sv) headers (sv_origin sv) \<and>
     wc_csrf cb = Some (issue_token, consume) \<and> consume headers = Some expected \<and>
     sha256 (pf_lib pf) (as_bytes expected) =
       sha256 (pf_lib pf) (as_bytes (case param form ''csrf_token'' of Some t \<Rightarrow> t | None \<Rightarrow> [])) \<and>
     wc_subject cb = Some who \<and> who headers = Some subject \<and> param form ''user_code'' = Some code \<and>
     (param form ''action'' = Some ''approve'' \<and> w_mem w' = w_mem (snd (run (approve_device (host pf) code subject) w)) \<or>
      param form ''action'' = Some ''deny'' \<and> w_mem w' = w_mem (snd (run (deny_device (host pf) code) w)))"
proof -
  let ?sv = "web_service pf cb sv"
  obtain form where form: "is_form_urlencoded (sv_http sv) headers" "parse_pairs (from_utf8_lossy body) = Ok form"
    and gated: "run (pbind (csrf_gate ?sv headers form) (\<lambda>gate. or_respond (\<lambda>resp. resp) gate (\<lambda>_. submitted ?sv headers form))) w = (resp, w')"
    using assms(2,3) by (auto simp: verification_submit_handler_def with_form_def or_respond_def split: if_splits sum.splits)
  from gated assms(3) obtain issue_token consume expected where
    gate: "same_origin (sv_http sv) headers (sv_origin sv)" "wc_csrf cb = Some (issue_token, consume)"
      "consume headers = Some expected"
      "http_constant_time_eq (pf_lib pf) expected (case param form ''csrf_token'' of Some t \<Rightarrow> t | None \<Rightarrow> [])"
    and sub: "run (submitted ?sv headers form) w = (resp, w')"
    by (auto simp: csrf_gate_def Let_def web_protection_def or_respond_def split: option.splits if_splits prod.splits)
  have protected: "is_protected (web_protection cb)" using gate(2) by (simp add: web_protection_def)
  let ?code = "case param form ''user_code'' of Some c \<Rightarrow> c | None \<Rightarrow> []"
  let ?action = "case param form ''action'' of Some x \<Rightarrow> x | None \<Rightarrow> []"
  have filled: "?code \<noteq> []" "?action = ''deny'' \<or> ?action = ''approve''"
    using sub assms(3) protected by (auto simp: submitted_def Let_def dest: render_run split: if_splits)
  then have chosen: "\<not> (\<not> ?action = ''deny'' \<and> \<not> (?action = ''approve'' \<or> \<not> is_protected (web_protection cb)))" by blast
  have "run (pbind (subject_of ?sv headers) (\<lambda>signed_in. case signed_in of
      None \<Rightarrow> Done not_signed_in
    | Some subject \<Rightarrow> decide_device ?sv headers ?code (?action = ''deny'') subject)) w = (resp, w')"
    using sub unfolding submitted_def Let_def web_service_sel if_not_P [OF filled(1)] if_not_P [OF chosen] .
  then obtain who subject where who: "wc_subject cb = Some who" "who headers = Some subject"
    and decided: "run (decide_device ?sv headers ?code (?action = ''deny'') subject) w = (resp, w')"
    using assms(3) by (auto simp: subject_of_def split: option.splits)
  have "w_mem w' = w_mem (snd (run (if ?action = ''deny'' then deny_device (host pf) ?code
      else approve_device (host pf) ?code subject) w))"
    using decide_device_mem [of pf cb sv headers ?code "?action = ''deny''" subject w] decided by simp
  moreover obtain code where "param form ''user_code'' = Some code" using filled(1) by (auto split: option.splits)
  moreover have "param form ''action'' = Some ''deny'' \<or> param form ''action'' = Some ''approve''"
    using filled(2) by (auto split: option.splits)
  ultimately have "\<exists>code. param form ''user_code'' = Some code \<and>
     (param form ''action'' = Some ''approve'' \<and> w_mem w' = w_mem (snd (run (approve_device (host pf) code subject) w)) \<or>
      param form ''action'' = Some ''deny'' \<and> w_mem w' = w_mem (snd (run (deny_device (host pf) code) w)))"
    by auto
  with form gate who show ?thesis
    by (auto simp: http_constant_time_eq_def constant_time_eq_iff [OF assms(1), unfolded constant_time_eq_def])
qed

section \<open>The shape of every response\<close>

definition uncached :: "response \<Rightarrow> bool" where
  "uncached resp \<longleftrightarrow>
     header_get (rs_headers resp) ''cache-control'' = Some ''no-store, no-cache, max-age=0'' \<and>
     header_get (rs_headers resp) ''pragma'' = Some ''no-cache''"

definition fixed_text :: "response \<Rightarrow> bool" where
  "fixed_text resp \<longleftrightarrow>
     resp = too_many_parameters \<or> (\<exists>e. resp = body_error_response e) \<or> (\<exists>route. resp = method_not_allowed route)"

definition challenged :: "response \<Rightarrow> bool" where
  "challenged resp \<longleftrightarrow> (header_get (rs_headers resp) ''www-authenticate'' \<noteq> None \<longleftrightarrow> rs_status resp = 401)"

definition page_protected :: "response \<Rightarrow> bool" where
  "page_protected resp \<longleftrightarrow>
     (header_get (rs_headers resp) ''content-type'' = Some html_content_type \<longrightarrow>
      header_get (rs_headers resp) ''content-security-policy'' = Some CONTENT_SECURITY_POLICY \<and>
      header_get (rs_headers resp) ''x-frame-options'' = Some ''DENY'' \<and>
      header_get (rs_headers resp) ''x-content-type-options'' = Some ''nosniff'' \<and>
      header_get (rs_headers resp) ''referrer-policy'' = Some ''no-referrer'')"

definition response_ok :: "response \<Rightarrow> bool" where
  "response_ok resp \<longleftrightarrow> (uncached resp \<or> fixed_text resp) \<and> challenged resp \<and> page_protected resp"

lemma set_header_sel [simp]:
  "rs_status (set_header n v resp) = rs_status resp"
  "header_get (rs_headers (set_header n v resp)) k = (if k = n then Some v else header_get (rs_headers resp) k)"
  by (simp_all add: set_header_def)

lemma respond_sel [simp]: "rs_status (respond st b) = st" "header_get (rs_headers (respond st b)) k = None"
  by (simp_all add: respond_def header_get_def)

lemma no_store_sel [simp]:
  "rs_status (no_store resp) = rs_status resp"
  "header_get (rs_headers (no_store resp)) k =
     (if k = ''pragma'' then Some ''no-cache''
      else if k = ''cache-control'' then Some ''no-store, no-cache, max-age=0'' else header_get (rs_headers resp) k)"
  by (simp_all add: no_store_def)

lemma content_types_differ: "json_content_type \<noteq> html_content_type" "''text/plain;charset=UTF-8'' \<noteq> html_content_type"
  by (simp_all add: json_content_type_def html_content_type_def)

lemmas shape_defs = response_ok_def uncached_def challenged_def page_protected_def

lemma json_response_ok: "st \<noteq> 401 \<Longrightarrow> response_ok (json_response hl st pl)"
  by (simp add: shape_defs json_response_def content_types_differ)

lemma wire_error_ok: "response_ok (wire_error hl e via challenge)"
  by (simp add: shape_defs wire_error_def json_response_def Let_def content_types_differ)

lemma html_response_ok: "st \<noteq> 401 \<Longrightarrow> response_ok (html_response st b)"
  by (simp add: shape_defs html_response_def)

lemma bare_ok: "st \<noteq> 401 \<Longrightarrow> response_ok (no_store (respond st b))"
  by (simp add: shape_defs)

lemma redirect_ok: "response_ok (redirect hl loc)"
  by (simp add: redirect_def wire_error_ok split: option.split) (simp add: shape_defs)

lemma registration_error_ok: "response_ok (registration_error hl e)"
  by (cases e) (simp_all add: shape_defs registration_error_def Let_def content_types_differ)

lemma fixed_text_ok: "response_ok too_many_parameters" "response_ok (body_error_response e)" "response_ok (method_not_allowed route)"
proof -
  show "response_ok too_many_parameters"
    by (simp add: shape_defs fixed_text_def) (simp add: too_many_parameters_def text_response_def content_types_differ)
  have "fixed_text (body_error_response e)" unfolding fixed_text_def by blast
  moreover have "challenged (body_error_response e)" "page_protected (body_error_response e)"
    by (cases e; simp add: challenged_def page_protected_def text_response_def content_types_differ)+
  ultimately show "response_ok (body_error_response e)" unfolding response_ok_def by blast
  show "response_ok (method_not_allowed route)"
    by (simp add: shape_defs fixed_text_def) (auto simp: method_not_allowed_def)
qed

lemma unwired_ok: "response_ok (unwired hl why)"
  by (simp add: unwired_def json_response_ok)

lemma ok_json_ok: "response_ok (ok_json hl pl)"
  by (simp add: ok_json_def json_response_ok)

lemma authorization_error_ok: "response_ok (authorization_failure sv e)"
  by (cases e) (simp_all add: refuse_def wire_error_ok redirect_ok)

lemmas shapes = json_response_ok wire_error_ok html_response_ok bare_ok redirect_ok registration_error_ok
  fixed_text_ok unwired_ok ok_json_ok authorization_error_ok

abbreviation shaped :: "('s, response) prog \<Rightarrow> bool" where "shaped p \<equiv> always response_ok p"

lemma shaped_Done: "response_ok resp \<Longrightarrow> shaped (Done resp)"
  by (rule safe_Done)

lemma shaped_or_respond: "(\<And>e. response_ok (f e)) \<Longrightarrow> (\<And>a. shaped (k a)) \<Longrightarrow> shaped (or_respond f r k)"
  by (simp add: or_respond_def shaped_Done split: sum.split)

lemma shaped_answer: "(\<And>e. response_ok (f e)) \<Longrightarrow> (\<And>a. response_ok (g a)) \<Longrightarrow> shaped (answer f g p)"
  unfolding answer_def by (rule always_pbind) (simp add: shaped_Done split: sum.split)

lemma shaped_with: "(\<And>a. shaped (k a)) \<Longrightarrow> shaped (with_form body k)" "(\<And>a. shaped (k' a)) \<Longrightarrow> shaped (with_body b k')"
  by (simp_all add: with_form_def with_body_def shaped_or_respond shapes)

lemma refuse_ok: "response_ok (refuse sv via e)"
  by (simp add: refuse_def wire_error_ok)

lemmas shaped_intros = shaped_Done shaped_or_respond shaped_answer shaped_with always_pbind refuse_ok

lemma shaped_dpop:
  assumes "\<And>proof_text. shaped (k proof_text)"
  shows "shaped (pbind (dpop_proof_header sv headers via) (\<lambda>h. or_respond (\<lambda>resp. resp) h k))"
proof (rule safe_pbind)
  show "always (\<lambda>r. \<forall>resp. r = Inl resp \<longrightarrow> response_ok resp) (dpop_proof_header sv headers via)"
    by (auto simp: dpop_proof_header_def refuse_dpop_header_def refuse_ok split: list.split option.split
        intro!: safe_Done always_pbind)
qed (auto simp: or_respond_def assms split: sum.split intro: shaped_Done)

lemma token_handler_shaped: "shaped (token_handler sv headers body)"
  unfolding token_handler_def token_exchange_response_def Let_def
  by (intro shaped_with(1) shaped_or_respond refuse_ok shaped_dpop)
    (auto split: option.split intro!: always_pbind shaped_Done shaped_or_respond shaped_answer refuse_ok ok_json_ok)

lemma client_handlers_shaped:
  "shaped (device_authorization_handler sv headers body)" "shaped (pushed_authorization_handler sv headers body)"
  "shaped (introspect_handler sv headers body)" "shaped (revoke_handler sv headers body)"
  unfolding device_authorization_handler_def pushed_authorization_handler_def introspect_handler_def
    revoke_handler_def Let_def
  by (intro shaped_with shaped_or_respond refuse_ok shaped_dpop shaped_answer ok_json_ok bare_ok json_response_ok;
      simp add: pushed_http_status_def)+

lemma registration_handlers_shaped:
  "shaped (register_handler sv headers body)" "shaped (read_registration_handler sv headers cid)"
  "shaped (update_registration_handler sv headers cid body)" "shaped (delete_registration_handler sv headers cid)"
proof -
  have metadata: "shaped (or_respond (\<lambda>resp. resp) (body_metadata hl b) k)" if "\<And>md. shaped (k md)"
    for hl b and k :: "client_metadata \<Rightarrow> ('s, response) prog"
    using that by (simp add: or_respond_def body_metadata_def ok_or_def shaped_Done shapes split: option.split)
  show "shaped (register_handler sv headers body)" "shaped (read_registration_handler sv headers cid)"
    "shaped (update_registration_handler sv headers cid body)" "shaped (delete_registration_handler sv headers cid)"
    unfolding register_handler_def read_registration_handler_def update_registration_handler_def
      delete_registration_handler_def Let_def
    by (intro always_pbind metadata shaped_answer registration_error_ok ok_json_ok bare_ok json_response_ok
        shaped_or_respond [where f = "registration_error hl" for hl]; simp)+
qed

lemma page_outcome_status: "st \<noteq> 401 \<Longrightarrow> fst (page_outcome st m entered found) \<noteq> 401"
  by (auto simp: page_outcome_def split: option.split sum.split throttled.split)

lemma render_with_shaped: "st \<noteq> 401 \<Longrightarrow> shaped (render_with sv entered st m entry csrf)"
proof -
  assume st: "st \<noteq> 401"
  have "shaped (case page_outcome st m entered found of (st', m') \<Rightarrow> Done (html_response st' (page m')))" for found page
    using page_outcome_status [OF st, of m entered found]
    by (cases "page_outcome st m entered found") (simp add: shaped_Done html_response_ok)
  then show ?thesis unfolding render_with_def by (intro always_pbind)
qed

lemma render_shaped: "st \<noteq> 401 \<Longrightarrow> shaped (render_verification sv headers entered st m entry)"
  unfolding render_verification_def not_configured_def not_signed_in_def
  by (auto split: verification_protection.split option.split
      intro!: always_pbind shaped_Done html_response_ok render_with_shaped)

lemma approval_failure_not_401: "approval_failure_status e \<noteq> 401"
  by (cases e) simp_all

lemma decide_shaped: "shaped (decide_device sv headers code deny_it subject)"
  unfolding decide_device_def
  by (auto split: sum.split intro!: always_pbind shaped_Done html_response_ok render_shaped)
    (simp_all add: approval_failure_not_401)

lemma submitted_shaped: "shaped (submitted sv headers form)"
proof -
  have "shaped (case x of None \<Rightarrow> Done not_signed_in | Some subject \<Rightarrow> decide_device sv headers code deny_it subject)"
    for x code deny_it
    by (simp add: decide_shaped shaped_Done not_signed_in_def html_response_ok split: option.split)
  then show ?thesis unfolding submitted_def Let_def by (simp add: render_shaped always_pbind)
qed

lemma verification_handlers_shaped:
  "shaped (verification_page_handler sv headers u)" "shaped (verification_submit_handler sv headers body)"
proof -
  show "shaped (verification_page_handler sv headers u)"
    unfolding verification_page_handler_def by (intro shaped_or_respond render_shaped) (simp_all add: shapes)
  have "always (\<lambda>r. \<forall>resp. r = Inl resp \<longrightarrow> response_ok resp) (csrf_gate sv headers form)" for form
    by (auto simp: csrf_gate_def Let_def not_configured_def html_response_ok split: verification_protection.split option.split if_splits
        intro!: safe_Done always_pbind)
  then have "shaped (pbind (csrf_gate sv headers form) (\<lambda>gate. or_respond (\<lambda>resp. resp) gate (\<lambda>_. submitted sv headers form)))"
    for form
    by (rule safe_pbind) (auto simp: or_respond_def submitted_shaped split: sum.split intro: shaped_Done)
  then show "shaped (verification_submit_handler sv headers body)"
    unfolding verification_submit_handler_def by (auto intro!: shaped_with shaped_Done html_response_ok)
qed

definition host_response :: "'s service \<Rightarrow> response \<Rightarrow> bool" where
  "host_response sv resp \<longleftrightarrow> (\<exists>f request s. sv_approval sv = Some f \<and> fst (f request s) = AdRespond resp)"

lemma approved_shaped: "shaped (approved sv headers at subject validated remember)"
  unfolding approved_def
  by (auto split: sum.split intro!: always_pbind shaped_Done redirect_ok authorization_error_ok)

lemma authorize_shaped: "always (\<lambda>resp. response_ok resp \<or> host_response sv resp) (authorize_handler sv headers u)"
proof -
  let ?Q = "\<lambda>resp. response_ok resp \<or> host_response sv resp"
  have ok: "shaped p \<Longrightarrow> always ?Q p" for p :: "('a, response) prog" by (erule safe_mono) simp
  have asked: "always (\<lambda>d. \<forall>resp. d = Some (AdRespond resp) \<longrightarrow> host_response sv resp)
      (ask_approval sv headers u subject validated remembered)" for subject validated remembered
  proof (cases "sv_approval sv")
    case (Some f)
    have "always (\<lambda>d. \<forall>resp. d = AdRespond resp \<longrightarrow> host_response sv resp) (act (f request))" for request
      by (rule safe_act) (auto simp: host_response_def Some)
    then show ?thesis
      unfolding ask_approval_def Some option.case by (rule safe_pbind) (simp add: safe_Done)
  qed (simp add: ask_approval_def safe_Done)
  have decided: "always ?Q (case d of
        None \<Rightarrow> Done (unwired hl why)
      | Some AdDeny \<Rightarrow> Done (redirect hl (error_location (denied validated)))
      | Some (AdRespond resp) \<Rightarrow> Done resp
      | Some AdApprove \<Rightarrow> approved sv headers at subject validated False
      | Some AdApproveAndRemember \<Rightarrow> approved sv headers at subject validated True)"
    if "\<forall>resp. d = Some (AdRespond resp) \<longrightarrow> host_response sv resp" for d hl why validated at subject
    using that
    by (auto split: option.split approval_decision.split
        intro: safe_Done ok [OF approved_shaped] simp: unwired_ok redirect_ok)
  have signed: "always ?Q (case x of None \<Rightarrow> Done (unwired hl why) | Some subject \<Rightarrow> k subject)"
    if "\<And>subject. always ?Q (k subject)" for x hl why and k :: "string \<Rightarrow> ('a, response) prog"
    using that by (auto split: option.split intro: safe_Done simp: unwired_ok)
  have tried: "always ?Q (or_respond f r k)" if "\<And>e. response_ok (f e)" and "\<And>a. always ?Q (k a)"
    for f :: "'e \<Rightarrow> response" and r :: "'e + 'b" and k :: "'b \<Rightarrow> ('a, response) prog"
    using that by (auto simp: or_respond_def split: sum.split intro: safe_Done)
  show ?thesis
    unfolding authorize_handler_def Let_def
    by (rule always_pbind tried fixed_text_ok authorization_error_ok signed safe_pbind [OF asked] decided | assumption)+
qed

text \<open>
  C9. What every response of an endpoint looks like, under every interleaving and on every error path: it may
  not be stored by any cache, or is one of the fixed texts that say nothing about anybody; it is a 401
  exactly when it carries a challenge; and if it is a page, no script, no foreign frame and no foreign
  form can use it. The published documents may be cached, and a response the host's own
  approval step composes is the host's.
\<close>
theorem every_response_shaped:
  fixes sv :: "'s service"
  assumes "route \<noteq> RouteMetadata" and "route \<noteq> RouteJwks"
  shows "always (\<lambda>resp. response_ok resp \<or> host_response sv resp) (dispatch sv route m rq)"
proof -
  let ?Q = "\<lambda>resp. response_ok resp \<or> host_response sv resp"
  have ok: "shaped p \<Longrightarrow> always ?Q p" for p :: "('s, response) prog" by (erule safe_mono) simp
  have "always ?Q (Done (method_not_allowed route) :: ('s, response) prog)" by (intro safe_Done disjI1 fixed_text_ok)
  with assms show ?thesis
    unfolding dispatch_def Let_def
    by (auto split: route.split
        intro!: authorize_shaped ok [OF verification_handlers_shaped(1)] ok [OF shaped_with(2)]
          ok [OF registration_handlers_shaped(2)] ok [OF registration_handlers_shaped(4)]
          token_handler_shaped client_handlers_shaped registration_handlers_shaped verification_handlers_shaped)
qed

section \<open>A token request over HTTP\<close>

lemma with_form_encoded:
  assumes "length kvs \<le> MAX_FORM_PARAMETERS" and "\<forall>(k, v) \<in> set kvs. valid_utf8 k \<and> valid_utf8 v"
  shows "with_form (form_encode kvs) k = k kvs"
  using assms by (simp add: with_form_def or_respond_def from_utf8_valid valid_utf8_ascii form_encode_ascii parse_form_encode)

lemma run_answer:
  "run (answer f g p) w = (case run p w of (Inl e, w') \<Rightarrow> (f e, w') | (Inr a, w') \<Rightarrow> (g a, w'))"
  by (auto simp: answer_def split: prod.split sum.split)

definition code_form :: "string \<Rightarrow> string \<Rightarrow> string \<Rightarrow> string \<Rightarrow> string \<Rightarrow> params" where
  "code_form code redirect_uri verifier cid secret =
     [(''grant_type'', ''authorization_code''), (''code'', code), (''redirect_uri'', redirect_uri),
      (''code_verifier'', verifier), (''client_id'', cid), (''client_secret'', secret)]"

text \<open>
  C10. An authorization code posted to the token endpoint is redeemed as the client meant it: from the bytes of
  the form the service makes exactly the server's operation on this code, redirect URI, verifier
  and these credentials, whatever characters they contain, and answers with its tokens, or with its
  error in the form that carries no challenge.
\<close>
theorem code_redeemed_over_http:
  assumes "header_get headers ''authorization'' = None" and "header_get_all headers ''dpop'' = []"
    and "\<forall>v \<in> {code, redirect_uri, verifier, cid, secret}. valid_utf8 v"
  shows "run (token_handler sv headers (form_encode (code_form code redirect_uri verifier cid secret))) w =
     (case run (token_with_context (sv_server sv)
          (TrAuthorizationCode (ClientId cid) None code (Some redirect_uri) (Some verifier))
          (context_new (credential_secret (Some secret)))) w of
        (Inl e, w') \<Rightarrow> (refuse sv False e, w')
      | (Inr resp, w') \<Rightarrow> (ok_json (sv_http sv) (PlToken resp), w'))"
proof -
  let ?form = "code_form code redirect_uri verifier cid secret"
  have names: "valid_utf8 ''grant_type''" "valid_utf8 ''authorization_code''" "valid_utf8 ''code''" "valid_utf8 ''redirect_uri''"
    "valid_utf8 ''code_verifier''" "valid_utf8 ''client_id''" "valid_utf8 ''client_secret''"
    by code_simp+
  have form: "with_form (form_encode ?form) k = k ?form" for k :: "params \<Rightarrow> ('a, response) prog"
    by (rule with_form_encoded)
      (use assms(3) names in \<open>simp_all add: code_form_def MAX_FORM_PARAMETERS_def\<close>)
  have no_basic: "basic_attempted (sv_http sv) headers = False"
    using assms(1) by (simp add: basic_attempted_def header_text_def)
  have ps: "param ?form ''grant_type'' = Some ''authorization_code''" "param ?form ''code'' = Some code"
    "param ?form ''redirect_uri'' = Some redirect_uri" "param ?form ''code_verifier'' = Some verifier"
    "param ?form ''client_id'' = Some cid" "param ?form ''client_secret'' = Some secret"
    "param ?form ''client_assertion'' = None" "param ?form ''authorization_details'' = None"
    "resource_indicators ?form = []"
    by (simp_all add: param_def code_form_def resource_indicators_def values_of_def)
  have grant: "form_grant ?form = Ok AuthorizationCode"
    by (simp add: form_grant_def ps ok_or_def grant_parse_def)
  have creds: "credentials_of (sv_lib sv) (sv_http sv) headers ?form = Ok \<lparr>crd_client_id = cid,
      crd_client_secret = Some secret, crd_client_assertion_type = None, crd_client_assertion = None\<rparr>"
    by (simp add: credentials_of_def credentials_where_def Let_def no_basic ps)
  have proofless: "dpop_proof_header sv headers via = Done (Ok None)" for via
  proof -
    have "map to_ascii_lowercase DPOP_HEADER = ''dpop''" by code_simp
    with assms(2) show ?thesis by (simp add: dpop_proof_header_def)
  qed
  have request: "form_token_request ?form c AuthorizationCode =
      Ok (Some (TrAuthorizationCode c None code (Some redirect_uri) (Some verifier)))" for c
    by (simp add: form_token_request_def required_def ps ok_or_def)
  show ?thesis
    unfolding token_handler_def Let_def no_basic form
    by (simp add: or_respond_def grant creds proofless request run_answer form_context_def ps credential_def
        context_new_def credential_secret_def)
qed

section \<open>One pool for everything\<close>

text \<open>HTTP requests of the service beside requests made directly to the server, sweeps and clock changes.\<close>

definition web_jobs :: "platform \<Rightarrow> web_callbacks \<Rightarrow> world service \<Rightarrow> system_time set \<Rightarrow> (world, endpoint_answer) prog set" where
  "web_jobs pf cb sv sweeps =
     jobs (host pf) sweeps \<union> range (\<lambda>rq. answering (service_handle (web_service pf cb sv) rq) (\<lambda>_. AnHost))"

lemma web_jobs_steps:
  assumes "\<forall>p \<in> jobs (host pf) sweeps. steps T p" and "\<And>rq. steps T (service_handle (web_service pf cb sv) rq)"
  shows "\<forall>p \<in> web_jobs pf cb sv sweeps. steps T p"
  using assms by (auto simp: web_jobs_def steps_answering)

lemma pool_run_mono:
  assumes "P \<subseteq> Q" and "pool_run P c d"
  shows "pool_run Q c d"
proof -
  have "pool_step P \<le> pool_step Q"
    by (rule predicate2I, erule pool_step.cases) (use assms(1) in \<open>auto intro: pool_step.intros\<close>)
  then show ?thesis using assms(2) by (meson predicate2D rtranclp_mono)
qed

lemma web_pool_runs_handler: "\<exists>qs w2. pool_run (web_jobs pf cb sv sweeps) ([], w) (qs, w2) \<and> qs \<noteq> []"
  using pool_runs_handler [of "host pf" sweeps w] pool_run_mono [of "jobs (host pf) sweeps" "web_jobs pf cb sv sweeps"]
  by (fastforce simp: web_jobs_def)

end
