(* ===== verification/Http_Flows.thy ===== *)
theory Http_Flows
  imports Http_Props
begin

text \<open>
  The properties of the service at concrete requests: a user submits the code of a waiting device on the
  verification page, and a client redeems a code.
\<close>

definition sample_http :: http_lib where
  "sample_http = \<lparr>hl_to_str = Some, hl_from_str = Some, hl_to_vec = (\<lambda>_. Some ''{}''), hl_client_metadata = (\<lambda>_. None)\<rparr>"

definition sample_callbacks :: web_callbacks where
  "sample_callbacks = \<lparr>wc_subject = Some (\<lambda>headers. header_get headers ''cookie''),
     wc_approval = Some (\<lambda>_. AdApprove), wc_authentication = None,
     wc_csrf = Some (\<lambda>_. Some ''tok'', \<lambda>_. Some ''tok'')\<rparr>"

definition plain_platform :: platform where
  "plain_platform = sample_platform\<lparr>pf_limiter := None\<rparr>"

definition sample_service :: "world service" where
  "sample_service = \<lparr>sv_server = host plain_platform, sv_metadata = [], sv_jwks = None, sv_challenge = [],
     sv_origin = ''https://as'', sv_subject = None, sv_approval = None, sv_authentication = None,
     sv_verification = VpUnwired,
     sv_routes = (case build_routes (host plain_platform) of Inr r \<Rightarrow> r | Inl _ \<Rightarrow>
       \<lparr>ro_well_known = [], ro_authorize = [], ro_token = [], ro_device = [], ro_introspect = None, ro_revoke = None,
        ro_verification = None, ro_register = None, ro_manage = None, ro_par = None, ro_jwks = None\<rparr>),
     sv_http = sample_http\<rparr>"

abbreviation sample_web :: "world service" where
  "sample_web \<equiv> web_service plain_platform sample_callbacks sample_service"

definition sample_headers :: header_map where
  "sample_headers = [(''cookie'', ''alice''), (''origin'', ''https://as''),
     (''content-type'', ''application/x-www-form-urlencoded'')]"

definition sample_submission :: string where
  "sample_submission = form_encode [(''user_code'', ''kkkk kkkk''), (''action'', ''approve''), (''csrf_token'', ''tok'')]"

definition sample_grant :: device_grant where
  "sample_grant = \<lparr>dg_device_code = ''dc'', dg_user_code = ''KKKKKKKK'', dg_client_id = ClientId ''c1'',
     dg_scope = cl_default_scopes sample_client, dg_state = Pending, dg_created_at = w_time sample_world,
     dg_expires_at = w_time sample_world + int (from_secs 600), dg_interval = from_secs 5, dg_last_poll_at = None\<rparr>"

definition asked_world :: world where
  "asked_world = sample_world\<lparr>w_mem := snd (mem_put_device_grant sample_grant (w_mem sample_world)), w_entropy := []\<rparr>"

definition decided_world :: world where
  "decided_world = snd (run (verification_submit_handler sample_web sample_headers sample_submission) asked_world)"

definition approving_world :: world where
  "approving_world = snd (run (approve_device (host plain_platform) ''kkkk kkkk'' ''alice'') asked_world)"

lemma sample_code_normal: "normalize_user_code ''kkkk kkkk'' = ''KKKKKKKK''" "normalize_user_code ''KKKKKKKK'' = ''KKKKKKKK''"
  by code_simp+

lemma asked_grant:
  "fmlookup (m_device_by_code (w_mem asked_world)) ''dc'' = Some sample_grant"
  "fmlookup (m_user_code_index (w_mem asked_world)) ''KKKKKKKK'' = Some ''dc''"
  "w_time asked_world < dg_expires_at sample_grant"
  by (simp_all add: asked_world_def mem_put_device_grant_def index_grant_def Let_def sample_grant_def sample_world_def
      memory_new_def sample_code_normal from_secs_def nanos_per_sec_def)

lemma sample_grant_sel:
  "dg_device_code sample_grant = ''dc''" "dg_user_code sample_grant = ''KKKKKKKK''" "dg_state sample_grant = Pending"
  by (simp_all add: sample_grant_def)

lemma plain_runs:
  "run (hooks_check (srv_hooks (host plain_platform)) a) w = (Allow, w)"
  "run (hooks_record (srv_hooks (host plain_platform)) a out) w = ((), w)"
  "run (now (host plain_platform)) w = (w_time w, w)"
  by (simp_all add: hooks_check_def hooks_record_def now_def host_def plain_platform_def)

lemma sample_pending:
  "run (pending_grant_by_user_code (host plain_platform) ''kkkk kkkk'') asked_world = (Ok sample_grant, asked_world)"
  using asked_grant(3) [unfolded not_le [symmetric]]
  by (simp add: pending_grant_by_user_code_def lookup_pending_grant_by_user_code_def plain_runs sample_code_normal
      host_ops mem_find_device_grant_def asked_grant sample_grant_sel ok_or_def)

lemma sample_decision:
  "fmlookup (m_device_by_code (w_mem approving_world)) ''dc'' = Some (sample_grant\<lparr>dg_state := Approved ''alice''\<rparr>)"
proof -
  have "run (emit (srv_hooks (host plain_platform)) e) w = ((), w\<lparr>w_events := w_events w @ [e]\<rparr>)" for e w
    by (simp add: emit_def host_def)
  then show ?thesis
    by (simp add: approving_world_def approve_device_def sample_pending host_ops mem_cas_device_grant_def index_grant_def
        Let_def asked_grant sample_grant_sel sample_code_normal)
qed

lemma sample_form:
  "parse_pairs (from_utf8_lossy sample_submission) =
     Ok [(''user_code'', ''kkkk kkkk''), (''action'', ''approve''), (''csrf_token'', ''tok'')]"
  by code_simp

lemma sample_gate:
  "is_form_urlencoded sample_http sample_headers" "same_origin sample_http sample_headers ''https://as''"
  "http_constant_time_eq sample_crates ''tok'' ''tok''" "header_get sample_headers ''cookie'' = Some ''alice''"
  by code_simp+

lemma sample_service_sel [simp]: "sv_http sample_service = sample_http" "sv_origin sample_service = ''https://as''"
  by (simp_all add: sample_service_def)

lemma sample_submit: "w_mem decided_world = w_mem approving_world"
proof -
  have lib: "pf_lib plain_platform = sample_crates" by (simp add: plain_platform_def sample_platform_def)
  have "run (verification_submit_handler sample_web sample_headers sample_submission) asked_world =
      run (decide_device sample_web sample_headers ''kkkk kkkk'' False ''alice'') asked_world"
    by (simp add: verification_submit_handler_def with_form_def or_respond_def sample_form sample_gate csrf_gate_def
        submitted_def Let_def web_protection_def subject_of_def sample_callbacks_def param_def lib)
  then show ?thesis by (simp add: decided_world_def approving_world_def decide_device_mem)
qed

theorem verification_submit_gated_witness:
  "\<exists>form. parse_pairs (from_utf8_lossy sample_submission) = Ok form \<and> param form ''action'' = Some ''approve'' \<and>
     w_mem decided_world \<noteq> w_mem asked_world \<and> w_mem decided_world = w_mem approving_world"
proof -
  have sized: "sha256_sized (pf_lib plain_platform)" by (simp add: plain_platform_def sample_platform_def)
  have changed: "w_mem decided_world \<noteq> w_mem asked_world" using sample_decision asked_grant(1) sample_submit by (auto simp: sample_grant_def)
  obtain resp where run: "run (verification_submit_handler sample_web sample_headers sample_submission) asked_world = (resp, decided_world)"
    unfolding decided_world_def by (cases "run (verification_submit_handler sample_web sample_headers sample_submission) asked_world") simp
  show ?thesis
    using verification_submit_gated [OF sized run changed] changed sample_submit by (auto simp: sample_form param_def)
qed

section \<open>A built service\<close>


section \<open>Responses\<close>

theorem every_response_shaped_witness:
  "\<exists>resp. fst (run (dispatch sample_web RouteToken ''GET''
       \<lparr>rq_method = ''GET'', rq_headers = [], rq_uri = \<lparr>uri_path = ''/token'', uri_query = None\<rparr>,
        rq_body = \<lparr>ib_size_lower = 0, ib_frames = []\<rparr>\<rparr>) sample_world) = resp \<and> rs_status resp = 405 \<and> response_ok resp"
proof -
  let ?rq = "\<lparr>rq_method = ''GET'', rq_headers = [], rq_uri = \<lparr>uri_path = ''/token'', uri_query = None\<rparr>,
        rq_body = \<lparr>ib_size_lower = 0, ib_frames = []\<rparr>\<rparr>"
  have got: "fst (run (dispatch sample_web RouteToken ''GET'' ?rq) sample_world) = method_not_allowed RouteToken"
    by (simp add: dispatch_def)
  have "response_ok (method_not_allowed RouteToken) \<or> host_response sample_web (method_not_allowed RouteToken)"
    using always_run [OF every_response_shaped [of RouteToken sample_web "''GET''" ?rq], of sample_world] got by simp
  moreover have "\<not> host_response sample_web (method_not_allowed RouteToken)"
    by (auto simp: host_response_def sample_callbacks_def)
  ultimately show ?thesis using got by (simp add: method_not_allowed_def)
qed

theorem code_redeemed_over_http_witness:
  "rs_status (fst (run (token_handler sample_web [] (form_encode (code_form ''no such code'' ''https://app/cb'' ''v'' ''c1'' ''s3cret'')))
     sample_world)) = 400"
proof -
  have valid: "valid_utf8 ''no such code''" "valid_utf8 ''https://app/cb''" "valid_utf8 ''v''" "valid_utf8 ''c1''" "valid_utf8 ''s3cret''"
    by code_simp+
  have refused: "fst (run (token_with_context (host plain_platform)
      (TrAuthorizationCode (ClientId ''c1'') None ''no such code'' (Some ''https://app/cb'') (Some ''v''))
      (context_new (credential_secret (Some ''s3cret'')))) sample_world) = Err (error_new InvalidGrant)"
    by code_simp
  obtain w' where "run (token_with_context (host plain_platform)
      (TrAuthorizationCode (ClientId ''c1'') None ''no such code'' (Some ''https://app/cb'') (Some ''v''))
      (context_new (credential_secret (Some ''s3cret'')))) sample_world = (Err (error_new InvalidGrant), w')"
    using refused by (metis prod.collapse)
  then have "run (token_handler sample_web [] (form_encode (code_form ''no such code'' ''https://app/cb'' ''v'' ''c1'' ''s3cret'')))
      sample_world = (refuse sample_web False (error_new InvalidGrant), w')"
    using code_redeemed_over_http [of "[]" "''no such code''" "''https://app/cb''" "''v''" "''c1''" "''s3cret''" sample_web sample_world]
      valid by (simp add: header_get_def header_get_all_def)
  then show ?thesis
    by (simp add: refuse_def wire_error_def Let_def json_response_def http_status_def error_new_def)
qed

end
