(* ===== verification/Spec2Isabelle.thy ===== *)
theory Spec2Isabelle
  imports Throttling Liveness Sample_Flows Authorization_Props Par_Props Exchange_Props Registration_Props Http_Flows
begin

text \<open>
  This development models the authorization server of the crate \<^verbatim>\<open>oauth-as\<close>
  (\<^verbatim>\<open>src/crates/oauth-as/src\<close>): an OAuth 2.0 server core with the authorization code, refresh token,
  device, client credentials and token exchange grants, PKCE, DPoP, mutual TLS, private-key client
  authentication, rich authorization requests, pushed and signed requests, dynamic registration,
  consent, revocation, introspection and rate limiting, over a storage interface whose reference
  implementation keeps everything in memory, and under an HTTP service.

  \<^bold>\<open>Shape of the model.\<close>  Rust's asynchronous methods await the store, a signer, a callback of the host or
  a random source; between two such calls other requests run.  A handler is therefore a
  \<^emph>\<open>resumption\<close> (\<^verbatim>\<open>Program\<close>): either finished, or one atomic call on the shared state
  followed by the rest.  \<open>run\<close> executes one request alone; \<open>pool_run\<close> executes any number of requests with
  every interleaving of their calls.  Properties of all interleavings are proved by the relations
  \<open>steps\<close> (every call makes a transition of a given relation), \<open>keeps\<close> and \<open>spends\<close> (every call conserves an
  amount), properties of every result of a program whatever the environment does in between by
  \<open>always\<close>.  Errors are the left values of a sum with the variants of the code's error types.
  Unbounded data are lists and naturals; the integers whose width matters (\<open>u64\<close> seconds and counters, bytes,
  IP addresses) are words or bounded with the saturation or the overflow check the code has. Strings
  are the bytes of their UTF-8 encoding.

  \<^bold>\<open>Theories and sources.\<close>
  \<^item> \<open>OAuth_Prelude\<close>, \<open>Program\<close>, \<open>Accounting\<close>: shared lemmas, results, resumptions and their logic.
  \<^item> \<open>Scope\<close> (\<^verbatim>\<open>scope.rs\<close>), \<open>Encoding\<close> (\<^verbatim>\<open>hex.rs, pkce.rs, skew.rs\<close>),
    \<open>Errors\<close> (\<^verbatim>\<open>error.rs, grant.rs\<close>), \<open>Jose\<close> and \<open>Jwt\<close> (\<^verbatim>\<open>jose.rs, jwt.rs\<close>),
    \<open>Mtls\<close>, \<open>Client_Assertion\<close>, \<open>Dpop\<close>, \<open>Rar\<close>, \<open>Client\<close>, \<open>Device\<close>, \<open>Consent\<close>, \<open>Token\<close>,
    \<open>Authorization\<close>: the data of the protocol and the pure functions on it, one theory per source file.
  \<^item> \<open>Par_Record\<close>, \<open>Float64\<close>, \<open>Request_Object\<close>, \<open>Par_Endpoint\<close>, \<open>Par_Props\<close> (\<^verbatim>\<open>par.rs\<close>): pushed
    authorization requests and signed request objects, with the double-precision times of their claims.
  \<^item> \<open>Token_Exchange\<close>, \<open>Exchange_Props\<close> (\<^verbatim>\<open>token_exchange.rs\<close>); \<open>Registration_Meta\<close>, \<open>Registration\<close>,
    \<open>Registration_Props\<close> (\<^verbatim>\<open>registration.rs\<close>): dynamic registration under the host's policy;
    \<open>Ip_Address\<close>, \<open>Cimd\<close> (\<^verbatim>\<open>cimd.rs\<close>): client identifier URLs and the documents behind them;
    \<open>Metadata\<close> (\<^verbatim>\<open>metadata.rs, resource_metadata.rs\<close>).
  \<^item> \<open>Storage\<close> (\<^verbatim>\<open>store.rs\<close>, the trait): the operations as a record and the laws every
    implementation promises as locales; \<open>Memory_Store\<close>, \<open>Memory_Props\<close> and \<open>Memory_Resources\<close>: the
    in-memory implementation and the interpretations that discharge the laws for it.
  \<^item> \<open>Server_Util\<close>, \<open>Server\<close>, \<open>Client_Auth\<close>, \<open>Device_Endpoint\<close>, \<open>Token_Issue\<close>, \<open>Token_Endpoint\<close>,
    \<open>Authorization_Endpoint\<close>, \<open>Revocation_Endpoint\<close> (\<^verbatim>\<open>server.rs, events.rs\<close>): configuration, hooks, and
    the endpoints in the order of the file.  The locales from \<open>server_auth_steps\<close> to \<open>server_steps\<close> state
    what a host's calls may do to the state; every endpoint is proved to stay within the smallest that fits.
    \<open>Token_Props\<close> and \<open>Authorization_Props\<close> say what their endpoints do.
  \<^item> \<open>Rate_Limit\<close>, \<open>Throttling\<close> (\<^verbatim>\<open>rate_limit.rs\<close>): the bundled fixed-window limiter with its 64-bit
    counters, its refinement of plain budgets, and what it bounds when requests interleave.
  \<^item> \<open>Host\<close>: the world a server runs in (the in-memory store, two clocks, entropy, the limiter's window, the
    log of events; the cryptographic crates, the signer and the registration policy as parameters)
    and the server over it, on which the locales are interpreted.
  \<^item> \<open>Requests\<close>, \<open>Single_Use\<close>, \<open>Liveness\<close>, \<open>Sample_Flows\<close>: all endpoints as one family of requests, in one
    pool with the host's sweeps and clock changes.
  \<^item> \<open>Http_Text\<close>, \<open>Http_Page\<close>, \<open>Http_Request\<close>, \<open>Http_Service\<close>, \<open>Http_Builder\<close>, \<open>Http_Props\<close>, \<open>Http_Flows\<close>
    (\<^verbatim>\<open>http.rs\<close>): text decoding, pages, what is read from a request and written into a response, the
    handlers and their dispatch with the host's callbacks, the builder, and the service's guarantees.  The
    locale \<open>service_steps\<close> extends the server's contract by the callbacks.
  \<^item> This theory: the safety of everything together, interleaved.

  \<^bold>\<open>What is shown.\<close>  Revocation is final and user codes stay unambiguous under every interleaving, of
  requests to the server and of HTTP requests; codes, device codes and request URIs are used at most as
  often as they were issued; every started request is answered under a fair schedule; client
  authentication, DPoP, assertions and request objects accept only what the registered credential
  backs; a refused credential costs the same whatever made it fail; introspection discloses nothing to
  a client a token is not for; scopes, resources, details and lifetimes only ever narrow, in refreshes and
  exchanges too; a registration changes only for the holder of its token and within policy; a client document
  speaks only for its own URL, which names no special-use address; the limiter bounds guesses; the metadata
  tells the truth and a built service serves it; codes need the approval of the host, device decisions need
  the site's own form; no value from outside becomes markup; every response is shaped as it must be; sweeps
  remove exactly what has expired; parsers and printers are inverse; deadlines saturate.

  \<^bold>\<open>Fuel.\<close>  One loop of the modelled code may run forever: drawing a user code by rejection sampling.  It
  takes the bound \<open>srv_draw_bound\<close>, and it is proved that whenever the random source yields an accepted byte
  often enough, some bound gives the result.  All other recursion is structural or has a termination proof.

  \<^bold>\<open>Not modelled.\<close>  The cryptographic primitives, base64, the JSON parser and serialiser, and the syntax of HTTP
  header values are crates and enter as parameters with their documented laws; so does the deserialisation
  that serde derives. Outside are the adapters of the HTTP service to a web framework, the storage of private
  keys, the forwarding of one storage trait to another (\<^verbatim>\<open>delegate.rs\<close>), the Postgres store (SQL
  text sent to a database; its contract is \<open>Storage\<close>), the conformance suites (tests of other stores and
  signers), the crate root and the examples.
\<close>

section \<open>Safety of all interleavings\<close>

text \<open>
  C1. A revocation is final under concurrency: whatever requests are in flight, over HTTP or directly, when a
  token family, a client or a consent is revoked, however far each of them has got, however their calls interleave
  from then on with each other, with newly arriving requests, with changes of the clock and with
  sweeps before the barrier's deadline, no access token and no refresh token of the revoked scope that
  was established up to the revocation is ever in the store again.
\<close>
theorem revocation_survives_interleaving:
  assumes "(fam \<noteq> [] \<and> g1 = snd (mem_revoke_family fam win (w_mem w)) \<and> b = BTokenFamily fam) \<or>
     (cid_str c \<noteq> [] \<and> g1 = snd (mem_delete_client c win (w_mem w)) \<and> b = BClient c) \<or>
     (fmlookup (m_consents (w_mem w)) k = Some co \<and> cid_str (cons_client_id co) \<noteq> [] \<and> cons_subject co \<noteq> [] \<and>
        g1 = snd (mem_revoke_consent k win (w_mem w)) \<and> b = BConsent (cons_client_id co) (cons_subject co))"
    and "pool_run (web_jobs pf cb sv {t. t < win_until win}) ([], w0) (in_flight, w)"
    and "pool_run (web_jobs pf cb sv {t. t < win_until win}) (in_flight, w\<lparr>w_mem := g1\<rparr>) (qs, w2)"
  shows "(\<forall>key t. fmlookup (m_tokens (w_mem w2)) key = Some t \<longrightarrow> \<not> barred_token b (win_recorded_at win) t) \<and>
     (\<forall>key r. fmlookup (m_refresh (w_mem w2)) key = Some r \<longrightarrow> \<not> barred_refresh b (win_recorded_at win) r)"
proof -
  let ?dead = "scope_dead b (win_recorded_at win) (win_until win)"
  have dead: "?dead (w_mem (w\<lparr>w_mem := g1\<rparr>))"
    using assms(1) revoke_family_dead delete_client_dead revoke_consent_dead by auto
  have "\<forall>p \<in> web_jobs pf cb sv {t. t < win_until win}. steps (on_mem (\<lambda>m m'. ?dead m \<longrightarrow> ?dead m')) p"
    by (rule web_jobs_steps [OF jobs_steps [OF host_dead.keeps_handle] web_dead.keeps_service_handle])
      (simp_all add: scope_dead_sweep)
  from pool_keeps [OF this assms(2,3) dead] show ?thesis by (simp add: scope_dead_def)
qed

theorem revocation_survives_interleaving_witness:
  "\<exists>in_flight w qs w2. in_flight \<noteq> [] \<and>
     pool_run (web_jobs sample_platform sample_callbacks sample_service {t. t < 10}) ([], sample_world) (in_flight, w) \<and>
     pool_run (web_jobs sample_platform sample_callbacks sample_service {t. t < 10})
       (in_flight, w\<lparr>w_mem := snd (mem_revoke_family ''f'' \<lparr>win_recorded_at = 5, win_until = 10\<rparr> (w_mem w))\<rparr>)
       (qs, w2) \<and>
     (\<forall>key t. fmlookup (m_tokens (w_mem w2)) key = Some t \<longrightarrow> \<not> barred_token (BTokenFamily ''f'') 5 t)"
proof -
  let ?win = "\<lparr>win_recorded_at = 5, win_until = 10\<rparr>"
  let ?jobs = "web_jobs sample_platform sample_callbacks sample_service {t. t < win_until ?win}"
  obtain ps w where run: "pool_run ?jobs ([], sample_world) (ps, w)" and ps: "ps \<noteq> []"
    using web_pool_runs_handler by blast
  let ?w = "w\<lparr>w_mem := snd (mem_revoke_family ''f'' ?win (w_mem w))\<rparr>"
  have more: "pool_run ?jobs (ps, ?w) (ps, ?w)" by simp
  note final = revocation_survives_interleaving [OF _ run more, of "''f''" "BTokenFamily ''f''"]
  have "\<forall>key t. fmlookup (m_tokens (w_mem ?w)) key = Some t \<longrightarrow>
      \<not> barred_token (BTokenFamily ''f'') (win_recorded_at ?win) t"
    using final by simp
  with run more ps show ?thesis by (intro exI [of _ ps] exI [of _ w] exI [of _ ?w] conjI) simp_all
qed

text \<open>
  C21. User codes stay unambiguous under concurrency: from an empty store, whatever requests are
  handled, over HTTP or directly, and however they interleave with each other and with sweeps, looking a user code up finds a
  device grant exactly when that grant is stored with that code, and no two grants share a code, so a
  person typing a code can only ever decide about the device that displays it.
\<close>
theorem user_codes_unambiguous_interleaved:
  assumes "w_mem w1 = memory_new" and "pool_run (web_jobs pf cb sv UNIV) ([], w1) (qs, w2)"
  shows "(fst (mem_find_device_grant uc (w_mem w2)) = Ok (Some d) \<longleftrightarrow>
       fmlookup (m_device_by_code (w_mem w2)) (dg_device_code d) = Some d \<and>
       normalize_user_code (dg_user_code d) = uc) \<and>
     (fmlookup (m_device_by_code (w_mem w2)) dc = Some d \<longrightarrow>
      fmlookup (m_device_by_code (w_mem w2)) dc' = Some d' \<longrightarrow>
      normalize_user_code (dg_user_code d) = normalize_user_code (dg_user_code d') \<longrightarrow> dc = dc')"
proof -
  have steps: "\<forall>p \<in> web_jobs pf cb sv UNIV. steps (on_mem (\<lambda>m m'. index_ok m \<longrightarrow> index_ok m')) p"
    by (rule web_jobs_steps [OF jobs_steps [OF host_index.keeps_handle] web_index.keeps_service_handle])
      (simp_all add: index_ok_sweep)
  have "pool_run (web_jobs pf cb sv UNIV) ([], w1) ([], w1)" by simp
  from pool_keeps [OF steps this assms(2)] assms(1) have "index_ok (w_mem w2)" by simp
  then show ?thesis by (simp add: index_ok_lookup index_ok_unique)
qed

theorem user_codes_unambiguous_interleaved_witness:
  "\<exists>qs w2. pool_run (web_jobs sample_platform sample_callbacks sample_service UNIV) ([], sample_world\<lparr>w_mem := memory_new\<rparr>) (qs, w2) \<and>
     (\<forall>d. fst (mem_find_device_grant ''WDJBMJHT'' (w_mem w2)) = Ok (Some d) \<longleftrightarrow>
      fmlookup (m_device_by_code (w_mem w2)) (dg_device_code d) = Some d \<and>
      normalize_user_code (dg_user_code d) = ''WDJBMJHT'')"
proof -
  let ?w = "sample_world\<lparr>w_mem := memory_new\<rparr>"
  have "w_mem ?w = memory_new" by simp
  moreover obtain qs w2 where run: "pool_run (web_jobs sample_platform sample_callbacks sample_service UNIV) ([], ?w) (qs, w2)"
    using web_pool_runs_handler by blast
  ultimately show ?thesis
    using user_codes_unambiguous_interleaved [THEN conjunct1, of ?w sample_platform sample_callbacks sample_service qs w2] by (intro exI conjI allI)
qed

end
